(* ===== verification/Prelude.thy ===== *)
theory Prelude
  imports Main "HOL-Library.AList" "HOL-Library.Multiset" "HOL-Library.Sublist"
    "HOL-Library.List_Lexorder" "HOL-Library.Char_ord"
begin

text \<open>
  Shared vocabulary of the development: Go maps as association lists, the loop that every
  "latest record" query of the store runs, indexed lookups with a zero value, and the theorem
  collections the component theories add to.

  A Go map is an association list with distinct keys (\<open>wf_map\<close>). Its list order is the order in
  which a \<^verbatim>\<open>range\<close> loop visits the entries. Go leaves that order open, so the lemmas about
  \<open>range\<close> loops say what the order can influence (\<open>latest_perm\<close>, and the sorting theory).
\<close>

named_theorems model_defs \<open>definitions a closed evaluation unfolds\<close>
named_theorems frame_simps \<open>what an operation leaves unchanged\<close>

section \<open>Go maps\<close>

type_synonym ('k, 'v) gomap = "('k \<times> 'v) list"

definition wf_map :: "('k, 'v) gomap \<Rightarrow> bool" where
  "wf_map m \<longleftrightarrow> distinct (map fst m)"

abbreviation map_get :: "('k, 'v) gomap \<Rightarrow> 'k \<Rightarrow> 'v option" where
  "map_get \<equiv> map_of"

abbreviation map_put :: "'k \<Rightarrow> 'v \<Rightarrow> ('k, 'v) gomap \<Rightarrow> ('k, 'v) gomap" where
  "map_put \<equiv> AList.update"

abbreviation map_remove :: "'k \<Rightarrow> ('k, 'v) gomap \<Rightarrow> ('k, 'v) gomap" where
  "map_remove \<equiv> AList.delete"

definition has_key :: "('k, 'v) gomap \<Rightarrow> 'k \<Rightarrow> bool" where
  "has_key m k \<longleftrightarrow> k \<in> set (map fst m)"

definition map_vals :: "('k, 'v) gomap \<Rightarrow> 'v list" where
  "map_vals m = map snd m"

lemma wf_map_Nil [simp]: "wf_map []"
  by (simp add: wf_map_def)

lemma wf_map_put [simp]: "wf_map m \<Longrightarrow> wf_map (map_put k v m)"
  by (simp add: wf_map_def distinct_update)

lemma wf_map_remove [simp]: "wf_map m \<Longrightarrow> wf_map (map_remove k m)"
  by (simp add: wf_map_def distinct_delete)

lemma wf_map_filter [simp]: "wf_map m \<Longrightarrow> wf_map (filter P m)"
  by (simp add: wf_map_def distinct_map_filter)

lemma map_get_put: "map_get (map_put k v m) k' = (if k' = k then Some v else map_get m k')"
  by (simp add: update_conv')

lemma map_get_put_same [simp]: "map_get (map_put k v m) k = Some v"
  by (simp add: map_get_put)

lemma map_get_remove: "map_get (map_remove k m) k' = (if k' = k then None else map_get m k')"
  by (simp add: delete_conv')

lemma has_key_iff: "has_key m k \<longleftrightarrow> map_get m k \<noteq> None"
  by (simp add: has_key_def map_of_eq_None_iff)

lemma map_put_fresh: "\<not> has_key m k \<Longrightarrow> map_put k v m = m @ [(k, v)]"
  by (induction m) (auto simp: has_key_def)

lemma has_key_put [simp]: "has_key (map_put k v m) k' \<longleftrightarrow> k' = k \<or> has_key m k'"
  by (auto simp: has_key_iff map_get_put)

lemma map_vals_Nil [simp]: "map_vals [] = []"
  by (simp add: map_vals_def)

lemma map_vals_append [simp]: "map_vals (m @ m') = map_vals m @ map_vals m'"
  by (simp add: map_vals_def)

lemma map_vals_Cons [simp]: "map_vals (p # m) = snd p # map_vals m"
  by (simp add: map_vals_def)

lemma in_map_vals: "v \<in> set (map_vals m) \<longleftrightarrow> (\<exists>k. (k, v) \<in> set m)"
  by (force simp: map_vals_def image_iff)

lemma in_map_vals_get: "wf_map m \<Longrightarrow> v \<in> set (map_vals m) \<longleftrightarrow> (\<exists>k. map_get m k = Some v)"
  by (auto simp: in_map_vals wf_map_def)

lemma map_get_append:
  "map_get (m @ m') k = (case map_get m k of None \<Rightarrow> map_get m' k | Some v \<Rightarrow> Some v)"
  by (induction m) auto

text \<open>Every stored value sits under the key computed from it.\<close>

definition keyed_by :: "('v \<Rightarrow> 'k) \<Rightarrow> ('k, 'v) gomap \<Rightarrow> bool" where
  "keyed_by key m \<longleftrightarrow> (\<forall>p \<in> set m. fst p = key (snd p))"

lemma keyed_by_Nil [simp]: "keyed_by key []"
  by (simp add: keyed_by_def)

lemma set_map_put: "set (map_put k v m) \<subseteq> insert (k, v) (set m)"
  by (induction m) auto

lemma keyed_by_put [simp]: "keyed_by key m \<Longrightarrow> keyed_by key (map_put (key v) v m)"
  using set_map_put [of "key v" v m] by (fastforce simp: keyed_by_def)

lemma keyed_by_remove [simp]: "keyed_by key m \<Longrightarrow> keyed_by key (map_remove k m)"
  by (auto simp: keyed_by_def AList.delete_eq)

lemma keyed_by_filter [simp]: "keyed_by key m \<Longrightarrow> keyed_by key (filter P m)"
  by (auto simp: keyed_by_def)

lemma keyed_by_get: "keyed_by key m \<Longrightarrow> map_get m k = Some v \<Longrightarrow> key v = k"
  by (fastforce simp: keyed_by_def dest: map_of_SomeD)

lemma distinct_map_vals:
  assumes "wf_map m" and "keyed_by key m"
  shows "distinct (map key (map_vals m))"
proof -
  have "map key (map_vals m) = map fst m"
    using assms(2) by (auto simp: keyed_by_def map_vals_def)
  with assms(1) show ?thesis by (simp add: wf_map_def)
qed

text \<open>Both at once: the shape of every map of the store.\<close>

definition keyed_map :: "('v \<Rightarrow> 'k) \<Rightarrow> ('k, 'v) gomap \<Rightarrow> bool" where
  "keyed_map key m \<longleftrightarrow> wf_map m \<and> keyed_by key m"

lemma keyed_map_Nil [simp]: "keyed_map key []"
  by (simp add: keyed_map_def)

lemma keyed_map_put [simp]: "keyed_map key m \<Longrightarrow> k = key v \<Longrightarrow> keyed_map key (map_put k v m)"
  by (simp add: keyed_map_def)

lemma keyed_map_remove [simp]: "keyed_map key m \<Longrightarrow> keyed_map key (map_remove k m)"
  by (simp add: keyed_map_def)

lemma keyed_map_filter [simp]: "keyed_map key m \<Longrightarrow> keyed_map key (filter P m)"
  by (simp add: keyed_map_def)

lemma keyed_map_get: "keyed_map key m \<Longrightarrow> map_get m k = Some v \<Longrightarrow> key v = k"
  unfolding keyed_map_def by (blast intro: keyed_by_get)

lemma keyed_map_distinct: "keyed_map key m \<Longrightarrow> distinct (map key (map_vals m))"
  by (simp add: keyed_map_def distinct_map_vals)

lemma keyed_map_vals:
  "keyed_map key m \<Longrightarrow> v \<in> set (map_vals m) \<longleftrightarrow> map_get m (key v) = Some v"
  by (metis in_map_vals_get keyed_map_def keyed_map_get)

lemma find_append: "find P (xs @ ys) = (case find P xs of None \<Rightarrow> find P ys | Some x \<Rightarrow> Some x)"
  by (induction xs) auto

text \<open>A slice of records put into a map one by one, and the slice a range over it collects.\<close>

definition put_all :: "('v \<Rightarrow> 'k) \<Rightarrow> 'v list \<Rightarrow> ('k, 'v) gomap \<Rightarrow> ('k, 'v) gomap" where
  "put_all key vs m = foldl (\<lambda>m v. map_put (key v) v m) m vs"

lemma put_all_Nil [simp]: "put_all key [] m = m"
  by (simp add: put_all_def)

lemma put_all_Cons [simp]: "put_all key (v # vs) m = put_all key vs (map_put (key v) v m)"
  by (simp add: put_all_def)

lemma keyed_map_put_all [simp]: "keyed_map key m \<Longrightarrow> keyed_map key (put_all key vs m)"
  by (induction vs arbitrary: m) simp_all

lemma put_all_get:
  "map_get (put_all key vs m) k =
     (case find (\<lambda>v. key v = k) (rev vs) of None \<Rightarrow> map_get m k | Some v \<Rightarrow> Some v)"
proof (induction vs arbitrary: m)
  case Nil
  then show ?case by simp
next
  case (Cons v vs)
  then show ?case by (auto simp: map_get_put find_append split: option.splits)
qed

lemma put_all_get_other: "k \<notin> key ` set vs \<Longrightarrow> map_get (put_all key vs m) k = map_get m k"
  by (induction vs arbitrary: m) (auto simp: map_get_put)

lemma put_all_get_in:
  "distinct (map key vs) \<Longrightarrow> v \<in> set vs \<Longrightarrow> map_get (put_all key vs m) (key v) = Some v"
proof (induction vs arbitrary: m)
  case Nil
  then show ?case by simp
next
  case (Cons w vs)
  show ?case
  proof (cases "v = w")
    case True
    with Cons.prems(1) show ?thesis by (simp add: put_all_get_other)
  next
    case False
    with Cons show ?thesis by simp
  qed
qed

lemma put_all_fresh:
  "distinct (map key vs) \<Longrightarrow> key ` set vs \<inter> set (map fst m) = {} \<Longrightarrow>
     put_all key vs m = m @ map (\<lambda>v. (key v, v)) vs"
  by (induction vs arbitrary: m) (auto simp: map_put_fresh has_key_def)

text \<open>Collecting the values, in any order, and putting them back gives the same map.\<close>

lemma put_all_vals:
  assumes "keyed_map key m" and "mset vs = mset (map_vals m)"
  shows "map_get (put_all key vs []) = map_get m"
proof
  fix k
  have d: "distinct (map key vs)"
    using keyed_map_distinct [OF assms(1)] assms(2) by (metis mset_eq_imp_distinct_iff mset_map)
  have vs: "set vs = set (map_vals m)" using assms(2) by (metis set_mset_mset)
  show "map_get (put_all key vs []) k = map_get m k"
  proof (cases "k \<in> key ` set vs")
    case True
    then obtain v where v: "v \<in> set vs" "k = key v" by auto
    with vs keyed_map_vals [OF assms(1)] put_all_get_in [OF d] show ?thesis by simp
  next
    case False
    then have "map_get (put_all key vs []) k = None" by (simp add: put_all_get_other)
    moreover have "map_get m k = None"
    proof (rule ccontr)
      assume "map_get m k \<noteq> None"
      then obtain v where "map_get m k = Some v" by auto
      with assms(1) False vs show False
        by (metis image_eqI keyed_map_get keyed_map_vals)
    qed
    ultimately show ?thesis by simp
  qed
qed

section \<open>Keys made of several strings\<close>

text \<open>\<^verbatim>\<open>a + "\x00" + b\<close> determines its parts when \<open>b\<close> has no zero byte.\<close>

lemma nul_key_eq_iff:
  assumes "CHR 0x00 \<notin> set b" and "CHR 0x00 \<notin> set b'"
  shows "a @ [CHR 0x00] @ b = a' @ [CHR 0x00] @ b' \<longleftrightarrow> a = a' \<and> b = b'"
proof -
  have tw: "takeWhile (\<lambda>c. c \<noteq> CHR 0x00) (rev (u @ [CHR 0x00] @ v)) = rev v"
    if "CHR 0x00 \<notin> set v" for u v
    using that by (auto simp: takeWhile_tail takeWhile_eq_all_conv)
  show ?thesis
  proof
    assume eq: "a @ [CHR 0x00] @ b = a' @ [CHR 0x00] @ b'"
    then have "rev b = rev b'" using tw [OF assms(1)] tw [OF assms(2)] by metis
    with eq show "a = a' \<and> b = b'" by simp
  qed simp
qed

section \<open>The loop of the latest-record queries\<close>

text \<open>
  \<^verbatim>\<open>for _, e := range m { if skip(e) { continue }; if !found || e.T > latest.T { latest = e } }\<close>
  with the skipped entries filtered out first.
\<close>

fun latest_loop :: "('a \<Rightarrow> 't::linorder) \<Rightarrow> 'a option \<Rightarrow> 'a list \<Rightarrow> 'a option" where
  "latest_loop ts acc [] = acc"
| "latest_loop ts acc (x # xs) =
     (case acc of
        None \<Rightarrow> latest_loop ts (Some x) xs
      | Some l \<Rightarrow> latest_loop ts (if ts x > ts l then Some x else Some l) xs)"

definition latest :: "('a \<Rightarrow> 't::linorder) \<Rightarrow> 'a list \<Rightarrow> 'a option" where
  "latest ts xs = latest_loop ts None xs"

lemma latest_loop_Some:
  "latest_loop ts (Some l) xs = Some r \<Longrightarrow>
     r \<in> insert l (set xs) \<and> ts l \<le> ts r \<and> (\<forall>x \<in> set xs. ts x \<le> ts r)"
proof (induction xs arbitrary: l)
  case Nil
  then show ?case by simp
next
  case (Cons x xs)
  then show ?case
    by (cases "ts x > ts l") (fastforce dest: Cons.IH)+
qed

lemma latest_loop_total: "\<exists>r. latest_loop ts (Some l) xs = Some r"
  by (induction xs arbitrary: l) auto

lemma latest_Nil [simp]: "latest ts [] = None"
  by (simp add: latest_def)

lemma latest_None_iff [simp]: "latest ts xs = None \<longleftrightarrow> xs = []"
proof (cases xs)
  case (Cons y ys)
  then show ?thesis using latest_loop_total [of ts y ys] by (auto simp: latest_def)
qed simp

lemma latest_Some:
  assumes "latest ts xs = Some r"
  shows "r \<in> set xs" and "\<forall>x \<in> set xs. ts x \<le> ts r"
proof -
  from assms obtain y ys where xs: "xs = y # ys" by (cases xs) auto
  with assms have "latest_loop ts (Some y) ys = Some r" by (simp add: latest_def)
  from latest_loop_Some [OF this] xs
  show "r \<in> set xs" and "\<forall>x \<in> set xs. ts x \<le> ts r" by auto
qed

lemma latest_total: "xs \<noteq> [] \<Longrightarrow> \<exists>r. latest ts xs = Some r"
  by (metis latest_None_iff not_None_eq)

text \<open>
  The order of the range loop shows only where two records carry the same time: with times that
  differ, every order gives the same record.
\<close>

lemma latest_perm:
  assumes "set ys = set xs" and inj: "inj_on ts (set xs)"
  shows "latest ts ys = latest ts xs"
proof (cases "xs = []")
  case True
  with assms show ?thesis by simp
next
  case False
  with assms(1) have "ys \<noteq> []" by auto
  with False obtain r s where r: "latest ts xs = Some r" and s: "latest ts ys = Some s"
    using latest_total by metis
  from latest_Some [OF r] latest_Some [OF s] assms(1)
  have "ts r = ts s" and "r \<in> set xs" and "s \<in> set xs" by (auto intro: order_antisym)
  with inj have "r = s" by (rule inj_onD)
  with r s show ?thesis by simp
qed

text \<open>In any order the time of the record found is the same.\<close>

lemma latest_time:
  assumes "set ys = set xs"
  shows "map_option ts (latest ts ys) = map_option ts (latest ts xs)"
proof (cases "xs = []")
  case True
  with assms show ?thesis by simp
next
  case False
  with assms have "ys \<noteq> []" by auto
  with False obtain r s where r: "latest ts xs = Some r" and s: "latest ts ys = Some s"
    using latest_total by metis
  from latest_Some [OF r] latest_Some [OF s] assms
  have "ts r = ts s" by (auto intro: order_antisym)
  with r s show ?thesis by simp
qed

lemma latest_loop_append:
  "latest_loop ts acc (xs @ ys) = latest_loop ts (latest_loop ts acc xs) ys"
  by (induction xs arbitrary: acc) (auto split: option.splits)

lemma latest_snoc_newer:
  assumes "\<forall>x \<in> set xs. ts x < ts y"
  shows "latest ts (xs @ [y]) = Some y"
proof (cases "latest_loop ts None xs")
  case None
  then show ?thesis by (simp add: latest_def latest_loop_append)
next
  case (Some r)
  then have "latest ts xs = Some r" by (simp add: latest_def)
  then have "r \<in> set xs" by (rule latest_Some)
  with assms Some show ?thesis by (simp add: latest_def latest_loop_append)
qed

section \<open>Small list facts\<close>

lemma sum_list_filter_count:
  "int (length (filter P xs)) + int (length (filter (\<lambda>x. \<not> P x) xs)) = int (length xs)"
  by (induction xs) auto

lemma length_filter_mono:
  "(\<And>x. x \<in> set xs \<Longrightarrow> P x \<Longrightarrow> Q x) \<Longrightarrow> length (filter P xs) \<le> length (filter Q xs)"
  by (induction xs) auto

lemma mset_filter_eq: "mset xs = mset ys \<Longrightarrow> mset (filter P xs) = mset (filter P ys)"
  by (simp add: mset_filter)

lemma mset_eq_filter_length:
  "mset xs = mset ys \<Longrightarrow> length (filter P xs) = length (filter P ys)"
  by (metis mset_filter_eq mset_eq_length)

section \<open>Results\<close>

text \<open>A step that may fail, then another: the error ends the rest.\<close>

definition and_then :: "'e + 'a \<Rightarrow> ('a \<Rightarrow> 'e + 'b) \<Rightarrow> 'e + 'b" where
  "and_then x f = (case x of Inl err \<Rightarrow> Inl err | Inr v \<Rightarrow> f v)"

lemma and_then_simps [simp]: "and_then (Inl err) f = Inl err" "and_then (Inr v) f = f v"
  by (simp_all add: and_then_def)

lemma and_thenE:
  assumes "and_then x f = Inr y"
  obtains v where "x = Inr v" "f v = Inr y"
  using assms by (cases x) auto

section \<open>Guards\<close>

text \<open>
  A chain of guards is a nest of conditionals that ends in a refusal (\<open>Inl\<close>) or in the value the guards
  let through (\<open>Inr\<close>). \<open>refuses\<close> and \<open>passes\<close> speak of all its refusals and of its value; their rules
  walk down the nest and collect the conditions met on the way.
\<close>

definition refuses :: "('r \<Rightarrow> bool) \<Rightarrow> 'r + 'v \<Rightarrow> bool" where
  "refuses P c \<longleftrightarrow> (\<forall>x. c = Inl x \<longrightarrow> P x)"

definition passes :: "('v \<Rightarrow> bool) \<Rightarrow> 'r + 'v \<Rightarrow> bool" where
  "passes Q c \<longleftrightarrow> (\<forall>v. c = Inr v \<longrightarrow> Q v)"

lemma refusesD: "refuses P c \<Longrightarrow> c = Inl x \<Longrightarrow> P x"
  by (simp add: refuses_def)

lemma passesD: "passes Q c \<Longrightarrow> c = Inr v \<Longrightarrow> Q v"
  by (simp add: passes_def)

lemma refuses_rules:
  "P x \<Longrightarrow> refuses P (Inl x)" "refuses P (Inr v)"
  "(b \<Longrightarrow> refuses P c) \<Longrightarrow> (\<not> b \<Longrightarrow> refuses P d) \<Longrightarrow> refuses P (if b then c else d)"
  "(y = None \<Longrightarrow> refuses P c) \<Longrightarrow> (\<And>a. y = Some a \<Longrightarrow> refuses P (f a)) \<Longrightarrow> refuses P (case_option c f y)"
  "(\<And>a. z = Inl a \<Longrightarrow> refuses P (g a)) \<Longrightarrow> (\<And>b. z = Inr b \<Longrightarrow> refuses P (h b)) \<Longrightarrow> refuses P (case_sum g h z)"
  "(\<And>a b. w = (a, b) \<Longrightarrow> refuses P (k a b)) \<Longrightarrow> refuses P (case_prod k w)"
  by (auto simp: refuses_def split: option.split sum.split prod.split)

lemma passes_rules:
  "Q v \<Longrightarrow> passes Q (Inr v)" "passes Q (Inl x)"
  "(b \<Longrightarrow> passes Q c) \<Longrightarrow> (\<not> b \<Longrightarrow> passes Q d) \<Longrightarrow> passes Q (if b then c else d)"
  "(y = None \<Longrightarrow> passes Q c) \<Longrightarrow> (\<And>a. y = Some a \<Longrightarrow> passes Q (f a)) \<Longrightarrow> passes Q (case_option c f y)"
  "(\<And>a. z = Inl a \<Longrightarrow> passes Q (g a)) \<Longrightarrow> (\<And>b. z = Inr b \<Longrightarrow> passes Q (h b)) \<Longrightarrow> passes Q (case_sum g h z)"
  "(\<And>a b. w = (a, b) \<Longrightarrow> passes Q (k a b)) \<Longrightarrow> passes Q (case_prod k w)"
  by (auto simp: passes_def split: option.split sum.split prod.split)

end
