(* ===== verification/Go_Float.thy ===== *)
theory Go_Float
  imports Complex_Main "HOL-Library.Log_Nat" Prelude
begin

text \<open>
  Go's \<^verbatim>\<open>float64\<close>: IEEE 754 binary64 with round to nearest, ties to even. A finite value is the
  rational number it denotes, and each operation rounds its exact result with \<open>rnd\<close>: 53 bits of
  significand, exponents down to \<open>2 ^ -1074\<close>. The largest finite value is not modelled; nothing the
  program computes from a finite pool comes near it, since every factor is at most 100 and every
  divisor at least 1. NaN, the infinities and the sign of zero are not values of the model.
  A product and a sum are rounded separately, as on amd64 (Go may fuse them elsewhere).

  The lemmas are what the scoring proofs need: \<open>rnd\<close> is monotone (\<open>rnd_mono\<close>), keeps integers
  up to \<open>2 ^ 53\<close> (\<open>rnd_int\<close>), and moves a number in the unit interval by at most \<open>2 ^ -54\<close>.
\<close>

type_synonym float64 = rat

section \<open>The binary exponent\<close>

definition fexp :: "rat \<Rightarrow> int" where
  "fexp x =
     (let (n, d) = quotient_of x; k = bitlen n - bitlen d
      in if 2 powi k \<le> x then k else k - 1)"

lemma powi_less_iff: "(2::rat) powi a < 2 powi b \<longleftrightarrow> a < b"
proof
  show "(2::rat) powi a < 2 powi b" if "a < b"
    using that by (rule power_int_strict_increasing) simp
  show "a < b" if "(2::rat) powi a < 2 powi b"
  proof (rule ccontr)
    assume "\<not> a < b"
    then have "(2::rat) powi b \<le> 2 powi a" by (intro power_int_increasing) auto
    with that show False by simp
  qed
qed

lemma powi_le_iff: "(2::rat) powi a \<le> 2 powi b \<longleftrightarrow> a \<le> b"
  using powi_less_iff [of b a] by (simp add: not_less [symmetric])

lemma bitlen_rat_bounds:
  assumes "0 < n"
  shows "2 powi (bitlen n - 1) \<le> (of_int n :: rat)" and "of_int n < (2 powi bitlen n :: rat)"
proof -
  have pos: "1 \<le> bitlen n" using assms by (metis bitlen_eq_zero_iff bitlen_nonneg not_less
        int_one_le_iff_zero_less le_less)
  note b = bitlen_bounds [OF assms]
  have "(2::rat) powi (bitlen n - 1) = of_int (2 ^ nat (bitlen n - 1))"
    using pos by (simp add: power_int_def)
  also have "\<dots> \<le> of_int n" using b by (simp only: of_int_le_iff)
  finally show "2 powi (bitlen n - 1) \<le> (of_int n :: rat)" .
  have "of_int n < (of_int (2 ^ nat (bitlen n)) :: rat)" using b by (simp only: of_int_less_iff)
  also have "\<dots> = 2 powi bitlen n" using pos by (simp add: power_int_def)
  finally show "of_int n < (2 powi bitlen n :: rat)" .
qed

lemma fexp_bounds:
  assumes "0 < x"
  shows "2 powi fexp x \<le> x" and "x < 2 powi (fexp x + 1)"
proof -
  obtain n d where q: "quotient_of x = (n, d)" by (cases "quotient_of x")
  then have d: "0 < d" and x: "x = of_int n / of_int d"
    by (auto simp: quotient_of_denom_pos quotient_of_div)
  with assms have n: "0 < n" by (simp add: zero_less_divide_iff)
  let ?k = "bitlen n - bitlen d"
  note bn = bitlen_rat_bounds [OF n] and bd = bitlen_rat_bounds [OF d]
  have "x < 2 powi bitlen n / 2 powi (bitlen d - 1)"
    unfolding x using bn(2) bd(1) d n by (intro frac_less) auto
  also have "\<dots> = 2 powi (?k + 1)" by (simp add: power_int_diff power_int_add algebra_simps)
  finally have up: "x < 2 powi (?k + 1)" .
  have "(2::rat) powi (?k - 1) = 2 powi (bitlen n - 1) / 2 powi bitlen d"
    by (simp add: power_int_diff [symmetric] algebra_simps)
  also have "\<dots> \<le> x"
    unfolding x using bn(1) bd(2) d n by (intro frac_le) auto
  finally have low: "2 powi (?k - 1) \<le> x" .
  show "2 powi fexp x \<le> x" and "x < 2 powi (fexp x + 1)"
    using up low by (auto simp: fexp_def q Let_def)
qed

lemma fexp_unique:
  assumes "2 powi e \<le> x" and "x < 2 powi (e + 1)"
  shows "fexp x = e"
proof -
  have pos: "0 < x" using assms(1) by (rule less_le_trans [rotated]) simp
  note b = fexp_bounds [OF pos]
  from b assms have "(2::rat) powi fexp x < 2 powi (e + 1)" and "(2::rat) powi e < 2 powi (fexp x + 1)"
    by linarith+
  then show ?thesis by (simp add: powi_less_iff)
qed

lemma fexp_mono:
  assumes "0 < x" and "x \<le> y"
  shows "fexp x \<le> fexp y"
proof -
  have "(2::rat) powi fexp x < 2 powi (fexp y + 1)"
    using fexp_bounds(1) [OF assms(1)] fexp_bounds(2) [of y] assms by linarith
  then show ?thesis by (simp add: powi_less_iff)
qed

section \<open>Rounding to an integer, ties to even\<close>

definition round_even :: "rat \<Rightarrow> int" where
  "round_even x =
     (let f = \<lfloor>x\<rfloor>; r = x - of_int f
      in if r < 1 / 2 then f else if r > 1 / 2 then f + 1 else if even f then f else f + 1)"

lemma round_even_int [simp]: "round_even (of_int n) = n"
  by (simp add: round_even_def)

lemma round_even_err: "\<bar>of_int (round_even x) - x\<bar> \<le> 1 / 2"
proof -
  have "of_int \<lfloor>x\<rfloor> \<le> x" and "x < of_int \<lfloor>x\<rfloor> + 1" by linarith+
  then show ?thesis by (simp add: round_even_def Let_def abs_if) linarith
qed

lemma round_even_floor: "\<lfloor>x\<rfloor> \<le> round_even x" "round_even x \<le> \<lfloor>x\<rfloor> + 1"
  by (auto simp: round_even_def Let_def)

lemma round_even_mono:
  assumes "x \<le> y"
  shows "round_even x \<le> round_even y"
proof (cases "\<lfloor>x\<rfloor> = \<lfloor>y\<rfloor>")
  case True
  with assms show ?thesis by (auto simp: round_even_def Let_def)
next
  case False
  with assms have "\<lfloor>x\<rfloor> + 1 \<le> \<lfloor>y\<rfloor>" using floor_mono [OF assms] by linarith
  then show ?thesis using round_even_floor(2) [of x] round_even_floor(1) [of y] by linarith
qed

section \<open>Rounding to binary64\<close>

definition ulp_exp :: "rat \<Rightarrow> int" where
  "ulp_exp x = max (fexp x - 52) (- 1074)"

definition rnd_pos :: "rat \<Rightarrow> rat" where
  "rnd_pos x = of_int (round_even (x / 2 powi ulp_exp x)) * 2 powi ulp_exp x"

definition rnd :: "rat \<Rightarrow> float64" where
  "rnd x = (if x = 0 then 0 else if 0 < x then rnd_pos x else - rnd_pos (- x))"

lemma rnd_0 [simp]: "rnd 0 = 0"
  by (simp add: rnd_def)

lemma rnd_minus: "rnd (- x) = - rnd x"
  by (auto simp: rnd_def)

lemma rnd_pos_err:
  assumes "0 < x"
  shows "\<bar>rnd_pos x - x\<bar> \<le> 2 powi ulp_exp x / 2"
proof -
  let ?u = "2 powi ulp_exp x :: rat"
  have u: "0 < ?u" by simp
  have "rnd_pos x - x = (of_int (round_even (x / ?u)) - x / ?u) * ?u"
    using u by (simp add: rnd_pos_def field_simps)
  then have "\<bar>rnd_pos x - x\<bar> = \<bar>of_int (round_even (x / ?u)) - x / ?u\<bar> * ?u"
    using u by (simp add: abs_mult)
  also have "\<dots> \<le> 1 / 2 * ?u"
    using round_even_err [of "x / ?u"] u by (intro mult_right_mono) auto
  finally show ?thesis by simp
qed

text \<open>A multiple of the spacing at \<open>x\<close> bounds the rounded value when it bounds \<open>x\<close>.\<close>

lemma grid_multiple:
  assumes "q \<le> p"
  shows "\<exists>k. of_int m * (2::rat) powi p = of_int k * 2 powi q"
proof -
  have "(2::rat) powi p = 2 powi (p - q) * 2 powi q"
    by (simp add: power_int_add [symmetric])
  also have "(2::rat) powi (p - q) = of_int (2 ^ nat (p - q))"
    using assms by (simp add: power_int_def)
  finally have "of_int m * (2::rat) powi p = of_int (m * 2 ^ nat (p - q)) * 2 powi q"
    by simp
  then show ?thesis by blast
qed

lemma rnd_pos_le_grid:
  assumes "x \<le> of_int m * 2 powi p" and "ulp_exp x \<le> p"
  shows "rnd_pos x \<le> of_int m * 2 powi p"
proof -
  obtain k where k: "of_int m * (2::rat) powi p = of_int k * 2 powi ulp_exp x"
    using grid_multiple [OF assms(2)] by blast
  with assms(1) have "x / 2 powi ulp_exp x \<le> of_int k" by (simp add: field_simps)
  then have "round_even (x / 2 powi ulp_exp x) \<le> k" using round_even_mono by fastforce
  then show ?thesis unfolding k rnd_pos_def by (intro mult_right_mono) auto
qed

lemma grid_le_rnd_pos:
  assumes "of_int m * 2 powi p \<le> x" and "ulp_exp x \<le> p"
  shows "of_int m * 2 powi p \<le> rnd_pos x"
proof -
  obtain k where k: "of_int m * (2::rat) powi p = of_int k * 2 powi ulp_exp x"
    using grid_multiple [OF assms(2)] by blast
  with assms(1) have "of_int k \<le> x / 2 powi ulp_exp x" by (simp add: field_simps)
  then have "k \<le> round_even (x / 2 powi ulp_exp x)" using round_even_mono by fastforce
  then show ?thesis unfolding k rnd_pos_def by (intro mult_right_mono) auto
qed

lemma rnd_pos_nonneg: "0 < x \<Longrightarrow> 0 \<le> rnd_pos x"
  using grid_le_rnd_pos [of 0 "ulp_exp x" x] by simp

lemma rnd_pos_mono:
  assumes "0 < x" and "x \<le> y"
  shows "rnd_pos x \<le> rnd_pos y"
proof (cases "ulp_exp x = ulp_exp y")
  case True
  have "x / 2 powi ulp_exp y \<le> y / 2 powi ulp_exp y"
    using assms(2) by (intro divide_right_mono) auto
  then have "round_even (x / 2 powi ulp_exp y) \<le> round_even (y / 2 powi ulp_exp y)"
    by (rule round_even_mono)
  then show ?thesis unfolding rnd_pos_def True by (intro mult_right_mono) auto
next
  case False
  with fexp_mono [OF assms] have e: "fexp x < fexp y" "ulp_exp x \<le> fexp y" "ulp_exp y \<le> fexp y"
    by (auto simp: ulp_exp_def max_def split: if_splits)
  have "x < 2 powi (fexp x + 1)" using assms(1) by (rule fexp_bounds)
  also have "\<dots> \<le> 2 powi fexp y" using e(1) by (simp add: powi_le_iff)
  finally have "rnd_pos x \<le> of_int 1 * 2 powi fexp y"
    using e(2) by (intro rnd_pos_le_grid) auto
  also have "\<dots> \<le> rnd_pos y"
    using fexp_bounds(1) [of y] assms e(3) by (intro grid_le_rnd_pos) auto
  finally show ?thesis .
qed

lemma rnd_nonneg: "0 \<le> x \<Longrightarrow> 0 \<le> rnd x"
  by (simp add: rnd_def rnd_pos_nonneg)

lemma rnd_mono:
  assumes "x \<le> y"
  shows "rnd x \<le> rnd y"
proof -
  consider "0 < x" | "x \<le> 0" "0 \<le> y" | "y < 0" using assms by linarith
  then show ?thesis
  proof cases
    case 1
    with assms show ?thesis by (simp add: rnd_def rnd_pos_mono)
  next
    case 2
    then have "rnd x \<le> 0" using rnd_nonneg [of "- x"] by (simp add: rnd_minus)
    with rnd_nonneg [OF 2(2)] show ?thesis by linarith
  next
    case 3
    with assms have "rnd_pos (- y) \<le> rnd_pos (- x)" by (intro rnd_pos_mono) auto
    with 3 assms show ?thesis by (simp add: rnd_def)
  qed
qed

lemma rnd_int:
  assumes "\<bar>n\<bar> \<le> 2 ^ 53"
  shows "rnd (of_int n) = of_int n"
proof -
  have pos: "rnd_pos (of_int m) = of_int m" if m: "0 < m" "m \<le> 2 ^ 53" for m :: int
  proof (cases "m = 2 ^ 53")
    case True
    have "fexp (of_int m) = 53" unfolding True by (rule fexp_unique) (simp_all add: power_int_def)
    then have u: "ulp_exp (of_int m) = 1" by (simp add: ulp_exp_def)
    have "(of_int m :: rat) / 2 powi 1 = of_int (2 ^ 52)" unfolding True by simp
    then have "round_even (of_int m / 2 powi 1) = 2 ^ 52" by (metis round_even_int)
    then have "rnd_pos (of_int m) = of_int (2 ^ 52) * 2" unfolding rnd_pos_def u by simp
    then show ?thesis unfolding True by simp
  next
    case False
    with m have "m < 2 ^ 53" by simp
    then have "(of_int m :: rat) < 2 powi 53" by (simp add: power_int_def)
    then have "(2::rat) powi fexp (of_int m) < 2 powi 53"
      using fexp_bounds(1) [of "of_int m"] m by simp
    then have "fexp (of_int m) < 53" by (simp only: powi_less_iff)
    then have "ulp_exp (of_int m) \<le> 0" by (simp add: ulp_exp_def)
    then have "rnd_pos (of_int m) \<le> of_int m * 2 powi 0" and "of_int m * 2 powi 0 \<le> rnd_pos (of_int m)"
      by (intro rnd_pos_le_grid grid_le_rnd_pos; simp)+
    then show ?thesis by simp
  qed
  consider "n = 0" | "0 < n" | "n < 0" by linarith
  then show ?thesis
  proof cases
    case 3
    then have "rnd_pos (of_int (- n)) = of_int (- n)" using pos [of "- n"] assms by simp
    with 3 show ?thesis by (simp add: rnd_def)
  qed (use pos assms in \<open>auto simp: rnd_def\<close>)
qed

lemma rnd_1 [simp]: "rnd 1 = 1"
  using rnd_int [of 1] by simp

lemma rnd_numeral: "(numeral k :: int) \<le> 2 ^ 53 \<Longrightarrow> rnd (numeral k) = numeral k"
  using rnd_int [of "numeral k"] by simp

lemma rnd_le_int: "x \<le> of_int n \<Longrightarrow> \<bar>n\<bar> \<le> 2 ^ 53 \<Longrightarrow> rnd x \<le> of_int n"
  using rnd_mono [of x "of_int n"] rnd_int [of n] by simp

lemma int_le_rnd: "of_int n \<le> x \<Longrightarrow> \<bar>n\<bar> \<le> 2 ^ 53 \<Longrightarrow> of_int n \<le> rnd x"
  using rnd_mono [of "of_int n" x] rnd_int [of n] by simp

text \<open>In the unit interval the rounding error is at most \<open>2 ^ -54\<close>.\<close>

lemma rnd_unit_err:
  assumes "0 \<le> x" and "x \<le> 1"
  shows "\<bar>rnd x - x\<bar> \<le> 1 / 2 ^ 54"
proof (cases "x = 0 \<or> x = 1")
  case True
  then show ?thesis by auto
next
  case False
  with assms have x: "0 < x" "x < 1" by auto
  have "(2::rat) powi fexp x < 2 powi 0" using fexp_bounds(1) [OF x(1)] x(2) by simp
  then have "fexp x < 0" by (simp only: powi_less_iff)
  then have "ulp_exp x \<le> - 53" by (simp add: ulp_exp_def)
  then have "(2::rat) powi ulp_exp x \<le> 2 powi (- 53)" by (simp only: powi_le_iff)
  also have "(2::rat) powi (- 53) = 1 / 2 ^ 53" by (simp add: power_int_def power_one_over)
  finally have "(2::rat) powi ulp_exp x / 2 \<le> 1 / 2 ^ 54" by simp
  with rnd_pos_err [OF x(1)] x show ?thesis by (simp add: rnd_def)
qed

text \<open>For a normal number the relative error is at most \<open>2 ^ -53\<close>.\<close>

lemma rnd_rel_err:
  assumes "2 powi (- 1022) \<le> x"
  shows "rnd x \<le> x * (1 + 1 / 2 ^ 53)" and "x * (1 - 1 / 2 ^ 53) \<le> rnd x"
proof -
  have x: "0 < x" using assms by (rule less_le_trans [rotated]) simp
  have "(2::rat) powi (- 1022) < 2 powi (fexp x + 1)" using assms fexp_bounds(2) [OF x] by simp
  then have "- 1022 \<le> fexp x" by (simp only: powi_less_iff)
  then have "ulp_exp x = fexp x - 52" by (simp add: ulp_exp_def)
  then have "(2::rat) powi ulp_exp x = 2 powi (fexp x + - 52)" by simp
  also have "\<dots> = 2 powi fexp x * 2 powi (- 52)" by (rule power_int_add) simp
  finally have "(2::rat) powi ulp_exp x / 2 = 2 powi fexp x * (2 powi (- 52) / 2)" by simp
  also have "(2::rat) powi (- 52) / 2 = 1 / 2 ^ 53" by (simp add: power_int_def power_one_over)
  also have "2 powi fexp x * (1 / 2 ^ 53) \<le> x * (1 / 2 ^ 53)"
    using fexp_bounds(1) [OF x] by (intro mult_right_mono) auto
  finally have "\<bar>rnd x - x\<bar> \<le> x * (1 / 2 ^ 53)"
    using rnd_pos_err [OF x] x by (simp add: rnd_def)
  then have "rnd x - x \<le> x * (1 / 2 ^ 53)" and "- (x * (1 / 2 ^ 53)) \<le> rnd x - x"
    by (simp_all only: abs_le_iff minus_le_iff)
  then show "rnd x \<le> x * (1 + 1 / 2 ^ 53)" and "x * (1 - 1 / 2 ^ 53) \<le> rnd x"
    unfolding distrib_left right_diff_distrib mult_1_right by linarith+
qed

section \<open>The operations\<close>

definition fadd :: "float64 \<Rightarrow> float64 \<Rightarrow> float64" where
  "fadd a b = rnd (a + b)"

definition fsub :: "float64 \<Rightarrow> float64 \<Rightarrow> float64" where
  "fsub a b = rnd (a - b)"

definition fmul :: "float64 \<Rightarrow> float64 \<Rightarrow> float64" where
  "fmul a b = rnd (a * b)"

definition fdiv :: "float64 \<Rightarrow> float64 \<Rightarrow> float64" where
  "fdiv a b = rnd (a / b)"

text \<open>\<^verbatim>\<open>float64(n)\<close> of an \<^verbatim>\<open>int\<close>, and a decimal constant of the source.\<close>

definition float_of_int :: "int \<Rightarrow> float64" where
  "float_of_int n = rnd (of_int n)"

definition flit :: "rat \<Rightarrow> float64" where
  "flit q = rnd q"

lemmas float_ops = fadd_def fsub_def fmul_def fdiv_def float_of_int_def flit_def

lemma fadd_mono: "a \<le> a' \<Longrightarrow> b \<le> b' \<Longrightarrow> fadd a b \<le> fadd a' b'"
  by (simp add: fadd_def rnd_mono)

lemma fmul_mono: "0 \<le> a \<Longrightarrow> a \<le> a' \<Longrightarrow> 0 \<le> b \<Longrightarrow> b \<le> b' \<Longrightarrow> fmul a b \<le> fmul a' b'"
  by (simp add: fmul_def rnd_mono mult_mono)

lemma fmul_nonneg: "0 \<le> a \<Longrightarrow> 0 \<le> b \<Longrightarrow> 0 \<le> fmul a b"
  by (simp add: fmul_def rnd_nonneg)

lemma fadd_nonneg: "0 \<le> a \<Longrightarrow> 0 \<le> b \<Longrightarrow> 0 \<le> fadd a b"
  by (simp add: fadd_def rnd_nonneg)

lemma fdiv_nonneg: "0 \<le> a \<Longrightarrow> 0 \<le> b \<Longrightarrow> 0 \<le> fdiv a b"
  by (simp add: fdiv_def rnd_nonneg)

lemma float_of_int_exact: "\<bar>n\<bar> \<le> 2 ^ 53 \<Longrightarrow> float_of_int n = of_int n"
  by (simp add: float_of_int_def rnd_int)

end
