(* ===== verification/Go_Strings.thy ===== *)
theory Go_Strings
  imports Prelude
begin

text \<open>
  The parts of Go's \<^verbatim>\<open>strings\<close>, \<^verbatim>\<open>strconv\<close> and \<^verbatim>\<open>fmt\<close> the program uses, over byte strings
  (a Go string is a byte sequence, a HOL \<^typ>\<open>string\<close> a list of 8-bit characters; Go's \<^verbatim>\<open><\<close> on
  strings is the bytewise lexicographic order, which is the order of \<^typ>\<open>string\<close> here).

  \<^verbatim>\<open>strings.TrimSpace\<close> cuts the UTF-8 encodings of the Unicode white-space runes at both ends.
  \<^verbatim>\<open>strings.ToLower\<close> and \<^verbatim>\<open>strings.ToUpper\<close> are written out for ASCII strings; what they do to a
  string with a byte outside ASCII depends on the Unicode tables and is a parameter.
\<close>

section \<open>Prefixes, splitting, trimming\<close>

definition has_prefix :: "string \<Rightarrow> string \<Rightarrow> bool" where
  "has_prefix s p \<longleftrightarrow> take (length p) s = p"

definition trim_prefix :: "string \<Rightarrow> string \<Rightarrow> string" where
  "trim_prefix s p = (if has_prefix s p then drop (length p) s else s)"

lemma has_prefix_iff: "has_prefix s p \<longleftrightarrow> prefix p s"
  unfolding has_prefix_def prefix_def by (metis append_eq_conv_conj append_take_drop_id)

lemma has_prefix_Nil [simp]: "has_prefix s []"
  by (simp add: has_prefix_def)

lemma trim_prefix_append [simp]: "trim_prefix (p @ s) p = s"
  by (simp add: trim_prefix_def has_prefix_def)

lemma has_prefix_same_length:
  "has_prefix s p \<Longrightarrow> has_prefix s q \<Longrightarrow> length p = length q \<Longrightarrow> p = q"
  by (metis has_prefix_def)

text \<open>\<^verbatim>\<open>strings.Split\<close> with a separator of one byte.\<close>

fun split_on :: "char \<Rightarrow> string \<Rightarrow> string list" where
  "split_on c [] = [[]]"
| "split_on c (x # xs) =
     (if x = c then [] # split_on c xs
      else (case split_on c xs of [] \<Rightarrow> [[x]] | p # ps \<Rightarrow> (x # p) # ps))"

lemma split_on_ne [simp]: "split_on c s \<noteq> []"
  by (induction s) (auto split: list.splits)

lemma split_on_nosep: "c \<notin> set s \<Longrightarrow> split_on c s = [s]"
  by (induction s) auto

lemma split_on_pair: "c \<notin> set s \<Longrightarrow> split_on c (s @ c # t) = s # split_on c t"
  by (induction s) auto

text \<open>The UTF-8 encodings of the runes that \<^verbatim>\<open>unicode.IsSpace\<close> accepts.\<close>

definition space_runes :: "string list" where
  "space_runes =
     [[CHR '' ''], [CHR 0x09], [CHR 0x0A], [CHR 0x0B], [CHR 0x0C], [CHR 0x0D],
      [CHR 0xC2, CHR 0x85], [CHR 0xC2, CHR 0xA0], [CHR 0xE1, CHR 0x9A, CHR 0x80],
      [CHR 0xE2, CHR 0x80, CHR 0x80], [CHR 0xE2, CHR 0x80, CHR 0x81],
      [CHR 0xE2, CHR 0x80, CHR 0x82], [CHR 0xE2, CHR 0x80, CHR 0x83],
      [CHR 0xE2, CHR 0x80, CHR 0x84], [CHR 0xE2, CHR 0x80, CHR 0x85],
      [CHR 0xE2, CHR 0x80, CHR 0x86], [CHR 0xE2, CHR 0x80, CHR 0x87],
      [CHR 0xE2, CHR 0x80, CHR 0x88], [CHR 0xE2, CHR 0x80, CHR 0x89],
      [CHR 0xE2, CHR 0x80, CHR 0x8A], [CHR 0xE2, CHR 0x80, CHR 0xA8],
      [CHR 0xE2, CHR 0x80, CHR 0xA9], [CHR 0xE2, CHR 0x80, CHR 0xAF],
      [CHR 0xE2, CHR 0x81, CHR 0x9F], [CHR 0xE3, CHR 0x80, CHR 0x80]]"

function strip_front :: "string list \<Rightarrow> string \<Rightarrow> string" where
  "strip_front ps s =
     (case find (\<lambda>p. p \<noteq> [] \<and> has_prefix s p) ps of
        None \<Rightarrow> s
      | Some p \<Rightarrow> strip_front ps (drop (length p) s))"
  by pat_completeness auto
termination
  by (relation "measure (\<lambda>(ps, s). length s)")
    (auto simp: find_Some_iff has_prefix_def intro!: diff_less)

declare strip_front.simps [simp del]

definition trim_space :: "string \<Rightarrow> string" where
  "trim_space s = rev (strip_front (map rev space_runes) (rev (strip_front space_runes s)))"

lemma strip_front_fixed:
  "find (\<lambda>p. p \<noteq> [] \<and> has_prefix s p) ps = None \<Longrightarrow> strip_front ps s = s"
  by (subst strip_front.simps) simp

lemma strip_front_done: "find (\<lambda>p. p \<noteq> [] \<and> has_prefix (strip_front ps s) p) ps = None"
proof (induction ps s rule: strip_front.induct)
  case (1 ps s)
  then show ?case
    by (cases "find (\<lambda>p. p \<noteq> [] \<and> has_prefix s p) ps")
      (auto simp: strip_front.simps [of ps s] simp del: find_None_iff)
qed

lemma strip_front_suffix: "\<exists>u. s = u @ strip_front ps s"
proof (induction ps s rule: strip_front.induct)
  case (1 ps s)
  show ?case
  proof (cases "find (\<lambda>p. p \<noteq> [] \<and> has_prefix s p) ps")
    case None
    then show ?thesis by (simp add: strip_front.simps [of ps s])
  next
    case (Some p)
    with "1.IH" obtain u where u: "drop (length p) s = u @ strip_front ps (drop (length p) s)"
      by blast
    have "s = (take (length p) s @ u) @ strip_front ps (drop (length p) s)"
      using u by (metis append_assoc append_take_drop_id)
    moreover have "strip_front ps s = strip_front ps (drop (length p) s)"
      using Some by (simp add: strip_front.simps [of ps s])
    ultimately show ?thesis by metis
  qed
qed

lemma trim_space_Nil [simp]: "trim_space [] = []"
  by (simp add: trim_space_def strip_front_fixed space_runes_def has_prefix_def)

text \<open>A string whose first and last byte are plain ASCII (no space) is left as it is.\<close>

definition plain_byte :: "char \<Rightarrow> bool" where
  "plain_byte c \<longleftrightarrow> of_char c > (32::nat) \<and> of_char c < (128::nat)"

lemma space_runes_not_plain:
  "list_all (\<lambda>p. p \<noteq> [] \<and> \<not> plain_byte (hd p)) space_runes"
  "list_all (\<lambda>p. p \<noteq> [] \<and> \<not> plain_byte (hd p)) (map rev space_runes)"
  by (code_simp, code_simp)

lemma plain_byte_no_prefix:
  "list_all (\<lambda>p. p \<noteq> [] \<and> \<not> plain_byte (hd p)) ps \<Longrightarrow> plain_byte c \<Longrightarrow>
     find (\<lambda>p. p \<noteq> [] \<and> has_prefix (c # s) p) ps = None"
proof (induction ps)
  case (Cons p ps)
  then show ?case by (cases p) (auto simp: has_prefix_def)
qed simp

lemmas plain_byte_no_space =
  plain_byte_no_prefix [OF space_runes_not_plain(1)]
  plain_byte_no_prefix [OF space_runes_not_plain(2)]

lemma trim_space_plain:
  assumes "s \<noteq> []" and "plain_byte (hd s)" and "plain_byte (last s)"
  shows "trim_space s = s"
proof -
  have front: "strip_front space_runes s = s"
    using assms(1,2) plain_byte_no_space(1) by (cases s) (auto intro!: strip_front_fixed)
  have "strip_front (map rev space_runes) (rev s) = rev s"
    using assms(1,3) plain_byte_no_space(2)
    by (cases s rule: rev_cases) (auto intro!: strip_front_fixed)
  with front show ?thesis by (simp add: trim_space_def)
qed

section \<open>Case mapping\<close>

definition is_ascii :: "char \<Rightarrow> bool" where
  "is_ascii c \<longleftrightarrow> of_char c < (128::nat)"

definition ascii_lower :: "char \<Rightarrow> char" where
  "ascii_lower c = (let n = (of_char c :: nat) in if 65 \<le> n \<and> n \<le> 90 then char_of (n + 32) else c)"

definition ascii_upper :: "char \<Rightarrow> char" where
  "ascii_upper c = (let n = (of_char c :: nat) in if 97 \<le> n \<and> n \<le> 122 then char_of (n - 32) else c)"

definition to_lower :: "(string \<Rightarrow> string) \<Rightarrow> string \<Rightarrow> string" where
  "to_lower uni s = (if list_all is_ascii s then map ascii_lower s else uni s)"

definition to_upper :: "(string \<Rightarrow> string) \<Rightarrow> string \<Rightarrow> string" where
  "to_upper uni s = (if list_all is_ascii s then map ascii_upper s else uni s)"

lemma ascii_lower_idem [simp]: "ascii_lower (ascii_lower c) = ascii_lower c"
  by (auto simp: ascii_lower_def Let_def)

lemma to_lower_Nil [simp]: "to_lower uni [] = []"
  by (simp add: to_lower_def)

lemma to_upper_Nil [simp]: "to_upper uni [] = []"
  by (simp add: to_upper_def)

section \<open>Decimal numbers\<close>

definition is_digit :: "char \<Rightarrow> bool" where
  "is_digit c \<longleftrightarrow> (48::nat) \<le> of_char c \<and> of_char c \<le> (57::nat)"

definition digit_val :: "char \<Rightarrow> int" where
  "digit_val c = int (of_char c) - 48"

definition digit_char :: "nat \<Rightarrow> char" where
  "digit_char n = char_of (48 + n mod 10)"

definition digits_val :: "string \<Rightarrow> int" where
  "digits_val s = foldl (\<lambda>a c. 10 * a + digit_val c) 0 s"

fun nat_digits :: "nat \<Rightarrow> string" where
  "nat_digits n =
     (if n < 10 then [digit_char n] else nat_digits (n div 10) @ [digit_char (n mod 10)])"

declare nat_digits.simps [simp del]

text \<open>\<^verbatim>\<open>%d\<close>, and \<^verbatim>\<open>strconv.ParseInt(s, 10, 64)\<close> (\<open>None\<close> for a syntax or range error).\<close>

definition itoa :: "int \<Rightarrow> string" where
  "itoa n = (if n < 0 then CHR ''-'' # nat_digits (nat (- n)) else nat_digits (nat n))"

definition parse_int64 :: "string \<Rightarrow> int option" where
  "parse_int64 s =
     (let neg = (take 1 s = ''-''); body = (if take 1 s = ''-'' \<or> take 1 s = ''+'' then drop 1 s else s)
      in if body = [] \<or> \<not> list_all is_digit body then None
         else let n = (if neg then - digits_val body else digits_val body)
              in if - (2 ^ 63) \<le> n \<and> n < 2 ^ 63 then Some n else None)"

text \<open>The same digits computed on integers, which evaluates without unary numbers.\<close>

function dec_digits :: "int \<Rightarrow> string" where
  "dec_digits n =
     (if n < 10 then [digit_char (nat n)] else dec_digits (n div 10) @ [digit_char (nat (n mod 10))])"
  by pat_completeness auto
termination
  by (relation "measure nat") auto

declare dec_digits.simps [simp del]

lemma dec_digits_nat: "dec_digits (int n) = nat_digits n"
proof (induction n rule: nat_digits.induct)
  case (1 n)
  show ?case
  proof (cases "n < 10")
    case True
    then show ?thesis by (simp add: dec_digits.simps [of "int n"] nat_digits.simps [of n])
  next
    case False
    have "int n div 10 = int (n div 10)" "int n mod 10 = int (n mod 10)" by (simp_all add: zdiv_int zmod_int)
    with False 1 show ?thesis
      by (simp add: dec_digits.simps [of "int n"] nat_digits.simps [of n])
  qed
qed

lemma itoa_code [code]:
  "itoa n = (if n < 0 then CHR ''-'' # dec_digits (- n) else dec_digits n)"
  using dec_digits_nat [of "nat n"] dec_digits_nat [of "nat (- n)"]
  by (cases "n < 0") (simp_all add: itoa_def)

lemma of_char_digit_char: "of_char (digit_char n) = 48 + n mod 10"
proof -
  have "48 + n mod 10 < 256" using mod_less_divisor [of 10 n] by linarith
  then show ?thesis unfolding digit_char_def of_char_of by (rule mod_less)
qed

lemma digit_val_char [simp]: "digit_val (digit_char n) = int (n mod 10)"
  by (simp add: digit_val_def of_char_digit_char)

lemma digit_char_is_digit [simp]: "is_digit (digit_char n)"
  using mod_less_divisor [of 10 n] by (simp add: is_digit_def of_char_digit_char)

lemma digit_char_less_iff:
  "a < 10 \<Longrightarrow> b < 10 \<Longrightarrow> digit_char a < digit_char b \<longleftrightarrow> a < b"
  by (simp add: less_char_def of_char_digit_char)

lemma digit_char_eq_iff [simp]: "digit_char a = digit_char b \<longleftrightarrow> a mod 10 = b mod 10"
  by (metis of_char_digit_char of_char_eq_iff add_left_cancel)

lemma digits_val_append: "digits_val (s @ [c]) = 10 * digits_val s + digit_val c"
  by (simp add: digits_val_def)

lemma nat_digits_is_digit [simp]: "list_all is_digit (nat_digits n)"
proof (induction n rule: nat_digits.induct)
  case (1 n)
  then show ?case by (cases "n < 10") (simp_all add: nat_digits.simps [of n])
qed

lemma nat_digits_ne [simp]: "nat_digits n \<noteq> []"
  by (subst nat_digits.simps) simp

lemma digits_val_nat_digits [simp]: "digits_val (nat_digits n) = int n"
proof (induction n rule: nat_digits.induct)
  case (1 n)
  show ?case
  proof (cases "n < 10")
    case True
    then show ?thesis by (simp add: nat_digits.simps [of n] digits_val_def)
  next
    case False
    with 1 have "digits_val (nat_digits n) = 10 * int (n div 10) + int (n mod 10)"
      by (simp add: nat_digits.simps [of n] digits_val_append)
    then show ?thesis by presburger
  qed
qed

lemma nat_digits_hd: "is_digit (hd (nat_digits n))"
  using nat_digits_is_digit [of n] nat_digits_ne [of n] by (metis hd_in_set list_all_iff)

lemma not_digit_sign [simp]: "\<not> is_digit (CHR ''-'')" "\<not> is_digit (CHR ''+'')"
  by (simp_all add: is_digit_def)

text \<open>Printing a 64-bit integer and parsing it back.\<close>

lemma parse_int64_itoa:
  assumes "- (2 ^ 63) \<le> n" and "n < 2 ^ 63"
  shows "parse_int64 (itoa n) = Some n"
proof (cases "n < 0")
  case True
  with assms show ?thesis by (simp add: parse_int64_def itoa_def)
next
  case False
  obtain d ds where d: "nat_digits (nat n) = d # ds"
    by (cases "nat_digits (nat n)") auto
  then have "is_digit d" using nat_digits_hd [of "nat n"] by simp
  then have "d \<noteq> CHR ''-''" and "d \<noteq> CHR ''+''" by auto
  moreover have "digits_val (d # ds) = n"
    using digits_val_nat_digits [of "nat n"] d False by simp
  moreover have "list_all is_digit (d # ds)" using nat_digits_is_digit [of "nat n"] d by simp
  ultimately show ?thesis using False assms d by (simp add: parse_int64_def itoa_def)
qed

lemma nat_digits_inj: "nat_digits m = nat_digits n \<Longrightarrow> m = n"
  by (metis digits_val_nat_digits of_nat_eq_iff)

lemma nat_digits_not_sign [simp]: "nat_digits n \<noteq> CHR ''-'' # ds" "CHR ''-'' # ds \<noteq> nat_digits n"
  by (metis list.sel(1) not_digit_sign(1) nat_digits_hd)+

lemma itoa_inj: "itoa m = itoa n \<Longrightarrow> m = n"
  by (cases "m < 0"; cases "n < 0") (simp_all add: itoa_def, (drule nat_digits_inj, simp)+)

end
