(* ===== verification/Store_Types.thy ===== *)
theory Store_Types
  imports Go_Float Go_Strings
begin

text \<open>
  The records of \<^verbatim>\<open>portal/internal/store/types.go\<close>, one per Go struct, with the Go field names under a
  prefix of their own (\<open>nd_\<close> for \<^verbatim>\<open>Node\<close>, \<open>ds_\<close> for \<^verbatim>\<open>DailyQualificationSummary\<close>, and so on), and the
  \<^verbatim>\<open>Store\<close> struct of \<^verbatim>\<open>store.go\<close>. A \<^verbatim>\<open>*int\<close> is an \<open>int option\<close>, a \<^verbatim>\<open>float64\<close> a \<^typ>\<open>float64\<close>. The \<^verbatim>\<open>int\<close>
  counters are mathematical integers: each counts stored records or is bounded by what its handler
  reads from JSON.
\<close>

record node =
  nd_NodeID :: string
  nd_DisplayName :: string
  nd_OperatorEmail :: string
  nd_Enabled :: bool
  nd_ActiveAgentKeyFingerprint :: string
  nd_AgentPublicKey :: string
  nd_EnrollmentGeneration :: int
  nd_ValidatedRegistrationAt :: string
  nd_LastHeartbeatSequence :: int
  nd_LastHeartbeatTimestamp :: string
  nd_LastPolicyVersion :: string

record enrollment_challenge =
  ec_ChallengeID :: string
  ec_NodeID :: string
  ec_IssuedAt :: string
  ec_ExpiresAt :: string
  ec_UsedAt :: string

record check_event =
  ck_EventID :: string
  ck_NodeID :: string
  ck_OverallPassed :: bool
  ck_CheckedAt :: string

record heartbeat_event =
  hb_NodeID :: string
  hb_HeartbeatTimestamp :: string
  hb_SequenceNumber :: int

record telemetry_event =
  te_NodeID :: string
  te_TelemetryTimestamp :: string
  te_WarningCode :: string

record probe_event =
  pe_ProbeID :: string
  pe_NodeID :: string
  pe_RegionID :: string
  pe_ObservedAt :: string
  pe_Endpoint :: string
  pe_AvailabilityUp :: bool
  pe_FinalizedLagBlocks :: "int option"
  pe_ChainLagBlocks :: "int option"
  pe_SourceHeight :: "int option"
  pe_PeerHeight :: "int option"
  pe_MeasurementWindowSeconds :: int
  pe_HTTPStatus :: "int option"
  pe_ErrorCode :: string
  pe_ResolverIP :: string
  pe_Notes :: string

record daily_qualification_summary =
  ds_NodeID :: string
  ds_DateUTC :: string
  ds_PolicyVersion :: string
  ds_FinalizedLagThresholdBlocks :: int
  ds_ChainLagThresholdBlocks :: int
  ds_ValidProbeCount :: int
  ds_AvailabilityUpCount :: int
  ds_AvailabilityRatio :: float64
  ds_FinalizedLagMeasurableCount :: int
  ds_FinalizedLagWithinThresholdCount :: int
  ds_FinalizedLagRatio :: float64
  ds_ChainLagMeasurableCount :: int
  ds_ChainLagWithinThresholdCount :: int
  ds_ChainLagRatio :: float64
  ds_RegionCount :: int
  ds_AvailabilityPassed :: bool
  ds_FinalizedLagPassed :: bool
  ds_ChainLagPassed :: bool
  ds_MultiRegionEvidencePassed :: bool
  ds_QualifiedProbeEvidencePassed :: bool
  ds_InsufficientEvidenceReason :: string
  ds_GeneratedAt :: string

record qualified_decision_record =
  qd_NodeID :: string
  qd_DateUTC :: string
  qd_PolicyVersion :: string
  qd_ProbeEvidencePassed :: bool
  qd_HeartbeatPassed :: bool
  qd_HardwarePassed :: bool
  qd_VotingKeyPassed :: bool
  qd_Qualified :: bool
  qd_FailureReasons :: "string list"
  qd_InsufficientEvidenceReason :: string
  qd_DecidedAt :: string

record base_performance_record =
  bp_NodeID :: string
  bp_DateUTC :: string
  bp_PolicyVersion :: string
  bp_AvailabilityScore :: float64
  bp_FinalizationScore :: float64
  bp_ChainSyncScore :: float64
  bp_VotingKeyScore :: float64
  bp_BasePerformanceScore :: float64
  bp_QualifiedDecisionRef :: string
  bp_DailySummaryRef :: string
  bp_ComputedAt :: string

record ranking_record =
  rk_NodeID :: string
  rk_DateUTC :: string
  rk_PolicyVersion :: string
  rk_RankPosition :: int
  rk_AvailabilityScore :: float64
  rk_FinalizationScore :: float64
  rk_ChainSyncScore :: float64
  rk_VotingKeyScore :: float64
  rk_BasePerformanceScore :: float64
  rk_DecentralizationScore :: float64
  rk_TotalScore :: float64
  rk_OperatorGroupID :: string
  rk_RewardEligible :: bool
  rk_ExclusionReason :: string
  rk_ComputedAt :: string

record reward_eligibility_record =
  re_NodeID :: string
  re_DateUTC :: string
  re_PolicyVersion :: string
  re_RankPosition :: int
  re_Qualified :: bool
  re_OperatorGroupID :: string
  re_RewardEligible :: bool
  re_ExclusionReason :: string
  re_ExcludedOperatorGroupID :: string
  re_ExcludedRegistrableDomain :: string
  re_ExcludedControlPlaneID :: string
  re_ExcludedClassification :: string
  re_DecidedAt :: string

record reward_allocation_record =
  ra_NodeID :: string
  ra_DateUTC :: string
  ra_PolicyVersion :: string
  ra_RankPosition :: int
  ra_QualifiedNodeCount :: int
  ra_NominalDailyPool :: float64
  ra_ParticipationRate :: float64
  ra_DistributedPool :: float64
  ra_ReservePool :: float64
  ra_BandLabel :: string
  ra_BandShare :: float64
  ra_BandPoolAmount :: float64
  ra_BandEligibleCount :: int
  ra_RewardAmount :: float64
  ra_RewardEligible :: bool
  ra_ExclusionReason :: string
  ra_ComputedAt :: string

record operator_group_evidence =
  og_EvidenceRef :: string
  og_NodeID :: string
  og_OperatorGroupID :: string
  og_ObservedAt :: string
  og_Source :: string
  og_ReviewState :: string

record voting_key_evidence =
  vk_EvidenceRef :: string
  vk_NodeID :: string
  vk_ObservedAt :: string
  vk_CurrentEpoch :: int
  vk_VotingKeyPresent :: bool
  vk_VotingKeyValidForEpoch :: bool
  vk_Source :: string

record decentralization_evidence =
  dc_EvidenceRef :: string
  dc_NodeID :: string
  dc_ObservedAt :: string
  dc_CountryCode :: string
  dc_ASN :: int
  dc_ProviderID :: string
  dc_InfrastructureID :: string
  dc_Source :: string

record domain_evidence =
  dm_EvidenceRef :: string
  dm_NodeID :: string
  dm_ObservedAt :: string
  dm_RegistrableDomain :: string
  dm_Source :: string

record shared_control_plane_evidence =
  cp_EvidenceRef :: string
  cp_NodeID :: string
  cp_ObservedAt :: string
  cp_ControlPlaneID :: string
  cp_Classification :: string
  cp_Source :: string
  cp_ReviewState :: string

record latest_telemetry =
  lt_NodeID :: string
  lt_WarningCode :: string
  lt_TelemetryTimestamp :: string

record alert_state =
  as_NodeID :: string
  as_AlertCode :: string
  as_Severity :: string
  as_LastSentAt :: string
  as_LastChannel :: string
  as_Recipient :: string

record notification_delivery =
  dl_NodeID :: string
  dl_AlertCode :: string
  dl_Severity :: string
  dl_Channel :: string
  dl_Recipient :: string
  dl_OccurredAt :: string
  dl_SentAt :: string
  dl_Status :: string
  dl_ErrorDetail :: string

record operational_event =
  oe_NodeID :: string
  oe_EventCode :: string
  oe_Severity :: string
  oe_EventTimestamp :: string
  oe_Detail :: string


text \<open>The store: Go maps keep the order of their association list, slices their order.\<close>

record store =
  st_nodes :: "(string, node) gomap"
  st_challenges :: "(string, enrollment_challenge) gomap"
  st_checkEvents :: "(string, check_event) gomap"
  st_heartbeatEvents :: "heartbeat_event list"
  st_telemetryEvents :: "telemetry_event list"
  st_probeEvents :: "(string, probe_event) gomap"
  st_dailySummaries :: "(string, daily_qualification_summary) gomap"
  st_qualifiedDecisions :: "(string, qualified_decision_record) gomap"
  st_basePerformance :: "(string, base_performance_record) gomap"
  st_rankingRecords :: "(string, ranking_record) gomap"
  st_rewardEligibility :: "(string, reward_eligibility_record) gomap"
  st_rewardAllocations :: "(string, reward_allocation_record) gomap"
  st_operatorGroups :: "(string, operator_group_evidence) gomap"
  st_votingKeyEvidence :: "(string, voting_key_evidence) gomap"
  st_decentralization :: "(string, decentralization_evidence) gomap"
  st_domainEvidence :: "(string, domain_evidence) gomap"
  st_controlPlane :: "(string, shared_control_plane_evidence) gomap"
  st_latestTelemetry :: "(string, latest_telemetry) gomap"
  st_alertStates :: "(string, alert_state) gomap"
  st_deliveries :: "notification_delivery list"
  st_operational :: "operational_event list"

end
