(* ===== verification/Go_Sort.thy ===== *)
theory Go_Sort
  imports Prelude
begin

text \<open>
  \<^verbatim>\<open>sort.Slice(xs, less)\<close>. The library promises a permutation of the slice that is sorted with
  respect to \<^verbatim>\<open>less\<close>, for a \<^verbatim>\<open>less\<close> that is a strict weak order; it does not promise stability.
  The model sorts by insertion. The locale \<open>slice_order\<close> is the caller's side of that contract;
  inside it, \<open>sort_unique\<close> shows that wherever \<^verbatim>\<open>less\<close> separates the elements of the slice, every
  algorithm that keeps the contract returns what the model returns.
\<close>

fun insert_by :: "('a \<Rightarrow> 'a \<Rightarrow> bool) \<Rightarrow> 'a \<Rightarrow> 'a list \<Rightarrow> 'a list" where
  "insert_by lt x [] = [x]"
| "insert_by lt x (y # ys) = (if lt y x then y # insert_by lt x ys else x # y # ys)"

definition sort_slice :: "('a \<Rightarrow> 'a \<Rightarrow> bool) \<Rightarrow> 'a list \<Rightarrow> 'a list" where
  "sort_slice lt xs = foldr (insert_by lt) xs []"

lemma sort_slice_Nil [simp]: "sort_slice lt [] = []"
  by (simp add: sort_slice_def)

lemma sort_slice_Cons: "sort_slice lt (x # xs) = insert_by lt x (sort_slice lt xs)"
  by (simp add: sort_slice_def)

lemma mset_insert_by [simp]: "mset (insert_by lt x ys) = add_mset x (mset ys)"
  by (induction ys) auto

lemma mset_sort_slice [simp]: "mset (sort_slice lt xs) = mset xs"
  by (induction xs) (auto simp: sort_slice_Cons)

lemma set_sort_slice [simp]: "set (sort_slice lt xs) = set xs"
  using mset_sort_slice by (metis set_mset_mset)

lemma length_sort_slice [simp]: "length (sort_slice lt xs) = length xs"
  using mset_sort_slice by (metis size_mset)

lemma sort_slice_empty_iff [simp]: "sort_slice lt xs = [] \<longleftrightarrow> xs = []"
  by (metis length_0_conv length_sort_slice)

lemma distinct_sort_slice [simp]: "distinct (sort_slice lt xs) \<longleftrightarrow> distinct xs"
  by (metis mset_sort_slice mset_eq_imp_distinct_iff)

lemma distinct_map_sort_slice [simp]:
  "distinct (map f (sort_slice lt xs)) \<longleftrightarrow> distinct (map f xs)"
  by (metis mset_sort_slice mset_map mset_eq_imp_distinct_iff)

lemma filter_sort_slice_length [simp]:
  "length (filter P (sort_slice lt xs)) = length (filter P xs)"
  by (rule mset_eq_filter_length) simp

text \<open>No element is less than one before it.\<close>

abbreviation ordered :: "('a \<Rightarrow> 'a \<Rightarrow> bool) \<Rightarrow> 'a list \<Rightarrow> bool" where
  "ordered lt xs \<equiv> sorted_wrt (\<lambda>x y. \<not> lt y x) xs"

section \<open>The contract of sort.Slice\<close>

locale slice_order =
  fixes lt :: "'a \<Rightarrow> 'a \<Rightarrow> bool"
  assumes asym: "lt x y \<Longrightarrow> \<not> lt y x"
    and weak: "\<not> lt x y \<Longrightarrow> \<not> lt y z \<Longrightarrow> \<not> lt x z"
begin

lemma irrefl: "\<not> lt x x"
  using asym by blast

lemma less_trans: "lt x y \<Longrightarrow> lt y z \<Longrightarrow> lt x z"
  using asym weak by blast

lemma ordered_insert: "ordered lt ys \<Longrightarrow> ordered lt (insert_by lt x ys)"
proof (induction ys)
  case Nil
  then show ?case by simp
next
  case (Cons y ys)
  have in_ins: "set (insert_by lt x ys) = insert x (set ys)"
    by (metis mset_insert_by set_mset_mset set_mset_add_mset_insert)
  show ?case
  proof (cases "lt y x")
    case True
    with Cons in_ins asym show ?thesis by auto
  next
    case False
    with Cons.prems weak [of _ y x] show ?thesis by auto
  qed
qed

lemma ordered_sort: "ordered lt (sort_slice lt xs)"
  by (induction xs) (auto simp: sort_slice_Cons ordered_insert)

lemma sorted_perm_unique:
  assumes "ordered lt xs" and "ordered lt ys" and "mset xs = mset ys"
    and "\<And>x y. x \<in> set xs \<Longrightarrow> y \<in> set xs \<Longrightarrow> x \<noteq> y \<Longrightarrow> lt x y \<or> lt y x"
  shows "xs = ys"
  using assms
proof (induction xs arbitrary: ys)
  case Nil
  then show ?case by simp
next
  case (Cons x xs)
  then obtain y ys' where ys: "ys = y # ys'" by (cases ys) auto
  have "x = y"
  proof (rule ccontr)
    assume ne: "x \<noteq> y"
    have sets: "set (x # xs) = set ys" using Cons.prems(3) by (metis set_mset_mset)
    with ys ne have "y \<in> set xs" and "x \<in> set ys'" by auto
    with Cons.prems(1,2) ys have "\<not> lt y x" and "\<not> lt x y" by auto
    moreover have "lt x y \<or> lt y x"
      using Cons.prems(4) [of x y] ne \<open>y \<in> set xs\<close> by simp
    ultimately show False by blast
  qed
  with Cons ys show ?case by auto
qed

text \<open>Whatever algorithm sorts the slice, the outcome is the model's.\<close>

lemma sort_unique:
  assumes "mset ys = mset xs" and "ordered lt ys"
    and "\<And>x y. x \<in> set xs \<Longrightarrow> y \<in> set xs \<Longrightarrow> x \<noteq> y \<Longrightarrow> lt x y \<or> lt y x"
  shows "ys = sort_slice lt xs"
proof (rule sorted_perm_unique)
  show "ordered lt ys" by fact
  show "ordered lt (sort_slice lt xs)" by (rule ordered_sort)
  show "mset ys = mset (sort_slice lt xs)" using assms(1) by simp
  show "lt x y \<or> lt y x" if "x \<in> set ys" "y \<in> set ys" "x \<noteq> y" for x y
    using that assms(1,3) by (metis set_mset_mset)
qed

text \<open>In particular the order in which the elements were collected does not matter.\<close>

lemma sort_perm:
  assumes "mset ys = mset xs"
    and "\<And>x y. x \<in> set xs \<Longrightarrow> y \<in> set xs \<Longrightarrow> x \<noteq> y \<Longrightarrow> lt x y \<or> lt y x"
  shows "sort_slice lt ys = sort_slice lt xs"
  by (rule sort_unique) (use assms ordered_sort in auto)

lemma sort_ordered_id:
  assumes "ordered lt xs"
    and "\<And>x y. x \<in> set xs \<Longrightarrow> y \<in> set xs \<Longrightarrow> x \<noteq> y \<Longrightarrow> lt x y \<or> lt y x"
  shows "sort_slice lt xs = xs"
  using sort_unique [of xs xs] assms by simp

end

text \<open>The common comparator: one key with a linear order.\<close>

locale key_order =
  fixes key :: "'a \<Rightarrow> 'k::linorder"

sublocale key_order \<subseteq> by_key: slice_order "\<lambda>x y. key x < key y"
  by unfold_locales auto

context key_order begin

lemma key_sort_perm:
  assumes "mset ys = mset xs" and "inj_on key (set xs)"
  shows "sort_slice (\<lambda>x y. key x < key y) ys = sort_slice (\<lambda>x y. key x < key y) xs"
proof (rule by_key.sort_perm [OF assms(1)])
  fix x y assume "x \<in> set xs" "y \<in> set xs" "x \<noteq> y"
  with assms(2) have "key x \<noteq> key y" by (auto dest: inj_onD)
  then show "key x < key y \<or> key y < key x" by auto
qed

lemma key_sorted: "sorted (map key (sort_slice (\<lambda>x y. key x < key y) xs))"
  using by_key.ordered_sort [of xs] by (simp add: sorted_map not_less)

end


section \<open>Comparators that fall through a chain of keys\<close>

lemma slice_order_key: "slice_order (\<lambda>x y. f x < (f y :: 'k::linorder))"
  by unfold_locales auto

lemma slice_order_key_desc: "slice_order (\<lambda>x y. f x > (f y :: 'k::linorder))"
  by unfold_locales auto

lemma slice_order_asc:
  assumes "slice_order lt"
  shows "slice_order (\<lambda>x y. if f x = (f y :: 'k::linorder) then lt x y else f x < f y)"
proof (rule slice_order.intro)
  show "\<not> (if f y = f x then lt y x else f y < f x)" if "if f x = f y then lt x y else f x < f y" for x y
    using that slice_order.asym [OF assms, of x y] by (auto split: if_splits)
  show "\<not> (if f x = f z then lt x z else f x < f z)"
    if "\<not> (if f x = f y then lt x y else f x < f y)" and "\<not> (if f y = f z then lt y z else f y < f z)" for x y z
  proof (cases "f x = f y \<and> f y = f z")
    case True
    with that slice_order.weak [OF assms, of x y z] show ?thesis by simp
  next
    case False
    with that have "f x \<noteq> f z" and "\<not> f x < f z"
      by (auto simp: not_less split: if_splits)
    then show ?thesis by simp
  qed
qed

lemma slice_order_desc:
  assumes "slice_order lt"
  shows "slice_order (\<lambda>x y. if f x = (f y :: 'k::linorder) then lt x y else f x > f y)"
proof (rule slice_order.intro)
  show "\<not> (if f y = f x then lt y x else f y > f x)" if "if f x = f y then lt x y else f x > f y" for x y
    using that slice_order.asym [OF assms, of x y] by (auto split: if_splits)
  show "\<not> (if f x = f z then lt x z else f x > f z)"
    if "\<not> (if f x = f y then lt x y else f x > f y)" and "\<not> (if f y = f z then lt y z else f y > f z)" for x y z
  proof (cases "f x = f y \<and> f y = f z")
    case True
    with that slice_order.weak [OF assms, of x y z] show ?thesis by simp
  next
    case False
    with that have "f x \<noteq> f z" and "\<not> f x > f z"
      by (auto simp: not_less split: if_splits)
    then show ?thesis by simp
  qed
qed

lemmas slice_order_chain = slice_order_asc slice_order_desc slice_order_key slice_order_key_desc

end
