(* ===== verification/Store.thy ===== *)
theory Store
  imports Store_Types Go_Sort "HOL-Library.Product_Lexorder"
begin

text \<open>
  The operations of \<^verbatim>\<open>portal/internal/store/node_and_events.go\<close>, \<^verbatim>\<open>qualification_views.go\<close> and
  \<^verbatim>\<open>store.go\<close>, under their Go names. Each runs under the store's mutex, so each is one function of
  the store. A lookup \<^verbatim>\<open>(v, ok)\<close> is an option, a write returns the new store.

  \<open>wf_store\<close> says that every map holds a value under the key the code computes from it and that the
  dates of the dated records contain no zero byte, which makes the composite keys injective; every
  operation keeps it. The locales of this theory state the two contracts the handlers rely on:
  \<open>evidence_log\<close> (an evidence reference is stored once and never overwritten), interpreted for
  the seven append-only maps, and \<open>dated_records\<close> (replacing the records of one date), interpreted
  for rankings, reward eligibility and reward allocations.
\<close>

section \<open>Nodes, challenges, checks, heartbeats and probe events\<close>

definition zero_node :: node where
  "zero_node =
     \<lparr>nd_NodeID = [], nd_DisplayName = [], nd_OperatorEmail = [], nd_Enabled = False,
      nd_ActiveAgentKeyFingerprint = [], nd_AgentPublicKey = [], nd_EnrollmentGeneration = 0,
      nd_ValidatedRegistrationAt = [], nd_LastHeartbeatSequence = 0, nd_LastHeartbeatTimestamp = [],
      nd_LastPolicyVersion = []\<rparr>"

text \<open>\<^verbatim>\<open>store.New\<close>: every seed node is stored enabled.\<close>

definition New_Store :: "node list \<Rightarrow> store" where
  "New_Store seedNodes =
     \<lparr>st_nodes = put_all nd_NodeID
        (map (\<lambda>n. if nd_Enabled n then n else n\<lparr>nd_Enabled := True\<rparr>) seedNodes) [],
      st_challenges = [], st_checkEvents = [], st_heartbeatEvents = [], st_telemetryEvents = [],
      st_probeEvents = [], st_dailySummaries = [], st_qualifiedDecisions = [],
      st_basePerformance = [], st_rankingRecords = [], st_rewardEligibility = [],
      st_rewardAllocations = [], st_operatorGroups = [], st_votingKeyEvidence = [],
      st_decentralization = [], st_domainEvidence = [], st_controlPlane = [],
      st_latestTelemetry = [], st_alertStates = [], st_deliveries = [], st_operational = []\<rparr>"

definition GetNode :: "store \<Rightarrow> string \<Rightarrow> node option" where
  "GetNode s nodeID = map_get (st_nodes s) nodeID"

text \<open>\<^verbatim>\<open>node, _ := s.store.GetNode(id)\<close>: the zero value when there is no such node.\<close>

definition node_or_zero :: "store \<Rightarrow> string \<Rightarrow> node" where
  "node_or_zero s nodeID = (case GetNode s nodeID of None \<Rightarrow> zero_node | Some n \<Rightarrow> n)"

definition SaveNode :: "node \<Rightarrow> store \<Rightarrow> store" where
  "SaveNode n s = s\<lparr>st_nodes := map_put (nd_NodeID n) n (st_nodes s)\<rparr>"

definition ListNodes :: "store \<Rightarrow> node list" where
  "ListNodes s = sort_slice (\<lambda>a b. nd_NodeID a < nd_NodeID b) (map_vals (st_nodes s))"

definition SaveEnrollmentChallenge :: "enrollment_challenge \<Rightarrow> store \<Rightarrow> store" where
  "SaveEnrollmentChallenge c s = s\<lparr>st_challenges := map_put (ec_ChallengeID c) c (st_challenges s)\<rparr>"

definition GetEnrollmentChallenge :: "store \<Rightarrow> string \<Rightarrow> enrollment_challenge option" where
  "GetEnrollmentChallenge s challengeID = map_get (st_challenges s) challengeID"

definition ConsumeEnrollmentChallenge ::
    "string \<Rightarrow> string \<Rightarrow> store \<Rightarrow> store \<times> enrollment_challenge option" where
  "ConsumeEnrollmentChallenge challengeID usedAt s =
     (case map_get (st_challenges s) challengeID of
        None \<Rightarrow> (s, None)
      | Some c \<Rightarrow>
          let c' = c\<lparr>ec_UsedAt := usedAt\<rparr>
          in (s\<lparr>st_challenges := map_put challengeID c' (st_challenges s)\<rparr>, Some c'))"

definition SaveCheckEvent :: "check_event \<Rightarrow> store \<Rightarrow> store \<times> bool" where
  "SaveCheckEvent e s =
     (if has_key (st_checkEvents s) (ck_EventID e) then (s, False)
      else (s\<lparr>st_checkEvents := map_put (ck_EventID e) e (st_checkEvents s)\<rparr>, True))"

definition GetCheckEvent :: "store \<Rightarrow> string \<Rightarrow> check_event option" where
  "GetCheckEvent s eventID = map_get (st_checkEvents s) eventID"

text \<open>The two filters of the queries: a node (exact), a date (string prefix, none if empty).\<close>

definition on_date :: "string \<Rightarrow> string \<Rightarrow> bool" where
  "on_date dateUTC ts \<longleftrightarrow> \<not> (dateUTC \<noteq> [] \<and> \<not> has_prefix ts dateUTC)"

definition selects :: "string \<Rightarrow> string \<Rightarrow> bool" where
  "selects wanted v \<longleftrightarrow> \<not> (wanted \<noteq> [] \<and> v \<noteq> wanted)"

definition LatestCheckEventForNode :: "store \<Rightarrow> string \<Rightarrow> check_event option" where
  "LatestCheckEventForNode s nodeID =
     latest ck_CheckedAt (filter (\<lambda>e. ck_NodeID e = nodeID) (map_vals (st_checkEvents s)))"

definition LatestCheckEventForNodeAndDate :: "store \<Rightarrow> string \<Rightarrow> string \<Rightarrow> check_event option" where
  "LatestCheckEventForNodeAndDate s nodeID dateUTC =
     latest ck_CheckedAt
       (filter (\<lambda>e. ck_NodeID e = nodeID \<and> on_date dateUTC (ck_CheckedAt e))
          (map_vals (st_checkEvents s)))"

definition SaveHeartbeatEvent :: "heartbeat_event \<Rightarrow> store \<Rightarrow> store" where
  "SaveHeartbeatEvent e s = s\<lparr>st_heartbeatEvents := st_heartbeatEvents s @ [e]\<rparr>"

definition heartbeat_newer :: "heartbeat_event \<Rightarrow> heartbeat_event \<Rightarrow> bool" where
  "heartbeat_newer a b \<longleftrightarrow>
     (if hb_HeartbeatTimestamp a = hb_HeartbeatTimestamp b
      then hb_SequenceNumber a > hb_SequenceNumber b
      else hb_HeartbeatTimestamp a > hb_HeartbeatTimestamp b)"

definition ListHeartbeatEventsByNode :: "store \<Rightarrow> string \<Rightarrow> heartbeat_event list" where
  "ListHeartbeatEventsByNode s nodeID =
     sort_slice heartbeat_newer
       (filter (\<lambda>e. selects nodeID (hb_NodeID e)) (st_heartbeatEvents s))"

definition LatestHeartbeatEventForNodeAndDate :: "store \<Rightarrow> string \<Rightarrow> string \<Rightarrow> heartbeat_event option" where
  "LatestHeartbeatEventForNodeAndDate s nodeID dateUTC =
     latest hb_HeartbeatTimestamp
       (filter (\<lambda>e. hb_NodeID e = nodeID \<and> on_date dateUTC (hb_HeartbeatTimestamp e))
          (st_heartbeatEvents s))"

definition SaveProbeEvent :: "probe_event \<Rightarrow> store \<Rightarrow> store \<times> bool" where
  "SaveProbeEvent e s =
     (if has_key (st_probeEvents s) (pe_ProbeID e) then (s, False)
      else (s\<lparr>st_probeEvents := map_put (pe_ProbeID e) e (st_probeEvents s)\<rparr>, True))"

definition GetProbeEvent :: "store \<Rightarrow> string \<Rightarrow> probe_event option" where
  "GetProbeEvent s probeID = map_get (st_probeEvents s) probeID"

definition probe_newer :: "probe_event \<Rightarrow> probe_event \<Rightarrow> bool" where
  "probe_newer a b \<longleftrightarrow>
     (if pe_ObservedAt a = pe_ObservedAt b then pe_ProbeID a < pe_ProbeID b
      else pe_ObservedAt a > pe_ObservedAt b)"

definition ListProbeEventsByNodeAndDate :: "store \<Rightarrow> string \<Rightarrow> string \<Rightarrow> probe_event list" where
  "ListProbeEventsByNodeAndDate s nodeID dateUTC =
     sort_slice probe_newer
       (filter (\<lambda>e. selects nodeID (pe_NodeID e) \<and> on_date dateUTC (pe_ObservedAt e))
          (map_vals (st_probeEvents s)))"

section \<open>Telemetry, alerts, deliveries and operational events\<close>

definition telemetryKey :: "string \<Rightarrow> string \<Rightarrow> string" where
  "telemetryKey nodeID warningCode = nodeID @ [CHR 0x00] @ warningCode"

definition alertKey :: "string \<Rightarrow> string \<Rightarrow> string \<Rightarrow> string" where
  "alertKey nodeID alertCode severity = nodeID @ [CHR 0x00] @ alertCode @ [CHR 0x00] @ severity"

definition AddTelemetryEvent :: "telemetry_event \<Rightarrow> store \<Rightarrow> store" where
  "AddTelemetryEvent e s =
     s\<lparr>st_telemetryEvents := st_telemetryEvents s @ [e],
       st_latestTelemetry := map_put (telemetryKey (te_NodeID e) (te_WarningCode e))
         \<lparr>lt_NodeID = te_NodeID e, lt_WarningCode = te_WarningCode e,
          lt_TelemetryTimestamp = te_TelemetryTimestamp e\<rparr>
         (st_latestTelemetry s)\<rparr>"

definition ListTelemetry :: "store \<Rightarrow> string \<Rightarrow> string \<Rightarrow> telemetry_event list" where
  "ListTelemetry s nodeID warningCode =
     sort_slice (\<lambda>a b. te_TelemetryTimestamp a > te_TelemetryTimestamp b)
       (filter (\<lambda>e. selects nodeID (te_NodeID e) \<and> selects warningCode (te_WarningCode e))
          (st_telemetryEvents s))"

definition latest_telemetry_less :: "latest_telemetry \<Rightarrow> latest_telemetry \<Rightarrow> bool" where
  "latest_telemetry_less a b \<longleftrightarrow>
     (if lt_NodeID a = lt_NodeID b then lt_WarningCode a < lt_WarningCode b
      else lt_NodeID a < lt_NodeID b)"

definition ListLatestTelemetry :: "store \<Rightarrow> string \<Rightarrow> string \<Rightarrow> latest_telemetry list" where
  "ListLatestTelemetry s nodeID warningCode =
     sort_slice latest_telemetry_less
       (filter (\<lambda>e. selects nodeID (lt_NodeID e) \<and> selects warningCode (lt_WarningCode e))
          (map_vals (st_latestTelemetry s)))"

definition GetAlertState :: "store \<Rightarrow> string \<Rightarrow> string \<Rightarrow> string \<Rightarrow> alert_state option" where
  "GetAlertState s nodeID alertCode severity =
     map_get (st_alertStates s) (alertKey nodeID alertCode severity)"

definition SaveAlertState :: "alert_state \<Rightarrow> store \<Rightarrow> store" where
  "SaveAlertState a s =
     s\<lparr>st_alertStates :=
         map_put (alertKey (as_NodeID a) (as_AlertCode a) (as_Severity a)) a (st_alertStates s)\<rparr>"

definition AddNotificationDelivery :: "notification_delivery \<Rightarrow> store \<Rightarrow> store" where
  "AddNotificationDelivery d s = s\<lparr>st_deliveries := st_deliveries s @ [d]\<rparr>"

definition ListNotificationDeliveries :: "store \<Rightarrow> string \<Rightarrow> string \<Rightarrow> notification_delivery list" where
  "ListNotificationDeliveries s nodeID alertCode =
     sort_slice (\<lambda>a b. dl_SentAt a > dl_SentAt b)
       (filter (\<lambda>d. selects nodeID (dl_NodeID d) \<and> selects alertCode (dl_AlertCode d))
          (st_deliveries s))"

definition AddOperationalEvent :: "operational_event \<Rightarrow> store \<Rightarrow> store" where
  "AddOperationalEvent e s = s\<lparr>st_operational := st_operational s @ [e]\<rparr>"

definition ListOperationalEvents :: "store \<Rightarrow> string \<Rightarrow> string \<Rightarrow> operational_event list" where
  "ListOperationalEvents s nodeID eventCode =
     sort_slice (\<lambda>a b. oe_EventTimestamp a > oe_EventTimestamp b)
       (filter (\<lambda>e. selects nodeID (oe_NodeID e) \<and> selects eventCode (oe_EventCode e))
          (st_operational s))"

section \<open>The records of a day\<close>

definition dailySummaryKey :: "string \<Rightarrow> string \<Rightarrow> string" where
  "dailySummaryKey nodeID dateUTC = nodeID @ [CHR 0x00] @ dateUTC"

definition qualifiedDecisionKey :: "string \<Rightarrow> string \<Rightarrow> string" where
  "qualifiedDecisionKey nodeID dateUTC = nodeID @ [CHR 0x00] @ dateUTC"

definition basePerformanceKey :: "string \<Rightarrow> string \<Rightarrow> string" where
  "basePerformanceKey nodeID dateUTC = nodeID @ [CHR 0x00] @ dateUTC"

definition rankingRecordKey :: "string \<Rightarrow> string \<Rightarrow> string" where
  "rankingRecordKey nodeID dateUTC = nodeID @ [CHR 0x00] @ dateUTC"

definition rewardEligibilityKey :: "string \<Rightarrow> string \<Rightarrow> string" where
  "rewardEligibilityKey nodeID dateUTC = nodeID @ [CHR 0x00] @ dateUTC"

definition rewardAllocationKey :: "string \<Rightarrow> string \<Rightarrow> string" where
  "rewardAllocationKey nodeID dateUTC = nodeID @ [CHR 0x00] @ dateUTC"

lemmas day_key_defs =
  dailySummaryKey_def qualifiedDecisionKey_def basePerformanceKey_def rankingRecordKey_def
  rewardEligibilityKey_def rewardAllocationKey_def

definition SaveDailyQualificationSummary :: "daily_qualification_summary \<Rightarrow> store \<Rightarrow> store" where
  "SaveDailyQualificationSummary r s =
     s\<lparr>st_dailySummaries :=
         map_put (dailySummaryKey (ds_NodeID r) (ds_DateUTC r)) r (st_dailySummaries s)\<rparr>"

definition GetDailyQualificationSummary ::
    "store \<Rightarrow> string \<Rightarrow> string \<Rightarrow> daily_qualification_summary option" where
  "GetDailyQualificationSummary s nodeID dateUTC =
     map_get (st_dailySummaries s) (dailySummaryKey nodeID dateUTC)"

definition SaveQualifiedDecisionRecord :: "qualified_decision_record \<Rightarrow> store \<Rightarrow> store" where
  "SaveQualifiedDecisionRecord r s =
     s\<lparr>st_qualifiedDecisions :=
         map_put (qualifiedDecisionKey (qd_NodeID r) (qd_DateUTC r)) r (st_qualifiedDecisions s)\<rparr>"

definition GetQualifiedDecisionRecord ::
    "store \<Rightarrow> string \<Rightarrow> string \<Rightarrow> qualified_decision_record option" where
  "GetQualifiedDecisionRecord s nodeID dateUTC =
     map_get (st_qualifiedDecisions s) (qualifiedDecisionKey nodeID dateUTC)"

definition SaveBasePerformanceRecord :: "base_performance_record \<Rightarrow> store \<Rightarrow> store" where
  "SaveBasePerformanceRecord r s =
     s\<lparr>st_basePerformance :=
         map_put (basePerformanceKey (bp_NodeID r) (bp_DateUTC r)) r (st_basePerformance s)\<rparr>"

definition DeleteBasePerformanceRecord :: "string \<Rightarrow> string \<Rightarrow> store \<Rightarrow> store" where
  "DeleteBasePerformanceRecord nodeID dateUTC s =
     s\<lparr>st_basePerformance := map_remove (basePerformanceKey nodeID dateUTC) (st_basePerformance s)\<rparr>"

definition GetBasePerformanceRecord ::
    "store \<Rightarrow> string \<Rightarrow> string \<Rightarrow> base_performance_record option" where
  "GetBasePerformanceRecord s nodeID dateUTC =
     map_get (st_basePerformance s) (basePerformanceKey nodeID dateUTC)"

definition ListBasePerformanceRecordsByDate :: "store \<Rightarrow> string \<Rightarrow> base_performance_record list" where
  "ListBasePerformanceRecordsByDate s dateUTC =
     sort_slice (\<lambda>a b. bp_NodeID a < bp_NodeID b)
       (filter (\<lambda>r. selects dateUTC (bp_DateUTC r)) (map_vals (st_basePerformance s)))"

definition ReplaceRankingRecordsForDate :: "string \<Rightarrow> ranking_record list \<Rightarrow> store \<Rightarrow> store" where
  "ReplaceRankingRecordsForDate dateUTC rs s =
     s\<lparr>st_rankingRecords :=
         put_all (\<lambda>r. rankingRecordKey (rk_NodeID r) (rk_DateUTC r)) rs
           (filter (\<lambda>p. rk_DateUTC (snd p) \<noteq> dateUTC) (st_rankingRecords s))\<rparr>"

definition ranking_less :: "ranking_record \<Rightarrow> ranking_record \<Rightarrow> bool" where
  "ranking_less a b \<longleftrightarrow>
     (if rk_RankPosition a = rk_RankPosition b then rk_NodeID a < rk_NodeID b
      else rk_RankPosition a < rk_RankPosition b)"

definition ListRankingRecordsByDate :: "store \<Rightarrow> string \<Rightarrow> ranking_record list" where
  "ListRankingRecordsByDate s dateUTC =
     sort_slice ranking_less
       (filter (\<lambda>r. selects dateUTC (rk_DateUTC r)) (map_vals (st_rankingRecords s)))"

definition ReplaceRewardEligibilityRecordsForDate ::
    "string \<Rightarrow> reward_eligibility_record list \<Rightarrow> store \<Rightarrow> store" where
  "ReplaceRewardEligibilityRecordsForDate dateUTC rs s =
     s\<lparr>st_rewardEligibility :=
         put_all (\<lambda>r. rewardEligibilityKey (re_NodeID r) (re_DateUTC r)) rs
           (filter (\<lambda>p. re_DateUTC (snd p) \<noteq> dateUTC) (st_rewardEligibility s))\<rparr>"

definition eligibility_less :: "reward_eligibility_record \<Rightarrow> reward_eligibility_record \<Rightarrow> bool" where
  "eligibility_less a b \<longleftrightarrow>
     (if re_RankPosition a = re_RankPosition b then re_NodeID a < re_NodeID b
      else re_RankPosition a < re_RankPosition b)"

definition ListRewardEligibilityRecordsByDate :: "store \<Rightarrow> string \<Rightarrow> reward_eligibility_record list" where
  "ListRewardEligibilityRecordsByDate s dateUTC =
     sort_slice eligibility_less
       (filter (\<lambda>r. selects dateUTC (re_DateUTC r)) (map_vals (st_rewardEligibility s)))"

definition ReplaceRewardAllocationRecordsForDate ::
    "string \<Rightarrow> reward_allocation_record list \<Rightarrow> store \<Rightarrow> store" where
  "ReplaceRewardAllocationRecordsForDate dateUTC rs s =
     s\<lparr>st_rewardAllocations :=
         put_all (\<lambda>r. rewardAllocationKey (ra_NodeID r) (ra_DateUTC r)) rs
           (filter (\<lambda>p. ra_DateUTC (snd p) \<noteq> dateUTC) (st_rewardAllocations s))\<rparr>"

definition allocation_less :: "reward_allocation_record \<Rightarrow> reward_allocation_record \<Rightarrow> bool" where
  "allocation_less a b \<longleftrightarrow>
     (if ra_RankPosition a = ra_RankPosition b then ra_NodeID a < ra_NodeID b
      else ra_RankPosition a < ra_RankPosition b)"

definition ListRewardAllocationRecordsByDate :: "store \<Rightarrow> string \<Rightarrow> reward_allocation_record list" where
  "ListRewardAllocationRecordsByDate s dateUTC =
     sort_slice allocation_less
       (filter (\<lambda>r. selects dateUTC (ra_DateUTC r)) (map_vals (st_rewardAllocations s)))"

section \<open>Evidence\<close>

definition accepted :: string where "accepted = ''accepted''"

text \<open>The review state an evidence gets when it carries none.\<close>

definition og_default :: "operator_group_evidence \<Rightarrow> operator_group_evidence" where
  "og_default e = (if og_ReviewState e = [] then e\<lparr>og_ReviewState := accepted\<rparr> else e)"

definition cp_default :: "shared_control_plane_evidence \<Rightarrow> shared_control_plane_evidence" where
  "cp_default e = (if cp_ReviewState e = [] then e\<lparr>cp_ReviewState := accepted\<rparr> else e)"

definition SaveOperatorGroupEvidence :: "operator_group_evidence \<Rightarrow> store \<Rightarrow> store \<times> bool" where
  "SaveOperatorGroupEvidence e s =
     (if has_key (st_operatorGroups s) (og_EvidenceRef e) then (s, False)
      else (s\<lparr>st_operatorGroups := map_put (og_EvidenceRef e) (og_default e) (st_operatorGroups s)\<rparr>,
            True))"

definition GetLatestOperatorGroupEvidenceForNode :: "store \<Rightarrow> string \<Rightarrow> operator_group_evidence option" where
  "GetLatestOperatorGroupEvidenceForNode s nodeID =
     map_option og_default
       (latest og_ObservedAt (filter (\<lambda>e. og_NodeID e = nodeID) (map_vals (st_operatorGroups s))))"

definition GetLatestOperatorGroupEvidenceForNodeAndDate ::
    "store \<Rightarrow> string \<Rightarrow> string \<Rightarrow> operator_group_evidence option" where
  "GetLatestOperatorGroupEvidenceForNodeAndDate s nodeID dateUTC =
     map_option og_default
       (latest og_ObservedAt
          (filter (\<lambda>e. og_NodeID e = nodeID \<and> on_date dateUTC (og_ObservedAt e))
             (map_vals (st_operatorGroups s))))"

definition SaveVotingKeyEvidence :: "voting_key_evidence \<Rightarrow> store \<Rightarrow> store \<times> bool" where
  "SaveVotingKeyEvidence e s =
     (if has_key (st_votingKeyEvidence s) (vk_EvidenceRef e) then (s, False)
      else (s\<lparr>st_votingKeyEvidence := map_put (vk_EvidenceRef e) e (st_votingKeyEvidence s)\<rparr>, True))"

definition GetLatestVotingKeyEvidenceForNode :: "store \<Rightarrow> string \<Rightarrow> voting_key_evidence option" where
  "GetLatestVotingKeyEvidenceForNode s nodeID =
     latest vk_ObservedAt (filter (\<lambda>e. vk_NodeID e = nodeID) (map_vals (st_votingKeyEvidence s)))"

definition GetLatestVotingKeyEvidenceForNodeAndDate ::
    "store \<Rightarrow> string \<Rightarrow> string \<Rightarrow> voting_key_evidence option" where
  "GetLatestVotingKeyEvidenceForNodeAndDate s nodeID dateUTC =
     latest vk_ObservedAt
       (filter (\<lambda>e. vk_NodeID e = nodeID \<and> on_date dateUTC (vk_ObservedAt e))
          (map_vals (st_votingKeyEvidence s)))"

definition SaveDecentralizationEvidence :: "decentralization_evidence \<Rightarrow> store \<Rightarrow> store \<times> bool" where
  "SaveDecentralizationEvidence e s =
     (if has_key (st_decentralization s) (dc_EvidenceRef e) then (s, False)
      else (s\<lparr>st_decentralization := map_put (dc_EvidenceRef e) e (st_decentralization s)\<rparr>, True))"

definition GetLatestDecentralizationEvidenceForNodeAndDate ::
    "store \<Rightarrow> string \<Rightarrow> string \<Rightarrow> decentralization_evidence option" where
  "GetLatestDecentralizationEvidenceForNodeAndDate s nodeID dateUTC =
     latest dc_ObservedAt
       (filter (\<lambda>e. dc_NodeID e = nodeID \<and> on_date dateUTC (dc_ObservedAt e))
          (map_vals (st_decentralization s)))"

definition SaveDomainEvidence :: "domain_evidence \<Rightarrow> store \<Rightarrow> store \<times> bool" where
  "SaveDomainEvidence e s =
     (if has_key (st_domainEvidence s) (dm_EvidenceRef e) then (s, False)
      else (s\<lparr>st_domainEvidence := map_put (dm_EvidenceRef e) e (st_domainEvidence s)\<rparr>, True))"

definition GetLatestDomainEvidenceForNodeAndDate ::
    "store \<Rightarrow> string \<Rightarrow> string \<Rightarrow> domain_evidence option" where
  "GetLatestDomainEvidenceForNodeAndDate s nodeID dateUTC =
     latest dm_ObservedAt
       (filter (\<lambda>e. dm_NodeID e = nodeID \<and> on_date dateUTC (dm_ObservedAt e))
          (map_vals (st_domainEvidence s)))"

definition SaveSharedControlPlaneEvidence :: "shared_control_plane_evidence \<Rightarrow> store \<Rightarrow> store \<times> bool" where
  "SaveSharedControlPlaneEvidence e s =
     (if has_key (st_controlPlane s) (cp_EvidenceRef e) then (s, False)
      else (s\<lparr>st_controlPlane := map_put (cp_EvidenceRef e) (cp_default e) (st_controlPlane s)\<rparr>, True))"

definition GetLatestSharedControlPlaneEvidenceForNodeAndDate ::
    "store \<Rightarrow> string \<Rightarrow> string \<Rightarrow> shared_control_plane_evidence option" where
  "GetLatestSharedControlPlaneEvidenceForNodeAndDate s nodeID dateUTC =
     map_option cp_default
       (latest cp_ObservedAt
          (filter (\<lambda>e. cp_NodeID e = nodeID \<and> on_date dateUTC (cp_ObservedAt e))
             (map_vals (st_controlPlane s))))"


lemmas store_op_defs =
  SaveNode_def SaveEnrollmentChallenge_def ConsumeEnrollmentChallenge_def SaveCheckEvent_def
  SaveHeartbeatEvent_def SaveProbeEvent_def AddTelemetryEvent_def SaveAlertState_def
  AddNotificationDelivery_def AddOperationalEvent_def SaveDailyQualificationSummary_def
  SaveQualifiedDecisionRecord_def SaveBasePerformanceRecord_def DeleteBasePerformanceRecord_def
  ReplaceRankingRecordsForDate_def ReplaceRewardEligibilityRecordsForDate_def
  ReplaceRewardAllocationRecordsForDate_def SaveOperatorGroupEvidence_def
  SaveVotingKeyEvidence_def SaveDecentralizationEvidence_def SaveDomainEvidence_def
  SaveSharedControlPlaneEvidence_def

section \<open>The invariant of the store\<close>

text \<open>The keys of the maps, as functions of the records they hold.\<close>

definition lt_key :: "latest_telemetry \<Rightarrow> string" where
  "lt_key e = telemetryKey (lt_NodeID e) (lt_WarningCode e)"

definition as_key :: "alert_state \<Rightarrow> string" where
  "as_key a = alertKey (as_NodeID a) (as_AlertCode a) (as_Severity a)"

definition ds_key where "ds_key r = dailySummaryKey (ds_NodeID r) (ds_DateUTC r)"
definition qd_key where "qd_key r = qualifiedDecisionKey (qd_NodeID r) (qd_DateUTC r)"
definition bp_key where "bp_key r = basePerformanceKey (bp_NodeID r) (bp_DateUTC r)"
definition rk_key where "rk_key r = rankingRecordKey (rk_NodeID r) (rk_DateUTC r)"
definition re_key where "re_key r = rewardEligibilityKey (re_NodeID r) (re_DateUTC r)"
definition ra_key where "ra_key r = rewardAllocationKey (ra_NodeID r) (ra_DateUTC r)"

lemmas record_key_defs =
  lt_key_def as_key_def ds_key_def qd_key_def bp_key_def rk_key_def re_key_def ra_key_def

definition no_nul :: "string \<Rightarrow> bool" where
  "no_nul s \<longleftrightarrow> CHR 0x00 \<notin> set s"

definition dated_map :: "('r \<Rightarrow> string) \<Rightarrow> ('r \<Rightarrow> string) \<Rightarrow> (string, 'r) gomap \<Rightarrow> bool" where
  "dated_map date key m \<longleftrightarrow> keyed_map key m \<and> (\<forall>r \<in> set (map_vals m). no_nul (date r))"

definition wf_store :: "store \<Rightarrow> bool" where
  "wf_store s \<longleftrightarrow>
     keyed_map nd_NodeID (st_nodes s) \<and>
     keyed_map ec_ChallengeID (st_challenges s) \<and>
     keyed_map ck_EventID (st_checkEvents s) \<and>
     keyed_map pe_ProbeID (st_probeEvents s) \<and>
     keyed_map og_EvidenceRef (st_operatorGroups s) \<and>
     keyed_map vk_EvidenceRef (st_votingKeyEvidence s) \<and>
     keyed_map dc_EvidenceRef (st_decentralization s) \<and>
     keyed_map dm_EvidenceRef (st_domainEvidence s) \<and>
     keyed_map cp_EvidenceRef (st_controlPlane s) \<and>
     keyed_map lt_key (st_latestTelemetry s) \<and>
     keyed_map as_key (st_alertStates s) \<and>
     dated_map ds_DateUTC ds_key (st_dailySummaries s) \<and>
     dated_map qd_DateUTC qd_key (st_qualifiedDecisions s) \<and>
     dated_map bp_DateUTC bp_key (st_basePerformance s) \<and>
     dated_map rk_DateUTC rk_key (st_rankingRecords s) \<and>
     dated_map re_DateUTC re_key (st_rewardEligibility s) \<and>
     dated_map ra_DateUTC ra_key (st_rewardAllocations s)"

lemma map_vals_put: "set (map_vals (map_put k v m)) \<subseteq> insert v (set (map_vals m))"
  using set_map_put [of k v m] by (force simp: in_map_vals)

lemma map_vals_remove: "set (map_vals (map_remove k m)) \<subseteq> set (map_vals m)"
  by (auto simp: map_vals_def AList.delete_eq)

lemma map_vals_filter: "set (map_vals (filter P m)) \<subseteq> set (map_vals m)"
  by (auto simp: map_vals_def)

lemma map_vals_put_all: "set (map_vals (put_all key vs m)) \<subseteq> set vs \<union> set (map_vals m)"
proof (induction vs arbitrary: m)
  case Nil
  then show ?case by simp
next
  case (Cons v vs)
  from Cons.IH [of "map_put (key v) v m"] map_vals_put [of "key v" v m] show ?case by auto
qed

lemma dated_map_Nil [simp]: "dated_map date key []"
  by (simp add: dated_map_def)

lemma dated_map_put [simp]:
  "dated_map date key m \<Longrightarrow> k = key v \<Longrightarrow> no_nul (date v) \<Longrightarrow> dated_map date key (map_put k v m)"
  using map_vals_put [of k v m] by (auto simp: dated_map_def)

lemma dated_map_remove [simp]: "dated_map date key m \<Longrightarrow> dated_map date key (map_remove k m)"
  using map_vals_remove [of k m] by (auto simp: dated_map_def)

lemma dated_map_replace [simp]:
  "dated_map date key m \<Longrightarrow> \<forall>r \<in> set rs. no_nul (date r) \<Longrightarrow>
     dated_map date key (put_all key rs (filter Q m))"
  using map_vals_put_all [of key rs "filter Q m"] map_vals_filter [of Q m]
  by (auto simp: dated_map_def)

lemma og_default_ref [simp]: "og_EvidenceRef (og_default e) = og_EvidenceRef e"
  "og_NodeID (og_default e) = og_NodeID e" "og_ObservedAt (og_default e) = og_ObservedAt e"
  by (simp_all add: og_default_def)

lemma cp_default_ref [simp]: "cp_EvidenceRef (cp_default e) = cp_EvidenceRef e"
  "cp_NodeID (cp_default e) = cp_NodeID e" "cp_ObservedAt (cp_default e) = cp_ObservedAt e"
  by (simp_all add: cp_default_def)

lemma og_default_idem [simp]: "og_default (og_default e) = og_default e"
  by (simp add: og_default_def accepted_def)

lemma cp_default_idem [simp]: "cp_default (cp_default e) = cp_default e"
  by (simp add: cp_default_def accepted_def)

named_theorems wf_ops \<open>operations keep the invariant of the store\<close>

lemma wf_New [wf_ops]: "wf_store (New_Store ns)"
  by (simp add: wf_store_def New_Store_def)

lemma wf_SaveNode [wf_ops]: "wf_store s \<Longrightarrow> wf_store (SaveNode n s)"
  by (simp add: wf_store_def SaveNode_def)

lemma wf_SaveEnrollmentChallenge [wf_ops]: "wf_store s \<Longrightarrow> wf_store (SaveEnrollmentChallenge c s)"
  by (simp add: wf_store_def SaveEnrollmentChallenge_def)

lemma wf_ConsumeEnrollmentChallenge [wf_ops]:
  "wf_store s \<Longrightarrow> wf_store (fst (ConsumeEnrollmentChallenge c u s))"
  using keyed_map_get [of ec_ChallengeID "st_challenges s" c]
  by (simp add: wf_store_def ConsumeEnrollmentChallenge_def Let_def split: option.split)

lemma wf_SaveCheckEvent [wf_ops]: "wf_store s \<Longrightarrow> wf_store (fst (SaveCheckEvent e s))"
  by (simp add: wf_store_def SaveCheckEvent_def)

lemma wf_SaveProbeEvent [wf_ops]: "wf_store s \<Longrightarrow> wf_store (fst (SaveProbeEvent e s))"
  by (simp add: wf_store_def SaveProbeEvent_def)

lemma wf_SaveOperatorGroupEvidence [wf_ops]: "wf_store s \<Longrightarrow> wf_store (fst (SaveOperatorGroupEvidence e s))"
  by (simp add: wf_store_def SaveOperatorGroupEvidence_def)

lemma wf_SaveVotingKeyEvidence [wf_ops]: "wf_store s \<Longrightarrow> wf_store (fst (SaveVotingKeyEvidence e s))"
  by (simp add: wf_store_def SaveVotingKeyEvidence_def)

lemma wf_SaveDecentralizationEvidence [wf_ops]: "wf_store s \<Longrightarrow> wf_store (fst (SaveDecentralizationEvidence e s))"
  by (simp add: wf_store_def SaveDecentralizationEvidence_def)

lemma wf_SaveDomainEvidence [wf_ops]: "wf_store s \<Longrightarrow> wf_store (fst (SaveDomainEvidence e s))"
  by (simp add: wf_store_def SaveDomainEvidence_def)

lemma wf_SaveSharedControlPlaneEvidence [wf_ops]: "wf_store s \<Longrightarrow> wf_store (fst (SaveSharedControlPlaneEvidence e s))"
  by (simp add: wf_store_def SaveSharedControlPlaneEvidence_def)

lemma wf_SaveHeartbeatEvent [wf_ops]: "wf_store s \<Longrightarrow> wf_store (SaveHeartbeatEvent e s)"
  by (simp add: wf_store_def SaveHeartbeatEvent_def)

lemma wf_AddNotificationDelivery [wf_ops]: "wf_store s \<Longrightarrow> wf_store (AddNotificationDelivery e s)"
  by (simp add: wf_store_def AddNotificationDelivery_def)

lemma wf_AddOperationalEvent [wf_ops]: "wf_store s \<Longrightarrow> wf_store (AddOperationalEvent e s)"
  by (simp add: wf_store_def AddOperationalEvent_def)

lemma wf_AddTelemetryEvent [wf_ops]: "wf_store s \<Longrightarrow> wf_store (AddTelemetryEvent e s)"
  by (simp add: wf_store_def AddTelemetryEvent_def lt_key_def)

lemma wf_SaveAlertState [wf_ops]: "wf_store s \<Longrightarrow> wf_store (SaveAlertState e s)"
  by (simp add: wf_store_def SaveAlertState_def as_key_def)

lemma wf_SaveDailyQualificationSummary [wf_ops]:
  "wf_store s \<Longrightarrow> no_nul (ds_DateUTC r) \<Longrightarrow> wf_store (SaveDailyQualificationSummary r s)"
  by (simp add: wf_store_def SaveDailyQualificationSummary_def ds_key_def)

lemma wf_SaveQualifiedDecisionRecord [wf_ops]:
  "wf_store s \<Longrightarrow> no_nul (qd_DateUTC r) \<Longrightarrow> wf_store (SaveQualifiedDecisionRecord r s)"
  by (simp add: wf_store_def SaveQualifiedDecisionRecord_def qd_key_def)

lemma wf_SaveBasePerformanceRecord [wf_ops]:
  "wf_store s \<Longrightarrow> no_nul (bp_DateUTC r) \<Longrightarrow> wf_store (SaveBasePerformanceRecord r s)"
  by (simp add: wf_store_def SaveBasePerformanceRecord_def bp_key_def)

lemma wf_DeleteBasePerformanceRecord [wf_ops]:
  "wf_store s \<Longrightarrow> wf_store (DeleteBasePerformanceRecord n d s)"
  by (simp add: wf_store_def DeleteBasePerformanceRecord_def)

lemma wf_ReplaceRankingRecordsForDate [wf_ops]:
  "wf_store s \<Longrightarrow> \<forall>r \<in> set rs. no_nul (rk_DateUTC r) \<Longrightarrow> wf_store (ReplaceRankingRecordsForDate d rs s)"
  unfolding ReplaceRankingRecordsForDate_def rk_key_def [symmetric]
  by (simp add: wf_store_def)

lemma wf_ReplaceRewardEligibilityRecordsForDate [wf_ops]:
  "wf_store s \<Longrightarrow> \<forall>r \<in> set rs. no_nul (re_DateUTC r) \<Longrightarrow> wf_store (ReplaceRewardEligibilityRecordsForDate d rs s)"
  unfolding ReplaceRewardEligibilityRecordsForDate_def re_key_def [symmetric]
  by (simp add: wf_store_def)

lemma wf_ReplaceRewardAllocationRecordsForDate [wf_ops]:
  "wf_store s \<Longrightarrow> \<forall>r \<in> set rs. no_nul (ra_DateUTC r) \<Longrightarrow> wf_store (ReplaceRewardAllocationRecordsForDate d rs s)"
  unfolding ReplaceRewardAllocationRecordsForDate_def ra_key_def [symmetric]
  by (simp add: wf_store_def)


section \<open>The append-only evidence contract\<close>

text \<open>\<open>norm\<close> is what the store keeps of an evidence (two kinds get a default review state).\<close>

definition save_each :: "('e \<Rightarrow> 's \<Rightarrow> 's \<times> bool) \<Rightarrow> 'e list \<Rightarrow> 's \<Rightarrow> 's" where
  "save_each save es s = foldl (\<lambda>s e. fst (save e s)) s es"

locale evidence_log =
  fixes save :: "'e \<Rightarrow> 's \<Rightarrow> 's \<times> bool"
    and look :: "'s \<Rightarrow> string \<Rightarrow> 'e option"
    and ref :: "'e \<Rightarrow> string"
    and norm :: "'e \<Rightarrow> 'e"
  assumes save_new: "look s (ref e) = None \<Longrightarrow>
      snd (save e s) \<and> look (fst (save e s)) = (look s)(ref e \<mapsto> norm e)"
    and save_dup: "look s (ref e) = Some x \<Longrightarrow> save e s = (s, False)"
begin

lemma save_flag: "snd (save e s) \<longleftrightarrow> look s (ref e) = None"
  using save_new save_dup by (cases "look s (ref e)") fastforce+

lemma save_look:
  "look (fst (save e s)) r =
     (if look s r = None \<and> ref e = r then Some (norm e) else look s r)"
  using save_new [of s e] save_dup [of s e] by (cases "look s (ref e)") auto

lemma save_keeps: "look s r = Some x \<Longrightarrow> look (fst (save e s)) r = Some x"
  by (simp add: save_look)

lemma replay: "save e (fst (save e s)) = (fst (save e s), False)"
proof -
  obtain x where "look (fst (save e s)) (ref e) = Some x"
    by (metis option.exhaust option.distinct(1) save_look)
  then show ?thesis by (rule save_dup)
qed

lemma save_each_keeps: "look s r = Some x \<Longrightarrow> look (save_each save es s) r = Some x"
  by (induction es arbitrary: s) (simp_all add: save_each_def save_keeps)

text \<open>Whatever is submitted and however often, a reference keeps what was stored first.\<close>

lemma first_wins:
  "look (save_each save es s) r =
     (case look s r of Some x \<Rightarrow> Some x | None \<Rightarrow> map_option norm (find (\<lambda>e. ref e = r) es))"
proof (induction es arbitrary: s)
  case Nil
  then show ?case by (simp add: save_each_def split: option.split)
next
  case (Cons e es)
  have "save_each save (e # es) s = save_each save es (fst (save e s))"
    by (simp add: save_each_def)
  with Cons.IH [of "fst (save e s)"] show ?case
    by (auto simp: save_look split: option.splits)
qed

end

interpretation check_log: evidence_log SaveCheckEvent GetCheckEvent ck_EventID "\<lambda>e. e"
  by unfold_locales (auto simp: SaveCheckEvent_def GetCheckEvent_def has_key_iff map_get_put fun_eq_iff)

interpretation probe_log: evidence_log SaveProbeEvent GetProbeEvent pe_ProbeID "\<lambda>e. e"
  by unfold_locales (auto simp: SaveProbeEvent_def GetProbeEvent_def has_key_iff map_get_put fun_eq_iff)

interpretation group_log: evidence_log SaveOperatorGroupEvidence "\<lambda>s r. map_get (st_operatorGroups s) r" og_EvidenceRef og_default
  by unfold_locales (auto simp: SaveOperatorGroupEvidence_def has_key_iff map_get_put fun_eq_iff)

interpretation voting_log: evidence_log SaveVotingKeyEvidence "\<lambda>s r. map_get (st_votingKeyEvidence s) r" vk_EvidenceRef "\<lambda>e. e"
  by unfold_locales (auto simp: SaveVotingKeyEvidence_def has_key_iff map_get_put fun_eq_iff)

interpretation infra_log: evidence_log SaveDecentralizationEvidence "\<lambda>s r. map_get (st_decentralization s) r" dc_EvidenceRef "\<lambda>e. e"
  by unfold_locales (auto simp: SaveDecentralizationEvidence_def has_key_iff map_get_put fun_eq_iff)

interpretation domain_log: evidence_log SaveDomainEvidence "\<lambda>s r. map_get (st_domainEvidence s) r" dm_EvidenceRef "\<lambda>e. e"
  by unfold_locales (auto simp: SaveDomainEvidence_def has_key_iff map_get_put fun_eq_iff)

interpretation plane_log: evidence_log SaveSharedControlPlaneEvidence "\<lambda>s r. map_get (st_controlPlane s) r" cp_EvidenceRef cp_default
  by unfold_locales (auto simp: SaveSharedControlPlaneEvidence_def has_key_iff map_get_put fun_eq_iff)

section \<open>The contract of the records of a day\<close>

locale dated_records = key_order key for key :: "'r \<Rightarrow> int \<times> string" +
  fixes replace :: "string \<Rightarrow> 'r list \<Rightarrow> 's \<Rightarrow> 's"
    and list_by :: "'s \<Rightarrow> string \<Rightarrow> 'r list"
    and date_of :: "'r \<Rightarrow> string"
    and ok :: "'s \<Rightarrow> bool"
  assumes replace_ok: "ok s \<Longrightarrow> \<forall>r \<in> set rs. no_nul (date_of r) \<Longrightarrow> ok (replace d rs s)"
    and listed: "ok s \<Longrightarrow> no_nul d \<Longrightarrow> d \<noteq> [] \<Longrightarrow> \<forall>r \<in> set rs. date_of r = d \<Longrightarrow>
      distinct (map (snd \<circ> key) rs) \<Longrightarrow> mset (list_by (replace d rs s) d) = mset rs"
    and other_dates: "ok s \<Longrightarrow> no_nul d \<Longrightarrow> \<forall>r \<in> set rs. date_of r = d \<Longrightarrow>
      distinct (map (snd \<circ> key) rs) \<Longrightarrow> d' \<noteq> [] \<Longrightarrow> d' \<noteq> d \<Longrightarrow>
      list_by (replace d rs s) d' = list_by s d'"
    and in_order: "sorted (map key (list_by s d))"
begin

text \<open>A slice in rank order is read back as it was written.\<close>

lemma read_back:
  assumes "ok s" "no_nul d" "d \<noteq> []" "\<forall>r \<in> set rs. date_of r = d"
    and "distinct (map (snd \<circ> key) rs)" and "sorted (map key rs)"
  shows "list_by (replace d rs s) d = rs"
proof (rule by_key.sorted_perm_unique)
  note m = listed [OF assms(1-5)]
  show "mset (list_by (replace d rs s) d) = mset rs" by (rule m)
  show "ordered (\<lambda>x y. key x < key y) (list_by (replace d rs s) d)"
    using in_order [of "replace d rs s" d] by (simp add: sorted_map not_less)
  show "ordered (\<lambda>x y. key x < key y) rs"
    using assms(6) by (simp add: sorted_map not_less)
  fix x y
  assume xy: "x \<in> set (list_by (replace d rs s) d)" "y \<in> set (list_by (replace d rs s) d)" "x \<noteq> y"
  have "set (list_by (replace d rs s) d) = set rs" using m by (metis set_mset_mset)
  with xy have "x \<in> set rs" "y \<in> set rs" by auto
  moreover have "inj_on (snd \<circ> key) (set rs)" using assms(5) by (simp add: distinct_map)
  ultimately have "(snd \<circ> key) x \<noteq> (snd \<circ> key) y" using xy(3) by (meson inj_onD)
  then have "key x \<noteq> key y" by auto
  then show "key x < key y \<or> key y < key x" by (meson linorder_neqE)
qed

text \<open>Writing a day again forgets what was there.\<close>

lemma rewrite_day:
  assumes "ok s" "no_nul d" "d \<noteq> []" "\<forall>r \<in> set rs. date_of r = d" "\<forall>r \<in> set qs. date_of r = d"
    and "distinct (map (snd \<circ> key) rs)" "distinct (map (snd \<circ> key) qs)" "sorted (map key rs)"
    and "d' \<noteq> []"
  shows "list_by (replace d rs (replace d qs s)) d' = list_by (replace d rs s) d'"
proof -
  have q: "ok (replace d qs s)" using assms by (intro replace_ok) auto
  show ?thesis
    using assms q by (cases "d' = d") (simp_all add: read_back other_dates)
qed

end

lemma replace_day_vals:
  fixes m :: "(string, 'r) gomap"
  assumes m: "dated_map date key m" and key: "\<And>r. key r = node r @ [CHR 0x00] @ date r"
    and d: "no_nul d" "\<forall>r \<in> set rs. date r = d" "distinct (map node rs)"
  shows "map_vals (put_all key rs (filter (\<lambda>p. date (snd p) \<noteq> d) m)) =
    filter (\<lambda>r. date r \<noteq> d) (map_vals m) @ rs"
proof -
  have key_eq: "key a = key b \<longleftrightarrow> node a = node b \<and> date a = date b"
    if "no_nul (date a)" "no_nul (date b)" for a b
    using that unfolding key no_nul_def by (rule nul_key_eq_iff)
  have nn: "no_nul (date r)" if "r \<in> set rs" for r using that d by simp
  have "distinct (map key rs)"
    using d(2,3) by (auto simp: distinct_map inj_on_def key)
  moreover have "key ` set rs \<inter> set (map fst (filter (\<lambda>p. date (snd p) \<noteq> d) m)) = {}"
  proof (rule ccontr)
    assume "\<not> ?thesis"
    then obtain r v where r: "r \<in> set rs" and kv: "(key r, v) \<in> set m" "date v \<noteq> d"
      by auto
    from kv m have "key r = key v" and "no_nul (date v)"
      by (auto simp: dated_map_def keyed_map_def keyed_by_def in_map_vals)
    with key_eq [OF nn [OF r]] kv r d(2) show False by auto
  qed
  ultimately show ?thesis
    by (simp add: put_all_fresh map_vals_def comp_def filter_map)
qed

lemma filter_other_date:
  "d' \<noteq> d \<Longrightarrow> filter (\<lambda>x. f x \<noteq> d \<and> f x = d') xs = filter (\<lambda>x. f x = d') xs"
  by (rule filter_cong) auto

lemma selects_date: "d \<noteq> [] \<Longrightarrow> selects d v \<longleftrightarrow> v = d"
  by (simp add: selects_def)

lemma ranking_less_key: "ranking_less = (\<lambda>a b. (rk_RankPosition a, rk_NodeID a) < (rk_RankPosition b, rk_NodeID b))"
  by (auto simp: fun_eq_iff ranking_less_def)

lemma rk_day_vals:
  assumes "wf_store s" "no_nul d" "\<forall>r \<in> set rs. rk_DateUTC r = d" "distinct (map rk_NodeID rs)"
  shows "map_vals (st_rankingRecords (ReplaceRankingRecordsForDate d rs s)) =
    filter (\<lambda>r. rk_DateUTC r \<noteq> d) (map_vals (st_rankingRecords s)) @ rs"
proof -
  have m: "dated_map rk_DateUTC rk_key (st_rankingRecords s)" using assms(1) by (simp add: wf_store_def)
  have "rk_key r = rk_NodeID r @ [CHR 0x00] @ rk_DateUTC r" for r
    by (simp add: rk_key_def rankingRecordKey_def)
  from replace_day_vals [OF m this assms(2-4)] show ?thesis
    unfolding ReplaceRankingRecordsForDate_def rk_key_def [symmetric] by simp
qed

interpretation ranking_days: dated_records "\<lambda>r. (rk_RankPosition r, rk_NodeID r)"
  ReplaceRankingRecordsForDate ListRankingRecordsByDate rk_DateUTC wf_store
proof (unfold_locales, goal_cases)
  case (1 s rs d)
  then show ?case by (rule wf_ReplaceRankingRecordsForDate)
next
  case (2 s d rs)
  then show ?case by (simp add: ListRankingRecordsByDate_def rk_day_vals comp_def selects_date)
next
  case (3 s d rs d')
  then show ?case
    by (simp add: ListRankingRecordsByDate_def rk_day_vals comp_def selects_date filter_other_date)
next
  case (4 s d)
  show ?case unfolding ListRankingRecordsByDate_def ranking_less_key by (rule key_order.key_sorted)
qed

lemma eligibility_less_key: "eligibility_less = (\<lambda>a b. (re_RankPosition a, re_NodeID a) < (re_RankPosition b, re_NodeID b))"
  by (auto simp: fun_eq_iff eligibility_less_def)

lemma re_day_vals:
  assumes "wf_store s" "no_nul d" "\<forall>r \<in> set rs. re_DateUTC r = d" "distinct (map re_NodeID rs)"
  shows "map_vals (st_rewardEligibility (ReplaceRewardEligibilityRecordsForDate d rs s)) =
    filter (\<lambda>r. re_DateUTC r \<noteq> d) (map_vals (st_rewardEligibility s)) @ rs"
proof -
  have m: "dated_map re_DateUTC re_key (st_rewardEligibility s)" using assms(1) by (simp add: wf_store_def)
  have "re_key r = re_NodeID r @ [CHR 0x00] @ re_DateUTC r" for r
    by (simp add: re_key_def rewardEligibilityKey_def)
  from replace_day_vals [OF m this assms(2-4)] show ?thesis
    unfolding ReplaceRewardEligibilityRecordsForDate_def re_key_def [symmetric] by simp
qed

interpretation eligibility_days: dated_records "\<lambda>r. (re_RankPosition r, re_NodeID r)"
  ReplaceRewardEligibilityRecordsForDate ListRewardEligibilityRecordsByDate re_DateUTC wf_store
proof (unfold_locales, goal_cases)
  case (1 s rs d)
  then show ?case by (rule wf_ReplaceRewardEligibilityRecordsForDate)
next
  case (2 s d rs)
  then show ?case by (simp add: ListRewardEligibilityRecordsByDate_def re_day_vals comp_def selects_date)
next
  case (3 s d rs d')
  then show ?case
    by (simp add: ListRewardEligibilityRecordsByDate_def re_day_vals comp_def selects_date filter_other_date)
next
  case (4 s d)
  show ?case unfolding ListRewardEligibilityRecordsByDate_def eligibility_less_key by (rule key_order.key_sorted)
qed

lemma allocation_less_key: "allocation_less = (\<lambda>a b. (ra_RankPosition a, ra_NodeID a) < (ra_RankPosition b, ra_NodeID b))"
  by (auto simp: fun_eq_iff allocation_less_def)

lemma ra_day_vals:
  assumes "wf_store s" "no_nul d" "\<forall>r \<in> set rs. ra_DateUTC r = d" "distinct (map ra_NodeID rs)"
  shows "map_vals (st_rewardAllocations (ReplaceRewardAllocationRecordsForDate d rs s)) =
    filter (\<lambda>r. ra_DateUTC r \<noteq> d) (map_vals (st_rewardAllocations s)) @ rs"
proof -
  have m: "dated_map ra_DateUTC ra_key (st_rewardAllocations s)" using assms(1) by (simp add: wf_store_def)
  have "ra_key r = ra_NodeID r @ [CHR 0x00] @ ra_DateUTC r" for r
    by (simp add: ra_key_def rewardAllocationKey_def)
  from replace_day_vals [OF m this assms(2-4)] show ?thesis
    unfolding ReplaceRewardAllocationRecordsForDate_def ra_key_def [symmetric] by simp
qed

interpretation allocation_days: dated_records "\<lambda>r. (ra_RankPosition r, ra_NodeID r)"
  ReplaceRewardAllocationRecordsForDate ListRewardAllocationRecordsByDate ra_DateUTC wf_store
proof (unfold_locales, goal_cases)
  case (1 s rs d)
  then show ?case by (rule wf_ReplaceRewardAllocationRecordsForDate)
next
  case (2 s d rs)
  then show ?case by (simp add: ListRewardAllocationRecordsByDate_def ra_day_vals comp_def selects_date)
next
  case (3 s d rs d')
  then show ?case
    by (simp add: ListRewardAllocationRecordsByDate_def ra_day_vals comp_def selects_date filter_other_date)
next
  case (4 s d)
  show ?case unfolding ListRewardAllocationRecordsByDate_def allocation_less_key by (rule key_order.key_sorted)
qed

end
