(* ===== verification/Go_Time.thy ===== *)
theory Go_Time
  imports Go_Strings "HOL-Library.Monad_Syntax"
begin

text \<open>
  The parts of Go's \<^verbatim>\<open>time\<close> package the program uses. An instant is the number of nanoseconds since
  1970-01-01T00:00:00Z (a \<^verbatim>\<open>time.Time\<close> is only compared, shifted and printed in UTC, so its
  location is not kept). A \<^verbatim>\<open>time.Duration\<close> is a number of nanoseconds; \<^verbatim>\<open>Time.Sub\<close> saturates at
  the range of \<^verbatim>\<open>int64\<close>.

  \<open>parse_rfc3339\<close> follows \<^verbatim>\<open>time.Parse(time.RFC3339, s)\<close> chunk by chunk: the year takes four bytes,
  the hour one or two digits, a fraction of the second may follow although the layout has none, a
  zone offset may go up to 24 hours and 60 minutes. \<open>parse_date\<close> is \<^verbatim>\<open>time.Parse("2006-01-02", s)\<close>.
  The main facts are \<open>parse_format\<close> (printing and parsing back gives the instant without its
  fraction), \<open>datePart_format\<close>, and \<open>format_less_iff\<close> (printed instants compare as strings the way
  the instants compare), all for instants in the years 0 to 9999.
\<close>

type_synonym instant = int
type_synonym duration = int

definition second :: duration where "second = 1000000000"
definition minute :: duration where "minute = 60 * second"
definition hour :: duration where "hour = 60 * minute"
definition nanos_per_day :: int where "nanos_per_day = 24 * hour"

lemmas duration_defs = second_def minute_def hour_def nanos_per_day_def

definition time_sub :: "instant \<Rightarrow> instant \<Rightarrow> duration" where
  "time_sub t u = max (- (2 ^ 63)) (min (2 ^ 63 - 1) (t - u))"

lemma time_sub_le_iff: "0 \<le> w \<Longrightarrow> w < 2 ^ 63 - 1 \<Longrightarrow> time_sub t u \<le> w \<longleftrightarrow> t - u \<le> w"
  by (auto simp: time_sub_def)

lemma time_sub_ge_iff: "0 < w \<Longrightarrow> w < 2 ^ 63 \<Longrightarrow> w \<le> time_sub t u \<longleftrightarrow> w \<le> t - u"
  by (auto simp: time_sub_def)

section \<open>The calendar\<close>

definition leap :: "int \<Rightarrow> bool" where
  "leap y \<longleftrightarrow> y mod 4 = 0 \<and> (y mod 100 \<noteq> 0 \<or> y mod 400 = 0)"

definition days_in :: "int \<Rightarrow> int \<Rightarrow> int" where
  "days_in m y =
     (if m = 2 then (if leap y then 29 else 28)
      else if m = 4 \<or> m = 6 \<or> m = 9 \<or> m = 11 then 30 else 31)"

text \<open>Days from 1 January of year 1 to 1 January of year \<open>y\<close>.\<close>

definition days_before_year :: "int \<Rightarrow> int" where
  "days_before_year y = 365 * (y - 1) + (y - 1) div 4 - (y - 1) div 100 + (y - 1) div 400"

definition days_before_month :: "bool \<Rightarrow> int \<Rightarrow> int" where
  "days_before_month lp m =
     (if m \<le> 1 then 0 else if m = 2 then 31
      else (if m = 3 then 59 else if m = 4 then 90 else if m = 5 then 120 else if m = 6 then 151
            else if m = 7 then 181 else if m = 8 then 212 else if m = 9 then 243
            else if m = 10 then 273 else if m = 11 then 304 else if m = 12 then 334 else 365)
           + (if lp then 1 else 0))"

definition day_number :: "int \<Rightarrow> int \<Rightarrow> int \<Rightarrow> int" where
  "day_number y m d = days_before_year y + days_before_month (leap y) m + (d - 1) - 719162"

definition year_of_day :: "int \<Rightarrow> int" where
  "year_of_day n =
     (let k = n + 719162; y = (400 * k) div 146097 + 1
      in if k < days_before_year y then y - 1
         else if days_before_year (y + 1) \<le> k then y + 1 else y)"

definition month_of :: "bool \<Rightarrow> int \<Rightarrow> int" where
  "month_of lp r =
     (if r < days_before_month lp 2 then 1 else if r < days_before_month lp 3 then 2
      else if r < days_before_month lp 4 then 3 else if r < days_before_month lp 5 then 4
      else if r < days_before_month lp 6 then 5 else if r < days_before_month lp 7 then 6
      else if r < days_before_month lp 8 then 7 else if r < days_before_month lp 9 then 8
      else if r < days_before_month lp 10 then 9 else if r < days_before_month lp 11 then 10
      else if r < days_before_month lp 12 then 11 else 12)"

definition civil :: "int \<Rightarrow> int \<times> int \<times> int" where
  "civil n =
     (let y = year_of_day n; r = n + 719162 - days_before_year y; m = month_of (leap y) r
      in (y, m, r - days_before_month (leap y) m + 1))"

lemma div_pred_int:
  fixes y c :: int
  assumes "0 < c"
  shows "y div c = (y - 1) div c + (if y mod c = 0 then 1 else 0)"
proof -
  let ?q = "y div c" and ?r = "y mod c"
  have y: "y = c * ?q + ?r" by simp
  have r: "0 \<le> ?r" "?r < c" using assms by simp_all
  show ?thesis
  proof (cases "?r = 0")
    case True
    with y have "y - 1 = c * (?q - 1) + (c - 1)" by (simp add: algebra_simps)
    then have "(y - 1) div c = ?q - 1" by (rule int_div_pos_eq) (use assms in auto)
    with True show ?thesis by simp
  next
    case False
    have "y - 1 = c * ?q + (?r - 1)" by simp
    then have "(y - 1) div c = ?q" by (rule int_div_pos_eq) (use r False in auto)
    with False show ?thesis by simp
  qed
qed

lemma leap_mods: "y mod 400 = 0 \<Longrightarrow> y mod 100 = 0" "y mod 100 = 0 \<Longrightarrow> y mod 4 = 0" for y :: int
  by (simp_all add: mod_eq_0_iff_dvd dvd_trans [of 100 400] dvd_trans [of 4 100])

lemma days_before_year_Suc:
  "days_before_year (y + 1) = days_before_year y + (if leap y then 366 else 365)"
proof -
  have "days_before_year (y + 1) = 365 * y + ((y - 1) div 4 + (if y mod 4 = 0 then 1 else 0))
      - ((y - 1) div 100 + (if y mod 100 = 0 then 1 else 0))
      + ((y - 1) div 400 + (if y mod 400 = 0 then 1 else 0))"
    unfolding days_before_year_def
    by (simp only: add_diff_cancel_right' div_pred_int [of 4 y] div_pred_int [of 100 y]
        div_pred_int [of 400 y] zero_less_numeral)
  moreover have "(if leap y then 366 else 365) = 365 + (if y mod 4 = 0 then 1 else 0)
      - (if y mod 100 = 0 then 1 else 0) + (if y mod 400 = 0 then (1::int) else 0)"
    using leap_mods [of y] by (cases "y mod 400 = 0"; cases "y mod 100 = 0") (simp_all add: leap_def)
  ultimately show ?thesis
    by (simp only: days_before_year_def) (simp only: algebra_simps)
qed

lemma days_before_year_mono: "a \<le> b \<Longrightarrow> days_before_year a \<le> days_before_year b"
proof (induction b rule: int_ge_induct)
  case base
  show ?case by simp
next
  case (step i)
  then show ?case using days_before_year_Suc [of i] by (simp split: if_splits)
qed

lemma div_bounds:
  fixes z c :: int
  assumes "0 < c"
  shows "c * (z div c) \<le> z" and "z < c * (z div c) + c"
  using assms mult_div_mod_eq [of c z] pos_mod_bound [of c z] pos_mod_sign [of c z] by linarith+

lemma days_before_year_lower: "146097 * y - 146796 \<le> 400 * days_before_year y"
proof -
  note d = div_bounds [of 4 "y - 1"] div_bounds [of 100 "y - 1"] div_bounds [of 400 "y - 1"]
  have "100 * y - 400 \<le> 400 * ((y - 1) div 4)" using d by linarith
  moreover have "400 * ((y - 1) div 100) \<le> 4 * y - 4" using d by linarith
  moreover have "y - 400 \<le> 400 * ((y - 1) div 400)" using d by linarith
  ultimately show ?thesis by (simp add: days_before_year_def algebra_simps)
qed

lemma days_before_year_upper: "400 * days_before_year y \<le> 146097 * y - 145701"
proof -
  note d = div_bounds [of 4 "y - 1"] div_bounds [of 100 "y - 1"] div_bounds [of 400 "y - 1"]
  have "400 * ((y - 1) div 4) \<le> 100 * y - 100" using d by linarith
  moreover have "4 * y - 400 \<le> 400 * ((y - 1) div 100)" using d by linarith
  moreover have "400 * ((y - 1) div 400) \<le> y - 1" using d by linarith
  ultimately show ?thesis by (simp add: days_before_year_def algebra_simps)
qed

lemma year_of_day_bounds:
  shows year_of_day_le: "days_before_year (year_of_day n) \<le> n + 719162"
    and year_of_day_gt: "n + 719162 < days_before_year (year_of_day n + 1)"
proof -
  define k where "k = n + 719162"
  define y where "y = (400 * k) div 146097 + 1"
  have b: "146097 * y - 146097 \<le> 400 * k" "400 * k < 146097 * y"
    using div_bounds [of 146097 "400 * k"] by (simp_all add: y_def algebra_simps)
  have lo: "days_before_year (y - 1) \<le> k"
    using b(1) days_before_year_upper [of "y - 1"] by (simp add: algebra_simps)
  have hi: "k < days_before_year (y + 2)"
    using b(2) days_before_year_lower [of "y + 2"] by (simp add: algebra_simps)
  have y: "year_of_day n = (if k < days_before_year y then y - 1
      else if days_before_year (y + 1) \<le> k then y + 1 else y)"
    by (simp add: year_of_day_def Let_def k_def y_def)
  have e: "y + 1 + 1 = y + 2" by simp
  show "days_before_year (year_of_day n) \<le> n + 719162"
    unfolding y k_def [symmetric] using lo by simp
  show "n + 719162 < days_before_year (year_of_day n + 1)"
    unfolding y k_def [symmetric] using hi by (simp add: e)
qed

lemma year_of_day_unique:
  assumes "days_before_year y \<le> n + 719162" and "n + 719162 < days_before_year (y + 1)"
  shows "year_of_day n = y"
proof (rule ccontr)
  assume "year_of_day n \<noteq> y"
  then consider "year_of_day n + 1 \<le> y" | "y + 1 \<le> year_of_day n" by linarith
  then show False
    using assms year_of_day_bounds [of n] days_before_year_mono by cases fastforce+
qed


lemma leap_cases [simp]: "leap y \<Longrightarrow> days_in 2 y = 29" "\<not> leap y \<Longrightarrow> days_in 2 y = 28"
  by (simp_all add: days_in_def)

text \<open>The months of the year, in the two kinds of years.\<close>

lemma month_cases:
  assumes "1 \<le> m" and "m \<le> (12::int)"
  obtains "m = 1" | "m = 2" | "m = 3" | "m = 4" | "m = 5" | "m = 6"
    | "m = 7" | "m = 8" | "m = 9" | "m = 10" | "m = 11" | "m = 12"
proof -
  have "m \<in> set [1..12]" using assms by simp
  moreover have "[1..12] = [1, 2, 3, 4, 5, 6, 7, 8, 9, 10, 11, 12 :: int]" by code_simp
  ultimately have "m \<in> set [1, 2, 3, 4, 5, 6, 7, 8, 9, 10, 11, 12]" by (simp only:)
  with that show thesis by auto
qed

lemma days_before_month_step:
  assumes "1 \<le> m" and "m \<le> 12"
  shows "days_before_month (leap y) (m + 1) = days_before_month (leap y) m + days_in m y"
  using assms by (rule month_cases) (simp_all add: days_before_month_def days_in_def)

lemma days_before_month_mono:
  assumes "1 \<le> m" and "m \<le> n" and "n \<le> 13"
  shows "days_before_month lp m \<le> days_before_month lp n"
  using assms(2,1,3)
proof (induction n rule: int_ge_induct)
  case base
  show ?case by simp
next
  case (step i)
  then have "1 \<le> i" "i \<le> 12" by simp_all
  then have "days_before_month lp i \<le> days_before_month lp (i + 1)"
    by (rule month_cases) (simp_all add: days_before_month_def)
  with step show ?case by simp
qed

lemma month_search:
  "month_of lp r =
     (case find (\<lambda>m. r < days_before_month lp m) [2..12] of None \<Rightarrow> 12 | Some m \<Rightarrow> m - 1)"
proof -
  have u: "[2..12] = [2, 3, 4, 5, 6, 7, 8, 9, 10, 11, 12 :: int]" by code_simp
  show ?thesis
    unfolding u month_of_def
    by (simp only: find.simps if_distrib [of "case_option _ _"] option.case)
      (simp cong: if_cong)
qed

lemma month_of_bounds:
  shows month_of_ge_1: "1 \<le> month_of lp r" and month_of_le_12: "month_of lp r \<le> 12"
  by (simp_all add: month_of_def)

lemma month_of_range:
  assumes "0 \<le> r" and "r < (if lp then 366 else 365)"
  shows month_of_start: "days_before_month lp (month_of lp r) \<le> r"
    and month_of_end: "r < days_before_month lp (month_of lp r + 1)"
proof -
  have "days_before_month lp (month_of lp r) \<le> r \<and> r < days_before_month lp (month_of lp r + 1)"
  proof (cases "find (\<lambda>m. r < days_before_month lp m) [2..12]")
    case None
    then have "\<not> (\<exists>m. m \<in> set [2..12] \<and> r < days_before_month lp m)" by (simp only: find_None_iff simp_thms)
    moreover have "(12::int) \<in> set [2..12]" by simp
    ultimately have "\<not> r < days_before_month lp 12" by blast
    moreover have "month_of lp r = 12" using None by (simp only: month_search option.case)
    moreover have "r < days_before_month lp (12 + 1)"
      using assms(2) by (cases lp) (simp_all add: days_before_month_def)
    ultimately show ?thesis by simp
  next
    case (Some m)
    from Some [unfolded find_Some_iff] obtain i
      where i: "i < length [2..12::int]" "m = [2..12] ! i" "r < days_before_month lp m"
        "\<forall>j<i. \<not> r < days_before_month lp ([2..12] ! j)"
      by blast
    have nth: "[2..12] ! j = 2 + int j" if "j \<le> i" for j
      using that i(1) by (intro nth_upto) simp
    then have m: "m = 2 + int i" using i(2) by simp
    have "days_before_month lp (m - 1) \<le> r"
    proof (cases i)
      case 0
      then show ?thesis using m assms(1) by (simp add: days_before_month_def)
    next
      case (Suc j)
      then have "\<not> r < days_before_month lp ([2..12] ! j)" using i(4) by blast
      moreover have "[2..12] ! j = m - 1" using nth [of j] Suc m by simp
      ultimately show ?thesis by simp
    qed
    moreover have "month_of lp r = m - 1" using Some by (simp only: month_search option.case)
    ultimately show ?thesis using i(3) by simp
  qed
  then show "days_before_month lp (month_of lp r) \<le> r"
    and "r < days_before_month lp (month_of lp r + 1)" by auto
qed

lemma month_of_day:
  assumes m: "1 \<le> m" "m \<le> 12" and r: "days_before_month lp m \<le> r" "r < days_before_month lp (m + 1)"
  shows "month_of lp r = m"
proof (rule ccontr)
  assume ne: "month_of lp r \<noteq> m"
  have "0 \<le> days_before_month lp m" "days_before_month lp (m + 1) \<le> (if lp then 366 else 365)"
    using days_before_month_mono [of 1 m lp] days_before_month_mono [of "m + 1" 13 lp] m
    by (simp_all add: days_before_month_def)
  with r have rng: "0 \<le> r" "r < (if lp then 366 else 365)" by simp_all
  note b = month_of_range [OF rng] month_of_bounds [of lp r]
  from ne consider "month_of lp r + 1 \<le> m" | "m + 1 \<le> month_of lp r" by linarith
  then show False
    using days_before_month_mono [of "month_of lp r + 1" m lp]
      days_before_month_mono [of "m + 1" "month_of lp r" lp] b r m by cases simp_all
qed

definition valid_date :: "int \<Rightarrow> int \<Rightarrow> int \<Rightarrow> bool" where
  "valid_date y m d \<longleftrightarrow> 1 \<le> m \<and> m \<le> 12 \<and> 1 \<le> d \<and> d \<le> days_in m y"

lemma days_before_month_bounds:
  assumes "1 \<le> m" and "m \<le> 12"
  shows "0 \<le> days_before_month lp m"
    and "days_before_month lp (m + 1) \<le> (if lp then 366 else 365)"
  using days_before_month_mono [of 1 m lp] days_before_month_mono [of "m + 1" 13 lp] assms
  by (simp_all add: days_before_month_def)

lemma civil_day_number:
  assumes "valid_date y m d"
  shows "civil (day_number y m d) = (y, m, d)"
proof -
  let ?r = "days_before_month (leap y) m + (d - 1)"
  have m: "1 \<le> m" "m \<le> 12" and d: "1 \<le> d" "d \<le> days_in m y"
    using assms by (auto simp: valid_date_def)
  note step = days_before_month_step [OF m, of y] and b = days_before_month_bounds [OF m, of "leap y"]
  have n: "day_number y m d + 719162 = days_before_year y + ?r" by (simp add: day_number_def)
  have "year_of_day (day_number y m d) = y"
    by (rule year_of_day_unique) (use b step d in \<open>simp_all add: n days_before_year_Suc\<close>)
  moreover have "month_of (leap y) ?r = m"
    by (rule month_of_day) (use m d step in simp_all)
  ultimately show ?thesis
    by (simp add: civil_def Let_def n)
qed

lemma day_number_civil:
  assumes "civil n = (y, m, d)"
  shows "day_number y m d = n" and "valid_date y m d"
proof -
  define r where "r = n + 719162 - days_before_year y"
  have y: "year_of_day n = y" and m: "m = month_of (leap y) r"
    and d: "d = r - days_before_month (leap y) m + 1"
    using assms by (auto simp: civil_def Let_def r_def)
  have r: "0 \<le> r" "r < (if leap y then 366 else 365)"
    using year_of_day_le [of n] year_of_day_gt [of n]
    by (simp_all add: y r_def days_before_year_Suc)
  have m12: "1 \<le> m" "m \<le> 12" by (simp_all add: m month_of_bounds)
  note rng = month_of_range [OF r]
  show "day_number y m d = n" by (simp add: day_number_def d r_def)
  show "valid_date y m d"
    using rng days_before_month_step [OF m12, of y] m12 d by (simp add: valid_date_def m)
qed


section \<open>Printing\<close>

text \<open>\<open>fixed w n\<close> is the last \<open>w\<close> decimal digits of \<open>n\<close>; \<open>zpad\<close> pads with zeros to a width.\<close>

primrec fixed :: "nat \<Rightarrow> nat \<Rightarrow> string" where
  "fixed 0 n = []"
| "fixed (Suc w) n = fixed w (n div 10) @ [digit_char (n mod 10)]"

definition zpad :: "nat \<Rightarrow> int \<Rightarrow> string" where
  "zpad w n =
     (if n < 0 then ''-'' else []) @ replicate (w - length (nat_digits (nat \<bar>n\<bar>))) (CHR ''0'')
       @ nat_digits (nat \<bar>n\<bar>)"

lemma zpad_code [code]:
  "zpad w n =
     (let ds = dec_digits \<bar>n\<bar>
      in (if n < 0 then ''-'' else []) @ replicate (w - length ds) (CHR ''0'') @ ds)"
  using dec_digits_nat [of "nat \<bar>n\<bar>"] by (simp add: zpad_def Let_def)

definition format_date :: "int \<Rightarrow> int \<Rightarrow> int \<Rightarrow> string" where
  "format_date y m d = zpad 4 y @ ''-'' @ zpad 2 m @ ''-'' @ zpad 2 d"

text \<open>\<^verbatim>\<open>t.UTC().Format(time.RFC3339)\<close> and \<^verbatim>\<open>t.UTC().Format("2006-01-02")\<close>.\<close>

definition seconds_of :: "instant \<Rightarrow> int" where "seconds_of t = t div second"
definition day_of :: "instant \<Rightarrow> int" where "day_of t = seconds_of t div 86400"
definition sec_of_day :: "instant \<Rightarrow> int" where "sec_of_day t = seconds_of t mod 86400"

definition format_clock :: "int \<Rightarrow> string" where
  "format_clock r =
     zpad 2 (r div 3600) @ '':'' @ zpad 2 (r div 60 mod 60) @ '':'' @ zpad 2 (r mod 60)"

definition format_day :: "instant \<Rightarrow> string" where
  "format_day t = (let (y, m, d) = civil (day_of t) in format_date y m d)"

definition format_rfc3339 :: "instant \<Rightarrow> string" where
  "format_rfc3339 t = format_day t @ ''T'' @ format_clock (sec_of_day t) @ ''Z''"

lemma length_fixed [simp]: "length (fixed w n) = w"
  by (induction w arbitrary: n) auto

lemma list_all_fixed [simp]: "list_all is_digit (fixed w n)"
  by (induction w arbitrary: n) auto

lemma digits_val_fixed: "digits_val (fixed w n) = int (n mod 10 ^ w)"
proof (induction w arbitrary: n)
  case 0
  then show ?case by (simp add: digits_val_def)
next
  case (Suc w)
  have "n mod 10 ^ Suc w = 10 * (n div 10 mod 10 ^ w) + n mod 10"
    by (simp only: power_Suc mod_mult2_eq)
  with Suc show ?case by (simp add: digits_val_append)
qed

lemma digit_char_0: "digit_char 0 = CHR ''0''"
  by code_simp

lemma fixed_0: "fixed w 0 = replicate w (CHR ''0'')"
  by (induction w) (simp_all add: digit_char_0 replicate_append_same)

lemma length_nat_digits_le: "n < 10 ^ Suc w \<Longrightarrow> length (nat_digits n) \<le> Suc w"
proof (induction w arbitrary: n)
  case 0
  then show ?case by (simp add: nat_digits.simps [of n])
next
  case (Suc w)
  then have "n div 10 < 10 ^ Suc w" by (simp add: less_mult_imp_div_less mult.commute)
  with Suc.IH [of "n div 10"] show ?case by (simp add: nat_digits.simps [of n])
qed

lemma zpad_fixed:
  assumes "0 \<le> n" and "n < 10 ^ Suc w"
  shows "zpad (Suc w) n = fixed (Suc w) (nat n)"
proof -
  have "replicate (Suc w - length (nat_digits k)) (CHR ''0'') @ nat_digits k = fixed (Suc w) k"
    if "k < 10 ^ Suc w" for k
    using that
  proof (induction w arbitrary: k)
    case 0
    then show ?case by (simp add: nat_digits.simps [of k])
  next
    case (Suc w)
    show ?case
    proof (cases "k < 10")
      case True
      then show ?thesis
        by (simp add: nat_digits.simps [of k] fixed_0 digit_char_0 replicate_append_same [symmetric])
    next
      case False
      have lt: "k div 10 < 10 ^ Suc w" using Suc.prems by (simp add: less_mult_imp_div_less mult.commute)
      with Suc.IH [OF lt] length_nat_digits_le [OF lt] False show ?thesis
        by (simp add: nat_digits.simps [of k] Suc_diff_le)
    qed
  qed
  then show ?thesis using assms by (simp add: zpad_def nat_less_iff)
qed

lemma zpad2: "0 \<le> n \<Longrightarrow> n < 100 \<Longrightarrow> zpad 2 n = fixed 2 (nat n)"
proof -
  assume "0 \<le> n" "n < 100"
  then have "zpad (Suc 1) n = fixed (Suc 1) (nat n)" by (intro zpad_fixed) simp_all
  then show ?thesis by (simp only: Suc_1)
qed

lemma zpad4: "0 \<le> n \<Longrightarrow> n < 10000 \<Longrightarrow> zpad 4 n = fixed 4 (nat n)"
proof -
  assume "0 \<le> n" "n < 10000"
  then have "zpad (Suc 3) n = fixed (Suc 3) (nat n)" by (intro zpad_fixed) simp_all
  moreover have "Suc 3 = 4" by simp
  ultimately show ?thesis by (simp only:)
qed


section \<open>Printed instants compare as strings the way the instants compare\<close>

lemma list_less_append:
  fixes a b x y :: string
  assumes "length a = length b"
  shows "a @ x < b @ y \<longleftrightarrow> a < b \<or> a = b \<and> x < y"
  using assms by (induction a b rule: list_induct2) auto

lemma fixed_less:
  assumes "a < b" and "b < 10 ^ w"
  shows "fixed w a < fixed w b"
  using assms
proof (induction w arbitrary: a b)
  case 0
  then show ?case by simp
next
  case (Suc w)
  have b: "b div 10 < 10 ^ w" using Suc.prems(2) by (simp add: less_mult_imp_div_less mult.commute)
  have "a div 10 \<le> b div 10" using Suc.prems(1) by (simp add: div_le_mono)
  then consider "a div 10 < b div 10" | "a div 10 = b div 10" by linarith
  then show ?case
  proof cases
    case 1
    with Suc.IH [OF 1 b] show ?thesis by (simp add: list_less_append)
  next
    case 2
    with Suc.prems(1) have "a mod 10 < b mod 10"
      by (metis div_mult_mod_eq nat_add_left_cancel_less)
    with 2 show ?thesis by (simp add: list_less_append digit_char_less_iff)
  qed
qed

lemma fields_less:
  fixes a b c a' b' c' :: int
  assumes "a < a' \<or> a = a' \<and> (b < b' \<or> b = b' \<and> c < c')"
    and "0 \<le> a" "0 \<le> b" "0 \<le> c" "nat a' < 10 ^ w" "nat b' < 100" "nat c' < 100"
  shows "fixed w (nat a) @ p @ fixed 2 (nat b) @ q @ fixed 2 (nat c)
    < fixed w (nat a') @ p @ fixed 2 (nat b') @ q @ fixed 2 (nat c')"
proof -
  have lt: "x < y \<Longrightarrow> nat y < 10 ^ v \<Longrightarrow> 0 \<le> x \<Longrightarrow> fixed v (nat x) < fixed v (nat y)" for x y :: int and v
    by (rule fixed_less) simp_all
  from assms(1) consider "a < a'" | "a = a'" "b < b'" | "a = a'" "b = b'" "c < c'" by blast
  then show ?thesis
    by cases (use lt [of a a' w] lt [of b b' 2] lt [of c c' 2] assms in \<open>simp_all add: list_less_append\<close>)
qed

text \<open>The years 0 to 9999.\<close>

definition in_era :: "instant \<Rightarrow> bool" where
  "in_era t \<longleftrightarrow> - 62167219200 * second \<le> t \<and> t < 253402300800 * second"

lemma seconds_of_mono: "t \<le> u \<Longrightarrow> seconds_of t \<le> seconds_of u"
  by (simp add: seconds_of_def second_def zdiv_mono1)

lemma day_of_mono: "t \<le> u \<Longrightarrow> day_of t \<le> day_of u"
  by (simp add: day_of_def seconds_of_mono zdiv_mono1)

lemma in_era_days:
  assumes "in_era t"
  shows "- 719528 \<le> day_of t" and "day_of t < 2932897"
proof -
  have "- 62167219200 * second \<le> t" and u: "t \<le> 253402300800 * second - 1"
    using assms by (auto simp: in_era_def)
  from day_of_mono [OF this(1)] show "- 719528 \<le> day_of t"
    by (simp add: day_of_def seconds_of_def second_def)
  from day_of_mono [OF u] show "day_of t < 2932897"
    by (simp add: day_of_def seconds_of_def second_def)
qed

lemma year_of_day_mono: "m \<le> n \<Longrightarrow> year_of_day m \<le> year_of_day n"
proof (rule ccontr)
  assume "m \<le> n" and "\<not> year_of_day m \<le> year_of_day n"
  then have "days_before_year (year_of_day n + 1) \<le> days_before_year (year_of_day m)"
    by (intro days_before_year_mono) simp
  with year_of_day_le [of m] year_of_day_gt [of n] \<open>m \<le> n\<close> show False by linarith
qed

lemma in_era_year:
  assumes "in_era t"
  shows "0 \<le> year_of_day (day_of t)" and "year_of_day (day_of t) < 10000"
proof -
  have "year_of_day (- 719528) = 0" and "year_of_day 2932896 = 9999" by code_simp+
  with year_of_day_mono [of "- 719528" "day_of t"] year_of_day_mono [of "day_of t" 2932896]
  show "0 \<le> year_of_day (day_of t)" and "year_of_day (day_of t) < 10000"
    using in_era_days [OF assms] by simp_all
qed

lemma days_in_le: "days_in m y \<le> 31"
  by (simp add: days_in_def)

text \<open>The printed date as three numbers of fixed width.\<close>

lemma format_day_fixed:
  assumes "in_era t" and "civil (day_of t) = (y, m, d)"
  shows "format_day t = fixed 4 (nat y) @ ''-'' @ fixed 2 (nat m) @ ''-'' @ fixed 2 (nat d)"
    and "0 \<le> y" and "y < 10000" and "1 \<le> m" and "m \<le> 12" and "1 \<le> d" and "d \<le> 31"
proof -
  have y: "0 \<le> y" "y < 10000"
    using in_era_year [OF assms(1)] assms(2) by (auto simp: civil_def Let_def)
  have v: "1 \<le> m" "m \<le> 12" "1 \<le> d" "d \<le> 31"
    using day_number_civil(2) [OF assms(2)] days_in_le [of m y] by (auto simp: valid_date_def)
  show "format_day t = fixed 4 (nat y) @ ''-'' @ fixed 2 (nat m) @ ''-'' @ fixed 2 (nat d)"
    using y v by (simp add: format_day_def assms(2) format_date_def zpad2 zpad4)
  show "0 \<le> y" and "y < 10000" and "1 \<le> m" and "m \<le> 12" and "1 \<le> d" and "d \<le> 31"
    using y v by blast+
qed

lemma length_format_day: "in_era t \<Longrightarrow> length (format_day t) = 10"
  by (cases "civil (day_of t)") (simp add: format_day_fixed(1))

lemma civil_mono:
  assumes "n < n'" and "civil n = (y, m, d)" and "civil n' = (y', m', d')"
  shows "y < y' \<or> y = y' \<and> (m < m' \<or> m = m' \<and> d < d')"
proof (rule ccontr)
  assume no: "\<not> ?thesis"
  have "y \<le> y'" using year_of_day_mono [of n n'] assms by (auto simp: civil_def Let_def)
  with no have [simp]: "y' = y" and "m' \<le> m" by auto
  have v: "1 \<le> m" "m \<le> 12" "d \<le> days_in m y" "1 \<le> m'" "m' \<le> 12" "d' \<le> days_in m' y" "1 \<le> d"
    using day_number_civil(2) [OF assms(2)] day_number_civil(2) [OF assms(3)]
    by (auto simp: valid_date_def)
  have "day_number y m' d' \<le> day_number y m d"
  proof (cases "m' = m")
    case True
    with no show ?thesis by (simp add: day_number_def)
  next
    case False
    with \<open>m' \<le> m\<close> v days_before_month_mono [of "m' + 1" m "leap y"]
      days_before_month_step [of m' y]
    show ?thesis by (simp add: day_number_def)
  qed
  then have "n' \<le> n"
    using day_number_civil(1) [OF assms(2)] day_number_civil(1) [OF assms(3)] by simp
  with assms(1) show False by simp
qed

lemma format_day_less:
  assumes "in_era t" and "in_era u" and "day_of t < day_of u"
  shows "format_day t < format_day u"
proof -
  obtain y m d y' m' d' where c: "civil (day_of t) = (y, m, d)" "civil (day_of u) = (y', m', d')"
    by (cases "civil (day_of t)"; cases "civil (day_of u)") auto
  note ft = format_day_fixed [OF assms(1) c(1)] and fu = format_day_fixed [OF assms(2) c(2)]
  have "y < y' \<or> y = y' \<and> (m < m' \<or> m = m' \<and> d < d')"
    using assms(3) c by (rule civil_mono)
  then show ?thesis
    unfolding ft(1) fu(1) by (rule fields_less) (use ft(2-) fu(2-) in simp_all)
qed

lemma sec_of_day_bounds: "0 \<le> sec_of_day t" "sec_of_day t < 86400"
  by (simp_all add: sec_of_day_def)

lemma clock_bounds:
  assumes "0 \<le> r" and "r < (86400::int)"
  shows "0 \<le> r div 3600" and "r div 3600 < 24" and "0 \<le> r div 60 mod 60" and "r div 60 mod 60 < 60"
    and "0 \<le> r mod 60" and "r mod 60 < 60"
  using assms by (simp_all add: pos_imp_zdiv_nonneg_iff)

lemma clock_split: "r = 3600 * (r div 3600) + 60 * (r div 60 mod 60) + r mod 60" for r :: int
proof -
  have "r div 3600 = r div 60 div 60" by (simp add: zdiv_zmult2_eq [symmetric])
  moreover have "r = 60 * (r div 60) + r mod 60" by simp
  moreover have "r div 60 = 60 * (r div 60 div 60) + r div 60 mod 60" by simp
  ultimately show ?thesis by linarith
qed

lemma format_clock_fixed:
  assumes "0 \<le> r" and "r < 86400"
  shows "format_clock r = fixed 2 (nat (r div 3600)) @ '':'' @ fixed 2 (nat (r div 60 mod 60))
     @ '':'' @ fixed 2 (nat (r mod 60))"
  using clock_bounds [OF assms] by (simp add: format_clock_def zpad2)

lemma mixed_radix_less:
  fixes h m s h' m' s' :: int
  assumes "3600 * h + 60 * m + s < 3600 * h' + 60 * m' + s'"
    and "0 \<le> m" "m < 60" "0 \<le> s" "s < 60" "0 \<le> m'" "m' < 60" "0 \<le> s'" "s' < 60"
  shows "h < h' \<or> h = h' \<and> (m < m' \<or> m = m' \<and> s < s')"
proof (cases "h < h'")
  case False
  with assms have "h = h'" by linarith
  with assms show ?thesis by linarith
qed simp

text \<open>The clock of a second of the day as three numbers.\<close>

lemma clock_fields:
  assumes "0 \<le> r" and "r < 86400"
  obtains h m s where "r = 3600 * h + 60 * m + s" and "0 \<le> h" and "h < 24" and "0 \<le> m" and "m < 60"
    and "0 \<le> s" and "s < 60"
    and "format_clock r = fixed 2 (nat h) @ '':'' @ fixed 2 (nat m) @ '':'' @ fixed 2 (nat s)"
  using that [OF clock_split clock_bounds [OF assms] format_clock_fixed [OF assms]] by blast

lemma format_clock_less:
  assumes "0 \<le> r" and "r < r'" and "r' < 86400"
  shows "format_clock r < format_clock r'"
proof -
  have r: "0 \<le> r" "r < 86400" "0 \<le> r'" "r' < 86400" using assms by simp_all
  obtain h m s where f: "r = 3600 * h + 60 * m + s" "0 \<le> h" "h < 24" "0 \<le> m" "m < 60" "0 \<le> s" "s < 60"
    "format_clock r = fixed 2 (nat h) @ '':'' @ fixed 2 (nat m) @ '':'' @ fixed 2 (nat s)"
    using clock_fields [OF r(1,2)] by metis
  obtain h' m' s' where f': "r' = 3600 * h' + 60 * m' + s'" "0 \<le> h'" "h' < 24" "0 \<le> m'" "m' < 60"
    "0 \<le> s'" "s' < 60"
    "format_clock r' = fixed 2 (nat h') @ '':'' @ fixed 2 (nat m') @ '':'' @ fixed 2 (nat s')"
    using clock_fields [OF r(3,4)] by metis
  have "h < h' \<or> h = h' \<and> (m < m' \<or> m = m' \<and> s < s')"
    using assms(2) unfolding f(1) f'(1) by (rule mixed_radix_less) fact+
  then show ?thesis
    unfolding f(8) f'(8) by (rule fields_less) (use f(2-7) f'(2-7) in \<open>simp_all add: nat_less_iff\<close>)
qed

lemma format_less:
  assumes "in_era t" and "in_era u" and "seconds_of t < seconds_of u"
  shows "format_rfc3339 t < format_rfc3339 u"
proof (cases "day_of t = day_of u")
  case True
  then have "sec_of_day t < sec_of_day u"
    using assms(3) mult_div_mod_eq [of 86400 "seconds_of t"] mult_div_mod_eq [of 86400 "seconds_of u"]
    unfolding day_of_def sec_of_day_def by linarith
  then have "format_clock (sec_of_day t) < format_clock (sec_of_day u)"
    using sec_of_day_bounds by (intro format_clock_less) auto
  moreover have "length (format_clock (sec_of_day t)) = length (format_clock (sec_of_day u))"
    by (simp add: format_clock_fixed sec_of_day_bounds)
  moreover have "format_day t = format_day u" using True by (simp add: format_day_def)
  ultimately show ?thesis by (simp add: format_rfc3339_def list_less_append)
next
  case False
  moreover have "day_of t \<le> day_of u" using assms(3) by (simp add: day_of_def zdiv_mono1)
  ultimately have "format_day t < format_day u" using assms by (intro format_day_less) auto
  then show ?thesis
    using assms by (simp add: format_rfc3339_def list_less_append length_format_day)
qed

lemma format_less_iff:
  assumes "in_era t" and "in_era u"
  shows "format_rfc3339 t < format_rfc3339 u \<longleftrightarrow> seconds_of t < seconds_of u"
proof
  assume "format_rfc3339 t < format_rfc3339 u"
  moreover have "format_rfc3339 t = format_rfc3339 u" if "seconds_of t = seconds_of u"
    using that by (simp add: format_rfc3339_def format_day_def day_of_def sec_of_day_def)
  ultimately show "seconds_of t < seconds_of u"
    using format_less [OF assms(2,1)] by (metis linorder_neqE order_less_asym order_less_irrefl)
qed (rule format_less [OF assms])


section \<open>Parsing\<close>

definition expect :: "char \<Rightarrow> string \<Rightarrow> string option" where
  "expect c s = (case s of [] \<Rightarrow> None | x # r \<Rightarrow> if x = c then Some r else None)"

text \<open>\<^verbatim>\<open>getnum(s, fixed)\<close>: two digits, or one where \<open>two\<close> does not insist on both.\<close>

definition get_num :: "bool \<Rightarrow> string \<Rightarrow> (int \<times> string) option" where
  "get_num two s =
     (case s of
        [] \<Rightarrow> None
      | a # r \<Rightarrow>
          if \<not> is_digit a then None
          else (case r of
                  [] \<Rightarrow> if two then None else Some (digit_val a, r)
                | b # r' \<Rightarrow>
                    if is_digit b then Some (10 * digit_val a + digit_val b, r')
                    else if two then None else Some (digit_val a, r)))"

definition get_year :: "string \<Rightarrow> (int \<times> string) option" where
  "get_year s =
     (if length s < 4 \<or> \<not> list_all is_digit (take 4 s) then None
      else Some (digits_val (take 4 s), drop 4 s))"

text \<open>An optional fraction after the seconds, in nanoseconds: digits past the ninth are dropped.\<close>

definition get_fraction :: "string \<Rightarrow> int \<times> string" where
  "get_fraction s =
     (case s of
        c # d # r \<Rightarrow>
          if (c = CHR ''.'' \<or> c = CHR '','') \<and> is_digit d
          then let ds = take 9 (takeWhile is_digit (d # r))
               in (digits_val ds * 10 ^ (9 - length ds), dropWhile is_digit (d # r))
          else (0, s)
      | _ \<Rightarrow> (0, s))"

text \<open>The zone: seconds east of UTC.\<close>

definition get_zone :: "string \<Rightarrow> (int \<times> string) option" where
  "get_zone s =
     (if take 1 s = ''Z'' then Some (0, drop 1 s)
      else if length s < 6 \<or> s ! 3 \<noteq> CHR '':'' then None
      else do {
        (hh, _) \<leftarrow> get_num True (take 2 (drop 1 s));
        (mm, _) \<leftarrow> get_num True (take 2 (drop 4 s));
        if hh > 24 \<or> mm > 60 then None
        else if s ! 0 = CHR ''+'' then Some ((hh * 60 + mm) * 60, drop 6 s)
        else if s ! 0 = CHR ''-'' then Some (- ((hh * 60 + mm) * 60), drop 6 s)
        else None
      })"

definition get_date :: "string \<Rightarrow> (int \<times> string) option" where
  "get_date s =
     do {
       (y, s) \<leftarrow> get_year s;
       s \<leftarrow> expect (CHR ''-'') s;
       (m, s) \<leftarrow> get_num True s;
       s \<leftarrow> expect (CHR ''-'') s;
       (d, s) \<leftarrow> get_num True s;
       if valid_date y m d then Some (day_number y m d, s) else None
     }"

definition get_clock :: "string \<Rightarrow> (int \<times> string) option" where
  "get_clock s =
     do {
       (h, s) \<leftarrow> get_num False s;
       s \<leftarrow> expect (CHR '':'') s;
       (m, s) \<leftarrow> get_num True s;
       s \<leftarrow> expect (CHR '':'') s;
       (c, s) \<leftarrow> get_num True s;
       if h < 24 \<and> m < 60 \<and> c < 60 then Some (3600 * h + 60 * m + c, s) else None
     }"

definition parse_rfc3339 :: "string \<Rightarrow> instant option" where
  "parse_rfc3339 s =
     do {
       (day, s) \<leftarrow> get_date s;
       s \<leftarrow> expect (CHR ''T'') s;
       (r, s) \<leftarrow> get_clock s;
       let (ns, s) = get_fraction s;
       (zone, s) \<leftarrow> get_zone s;
       if s \<noteq> [] then None else Some ((86400 * day + r - zone) * second + ns)
     }"

definition parse_date :: "string \<Rightarrow> instant option" where
  "parse_date s =
     do {
       (day, s) \<leftarrow> get_date s;
       if s \<noteq> [] then None else Some (86400 * day * second)
     }"

lemma expect_same [simp]: "expect c (c # s) = Some s"
  by (simp add: expect_def)

lemma get_num_fixed [simp]: "n < 100 \<Longrightarrow> get_num two (fixed 2 n @ s) = Some (int n, s)"
proof -
  assume "n < 100"
  then have "n div 10 mod 10 = n div 10" by (intro mod_less) (simp add: less_mult_imp_div_less)
  moreover have "10 * int (n div 10) + int (n mod 10) = int n" by presburger
  ultimately show ?thesis by (simp add: get_num_def numeral_2_eq_2)
qed

lemma get_year_fixed [simp]: "n < 10000 \<Longrightarrow> get_year (fixed 4 n @ s) = Some (int n, s)"
  using list_all_fixed [of 4 n] digits_val_fixed [of 4 n] by (simp add: get_year_def)

lemma get_date_format:
  assumes "in_era t"
  shows "get_date (format_day t @ s) = Some (day_of t, s)"
proof -
  obtain y m d where c: "civil (day_of t) = (y, m, d)" by (cases "civil (day_of t)") auto
  note f = format_day_fixed [OF assms c]
  then show ?thesis
    using day_number_civil [OF c]
    by (simp add: f(1) get_date_def nat_less_iff)
qed

lemma get_clock_format:
  assumes "0 \<le> r" and "r < 86400"
  shows "get_clock (format_clock r @ s) = Some (r, s)"
proof -
  obtain h m c where f: "r = 3600 * h + 60 * m + c" "0 \<le> h" "h < 24" "0 \<le> m" "m < 60" "0 \<le> c" "c < 60"
    "format_clock r = fixed 2 (nat h) @ '':'' @ fixed 2 (nat m) @ '':'' @ fixed 2 (nat c)"
    using clock_fields [OF assms] by metis
  then show ?thesis by (simp add: f(8) get_clock_def nat_less_iff)
qed

lemma day_clock: "86400 * day_of t + sec_of_day t = seconds_of t"
  by (simp add: day_of_def sec_of_day_def)

lemma parse_format:
  assumes "in_era t"
  shows "parse_rfc3339 (format_rfc3339 t) = Some (seconds_of t * second)"
  using get_date_format [OF assms] get_clock_format [OF sec_of_day_bounds, of t] day_clock [of t]
  by (simp add: parse_rfc3339_def format_rfc3339_def get_fraction_def get_zone_def)

lemma parse_date_format:
  assumes "in_era t"
  shows "parse_date (format_day t) = Some (86400 * day_of t * second)"
  using get_date_format [OF assms, of "[]"] by (simp add: parse_date_def)

lemma seconds_of_second [simp]: "seconds_of (n * second) = n"
  by (simp add: seconds_of_def second_def)

lemma format_prefix: "in_era t \<Longrightarrow> take 10 (format_rfc3339 t) = format_day t"
  by (simp add: format_rfc3339_def length_format_day)

lemma format_not_empty [simp]: "format_rfc3339 t \<noteq> []"
  by (simp add: format_rfc3339_def)

lemma in_era_whole: "in_era t \<Longrightarrow> in_era (seconds_of t * second)"
  by (auto simp: in_era_def seconds_of_def second_def)

lemma format_whole [simp]: "format_rfc3339 (seconds_of t * second) = format_rfc3339 t"
  by (simp add: format_rfc3339_def format_day_def day_of_def sec_of_day_def)

end
