(* ===== verification/Policy.thy ===== *)
theory Policy
  imports Go_Float Go_Strings
begin

text \<open>
  The program policy: the document of \<^verbatim>\<open>portal/internal/policy/policy.go\<close> and of
  \<^verbatim>\<open>agent/internal/policy/policy.go\<close> (the structs agree field by field), the validation each side runs
  on it. \<open>policy_checks_agree\<close> (in \<open>Store_Properties\<close>) says how the two relate: both accept the
  documents of one specification, and the portal also wants the types of the acceptance floors.

  YAML and JSON decoding happen in libraries; the model starts from the decoded document. A
  non-finite number is outside \<^typ>\<open>float64\<close>; the code rejects one in a mix or ratio, since
  \<^verbatim>\<open>approximatelyEqual\<close> is false on it.
\<close>

text \<open>Error values. A constructor per source of errors; \<open>Msg\<close> is \<^verbatim>\<open>errors.New\<close> of a constant.\<close>

datatype goerr =
    Msg string
  | Invalid_Policy string
  | Hex_Invalid_Byte char
  | Hex_Odd_Length
  | Time_Syntax string
  | Json_Error string
  | Field_Error string string
  | Io_Error string

record acceptance_floor =
  af_Type :: string
  af_Minimum :: float64

record cpu_workload_mix =
  wm_Hashing :: float64
  wm_Integer :: float64
  wm_Matrix :: float64

record cpu_profile =
  cpu_ID :: string
  cpu_DurationSeconds :: int
  cpu_WarmupSeconds :: int
  cpu_MeasuredSeconds :: int
  cpu_CooldownSeconds :: int
  cpu_WorkerCap :: int
  cpu_WorkloadMix :: cpu_workload_mix
  cpu_AcceptanceFloor :: acceptance_floor

record disk_profile =
  disk_ID :: string
  disk_DurationSeconds :: int
  disk_WarmupSeconds :: int
  disk_MeasuredSeconds :: int
  disk_CooldownSeconds :: int
  disk_BlockSizeBytes :: int
  disk_QueueDepth :: int
  disk_Concurrency :: int
  disk_ReadRatio :: float64
  disk_WriteRatio :: float64
  disk_AcceptanceFloor :: acceptance_floor

record hardware_thresholds =
  hw_CPUCoresMin :: int
  hw_RAMGBMin :: int
  hw_StorageGBMin :: int
  hw_SSDRequired :: bool

record probe_thresholds =
  pt_FinalizedLagMaxBlocks :: int
  pt_ChainLagMaxBlocks :: int

record reference_environment =
  ref_ID :: string
  ref_OSImageID :: string
  ref_AgentVersion :: string
  ref_CPUProfileID :: string
  ref_DiskProfileID :: string
  ref_BaselineSourceDate :: string

record policy_document =
  po_PolicyVersion :: string
  po_HeartbeatIntervalSeconds :: int
  po_CPUProfile :: cpu_profile
  po_DiskProfile :: disk_profile
  po_HardwareThresholds :: hardware_thresholds
  po_ProbeThresholds :: probe_thresholds
  po_ReferenceEnvironment :: reference_environment

definition approximatelyEqual :: "float64 \<Rightarrow> float64 \<Rightarrow> bool" where
  "approximatelyEqual left right \<longleftrightarrow> \<bar>fsub left right\<bar> \<le> flit (1 / 10 ^ 9)"

definition mix_total :: "cpu_workload_mix \<Rightarrow> float64" where
  "mix_total m = fadd (fadd (wm_Hashing m) (wm_Integer m)) (wm_Matrix m)"

text \<open>The portal's checks, in its order; \<open>None\<close> is \<^verbatim>\<open>nil\<close>.\<close>

definition portal_validate :: "policy_document \<Rightarrow> goerr option" where
  "portal_validate doc =
     (let cpu = po_CPUProfile doc; disk = po_DiskProfile doc; hw = po_HardwareThresholds doc;
          pt = po_ProbeThresholds doc; env = po_ReferenceEnvironment doc;
          err = (\<lambda>m. Some (Invalid_Policy m))
      in if po_PolicyVersion doc = [] then err ''missing policy_version''
         else if po_HeartbeatIntervalSeconds doc \<le> 0
           then err ''heartbeat_interval_seconds must be positive''
         else if cpu_ID cpu = [] \<or> disk_ID disk = [] then err ''missing profile id''
         else if cpu_DurationSeconds cpu \<le> 0 \<or> cpu_WarmupSeconds cpu \<le> 0
           \<or> cpu_MeasuredSeconds cpu \<le> 0 \<or> cpu_CooldownSeconds cpu \<le> 0
           then err ''cpu_profile durations must be positive''
         else if cpu_WorkerCap cpu \<le> 0 then err ''cpu_profile.worker_cap must be positive''
         else if \<not> approximatelyEqual (mix_total (cpu_WorkloadMix cpu)) 1
           then err ''cpu_profile.workload_mix must sum to 1.0''
         else if af_Type (cpu_AcceptanceFloor cpu) = []
           then err ''missing cpu_profile.acceptance_floor.type''
         else if disk_DurationSeconds disk \<le> 0 \<or> disk_WarmupSeconds disk \<le> 0
           \<or> disk_MeasuredSeconds disk \<le> 0 \<or> disk_CooldownSeconds disk \<le> 0
           then err ''disk_profile durations must be positive''
         else if disk_BlockSizeBytes disk \<le> 0 \<or> disk_QueueDepth disk \<le> 0 \<or> disk_Concurrency disk \<le> 0
           then err ''disk_profile performance parameters must be positive''
         else if \<not> approximatelyEqual (fadd (disk_ReadRatio disk) (disk_WriteRatio disk)) 1
           then err ''disk_profile read/write ratios must sum to 1.0''
         else if af_Type (disk_AcceptanceFloor disk) = []
           then err ''missing disk_profile.acceptance_floor.type''
         else if hw_CPUCoresMin hw \<le> 0 \<or> hw_RAMGBMin hw \<le> 0 \<or> hw_StorageGBMin hw \<le> 0
           then err ''hardware thresholds must be positive''
         else if pt_FinalizedLagMaxBlocks pt \<le> 0
           then err ''probe_thresholds.finalized_lag_max_blocks must be positive''
         else if pt_ChainLagMaxBlocks pt \<le> 0
           then err ''probe_thresholds.chain_lag_max_blocks must be positive''
         else if ref_ID env = [] \<or> ref_OSImageID env = [] \<or> ref_AgentVersion env = []
           \<or> ref_CPUProfileID env = [] \<or> ref_DiskProfileID env = [] \<or> ref_BaselineSourceDate env = []
           then err ''missing reference_environment fields''
         else if ref_CPUProfileID env \<noteq> cpu_ID cpu \<or> ref_DiskProfileID env \<noteq> disk_ID disk
           then err ''reference_environment profile ids must match active profiles''
         else None)"

text \<open>The agent's copy of the checks lacks the two on \<^verbatim>\<open>acceptance_floor.type\<close>.\<close>

definition agent_validate :: "policy_document \<Rightarrow> goerr option" where
  "agent_validate doc =
     (let cpu = po_CPUProfile doc; disk = po_DiskProfile doc; hw = po_HardwareThresholds doc;
          pt = po_ProbeThresholds doc; env = po_ReferenceEnvironment doc;
          err = (\<lambda>m. Some (Invalid_Policy m))
      in if po_PolicyVersion doc = [] then err ''missing policy_version''
         else if po_HeartbeatIntervalSeconds doc \<le> 0
           then err ''heartbeat_interval_seconds must be positive''
         else if cpu_ID cpu = [] \<or> disk_ID disk = [] then err ''missing profile id''
         else if cpu_DurationSeconds cpu \<le> 0 \<or> cpu_WarmupSeconds cpu \<le> 0
           \<or> cpu_MeasuredSeconds cpu \<le> 0 \<or> cpu_CooldownSeconds cpu \<le> 0
           then err ''cpu_profile durations must be positive''
         else if cpu_WorkerCap cpu \<le> 0 then err ''cpu_profile.worker_cap must be positive''
         else if \<not> approximatelyEqual (mix_total (cpu_WorkloadMix cpu)) 1
           then err ''cpu_profile.workload_mix must sum to 1.0''
         else if disk_DurationSeconds disk \<le> 0 \<or> disk_WarmupSeconds disk \<le> 0
           \<or> disk_MeasuredSeconds disk \<le> 0 \<or> disk_CooldownSeconds disk \<le> 0
           then err ''disk_profile durations must be positive''
         else if disk_BlockSizeBytes disk \<le> 0 \<or> disk_QueueDepth disk \<le> 0 \<or> disk_Concurrency disk \<le> 0
           then err ''disk_profile performance parameters must be positive''
         else if \<not> approximatelyEqual (fadd (disk_ReadRatio disk) (disk_WriteRatio disk)) 1
           then err ''disk_profile read/write ratios must sum to 1.0''
         else if hw_CPUCoresMin hw \<le> 0 \<or> hw_RAMGBMin hw \<le> 0 \<or> hw_StorageGBMin hw \<le> 0
           then err ''hardware thresholds must be positive''
         else if pt_FinalizedLagMaxBlocks pt \<le> 0
           then err ''probe_thresholds.finalized_lag_max_blocks must be positive''
         else if pt_ChainLagMaxBlocks pt \<le> 0
           then err ''probe_thresholds.chain_lag_max_blocks must be positive''
         else if ref_ID env = [] \<or> ref_OSImageID env = [] \<or> ref_AgentVersion env = []
           \<or> ref_CPUProfileID env = [] \<or> ref_DiskProfileID env = [] \<or> ref_BaselineSourceDate env = []
           then err ''missing reference_environment fields''
         else if ref_CPUProfileID env \<noteq> cpu_ID cpu \<or> ref_DiskProfileID env \<noteq> disk_ID disk
           then err ''reference_environment profile ids must match active profiles''
         else None)"

text \<open>What an accepted document promises: the specification both validators implement.\<close>

definition good_cpu :: "cpu_profile \<Rightarrow> bool" where
  "good_cpu p \<longleftrightarrow> cpu_ID p \<noteq> [] \<and> 0 < cpu_DurationSeconds p \<and> 0 < cpu_WarmupSeconds p
     \<and> 0 < cpu_MeasuredSeconds p \<and> 0 < cpu_CooldownSeconds p \<and> 0 < cpu_WorkerCap p
     \<and> approximatelyEqual (mix_total (cpu_WorkloadMix p)) 1"

definition good_disk :: "disk_profile \<Rightarrow> bool" where
  "good_disk p \<longleftrightarrow> disk_ID p \<noteq> [] \<and> 0 < disk_DurationSeconds p \<and> 0 < disk_WarmupSeconds p
     \<and> 0 < disk_MeasuredSeconds p \<and> 0 < disk_CooldownSeconds p \<and> 0 < disk_BlockSizeBytes p
     \<and> 0 < disk_QueueDepth p \<and> 0 < disk_Concurrency p
     \<and> approximatelyEqual (fadd (disk_ReadRatio p) (disk_WriteRatio p)) 1"

definition good_thresholds :: "policy_document \<Rightarrow> bool" where
  "good_thresholds doc \<longleftrightarrow>
     0 < hw_CPUCoresMin (po_HardwareThresholds doc) \<and> 0 < hw_RAMGBMin (po_HardwareThresholds doc)
     \<and> 0 < hw_StorageGBMin (po_HardwareThresholds doc)
     \<and> 0 < pt_FinalizedLagMaxBlocks (po_ProbeThresholds doc)
     \<and> 0 < pt_ChainLagMaxBlocks (po_ProbeThresholds doc)"

definition good_reference :: "policy_document \<Rightarrow> bool" where
  "good_reference doc \<longleftrightarrow>
     (let env = po_ReferenceEnvironment doc
      in ref_ID env \<noteq> [] \<and> ref_OSImageID env \<noteq> [] \<and> ref_AgentVersion env \<noteq> []
         \<and> ref_BaselineSourceDate env \<noteq> [] \<and> ref_CPUProfileID env = cpu_ID (po_CPUProfile doc)
         \<and> ref_DiskProfileID env = disk_ID (po_DiskProfile doc))"

definition good_policy :: "policy_document \<Rightarrow> bool" where
  "good_policy doc \<longleftrightarrow> po_PolicyVersion doc \<noteq> [] \<and> 0 < po_HeartbeatIntervalSeconds doc
     \<and> good_cpu (po_CPUProfile doc) \<and> good_disk (po_DiskProfile doc)
     \<and> good_thresholds doc \<and> good_reference doc"

definition has_floor_types :: "policy_document \<Rightarrow> bool" where
  "has_floor_types doc \<longleftrightarrow> af_Type (cpu_AcceptanceFloor (po_CPUProfile doc)) \<noteq> []
     \<and> af_Type (disk_AcceptanceFloor (po_DiskProfile doc)) \<noteq> []"

lemmas good_defs = good_policy_def good_cpu_def good_disk_def good_thresholds_def good_reference_def

lemma if_Some_eq_None: "(if c then Some e else r) = None \<longleftrightarrow> \<not> c \<and> r = None"
  by simp

lemma agent_validate_iff: "agent_validate doc = None \<longleftrightarrow> good_policy doc"
  unfolding agent_validate_def Let_def if_Some_eq_None good_defs
  by (simp only: not_le de_Morgan_disj simp_thms, rule iffI; elim conjE; intro conjI; (assumption | simp))

lemma portal_validate_iff: "portal_validate doc = None \<longleftrightarrow> good_policy doc \<and> has_floor_types doc"
  unfolding portal_validate_def Let_def if_Some_eq_None good_defs has_floor_types_def
  by (simp only: not_le de_Morgan_disj simp_thms, rule iffI; elim conjE; intro conjI; (assumption | simp))

end
