(* ===== verification/Notifier.thy ===== *)
theory Notifier
  imports Go_Strings Policy
begin

text \<open>
  \<^verbatim>\<open>portal/internal/notifier\<close>: the notification value, its mail subject and body
  (\<^verbatim>\<open>notifier.go\<close>), the in-memory \<^verbatim>\<open>Recorder\<close> (\<^verbatim>\<open>recorder.go\<close>), and the checks \<^verbatim>\<open>SMTPNotifier.Send\<close>
  makes before it opens a connection (\<^verbatim>\<open>smtp.go\<close>). The session that follows is
  in \<open>Mail_Session\<close>; \<^verbatim>\<open>mail.ParseAddress\<close> is a parameter (its error text, if any). The error of a send is its text.
\<close>

datatype severity = Critical | Warning

fun severity_str :: "severity \<Rightarrow> string" where
  "severity_str Critical = ''critical''"
| "severity_str Warning = ''warning''"

record notification =
  no_NodeID :: string
  no_AlertCode :: string
  no_Severity :: severity
  no_Channel :: string
  no_Recipient :: string
  no_OccurredAt :: string
  no_Message :: string

definition Subject :: "(string \<Rightarrow> string) \<Rightarrow> notification \<Rightarrow> string" where
  "Subject upper n =
     ''[SSNP]['' @ to_upper upper (severity_str (no_Severity n)) @ ''] '' @ no_AlertCode n @ '' ''
       @ no_NodeID n"

definition nl :: string where "nl = [CHR 0x0A]"

definition Body :: "notification \<Rightarrow> string" where
  "Body n =
     ''node_id: '' @ no_NodeID n @ nl
     @ ''alert_code: '' @ no_AlertCode n @ nl
     @ ''severity: '' @ severity_str (no_Severity n) @ nl
     @ ''occurred_at: '' @ no_OccurredAt n @ nl
     @ ''message: '' @ no_Message n @ nl
     @ ''note: dedupe/cooldown may suppress repeats'' @ nl"

section \<open>The recorder\<close>

record recorder =
  rc_Notifications :: "notification list"
  rc_Err :: "string option"

definition Recorder_Send :: "recorder \<Rightarrow> notification \<Rightarrow> recorder \<times> string option" where
  "Recorder_Send r n =
     (case rc_Err r of
        Some e \<Rightarrow> (r, Some e)
      | None \<Rightarrow> (r\<lparr>rc_Notifications := rc_Notifications r @ [n]\<rparr>, None))"

definition Recorder_Count :: "recorder \<Rightarrow> nat" where
  "Recorder_Count r = length (rc_Notifications r)"

definition Recorder_Last :: "recorder \<Rightarrow> notification option" where
  "Recorder_Last r = (if rc_Notifications r = [] then None else Some (last (rc_Notifications r)))"

definition FailingRecorder :: "string \<Rightarrow> recorder" where
  "FailingRecorder m = \<lparr>rc_Notifications = [], rc_Err = Some m\<rparr>"

definition Noop_Send :: "'w \<Rightarrow> notification \<Rightarrow> 'w \<times> string option" where
  "Noop_Send w n = (w, None)"

lemma Recorder_Send_ok:
  "snd (Recorder_Send r n) = None \<Longrightarrow>
     rc_Notifications (fst (Recorder_Send r n)) = rc_Notifications r @ [n]"
  by (auto simp: Recorder_Send_def split: option.splits)

lemma Recorder_Send_err: "snd (Recorder_Send r n) \<noteq> None \<Longrightarrow> fst (Recorder_Send r n) = r"
  by (auto simp: Recorder_Send_def split: option.splits)

section \<open>The guards of the mail notifier\<close>

record smtp_config =
  sm_Host :: string
  sm_Port :: int
  sm_Username :: string
  sm_Password :: string
  sm_From :: string
  sm_Timeout :: int

definition smtp_guards :: "(string \<Rightarrow> string option) \<Rightarrow> smtp_config \<Rightarrow> notification \<Rightarrow> string option" where
  "smtp_guards parse_address c n =
     (if trim_space (sm_Host c) = [] then Some ''missing smtp host''
      else if sm_Port c \<le> 0 then Some ''missing smtp port''
      else if trim_space (sm_Username c) = [] then Some ''missing smtp username''
      else if sm_Password c = [] then Some ''missing smtp password''
      else case parse_address (sm_From c) of
        Some err \<Rightarrow> Some (''invalid from address: '' @ err)
      | None \<Rightarrow>
          map_option (\<lambda>err. ''invalid recipient address: '' @ err) (parse_address (no_Recipient n)))"

end
