(* ===== verification/Portal_World.thy ===== *)
theory Portal_World
  imports Store Go_Time Notifier
begin

text \<open>
  What the portal's server is made of besides the store: its configuration
  (\<^verbatim>\<open>portal/internal/server/server.go\<close>, \<^verbatim>\<open>Config\<close>), the clock, and the outside world it acts on.

  Each \<^verbatim>\<open>time.Now()\<close> of a handler reads the clock at its own \<open>site\<close>; a run of a handler gets a
  reading for every site (\<open>clk\<close>), so nothing ties two readings together unless a lemma says so.

  The outside world is a value of any type \<open>'w\<close> threaded through the two calls that act on it:
  \<open>out_send\<close> (\<^verbatim>\<open>Notifier.Send\<close>) and \<open>out_save\<close> (\<^verbatim>\<open>Store.Save\<close> at the configured path); each returns the
  world after the call and its error. The remaining fields are functions of libraries: case mapping
  of non-ASCII text, \<^verbatim>\<open>ed25519.Verify\<close> and \<^verbatim>\<open>sha256.Sum256\<close>.
\<close>

datatype site =
    At_Validate | At_Challenge | At_Enroll_Check | At_Enroll_Registered | At_Enroll_Used
  | At_Summary | At_Anchor | At_Decision | At_Base | At_Ranking | At_Eligibility | At_Allocation
  | At_Artifacts | At_Flag nat | At_Response

type_synonym clk = "site \<Rightarrow> instant"

datatype notifier_choice = Smtp smtp_config | Stdout | Noop | Custom

record config =
  cfg_ListenAddr :: string
  cfg_PolicyPath :: string
  cfg_NodesConfigPath :: string
  cfg_StatePath :: string
  cfg_AllowedClockSkewSeconds :: int
  cfg_NotificationEmailTo :: string
  cfg_SMTPHost :: string
  cfg_SMTPPort :: int
  cfg_SMTPUsername :: string
  cfg_SMTPPassword :: string
  cfg_SMTPFrom :: string
  cfg_HeartbeatStaleAfter :: duration
  cfg_HeartbeatFailedAfter :: duration
  cfg_AlertScanInterval :: duration
  cfg_EnrollmentChallengeTTL :: duration
  cfg_NominalDailyPool :: float64
  cfg_Notifier :: "notifier_choice option"

record 'w outside =
  out_send :: "'w \<Rightarrow> notification \<Rightarrow> 'w \<times> string option"
  out_save :: "'w \<Rightarrow> store \<Rightarrow> 'w \<times> goerr option"
  out_lower :: "string \<Rightarrow> string"
  out_upper :: "string \<Rightarrow> string"
  out_verify :: "string \<Rightarrow> string \<Rightarrow> string \<Rightarrow> bool"
  out_sha256 :: "string \<Rightarrow> string"

text \<open>The server: configuration and policy are fixed, store and world change.\<close>

record 'w env =
  env_cfg :: config
  env_policy :: policy_document
  env_out :: "'w outside"

record 'w server =
  sv_store :: store
  sv_world :: 'w

definition on_store :: "(store \<Rightarrow> store) \<Rightarrow> 'w server \<Rightarrow> 'w server" where
  "on_store f s = s\<lparr>sv_store := f (sv_store s)\<rparr>"

lemma on_store_simps [simp]:
  "sv_store (on_store f s) = f (sv_store s)" "sv_world (on_store f s) = sv_world s"
  by (simp_all add: on_store_def)

definition persist :: "'w env \<Rightarrow> 'w server \<Rightarrow> 'w server \<times> goerr option" where
  "persist e s =
     (case out_save (env_out e) (sv_world s) (sv_store s) of
        (w, err) \<Rightarrow> (s\<lparr>sv_world := w\<rparr>, err))"

lemma persist_store [simp]: "sv_store (fst (persist e s)) = sv_store s"
  by (simp add: persist_def split: prod.split)

text \<open>The constants of \<^verbatim>\<open>server.go\<close>.\<close>

definition alertHeartbeatStale :: string where "alertHeartbeatStale = ''heartbeat_stale''"
definition alertHeartbeatFailed :: string where "alertHeartbeatFailed = ''heartbeat_failed''"
definition alertNodeOutage :: string where "alertNodeOutage = ''node_outage''"
definition alertFinalizedLag :: string where "alertFinalizedLag = ''finalized_lag''"
definition operationalEventDeliveryFailure :: string where
  "operationalEventDeliveryFailure = ''notification_delivery_failed''"
definition defaultEnrollmentChallengeTTL :: duration where
  "defaultEnrollmentChallengeTTL = 10 * minute"
definition observationWindow :: duration where "observationWindow = 72 * hour"
definition healthyHeartbeatWindow :: duration where "healthyHeartbeatWindow = 15 * minute"
definition failedHeartbeatWindow :: duration where "failedHeartbeatWindow = 30 * minute"

lemmas portal_consts =
  alertHeartbeatStale_def alertHeartbeatFailed_def alertNodeOutage_def alertFinalizedLag_def
  operationalEventDeliveryFailure_def defaultEnrollmentChallengeTTL_def observationWindow_def
  healthyHeartbeatWindow_def failedHeartbeatWindow_def

text \<open>\<^verbatim>\<open>datePart\<close> and \<^verbatim>\<open>parseRFC3339\<close>.\<close>

definition datePart :: "string \<Rightarrow> string option" where
  "datePart timestamp = map_option format_day (parse_rfc3339 timestamp)"

definition parseRFC3339 :: "string \<Rightarrow> instant option" where
  "parseRFC3339 raw = (if trim_space raw = [] then None else parse_rfc3339 raw)"

lemma datePart_format: "in_era t \<Longrightarrow> datePart (format_rfc3339 t) = Some (format_day t)"
  by (simp add: datePart_def parse_format format_day_def day_of_def)

end
