(* ===== verification/Qualification.thy ===== *)
theory Qualification
  imports Portal_World
begin

text \<open>
  The first half of \<^verbatim>\<open>portal/internal/server/qualification.go\<close>: the daily summary of the probe
  events of a node, the qualification decision, and the base performance score.

  The two ratio tests are floating-point comparisons in the code. \<open>ratio_at_least_iff\<close> shows that
  they decide exactly what the documents ask (99 of 100, 95 of 100) for every count up to \<open>2 ^ 46\<close>,
  so no borderline day is decided by rounding.
\<close>

definition ratio :: "int \<Rightarrow> int \<Rightarrow> float64" where
  "ratio numerator denominator =
     (if denominator \<le> 0 then 0 else fdiv (float_of_int numerator) (float_of_int denominator))"

definition clampScore :: "float64 \<Rightarrow> float64" where
  "clampScore value = (if value < 0 then 0 else if value > 100 then 100 else value)"

section \<open>The daily summary\<close>

text \<open>The loop over the events: the set of regions (without repetition) and five counters.\<close>

record probe_counts =
  pc_regions :: "string list"
  pc_up :: int
  pc_finalized :: int
  pc_finalized_ok :: int
  pc_chain :: int
  pc_chain_ok :: int

definition no_counts :: probe_counts where
  "no_counts = \<lparr>pc_regions = [], pc_up = 0, pc_finalized = 0, pc_finalized_ok = 0, pc_chain = 0,
     pc_chain_ok = 0\<rparr>"

definition count_finalized :: "int \<Rightarrow> probe_event \<Rightarrow> probe_counts \<Rightarrow> probe_counts" where
  "count_finalized limit e c =
     (case pe_FinalizedLagBlocks e of
        Some lag \<Rightarrow>
          if pe_AvailabilityUp e
          then c\<lparr>pc_finalized := pc_finalized c + 1,
                 pc_finalized_ok := pc_finalized_ok c + (if lag \<le> limit then 1 else 0)\<rparr>
          else c
      | None \<Rightarrow> c)"

definition count_chain :: "int \<Rightarrow> probe_event \<Rightarrow> probe_counts \<Rightarrow> probe_counts" where
  "count_chain limit e c =
     (case pe_ChainLagBlocks e of
        Some lag \<Rightarrow>
          if pe_AvailabilityUp e
          then c\<lparr>pc_chain := pc_chain c + 1,
                 pc_chain_ok := pc_chain_ok c + (if lag \<le> limit then 1 else 0)\<rparr>
          else c
      | None \<Rightarrow> c)"

definition count_event :: "probe_thresholds \<Rightarrow> probe_event \<Rightarrow> probe_counts \<Rightarrow> probe_counts" where
  "count_event pt e c =
     count_chain (pt_ChainLagMaxBlocks pt) e
       (count_finalized (pt_FinalizedLagMaxBlocks pt) e
         (c\<lparr>pc_regions := List.insert (pe_RegionID e) (pc_regions c),
            pc_up := pc_up c + (if pe_AvailabilityUp e then 1 else 0)\<rparr>))"

definition insufficient_reason :: "int \<Rightarrow> int \<Rightarrow> int \<Rightarrow> int \<Rightarrow> string" where
  "insufficient_reason valid regions finalized chain =
     (if valid = 0 then ''no_valid_probes''
      else if regions < 2 then ''insufficient_probe_regions''
      else if finalized = 0 then ''missing_finalized_lag_evidence''
      else if chain = 0 then ''missing_chain_lag_evidence''
      else [])"

definition computeDailyQualificationSummary ::
    "policy_document \<Rightarrow> clk \<Rightarrow> store \<Rightarrow> string \<Rightarrow> string \<Rightarrow> daily_qualification_summary" where
  "computeDailyQualificationSummary pol clk st nodeID dateUTC =
     (let events = ListProbeEventsByNodeAndDate st nodeID dateUTC;
          pt = po_ProbeThresholds pol;
          c = fold (count_event pt) events no_counts;
          valid = int (length events);
          regions = int (length (pc_regions c));
          availabilityRatio = ratio (pc_up c) valid;
          finalizedRatio = ratio (pc_finalized_ok c) (pc_finalized c);
          chainRatio = ratio (pc_chain_ok c) (pc_chain c);
          availabilityPassed = (0 < valid \<and> flit (99 / 100) \<le> availabilityRatio);
          finalizedPassed = (0 < pc_finalized c \<and> flit (95 / 100) \<le> finalizedRatio);
          chainPassed = (0 < pc_chain c \<and> flit (95 / 100) \<le> chainRatio);
          multiRegion = (2 \<le> regions);
          reason = insufficient_reason valid regions (pc_finalized c) (pc_chain c)
      in \<lparr>ds_NodeID = nodeID, ds_DateUTC = dateUTC, ds_PolicyVersion = po_PolicyVersion pol,
          ds_FinalizedLagThresholdBlocks = pt_FinalizedLagMaxBlocks pt,
          ds_ChainLagThresholdBlocks = pt_ChainLagMaxBlocks pt,
          ds_ValidProbeCount = valid, ds_AvailabilityUpCount = pc_up c,
          ds_AvailabilityRatio = availabilityRatio,
          ds_FinalizedLagMeasurableCount = pc_finalized c,
          ds_FinalizedLagWithinThresholdCount = pc_finalized_ok c,
          ds_FinalizedLagRatio = finalizedRatio,
          ds_ChainLagMeasurableCount = pc_chain c,
          ds_ChainLagWithinThresholdCount = pc_chain_ok c, ds_ChainLagRatio = chainRatio,
          ds_RegionCount = regions, ds_AvailabilityPassed = availabilityPassed,
          ds_FinalizedLagPassed = finalizedPassed, ds_ChainLagPassed = chainPassed,
          ds_MultiRegionEvidencePassed = multiRegion,
          ds_QualifiedProbeEvidencePassed =
            (reason = [] \<and> availabilityPassed \<and> finalizedPassed \<and> chainPassed \<and> multiRegion),
          ds_InsufficientEvidenceReason = reason,
          ds_GeneratedAt = format_rfc3339 (clk At_Summary)\<rparr>)"

section \<open>The decision\<close>

definition evaluationAnchor :: "clk \<Rightarrow> string \<Rightarrow> instant" where
  "evaluationAnchor clk dateUTC =
     (case parse_rfc3339 (dateUTC @ ''T23:59:59Z'') of
        None \<Rightarrow> clk At_Anchor
      | Some endOfDay \<Rightarrow> if clk At_Anchor < endOfDay then clk At_Anchor else endOfDay)"

definition within_window :: "instant \<Rightarrow> duration \<Rightarrow> heartbeat_event \<Rightarrow> bool" where
  "within_window anchor window e =
     (case parse_rfc3339 (hb_HeartbeatTimestamp e) of
        None \<Rightarrow> False
      | Some ts \<Rightarrow> \<not> ts > anchor \<and> time_sub anchor ts \<le> window)"

definition countHeartbeatsWithinWindow :: "heartbeat_event list \<Rightarrow> instant \<Rightarrow> duration \<Rightarrow> int" where
  "countHeartbeatsWithinWindow events anchor window =
     int (length (filter (within_window anchor window) events))"

definition probe_reasons :: "daily_qualification_summary \<Rightarrow> string list" where
  "probe_reasons summary =
     (if ds_QualifiedProbeEvidencePassed summary then []
      else if ds_InsufficientEvidenceReason summary \<noteq> [] then [''insufficient_probe_evidence'']
      else [''probe_evidence_failed''])"

definition heartbeat_reasons :: "int \<Rightarrow> int \<Rightarrow> string list" where
  "heartbeat_reasons healthy stale =
     (if 2 \<le> healthy then []
      else if stale > 0 then [''heartbeat_stale'']
      else [''heartbeat_missing''])"

definition hardware_reasons :: "check_event option \<Rightarrow> string list" where
  "hardware_reasons latestCheck =
     (case latestCheck of
        None \<Rightarrow> [''hardware_check_missing'']
      | Some c \<Rightarrow>
          if trim_space (ck_CheckedAt c) = [] then [''hardware_check_missing'']
          else if \<not> ck_OverallPassed c then [''hardware_check_failed'']
          else [])"

definition voting_reasons :: "voting_key_evidence option \<Rightarrow> string list" where
  "voting_reasons latestEvidence =
     (case latestEvidence of
        None \<Rightarrow> [''voting_key_evidence_missing'']
      | Some v \<Rightarrow>
          if \<not> vk_VotingKeyPresent v then [''voting_key_not_present'']
          else if \<not> vk_VotingKeyValidForEpoch v then [''voting_key_invalid'']
          else [])"

definition observed_long_enough :: "instant \<Rightarrow> node \<Rightarrow> bool" where
  "observed_long_enough anchor node =
     (case parseRFC3339 (nd_ValidatedRegistrationAt node) of
        None \<Rightarrow> False
      | Some registrationTime \<Rightarrow> \<not> anchor < registrationTime + observationWindow)"

definition computeQualifiedDecisionRecord ::
    "clk \<Rightarrow> store \<Rightarrow> string \<Rightarrow> daily_qualification_summary \<Rightarrow> qualified_decision_record" where
  "computeQualifiedDecisionRecord clk st nodeID summary =
     (let node = node_or_zero st nodeID;
          anchor = evaluationAnchor clk (ds_DateUTC summary);
          heartbeats = ListHeartbeatEventsByNode st nodeID;
          healthy = countHeartbeatsWithinWindow heartbeats anchor healthyHeartbeatWindow;
          stale = countHeartbeatsWithinWindow heartbeats anchor failedHeartbeatWindow;
          hw = hardware_reasons (LatestCheckEventForNodeAndDate st nodeID (ds_DateUTC summary));
          vk = voting_reasons
            (GetLatestVotingKeyEvidenceForNodeAndDate st nodeID (ds_DateUTC summary));
          observed = observed_long_enough anchor node;
          probePassed = ds_QualifiedProbeEvidencePassed summary;
          heartbeatPassed = (2 \<le> healthy)
      in \<lparr>qd_NodeID = nodeID, qd_DateUTC = ds_DateUTC summary,
          qd_PolicyVersion = ds_PolicyVersion summary, qd_ProbeEvidencePassed = probePassed,
          qd_HeartbeatPassed = heartbeatPassed, qd_HardwarePassed = (hw = []),
          qd_VotingKeyPassed = (vk = []),
          qd_Qualified = (probePassed \<and> heartbeatPassed \<and> hw = [] \<and> vk = [] \<and> observed),
          qd_FailureReasons =
            probe_reasons summary @ heartbeat_reasons healthy stale @ hw @ vk
            @ (if observed then [] else [''observation_window_incomplete'']),
          qd_InsufficientEvidenceReason = ds_InsufficientEvidenceReason summary,
          qd_DecidedAt = format_rfc3339 (clk At_Decision)\<rparr>)"

definition computeBasePerformanceRecord ::
    "clk \<Rightarrow> daily_qualification_summary \<Rightarrow> qualified_decision_record \<Rightarrow> base_performance_record option" where
  "computeBasePerformanceRecord clk summary decision =
     (if \<not> qd_Qualified decision then None
      else
        let availabilityScore = clampScore (fmul 30 (ds_AvailabilityRatio summary));
            finalizationScore = clampScore (fmul 20 (ds_FinalizedLagRatio summary));
            chainSyncScore = clampScore (fmul 10 (ds_ChainLagRatio summary));
            votingKeyScore = (if qd_VotingKeyPassed decision then 10 else 0)
        in Some
          \<lparr>bp_NodeID = ds_NodeID summary, bp_DateUTC = ds_DateUTC summary,
           bp_PolicyVersion = ds_PolicyVersion summary, bp_AvailabilityScore = availabilityScore,
           bp_FinalizationScore = finalizationScore, bp_ChainSyncScore = chainSyncScore,
           bp_VotingKeyScore = votingKeyScore,
           bp_BasePerformanceScore =
             fadd (fadd (fadd availabilityScore finalizationScore) chainSyncScore) votingKeyScore,
           bp_QualifiedDecisionRef = ds_NodeID summary @ '':'' @ ds_DateUTC summary,
           bp_DailySummaryRef = ds_NodeID summary @ '':'' @ ds_DateUTC summary,
           bp_ComputedAt = format_rfc3339 (clk At_Base)\<rparr>)"

section \<open>The ratio tests decide exactly\<close>

lemma ratio_unit:
  assumes "0 \<le> c" and "c \<le> n" and "n \<le> 2 ^ 53"
  shows "0 \<le> ratio c n" and "ratio c n \<le> 1"
proof -
  have "0 < n \<Longrightarrow> ratio c n = rnd (of_int c / of_int n)"
    using assms by (simp add: ratio_def fdiv_def float_of_int_exact)
  moreover have "0 < n \<Longrightarrow> (of_int c :: rat) / of_int n \<le> of_int 1" using assms by simp
  ultimately show "0 \<le> ratio c n" and "ratio c n \<le> 1"
    using assms rnd_le_int [of "of_int c / of_int n" 1] by (auto simp: ratio_def rnd_nonneg not_le)
qed

lemma gap_kept:
  fixes q t :: rat
  assumes "\<bar>R - q\<bar> \<le> h" and "\<bar>T - t\<bar> \<le> h" and "q + g \<le> t" and "2 * h < g"
  shows "R < T"
  using assms by linarith

lemma ratio_at_least_iff:
  fixes c n a :: int
  assumes n: "0 \<le> c" "c \<le> n" "0 < n" "n \<le> 2 ^ 46" and a: "0 < a" "a < 100"
  shows "flit (of_int a / 100) \<le> ratio c n \<longleftrightarrow> a * n \<le> 100 * c"
proof -
  let ?q = "of_int c / of_int n :: rat" and ?t = "of_int a / 100 :: rat"
  have r: "ratio c n = rnd ?q" using n by (simp add: ratio_def fdiv_def float_of_int_exact)
  have q: "0 \<le> ?q" "?q \<le> 1" and t: "0 \<le> ?t" "?t \<le> 1" using n a by simp_all
  have iff: "?t \<le> ?q \<longleftrightarrow> a * n \<le> 100 * c"
  proof -
    have "?t \<le> ?q \<longleftrightarrow> (of_int (a * n) :: rat) \<le> of_int (100 * c)"
      using n by (simp add: field_simps)
    then show ?thesis by (simp only: of_int_le_iff)
  qed
  show ?thesis
  proof (cases "a * n \<le> 100 * c")
    case True
    with iff have "?t \<le> ?q" by blast
    with True show ?thesis by (simp add: r flit_def rnd_mono)
  next
    case False
    then have "100 * c + 1 \<le> a * n" by simp
    then have "(of_int (100 * c + 1) :: rat) \<le> of_int (a * n)" by (simp only: of_int_le_iff)
    then have gap: "?q + 1 / (100 * of_int n) \<le> ?t" using n by (simp add: field_simps)
    have "(of_int (100 * n) :: rat) \<le> of_int (100 * 2 ^ 46)" using n by (simp only: of_int_le_iff)
    then have "1 / 2 ^ 53 < 1 / (100 * (of_int n :: rat))" using n by (simp add: field_simps)
    then have "2 * (1 / 2 ^ 54) < 1 / (100 * (of_int n :: rat))" by simp
    with rnd_unit_err [OF q] rnd_unit_err [OF t] gap have "rnd ?q < rnd ?t" by (rule gap_kept)
    with False show ?thesis by (simp add: r flit_def)
  qed
qed


section \<open>What the summary counts\<close>

definition lag_within :: "int \<Rightarrow> int option \<Rightarrow> bool" where
  "lag_within limit lag = (case lag of None \<Rightarrow> False | Some l \<Rightarrow> l \<le> limit)"

definition finalized_seen :: "probe_event \<Rightarrow> bool" where
  "finalized_seen e \<longleftrightarrow> pe_AvailabilityUp e \<and> pe_FinalizedLagBlocks e \<noteq> None"

definition chain_seen :: "probe_event \<Rightarrow> bool" where
  "chain_seen e \<longleftrightarrow> pe_AvailabilityUp e \<and> pe_ChainLagBlocks e \<noteq> None"

definition finalized_good :: "probe_thresholds \<Rightarrow> probe_event \<Rightarrow> bool" where
  "finalized_good pt e \<longleftrightarrow>
     pe_AvailabilityUp e \<and> lag_within (pt_FinalizedLagMaxBlocks pt) (pe_FinalizedLagBlocks e)"

definition chain_good :: "probe_thresholds \<Rightarrow> probe_event \<Rightarrow> bool" where
  "chain_good pt e \<longleftrightarrow>
     pe_AvailabilityUp e \<and> lag_within (pt_ChainLagMaxBlocks pt) (pe_ChainLagBlocks e)"

abbreviation number :: "('a \<Rightarrow> bool) \<Rightarrow> 'a list \<Rightarrow> int" where
  "number P xs \<equiv> int (length (filter P xs))"

lemmas seen_defs = finalized_seen_def chain_seen_def finalized_good_def chain_good_def lag_within_def

lemma count_event_fields:
  "pc_regions (count_event pt e c) = List.insert (pe_RegionID e) (pc_regions c)"
  "pc_up (count_event pt e c) = pc_up c + (if pe_AvailabilityUp e then 1 else 0)"
  "pc_finalized (count_event pt e c) = pc_finalized c + (if finalized_seen e then 1 else 0)"
  "pc_finalized_ok (count_event pt e c) = pc_finalized_ok c + (if finalized_good pt e then 1 else 0)"
  "pc_chain (count_event pt e c) = pc_chain c + (if chain_seen e then 1 else 0)"
  "pc_chain_ok (count_event pt e c) = pc_chain_ok c + (if chain_good pt e then 1 else 0)"
  by (simp_all add: count_event_def count_chain_def count_finalized_def seen_defs split: option.split)

lemma fold_counts:
  "pc_up (fold (count_event pt) es c) = pc_up c + number pe_AvailabilityUp es"
  "pc_finalized (fold (count_event pt) es c) = pc_finalized c + number finalized_seen es"
  "pc_finalized_ok (fold (count_event pt) es c) = pc_finalized_ok c + number (finalized_good pt) es"
  "pc_chain (fold (count_event pt) es c) = pc_chain c + number chain_seen es"
  "pc_chain_ok (fold (count_event pt) es c) = pc_chain_ok c + number (chain_good pt) es"
  by (induction es arbitrary: c) (simp_all add: count_event_fields)

lemma fold_regions:
  "distinct (pc_regions c) \<Longrightarrow> distinct (pc_regions (fold (count_event pt) es c))
     \<and> set (pc_regions (fold (count_event pt) es c)) = set (pc_regions c) \<union> pe_RegionID ` set es"
  by (induction es arbitrary: c) (auto simp: count_event_fields)

lemma counts_from_zero:
  "pc_up (fold (count_event pt) es no_counts) = number pe_AvailabilityUp es"
  "pc_finalized (fold (count_event pt) es no_counts) = number finalized_seen es"
  "pc_finalized_ok (fold (count_event pt) es no_counts) = number (finalized_good pt) es"
  "pc_chain (fold (count_event pt) es no_counts) = number chain_seen es"
  "pc_chain_ok (fold (count_event pt) es no_counts) = number (chain_good pt) es"
  "length (pc_regions (fold (count_event pt) es no_counts)) = card (pe_RegionID ` set es)"
  using fold_regions [of no_counts pt es] distinct_card
  by (simp_all add: fold_counts no_counts_def) fastforce

lemma number_le: "number P xs \<le> int (length xs)"
  by simp

lemma number_good_le:
  "number (finalized_good pt) es \<le> number finalized_seen es"
  "number (chain_good pt) es \<le> number chain_seen es"
  by (auto simp: seen_defs intro!: length_filter_mono split: option.splits)

text \<open>The events of a node on a day, in the order the store happens to hold them.\<close>

definition probe_events_of :: "store \<Rightarrow> string \<Rightarrow> string \<Rightarrow> probe_event list" where
  "probe_events_of st nodeID dateUTC =
     filter (\<lambda>e. selects nodeID (pe_NodeID e) \<and> on_date dateUTC (pe_ObservedAt e))
       (map_vals (st_probeEvents st))"

lemma number_events:
  "number P (ListProbeEventsByNodeAndDate st n d) = number P (probe_events_of st n d)"
  "length (ListProbeEventsByNodeAndDate st n d) = length (probe_events_of st n d)"
  "set (ListProbeEventsByNodeAndDate st n d) = set (probe_events_of st n d)"
  by (simp_all add: ListProbeEventsByNodeAndDate_def probe_events_of_def)

text \<open>The gate of the documents, in whole numbers.\<close>

definition probe_day_ok :: "probe_thresholds \<Rightarrow> probe_event list \<Rightarrow> bool" where
  "probe_day_ok pt es \<longleftrightarrow>
     2 \<le> card (pe_RegionID ` set es)
     \<and> 0 < number finalized_seen es \<and> 0 < number chain_seen es
     \<and> 99 * int (length es) \<le> 100 * number pe_AvailabilityUp es
     \<and> 95 * number finalized_seen es \<le> 100 * number (finalized_good pt) es
     \<and> 95 * number chain_seen es \<le> 100 * number (chain_good pt) es"

lemma summary_fields:
  fixes pol :: policy_document and clk :: clk and st :: store and n d :: string
  defines "s \<equiv> computeDailyQualificationSummary pol clk st n d"
    and "es \<equiv> probe_events_of st n d"
  shows "ds_NodeID s = n" "ds_DateUTC s = d" "ds_PolicyVersion s = po_PolicyVersion pol"
    "ds_ValidProbeCount s = int (length es)"
    "ds_AvailabilityRatio s = ratio (number pe_AvailabilityUp es) (int (length es))"
    "ds_FinalizedLagMeasurableCount s = number finalized_seen es"
    "ds_FinalizedLagRatio s =
       ratio (number (finalized_good (po_ProbeThresholds pol)) es) (number finalized_seen es)"
    "ds_ChainLagRatio s =
       ratio (number (chain_good (po_ProbeThresholds pol)) es) (number chain_seen es)"
    "ds_RegionCount s = int (card (pe_RegionID ` set es))"
    "ds_AvailabilityPassed s \<longleftrightarrow> 0 < length es \<and> flit (99 / 100) \<le> ds_AvailabilityRatio s"
    "ds_FinalizedLagPassed s \<longleftrightarrow>
       0 < number finalized_seen es \<and> flit (95 / 100) \<le> ds_FinalizedLagRatio s"
    "ds_ChainLagPassed s \<longleftrightarrow> 0 < number chain_seen es \<and> flit (95 / 100) \<le> ds_ChainLagRatio s"
    "ds_InsufficientEvidenceReason s =
       insufficient_reason (int (length es)) (int (card (pe_RegionID ` set es)))
         (number finalized_seen es) (number chain_seen es)"
    "ds_QualifiedProbeEvidencePassed s \<longleftrightarrow>
       ds_InsufficientEvidenceReason s = [] \<and> ds_AvailabilityPassed s \<and> ds_FinalizedLagPassed s
       \<and> ds_ChainLagPassed s \<and> 2 \<le> ds_RegionCount s"
  unfolding s_def es_def computeDailyQualificationSummary_def Let_def
  by (simp_all add: counts_from_zero number_events)

lemma insufficient_reason_Nil:
  "0 \<le> v \<Longrightarrow> 0 \<le> f \<Longrightarrow> 0 \<le> c \<Longrightarrow>
     insufficient_reason v r f c = [] \<longleftrightarrow> 0 < v \<and> 2 \<le> r \<and> 0 < f \<and> 0 < c"
  by (auto simp: insufficient_reason_def)

lemma summary_passed_iff:
  assumes "length (probe_events_of st n d) \<le> 2 ^ 46"
  shows "ds_QualifiedProbeEvidencePassed (computeDailyQualificationSummary pol clk st n d)
    \<longleftrightarrow> probe_day_ok (po_ProbeThresholds pol) (probe_events_of st n d)"
proof -
  let ?es = "probe_events_of st n d" and ?pt = "po_ProbeThresholds pol"
  have len: "int (length ?es) \<le> 2 ^ 46" using assms by simp
  have le: "number P ?es \<le> 2 ^ 46" for P using number_le [of P ?es] len by linarith
  have up: "0 < length ?es \<Longrightarrow> flit (99 / 100) \<le> ratio (number pe_AvailabilityUp ?es) (int (length ?es))
      \<longleftrightarrow> 99 * int (length ?es) \<le> 100 * number pe_AvailabilityUp ?es"
    using ratio_at_least_iff [of "number pe_AvailabilityUp ?es" "int (length ?es)" 99] len by simp
  have fin: "0 < number finalized_seen ?es \<Longrightarrow>
      flit (95 / 100) \<le> ratio (number (finalized_good ?pt) ?es) (number finalized_seen ?es)
      \<longleftrightarrow> 95 * number finalized_seen ?es \<le> 100 * number (finalized_good ?pt) ?es"
    using ratio_at_least_iff [of "number (finalized_good ?pt) ?es" "number finalized_seen ?es" 95]
      number_good_le(1) [of ?pt ?es] le [of finalized_seen] by simp
  have ch: "0 < number chain_seen ?es \<Longrightarrow>
      flit (95 / 100) \<le> ratio (number (chain_good ?pt) ?es) (number chain_seen ?es)
      \<longleftrightarrow> 95 * number chain_seen ?es \<le> 100 * number (chain_good ?pt) ?es"
    using ratio_at_least_iff [of "number (chain_good ?pt) ?es" "number chain_seen ?es" 95]
      number_good_le(2) [of ?pt ?es] le [of chain_seen] by simp
  have pos: "0 < number chain_seen ?es \<Longrightarrow> 0 < length ?es" using number_le [of chain_seen ?es] by linarith
  have two: "2 \<le> int k \<longleftrightarrow> 2 \<le> k" for k by simp
  show ?thesis
    unfolding summary_fields probe_day_ok_def
    apply (subst insufficient_reason_Nil)
    subgoal by simp
    subgoal by simp
    subgoal by simp
    subgoal unfolding two using up fin ch pos by (simp only: of_nat_0_less_iff) blast
    done
qed

section \<open>The decision and the score\<close>

lemma decision_fields:
  fixes clk :: clk and st :: store and n :: string and summary :: daily_qualification_summary
  defines "q \<equiv> computeQualifiedDecisionRecord clk st n summary"
  shows "qd_NodeID q = n" "qd_DateUTC q = ds_DateUTC summary"
    "qd_InsufficientEvidenceReason q = ds_InsufficientEvidenceReason summary"
  unfolding q_def by (simp_all add: computeQualifiedDecisionRecord_def Let_def)

lemma reasons_Nil:
  "probe_reasons summary = [] \<longleftrightarrow> ds_QualifiedProbeEvidencePassed summary"
  "heartbeat_reasons h l = [] \<longleftrightarrow> 2 \<le> h"
  by (simp_all add: probe_reasons_def heartbeat_reasons_def)

lemma qualified_iff_no_reason:
  "qd_Qualified (computeQualifiedDecisionRecord clk st n summary) \<longleftrightarrow>
     qd_FailureReasons (computeQualifiedDecisionRecord clk st n summary) = []"
  by (simp add: computeQualifiedDecisionRecord_def Let_def reasons_Nil)

lemma hardware_reasons_Nil:
  "hardware_reasons c = [] \<longleftrightarrow>
     (\<exists>e. c = Some e \<and> trim_space (ck_CheckedAt e) \<noteq> [] \<and> ck_OverallPassed e)"
  by (simp add: hardware_reasons_def split: option.split)

lemma voting_reasons_Nil:
  "voting_reasons v = [] \<longleftrightarrow>
     (\<exists>e. v = Some e \<and> vk_VotingKeyPresent e \<and> vk_VotingKeyValidForEpoch e)"
  by (simp add: voting_reasons_def split: option.split)

lemma count_heartbeats:
  "countHeartbeatsWithinWindow (ListHeartbeatEventsByNode st n) a w =
     number (\<lambda>e. selects n (hb_NodeID e) \<and> within_window a w e) (st_heartbeatEvents st)"
  by (simp add: countHeartbeatsWithinWindow_def ListHeartbeatEventsByNode_def conj_commute)

lemma qualified_iff:
  assumes "n \<noteq> []"
  shows "qd_Qualified (computeQualifiedDecisionRecord clk st n summary) \<longleftrightarrow>
     ds_QualifiedProbeEvidencePassed summary
     \<and> 2 \<le> number (\<lambda>e. hb_NodeID e = n
           \<and> within_window (evaluationAnchor clk (ds_DateUTC summary)) healthyHeartbeatWindow e)
         (st_heartbeatEvents st)
     \<and> (\<exists>c. LatestCheckEventForNodeAndDate st n (ds_DateUTC summary) = Some c
          \<and> trim_space (ck_CheckedAt c) \<noteq> [] \<and> ck_OverallPassed c)
     \<and> (\<exists>v. GetLatestVotingKeyEvidenceForNodeAndDate st n (ds_DateUTC summary) = Some v
          \<and> vk_VotingKeyPresent v \<and> vk_VotingKeyValidForEpoch v)
     \<and> observed_long_enough (evaluationAnchor clk (ds_DateUTC summary)) (node_or_zero st n)"
  using assms
  by (simp add: computeQualifiedDecisionRecord_def Let_def hardware_reasons_Nil voting_reasons_Nil
      count_heartbeats selects_date)

text \<open>The window test in instants: at most \<open>window\<close> before the anchor, not after it.\<close>

lemma within_window_iff:
  assumes "0 \<le> w" and "w < 2 ^ 63 - 1"
  shows "within_window a w e \<longleftrightarrow>
     (\<exists>ts. parse_rfc3339 (hb_HeartbeatTimestamp e) = Some ts \<and> a - w \<le> ts \<and> ts \<le> a)"
  using assms by (auto simp: within_window_def time_sub_le_iff not_less split: option.split)

lemma clampScore_id: "0 \<le> x \<Longrightarrow> x \<le> 100 \<Longrightarrow> clampScore x = x"
  by (simp add: clampScore_def)

lemma clampScore_range: "0 \<le> clampScore x" "clampScore x \<le> 100"
  by (simp_all add: clampScore_def)

text \<open>A part of the score: a weight times a ratio, between its value at the gate and the weight.\<close>

lemma part_range:
  assumes "0 \<le> l" "l \<le> r" "r \<le> 1" "0 \<le> w" "w \<le> 100"
  shows "clampScore (fmul (of_int w) r) = fmul (of_int w) r"
    and "fmul (of_int w) l \<le> fmul (of_int w) r" and "fmul (of_int w) r \<le> of_int w"
proof -
  have "of_int w * r \<le> of_int w * 1" using assms by (intro mult_left_mono) auto
  then show up: "fmul (of_int w) r \<le> of_int w"
    using rnd_le_int [of "of_int w * r" w] assms by (simp add: fmul_def)
  show "fmul (of_int w) l \<le> fmul (of_int w) r"
    using assms by (intro fmul_mono) auto
  have "(of_int w :: rat) \<le> 100" using assms by simp
  with up show "clampScore (fmul (of_int w) r) = fmul (of_int w) r"
    using assms by (intro clampScore_id fmul_nonneg) auto
qed

lemma sum4_range:
  assumes "a \<le> (30::rat)" "b \<le> 20" "c \<le> 10" "d \<le> 10"
  shows "fadd (fadd (fadd a b) c) d \<le> 70"
proof -
  have 1: "fadd a b \<le> 50" unfolding fadd_def using rnd_le_int [of "a + b" 50] assms by simp
  have 2: "fadd (fadd a b) c \<le> 60"
    using rnd_le_int [of "fadd a b + c" 60] assms 1 by (simp add: fadd_def)
  show ?thesis using rnd_le_int [of "fadd (fadd a b) c + d" 70] assms 2 by (simp add: fadd_def)
qed

text \<open>The score at the three gates, with every rounding carried out: a little above 68.\<close>

lemma score_at_gates:
  "68 \<le> fadd (fadd (fadd (fmul 30 (flit (99 / 100))) (fmul 20 (flit (95 / 100))))
     (fmul 10 (flit (95 / 100)))) 10"
  by code_simp

end
