(* ===== verification/Rewards.thy ===== *)
theory Rewards
  imports Qualification
begin

text \<open>
  The reward half of \<^verbatim>\<open>portal/internal/server/qualification.go\<close>: \<^verbatim>\<open>rebuildRewardEligibility\<close> (the
  anti-concentration pass over the ranking) and \<^verbatim>\<open>rebuildRewardAllocations\<close> (the pool, the bands and
  the amounts).

  The eligibility pass is a fold with three sets of what has been seen. \<open>eligible_distinct\<close> is its
  specification: no two eligible nodes share an operator group, a registrable domain or a control
  plane. The allocation lemmas describe every amount that is paid.
\<close>

section \<open>Eligibility\<close>

record seen_sets =
  seen_groups :: "string list"
  seen_domains :: "string list"
  seen_planes :: "string list"

definition nothing_seen :: seen_sets where
  "nothing_seen = \<lparr>seen_groups = [], seen_domains = [], seen_planes = []\<rparr>"

text \<open>The operator group, the domain and the control plane the pass assigns to a node.\<close>

definition group_of :: "store \<Rightarrow> string \<Rightarrow> ranking_record \<Rightarrow> string" where
  "group_of st dateUTC ranking =
     (case GetLatestOperatorGroupEvidenceForNodeAndDate st (rk_NodeID ranking) dateUTC of
        Some ev \<Rightarrow>
          if og_ReviewState ev = accepted \<and> trim_space (og_OperatorGroupID ev) \<noteq> []
          then og_OperatorGroupID ev
          else if rk_OperatorGroupID ranking \<noteq> [] then rk_OperatorGroupID ranking
          else rk_NodeID ranking
      | None \<Rightarrow>
          if rk_OperatorGroupID ranking \<noteq> [] then rk_OperatorGroupID ranking
          else rk_NodeID ranking)"

definition domain_of :: "(string \<Rightarrow> string) \<Rightarrow> store \<Rightarrow> string \<Rightarrow> ranking_record \<Rightarrow> string option" where
  "domain_of lower st dateUTC ranking =
     (case GetLatestDomainEvidenceForNodeAndDate st (rk_NodeID ranking) dateUTC of
        Some ev \<Rightarrow>
          if trim_space (dm_RegistrableDomain ev) \<noteq> []
          then Some (to_lower lower (trim_space (dm_RegistrableDomain ev))) else None
      | None \<Rightarrow> None)"

definition plane_of :: "store \<Rightarrow> string \<Rightarrow> ranking_record \<Rightarrow> (string \<times> string) option" where
  "plane_of st dateUTC ranking =
     (case GetLatestSharedControlPlaneEvidenceForNodeAndDate st (rk_NodeID ranking) dateUTC of
        Some ev \<Rightarrow>
          if cp_ReviewState ev = accepted \<and> trim_space (cp_ControlPlaneID ev) \<noteq> []
          then Some (trim_space (cp_ControlPlaneID ev), cp_Classification ev) else None
      | None \<Rightarrow> None)"

definition eligible_record ::
    "string \<Rightarrow> string \<Rightarrow> ranking_record \<Rightarrow> string \<Rightarrow> reward_eligibility_record" where
  "eligible_record dateUTC decidedAt ranking grp =
     \<lparr>re_NodeID = rk_NodeID ranking, re_DateUTC = dateUTC, re_PolicyVersion = rk_PolicyVersion ranking,
      re_RankPosition = rk_RankPosition ranking, re_Qualified = True, re_OperatorGroupID = grp,
      re_RewardEligible = True, re_ExclusionReason = [], re_ExcludedOperatorGroupID = [],
      re_ExcludedRegistrableDomain = [], re_ExcludedControlPlaneID = [],
      re_ExcludedClassification = [], re_DecidedAt = decidedAt\<rparr>"

text \<open>The three checks of the loop body, each on the record and the sets built so far.\<close>

definition check_group ::
    "string \<Rightarrow> reward_eligibility_record \<times> seen_sets \<Rightarrow> reward_eligibility_record \<times> seen_sets" where
  "check_group grp rs =
     (case rs of (r, seen) \<Rightarrow>
        if grp \<in> set (seen_groups seen)
        then (r\<lparr>re_RewardEligible := False,
                re_ExclusionReason := ''same_operator_group_lower_ranked'',
                re_ExcludedOperatorGroupID := grp\<rparr>, seen)
        else (r, seen\<lparr>seen_groups := grp # seen_groups seen\<rparr>))"

definition check_domain ::
    "string option \<Rightarrow> reward_eligibility_record \<times> seen_sets \<Rightarrow> reward_eligibility_record \<times> seen_sets" where
  "check_domain domain rs =
     (case rs of (r, seen) \<Rightarrow>
        case domain of
          None \<Rightarrow> (r, seen)
        | Some d \<Rightarrow>
            if d \<in> set (seen_domains seen) \<and> re_ExclusionReason r = []
            then (r\<lparr>re_RewardEligible := False,
                    re_ExclusionReason := ''same_registrable_domain_lower_ranked'',
                    re_ExcludedRegistrableDomain := d\<rparr>, seen)
            else (r, seen\<lparr>seen_domains := d # seen_domains seen\<rparr>))"

definition check_plane ::
    "(string \<times> string) option \<Rightarrow> reward_eligibility_record \<times> seen_sets
      \<Rightarrow> reward_eligibility_record \<times> seen_sets" where
  "check_plane plane rs =
     (case rs of (r, seen) \<Rightarrow>
        case plane of
          None \<Rightarrow> (r, seen)
        | Some (p, classification) \<Rightarrow>
            if p \<in> set (seen_planes seen) \<and> re_ExclusionReason r = []
            then (r\<lparr>re_RewardEligible := False,
                    re_ExclusionReason := ''same_shared_control_plane_lower_ranked'',
                    re_ExcludedControlPlaneID := p,
                    re_ExcludedClassification := classification\<rparr>, seen)
            else (r, seen\<lparr>seen_planes := p # seen_planes seen\<rparr>))"

definition eligibility_step ::
    "(string \<Rightarrow> string) \<Rightarrow> store \<Rightarrow> string \<Rightarrow> string \<Rightarrow> ranking_record \<Rightarrow> seen_sets
      \<Rightarrow> reward_eligibility_record \<times> seen_sets" where
  "eligibility_step lower st dateUTC decidedAt ranking seen =
     check_plane (plane_of st dateUTC ranking)
       (check_domain (domain_of lower st dateUTC ranking)
         (check_group (group_of st dateUTC ranking)
           (eligible_record dateUTC decidedAt ranking (group_of st dateUTC ranking), seen)))"

fun eligibility_loop ::
    "(string \<Rightarrow> string) \<Rightarrow> store \<Rightarrow> string \<Rightarrow> string \<Rightarrow> ranking_record list \<Rightarrow> seen_sets
      \<Rightarrow> reward_eligibility_record list" where
  "eligibility_loop lower st dateUTC decidedAt [] seen = []"
| "eligibility_loop lower st dateUTC decidedAt (ranking # rankings) seen =
     (case eligibility_step lower st dateUTC decidedAt ranking seen of
        (r, seen') \<Rightarrow> r # eligibility_loop lower st dateUTC decidedAt rankings seen')"

definition eligibility_records ::
    "(string \<Rightarrow> string) \<Rightarrow> clk \<Rightarrow> store \<Rightarrow> string \<Rightarrow> ranking_record list \<Rightarrow> reward_eligibility_record list" where
  "eligibility_records lower clk st dateUTC rankings =
     eligibility_loop lower st dateUTC (format_rfc3339 (clk At_Eligibility)) rankings nothing_seen"

section \<open>Allocation\<close>

definition rewardParticipationRate :: "int \<Rightarrow> float64" where
  "rewardParticipationRate qualifiedNodeCount =
     (if qualifiedNodeCount \<le> 0 then 0
      else if qualifiedNodeCount < 25 then flit (30 / 100)
      else if qualifiedNodeCount < 50 then flit (50 / 100)
      else if qualifiedNodeCount < 100 then flit (75 / 100)
      else 1)"

record reward_band =
  band_label :: string
  band_start :: int
  band_end :: int
  band_share :: float64

definition reward_bands :: "reward_band list" where
  "reward_bands =
     [\<lparr>band_label = ''1-5'', band_start = 1, band_end = 5, band_share = flit (25 / 100)\<rparr>,
      \<lparr>band_label = ''6-20'', band_start = 6, band_end = 20, band_share = flit (35 / 100)\<rparr>,
      \<lparr>band_label = ''21-50'', band_start = 21, band_end = 50, band_share = flit (25 / 100)\<rparr>,
      \<lparr>band_label = ''51+'', band_start = 51, band_end = 2 ^ 30, band_share = flit (15 / 100)\<rparr>]"

text \<open>\<^verbatim>\<open>rewardEligibilityIndex\<close>, and a lookup in it: a missing node has the zero record.\<close>

definition rewardEligibilityIndex ::
    "reward_eligibility_record list \<Rightarrow> (string, reward_eligibility_record) gomap" where
  "rewardEligibilityIndex records = put_all re_NodeID records []"

definition zero_eligibility :: reward_eligibility_record where
  "zero_eligibility =
     \<lparr>re_NodeID = [], re_DateUTC = [], re_PolicyVersion = [], re_RankPosition = 0, re_Qualified = False,
      re_OperatorGroupID = [], re_RewardEligible = False, re_ExclusionReason = [],
      re_ExcludedOperatorGroupID = [], re_ExcludedRegistrableDomain = [],
      re_ExcludedControlPlaneID = [], re_ExcludedClassification = [], re_DecidedAt = []\<rparr>"

definition index_eligibility ::
    "(string, reward_eligibility_record) gomap \<Rightarrow> string \<Rightarrow> reward_eligibility_record" where
  "index_eligibility m nodeID = (case map_get m nodeID of None \<Rightarrow> zero_eligibility | Some r \<Rightarrow> r)"

definition in_band :: "reward_band \<Rightarrow> ranking_record \<Rightarrow> bool" where
  "in_band band ranking \<longleftrightarrow>
     band_start band \<le> rk_RankPosition ranking \<and> rk_RankPosition ranking \<le> band_end band"

definition band_allocations ::
    "float64 \<Rightarrow> string \<Rightarrow> string \<Rightarrow> ranking_record list \<Rightarrow> (string \<Rightarrow> reward_eligibility_record) \<Rightarrow> reward_band
      \<Rightarrow> reward_allocation_record list" where
  "band_allocations pool dateUTC computedAt rankings eligible band =
     (let qualifiedNodeCount = int (length rankings);
          participationRate = rewardParticipationRate qualifiedNodeCount;
          distributedPool = fmul pool participationRate;
          reservePool = fsub pool distributedPool;
          bandPoolAmount = fmul distributedPool (band_share band);
          bandRankings = filter (in_band band) rankings;
          bandEligibleCount =
            int (length (filter (\<lambda>r. re_RewardEligible (eligible (rk_NodeID r))) bandRankings));
          rewardAmount =
            (if 0 < bandEligibleCount then fdiv bandPoolAmount (float_of_int bandEligibleCount) else 0)
      in map (\<lambda>ranking.
           \<lparr>ra_NodeID = rk_NodeID ranking, ra_DateUTC = dateUTC,
            ra_PolicyVersion = rk_PolicyVersion ranking, ra_RankPosition = rk_RankPosition ranking,
            ra_QualifiedNodeCount = qualifiedNodeCount, ra_NominalDailyPool = pool,
            ra_ParticipationRate = participationRate, ra_DistributedPool = distributedPool,
            ra_ReservePool = reservePool, ra_BandLabel = band_label band,
            ra_BandShare = band_share band, ra_BandPoolAmount = bandPoolAmount,
            ra_BandEligibleCount = bandEligibleCount,
            ra_RewardAmount =
              (if re_RewardEligible (eligible (rk_NodeID ranking)) then rewardAmount else 0),
            ra_RewardEligible = re_RewardEligible (eligible (rk_NodeID ranking)),
            ra_ExclusionReason = re_ExclusionReason (eligible (rk_NodeID ranking)),
            ra_ComputedAt = computedAt\<rparr>) bandRankings)"

definition allocation_records ::
    "float64 \<Rightarrow> clk \<Rightarrow> string \<Rightarrow> ranking_record list \<Rightarrow> reward_eligibility_record list
      \<Rightarrow> reward_allocation_record list" where
  "allocation_records pool clk dateUTC rankings eligibility =
     (if rankings = [] then []
      else concat (map (band_allocations pool dateUTC (format_rfc3339 (clk At_Allocation)) rankings
                          (index_eligibility (rewardEligibilityIndex eligibility)))
             reward_bands))"

definition rebuildRewardAllocations ::
    "config \<Rightarrow> clk \<Rightarrow> string \<Rightarrow> ranking_record list \<Rightarrow> reward_eligibility_record list \<Rightarrow> store \<Rightarrow> store" where
  "rebuildRewardAllocations cfg clk dateUTC rankings eligibility st =
     ReplaceRewardAllocationRecordsForDate dateUTC
       (allocation_records (cfg_NominalDailyPool cfg) clk dateUTC rankings eligibility) st"

definition rebuildRewardEligibility ::
    "'w env \<Rightarrow> clk \<Rightarrow> string \<Rightarrow> ranking_record list \<Rightarrow> store \<Rightarrow> store" where
  "rebuildRewardEligibility e clk dateUTC rankings st =
     (let records = eligibility_records (out_lower (env_out e)) clk st dateUTC rankings
      in rebuildRewardAllocations (env_cfg e) clk dateUTC rankings records
           (ReplaceRewardEligibilityRecordsForDate dateUTC records st))"


section \<open>Who is eligible\<close>

definition add_opt :: "'a option \<Rightarrow> 'a set \<Rightarrow> 'a set" where
  "add_opt x A = (case x of None \<Rightarrow> A | Some a \<Rightarrow> insert a A)"

definition exclusion_of :: "bool \<Rightarrow> bool \<Rightarrow> bool \<Rightarrow> string" where
  "exclusion_of group_dup domain_dup plane_dup =
     (if group_dup then ''same_operator_group_lower_ranked''
      else if domain_dup then ''same_registrable_domain_lower_ranked''
      else if plane_dup then ''same_shared_control_plane_lower_ranked''
      else [])"

definition hits :: "'a option \<Rightarrow> 'a set \<Rightarrow> bool" where
  "hits x A \<longleftrightarrow> (case x of None \<Rightarrow> False | Some a \<Rightarrow> a \<in> A)"

lemma exclusion_of_Nil: "exclusion_of g d p = [] \<longleftrightarrow> \<not> g \<and> \<not> d \<and> \<not> p"
  by (simp add: exclusion_of_def)

lemma check_group_facts:
  "re_NodeID (fst (check_group g rs)) = re_NodeID (fst rs)"
  "re_RankPosition (fst (check_group g rs)) = re_RankPosition (fst rs)"
  "re_DateUTC (fst (check_group g rs)) = re_DateUTC (fst rs)"
  "re_OperatorGroupID (fst (check_group g rs)) = re_OperatorGroupID (fst rs)"
  "re_Qualified (fst (check_group g rs)) = re_Qualified (fst rs)"
  "re_ExclusionReason (fst (check_group g rs)) =
     (if g \<in> set (seen_groups (snd rs)) then ''same_operator_group_lower_ranked'' else re_ExclusionReason (fst rs))"
  "re_RewardEligible (fst (check_group g rs)) \<longleftrightarrow> \<not> (g \<in> set (seen_groups (snd rs))) \<and> re_RewardEligible (fst rs)"
  "set (seen_groups (snd (check_group g rs))) = insert g (set (seen_groups (snd rs)))"
  "seen_domains (snd (check_group g rs)) = seen_domains (snd rs)"
  "seen_planes (snd (check_group g rs)) = seen_planes (snd rs)"
  by (cases rs; simp add: check_group_def insert_absorb)+

lemma check_domain_facts:
  "re_NodeID (fst (check_domain x rs)) = re_NodeID (fst rs)"
  "re_RankPosition (fst (check_domain x rs)) = re_RankPosition (fst rs)"
  "re_DateUTC (fst (check_domain x rs)) = re_DateUTC (fst rs)"
  "re_OperatorGroupID (fst (check_domain x rs)) = re_OperatorGroupID (fst rs)"
  "re_Qualified (fst (check_domain x rs)) = re_Qualified (fst rs)"
  "re_ExclusionReason (fst (check_domain x rs)) =
     (if hits x (set (seen_domains (snd rs))) \<and> re_ExclusionReason (fst rs) = [] then ''same_registrable_domain_lower_ranked'' else re_ExclusionReason (fst rs))"
  "re_RewardEligible (fst (check_domain x rs)) \<longleftrightarrow> \<not> (hits x (set (seen_domains (snd rs))) \<and> re_ExclusionReason (fst rs) = []) \<and> re_RewardEligible (fst rs)"
  "set (seen_domains (snd (check_domain x rs))) = add_opt x (set (seen_domains (snd rs)))"
  "seen_groups (snd (check_domain x rs)) = seen_groups (snd rs)"
  "seen_planes (snd (check_domain x rs)) = seen_planes (snd rs)"
  by (cases rs; cases x; simp add: check_domain_def hits_def add_opt_def insert_absorb)+

lemma check_plane_facts:
  "re_NodeID (fst (check_plane y rs)) = re_NodeID (fst rs)"
  "re_RankPosition (fst (check_plane y rs)) = re_RankPosition (fst rs)"
  "re_DateUTC (fst (check_plane y rs)) = re_DateUTC (fst rs)"
  "re_OperatorGroupID (fst (check_plane y rs)) = re_OperatorGroupID (fst rs)"
  "re_Qualified (fst (check_plane y rs)) = re_Qualified (fst rs)"
  "re_ExclusionReason (fst (check_plane y rs)) =
     (if hits (map_option fst y) (set (seen_planes (snd rs))) \<and> re_ExclusionReason (fst rs) = [] then ''same_shared_control_plane_lower_ranked'' else re_ExclusionReason (fst rs))"
  "re_RewardEligible (fst (check_plane y rs)) \<longleftrightarrow> \<not> (hits (map_option fst y) (set (seen_planes (snd rs))) \<and> re_ExclusionReason (fst rs) = []) \<and> re_RewardEligible (fst rs)"
  "set (seen_planes (snd (check_plane y rs))) = add_opt (map_option fst y) (set (seen_planes (snd rs)))"
  "seen_groups (snd (check_plane y rs)) = seen_groups (snd rs)"
  "seen_domains (snd (check_plane y rs)) = seen_domains (snd rs)"
  by (cases rs; cases y; simp add: check_plane_def hits_def add_opt_def insert_absorb split: prod.split)+

text \<open>One step: the record it makes, and the sets, which take the node in whether or not it is excluded.\<close>

lemma eligibility_step_facts:
  assumes "eligibility_step lower st d tm rk seen = (r, seen')"
  shows "re_NodeID r = rk_NodeID rk" "re_RankPosition r = rk_RankPosition rk" "re_DateUTC r = d"
    "re_OperatorGroupID r = group_of st d rk" "re_Qualified r"
    "re_ExclusionReason r = exclusion_of (group_of st d rk \<in> set (seen_groups seen))
       (hits (domain_of lower st d rk) (set (seen_domains seen)))
       (hits (map_option fst (plane_of st d rk)) (set (seen_planes seen)))"
    "re_RewardEligible r \<longleftrightarrow> re_ExclusionReason r = []"
    "set (seen_groups seen') = insert (group_of st d rk) (set (seen_groups seen))"
    "set (seen_domains seen') = add_opt (domain_of lower st d rk) (set (seen_domains seen))"
    "set (seen_planes seen') = add_opt (map_option fst (plane_of st d rk)) (set (seen_planes seen))"
proof -
  have r: "r = fst (eligibility_step lower st d tm rk seen)"
    and s: "seen' = snd (eligibility_step lower st d tm rk seen)" using assms by simp_all
  note f = eligibility_step_def check_plane_facts check_domain_facts check_group_facts
    eligible_record_def exclusion_of_def
  show "re_NodeID r = rk_NodeID rk" "re_RankPosition r = rk_RankPosition rk" "re_DateUTC r = d"
    "re_OperatorGroupID r = group_of st d rk" "re_Qualified r"
    "re_ExclusionReason r = exclusion_of (group_of st d rk \<in> set (seen_groups seen))
       (hits (domain_of lower st d rk) (set (seen_domains seen)))
       (hits (map_option fst (plane_of st d rk)) (set (seen_planes seen)))"
    "re_RewardEligible r \<longleftrightarrow> re_ExclusionReason r = []"
    unfolding r by (simp_all add: f)
  show "set (seen_groups seen') = insert (group_of st d rk) (set (seen_groups seen))"
    "set (seen_domains seen') = add_opt (domain_of lower st d rk) (set (seen_domains seen))"
    "set (seen_planes seen') = add_opt (map_option fst (plane_of st d rk)) (set (seen_planes seen))"
    unfolding s by (simp_all add: f)
qed

lemma length_eligibility_loop [simp]:
  "length (eligibility_loop lower st d tm rks seen) = length rks"
  by (induction rks arbitrary: seen) (simp_all split: prod.split)

lemma eligibility_loop_Cons:
  obtains r seen' where "eligibility_step lower st d tm rk seen = (r, seen')"
    and "eligibility_loop lower st d tm (rk # rks) seen = r # eligibility_loop lower st d tm rks seen'"
  by (cases "eligibility_step lower st d tm rk seen") auto

lemma eligibility_loop_nodes:
  "map re_NodeID (eligibility_loop lower st d tm rks seen) = map rk_NodeID rks
   \<and> map re_RankPosition (eligibility_loop lower st d tm rks seen) = map rk_RankPosition rks"
proof (induction rks arbitrary: seen)
  case (Cons rk rks)
  show ?case
  proof (rule eligibility_loop_Cons [of lower st d tm rk seen rks])
    fix r seen'
    assume "eligibility_step lower st d tm rk seen = (r, seen')"
      and eq: "eligibility_loop lower st d tm (rk # rks) seen = r # eligibility_loop lower st d tm rks seen'"
    from eligibility_step_facts(1,2) [OF this(1)] Cons.IH [of seen'] show ?case unfolding eq by simp
  qed
qed simp

lemma eligibility_loop_dates:
  "\<forall>r \<in> set (eligibility_loop lower st d tm rks seen). re_DateUTC r = d \<and> re_Qualified r
     \<and> (re_RewardEligible r \<longleftrightarrow> re_ExclusionReason r = [])"
proof (induction rks arbitrary: seen)
  case (Cons rk rks)
  show ?case
  proof (rule eligibility_loop_Cons [of lower st d tm rk seen rks])
    fix r seen'
    assume "eligibility_step lower st d tm rk seen = (r, seen')"
      and eq: "eligibility_loop lower st d tm (rk # rks) seen = r # eligibility_loop lower st d tm rks seen'"
    from eligibility_step_facts(3,5,7) [OF this(1)] Cons.IH [of seen'] show ?case unfolding eq by simp
  qed
qed simp

lemma ex_less_Suc: "(\<exists>j<Suc i. P j) \<longleftrightarrow> P 0 \<or> (\<exists>j<i. P (Suc j))"
  by (metis Suc_less_eq not0_implies_Suc zero_less_Suc)

lemma hits_add_opt: "hits x (add_opt y A) \<longleftrightarrow> hits x A \<or> x \<noteq> None \<and> x = y"
  by (auto simp: hits_def add_opt_def split: option.split)

text \<open>
  The outcome for the node at index \<open>i\<close> of the ranking: what it shares with a node before it, or
  with what was seen before the loop.
\<close>

lemma eligibility_loop_nth:
  assumes "i < length rks"
  shows "re_ExclusionReason (eligibility_loop lower st d tm rks seen ! i) =
    exclusion_of
      (group_of st d (rks ! i) \<in> set (seen_groups seen)
        \<or> (\<exists>j<i. group_of st d (rks ! j) = group_of st d (rks ! i)))
      (hits (domain_of lower st d (rks ! i)) (set (seen_domains seen))
        \<or> domain_of lower st d (rks ! i) \<noteq> None
          \<and> (\<exists>j<i. domain_of lower st d (rks ! j) = domain_of lower st d (rks ! i)))
      (hits (map_option fst (plane_of st d (rks ! i))) (set (seen_planes seen))
        \<or> map_option fst (plane_of st d (rks ! i)) \<noteq> None
          \<and> (\<exists>j<i. map_option fst (plane_of st d (rks ! j)) = map_option fst (plane_of st d (rks ! i))))"
  using assms
proof (induction rks arbitrary: seen i)
  case Nil
  then show ?case by simp
next
  case (Cons rk rks)
  obtain r seen' where step: "eligibility_step lower st d tm rk seen = (r, seen')"
    by (cases "eligibility_step lower st d tm rk seen") auto
  note f = eligibility_step_facts [OF step]
  show ?case
  proof (cases i)
    case 0
    with f show ?thesis by (simp add: step)
  next
    case (Suc k)
    with Cons.prems have k: "k < length rks" by simp
    have "(group_of st d (rks ! k) \<in> set (seen_groups seen')
          \<or> (\<exists>j<k. group_of st d (rks ! j) = group_of st d (rks ! k))) \<longleftrightarrow>
        (group_of st d (rks ! k) \<in> set (seen_groups seen)
          \<or> (\<exists>j<Suc k. group_of st d ((rk # rks) ! j) = group_of st d (rks ! k)))"
      unfolding f(8) ex_less_Suc nth_Cons_0 nth_Cons_Suc insert_iff by metis
    moreover have "(hits (domain_of lower st d (rks ! k)) (set (seen_domains seen'))
          \<or> domain_of lower st d (rks ! k) \<noteq> None
            \<and> (\<exists>j<k. domain_of lower st d (rks ! j) = domain_of lower st d (rks ! k))) \<longleftrightarrow>
        (hits (domain_of lower st d (rks ! k)) (set (seen_domains seen))
          \<or> domain_of lower st d (rks ! k) \<noteq> None
            \<and> (\<exists>j<Suc k. domain_of lower st d ((rk # rks) ! j) = domain_of lower st d (rks ! k)))"
      unfolding f(9) hits_add_opt ex_less_Suc nth_Cons_0 nth_Cons_Suc by metis
    moreover have "(hits (map_option fst (plane_of st d (rks ! k))) (set (seen_planes seen'))
          \<or> map_option fst (plane_of st d (rks ! k)) \<noteq> None
            \<and> (\<exists>j<k. map_option fst (plane_of st d (rks ! j)) = map_option fst (plane_of st d (rks ! k)))) \<longleftrightarrow>
        (hits (map_option fst (plane_of st d (rks ! k))) (set (seen_planes seen))
          \<or> map_option fst (plane_of st d (rks ! k)) \<noteq> None
            \<and> (\<exists>j<Suc k. map_option fst (plane_of st d ((rk # rks) ! j))
                = map_option fst (plane_of st d (rks ! k))))"
      unfolding f(10) hits_add_opt ex_less_Suc nth_Cons_0 nth_Cons_Suc by metis
    ultimately show ?thesis
      using Cons.IH [OF k, of seen'] unfolding Suc nth_Cons_Suc eligibility_loop.simps step prod.case
      by (simp only:)
  qed
qed

definition shares_group :: "store \<Rightarrow> string \<Rightarrow> ranking_record \<Rightarrow> ranking_record \<Rightarrow> bool" where
  "shares_group st d a b \<longleftrightarrow> group_of st d a = group_of st d b"

definition shares_domain :: "(string \<Rightarrow> string) \<Rightarrow> store \<Rightarrow> string \<Rightarrow> ranking_record \<Rightarrow> ranking_record \<Rightarrow> bool" where
  "shares_domain lower st d a b \<longleftrightarrow>
     domain_of lower st d b \<noteq> None \<and> domain_of lower st d a = domain_of lower st d b"

definition shares_plane :: "store \<Rightarrow> string \<Rightarrow> ranking_record \<Rightarrow> ranking_record \<Rightarrow> bool" where
  "shares_plane st d a b \<longleftrightarrow>
     plane_of st d b \<noteq> None
     \<and> map_option fst (plane_of st d a) = map_option fst (plane_of st d b)"

definition concentrated ::
    "(string \<Rightarrow> string) \<Rightarrow> store \<Rightarrow> string \<Rightarrow> ranking_record \<Rightarrow> ranking_record \<Rightarrow> bool" where
  "concentrated lower st d a b \<longleftrightarrow>
     shares_group st d a b \<or> shares_domain lower st d a b \<or> shares_plane st d a b"

lemma exclusion_reason_nth:
  assumes "i < length rks"
  shows "re_ExclusionReason (eligibility_records lower clk st d rks ! i) =
    exclusion_of (\<exists>j<i. shares_group st d (rks ! j) (rks ! i))
      (\<exists>j<i. shares_domain lower st d (rks ! j) (rks ! i))
      (\<exists>j<i. shares_plane st d (rks ! j) (rks ! i))"
  unfolding eligibility_records_def eligibility_loop_nth [OF assms]
  by (rule arg_cong3 [where f = exclusion_of])
    (auto simp: nothing_seen_def hits_def shares_group_def shares_domain_def shares_plane_def
      split: option.splits)

lemma eligibility_records_nodes:
  "map re_NodeID (eligibility_records lower clk st d rks) = map rk_NodeID rks"
  "map re_RankPosition (eligibility_records lower clk st d rks) = map rk_RankPosition rks"
  "length (eligibility_records lower clk st d rks) = length rks"
  using eligibility_loop_nodes by (simp_all add: eligibility_records_def)

lemma eligible_iff_no_reason:
  "r \<in> set (eligibility_records lower clk st d rks) \<Longrightarrow>
     re_RewardEligible r \<longleftrightarrow> re_ExclusionReason r = []"
  using eligibility_loop_dates unfolding eligibility_records_def by blast

lemma eligibility_records_date:
  "\<forall>r \<in> set (eligibility_records lower clk st d rks). re_DateUTC r = d"
  using eligibility_loop_dates unfolding eligibility_records_def by blast

text \<open>Eligible means: no node ranked above shares a group, a domain or a control plane.\<close>

lemma eligible_nth_iff:
  assumes "i < length rks"
  shows "re_RewardEligible (eligibility_records lower clk st d rks ! i) \<longleftrightarrow>
    (\<forall>j<i. \<not> concentrated lower st d (rks ! j) (rks ! i))"
proof -
  have "eligibility_records lower clk st d rks ! i \<in> set (eligibility_records lower clk st d rks)"
    using assms by (simp add: eligibility_records_nodes)
  from eligible_iff_no_reason [OF this] show ?thesis
    unfolding exclusion_reason_nth [OF assms] exclusion_of_Nil concentrated_def by blast
qed


section \<open>What is allocated\<close>

lemma participation_range: "0 \<le> rewardParticipationRate n" "rewardParticipationRate n \<le> 1"
proof -
  have "0 \<le> flit (30 / 100)" "0 \<le> flit (50 / 100)" "0 \<le> flit (75 / 100)"
    "flit (30 / 100) \<le> 1" "flit (50 / 100) \<le> 1" "flit (75 / 100) \<le> 1"
    unfolding flit_def using rnd_mono [of _ 1] by (simp_all add: rnd_nonneg)
  then show "0 \<le> rewardParticipationRate n" "rewardParticipationRate n \<le> 1"
    by (simp_all add: rewardParticipationRate_def)
qed

lemma participation_mono: "m \<le> n \<Longrightarrow> rewardParticipationRate m \<le> rewardParticipationRate n"
proof -
  assume "m \<le> n"
  have "0 \<le> flit (30 / 100)" "flit (30 / 100) \<le> flit (50 / 100)" "flit (50 / 100) \<le> flit (75 / 100)"
    "flit (75 / 100) \<le> 1"
    unfolding flit_def using rnd_mono [of _ 1] by (simp_all add: rnd_nonneg rnd_mono)
  with \<open>m \<le> n\<close> show ?thesis by (simp add: rewardParticipationRate_def)
qed

text \<open>A pool is a value of \<^verbatim>\<open>float64\<close>: rounding it changes nothing.\<close>

definition is_float :: "rat \<Rightarrow> bool" where
  "is_float x \<longleftrightarrow> rnd x = x"

lemma pool_split:
  assumes "0 \<le> P" and "is_float P"
  shows "0 \<le> fmul P (rewardParticipationRate n)" and "fmul P (rewardParticipationRate n) \<le> P"
    and "0 \<le> fsub P (fmul P (rewardParticipationRate n))"
proof -
  show 0: "0 \<le> fmul P (rewardParticipationRate n)"
    using assms participation_range by (intro fmul_nonneg) auto
  have "P * rewardParticipationRate n \<le> P * 1"
    using assms participation_range by (intro mult_left_mono) auto
  then show 1: "fmul P (rewardParticipationRate n) \<le> P"
    using rnd_mono [of "P * rewardParticipationRate n" P] assms by (simp add: fmul_def is_float_def)
  from 1 show "0 \<le> fsub P (fmul P (rewardParticipationRate n))"
    by (simp add: fsub_def rnd_nonneg)
qed

lemma filter_interval_append:
  fixes f :: "'a \<Rightarrow> int"
  assumes "sorted (map f xs)" and "a \<le> t + 1" and "t \<le> b"
  shows "filter (\<lambda>x. a \<le> f x \<and> f x \<le> t) xs @ filter (\<lambda>x. t + 1 \<le> f x \<and> f x \<le> b) xs =
    filter (\<lambda>x. a \<le> f x \<and> f x \<le> b) xs"
  using assms(1)
proof (induction xs)
  case (Cons x xs)
  have later: "f x \<le> f y" if "y \<in> set xs" for y using Cons.prems that by simp
  show ?case
  proof (cases "f x \<le> t")
    case True
    with Cons assms show ?thesis by auto
  next
    case False
    then have "filter (\<lambda>y. a \<le> f y \<and> f y \<le> t) xs = []"
      using later by (fastforce simp: filter_empty_conv)
    with Cons assms False show ?thesis by auto
  qed
qed simp

definition rank_sorted :: "ranking_record list \<Rightarrow> bool" where
  "rank_sorted rks \<longleftrightarrow> sorted (map rk_RankPosition rks)
     \<and> (\<forall>r \<in> set rks. 1 \<le> rk_RankPosition r \<and> rk_RankPosition r \<le> 2 ^ 30)"

text \<open>Every node of the ranking is in exactly one band, and the bands keep the order.\<close>

lemma bands_partition:
  assumes "rank_sorted rks"
  shows "concat (map (\<lambda>b. filter (in_band b) rks) reward_bands) = rks"
proof -
  note app = filter_interval_append [of rk_RankPosition rks]
  have s: "sorted (map rk_RankPosition rks)" using assms by (simp add: rank_sorted_def)
  let ?f = "\<lambda>a b. filter (\<lambda>x. a \<le> rk_RankPosition x \<and> rk_RankPosition x \<le> b) rks"
  have "concat (map (\<lambda>b. filter (in_band b) rks) reward_bands) =
      ((?f 1 5 @ ?f 6 20) @ ?f 21 50) @ ?f 51 (2 ^ 30)"
    by (simp add: reward_bands_def in_band_def [abs_def])
  also have "\<dots> = ?f 1 (2 ^ 30)"
    using app [OF s, of 1 5 20] app [OF s, of 1 20 50] app [OF s, of 1 50 "2 ^ 30"] by simp
  also have "\<dots> = rks" using assms by (simp add: rank_sorted_def filter_id_conv)
  finally show ?thesis .
qed

lemma band_allocations_nodes:
  "map ra_NodeID (band_allocations pool d tm rks el b) = map rk_NodeID (filter (in_band b) rks)"
  "map ra_RankPosition (band_allocations pool d tm rks el b) = map rk_RankPosition (filter (in_band b) rks)"
  by (simp_all add: band_allocations_def Let_def comp_def)

lemma allocation_nodes:
  assumes "rank_sorted rks"
  shows "map ra_NodeID (allocation_records pool clk d rks el) = map rk_NodeID rks"
    and "map ra_RankPosition (allocation_records pool clk d rks el) = map rk_RankPosition rks"
proof -
  have "map f (concat xss) = concat (map (map f) xss)" for f :: "reward_allocation_record \<Rightarrow> 'b" and xss
    by (simp add: map_concat)
  have c: "concat (map (\<lambda>b. map g (filter (in_band b) rks)) reward_bands) = map g rks" for g :: "ranking_record \<Rightarrow> 'c"
    using arg_cong [OF bands_partition [OF assms], of "map g"] by (simp add: map_concat comp_def)
  show "map ra_NodeID (allocation_records pool clk d rks el) = map rk_NodeID rks"
    and "map ra_RankPosition (allocation_records pool clk d rks el) = map rk_RankPosition rks"
    by (simp_all add: allocation_records_def map_concat comp_def band_allocations_nodes c)
qed

lemma allocation_dates: "\<forall>r \<in> set (allocation_records pool clk d rks el). ra_DateUTC r = d"
  by (auto simp: allocation_records_def band_allocations_def Let_def)

text \<open>The index of the eligibility records holds the record of every node.\<close>

lemma index_eligibility_nth:
  assumes "distinct (map re_NodeID rs)" and "r \<in> set rs"
  shows "index_eligibility (rewardEligibilityIndex rs) (re_NodeID r) = r"
  using put_all_get_in [OF assms] by (simp add: index_eligibility_def rewardEligibilityIndex_def)

text \<open>The number of eligible nodes in the band of an allocation, and what it is worth.\<close>

definition band_eligible :: "ranking_record list \<Rightarrow> (string \<Rightarrow> reward_eligibility_record) \<Rightarrow> reward_band \<Rightarrow> int" where
  "band_eligible rks el b =
     int (length (filter (\<lambda>r. in_band b r \<and> re_RewardEligible (el (rk_NodeID r))) rks))"

definition band_amount :: "float64 \<Rightarrow> ranking_record list \<Rightarrow> (string \<Rightarrow> reward_eligibility_record) \<Rightarrow> reward_band \<Rightarrow> float64" where
  "band_amount pool rks el b =
     fdiv (fmul (fmul pool (rewardParticipationRate (int (length rks)))) (band_share b))
       (float_of_int (band_eligible rks el b))"

lemma band_allocation_amount:
  assumes "a \<in> set (band_allocations pool d tm rks el b)"
  shows "ra_RewardAmount a = (if ra_RewardEligible a then band_amount pool rks el b else 0)"
    and "ra_RewardEligible a \<longleftrightarrow> re_RewardEligible (el (ra_NodeID a))"
    and "ra_BandLabel a = band_label b"
    and "ra_RewardEligible a \<Longrightarrow> 0 < band_eligible rks el b"
proof -
  obtain r where r: "r \<in> set rks" "in_band b r" and a: "ra_NodeID a = rk_NodeID r"
    "ra_RewardEligible a \<longleftrightarrow> re_RewardEligible (el (rk_NodeID r))" "ra_BandLabel a = band_label b"
    "ra_RewardAmount a = (if re_RewardEligible (el (rk_NodeID r))
       then (if 0 < band_eligible rks el b then band_amount pool rks el b else 0) else 0)"
    using assms
    by (auto simp: band_allocations_def Let_def band_amount_def band_eligible_def conj_commute)
  have pos: "0 < band_eligible rks el b" if "re_RewardEligible (el (rk_NodeID r))"
    using that r by (auto simp: band_eligible_def filter_empty_conv)
  show "ra_RewardAmount a = (if ra_RewardEligible a then band_amount pool rks el b else 0)"
    "ra_RewardEligible a \<longleftrightarrow> re_RewardEligible (el (ra_NodeID a))" "ra_BandLabel a = band_label b"
    "ra_RewardEligible a \<Longrightarrow> 0 < band_eligible rks el b"
    using a pos by auto
qed

text \<open>All amounts of a band together: at most the share of the band, up to rounding.\<close>

lemma band_total:
  "sum_list (map ra_RewardAmount (band_allocations pool d tm rks el b)) =
     of_int (band_eligible rks el b) * (if 0 < band_eligible rks el b then band_amount pool rks el b else 0)"
proof -
  have "sum_list (map (\<lambda>r. if P r then x else 0) rs) = of_int (int (length (filter P rs))) * (x::rat)"
    for P x and rs :: "ranking_record list"
    by (induction rs) (simp_all add: algebra_simps)
  then show ?thesis
    by (simp add: band_allocations_def Let_def comp_def band_eligible_def band_amount_def conj_commute)
qed


text \<open>Relative rounding errors add up: three roundings stay below \<open>2 ^ -51\<close>.\<close>

lemma normal_quarter: "1 / 2 ^ k \<le> x \<Longrightarrow> k \<le> 1022 \<Longrightarrow> 2 powi (- 1022) \<le> (x::rat)"
proof -
  assume x: "1 / 2 ^ k \<le> x" and k: "k \<le> 1022"
  have "(2::rat) powi (- 1022) \<le> 2 powi (- int k)" using k by (simp only: powi_le_iff)
  also have "(2::rat) powi (- int k) = 1 / 2 ^ k" by (simp add: power_int_minus divide_inverse)
  finally show ?thesis using x by (rule order_trans)
qed

lemma rnd_up:
  assumes "1 / 2 ^ k \<le> x" and "k \<le> 1022"
  shows "rnd x \<le> x * (1 + 1 / 2 ^ 53)"
  by (rule rnd_rel_err(1) [OF normal_quarter [OF assms]])

lemma rnd_ge_pow:
  assumes "1 / 2 ^ k \<le> x" and "k \<le> 1000"
  shows "1 / 2 ^ Suc k \<le> rnd x"
proof -
  have "1 / 2 ^ Suc k \<le> x * (1 - 1 / 2 ^ 53)"
  proof -
    have "1 / 2 ^ Suc k = 1 / 2 ^ k * (1 / 2 :: rat)" by simp
    also have "\<dots> \<le> x * (1 - 1 / 2 ^ 53)"
    proof (intro mult_mono)
      show "0 \<le> x" using assms(1) by (rule order_trans [rotated]) simp
    qed (use assms(1) in auto)
    finally show ?thesis .
  qed
  also have "\<dots> \<le> rnd x" using assms by (intro rnd_rel_err(2) normal_quarter) auto
  finally show ?thesis .
qed

lemma three_roundings: "(1 + 1 / 2 ^ 53) * (1 + 1 / 2 ^ 53) * (1 + 1 / 2 ^ 53) \<le> 1 + 1 / (2 ^ 51 :: rat)"
  by simp

lemma share_paid:
  assumes D: "1 / 4 \<le> D" and q: "1 / 8 \<le> q" and n: "0 < n" "n \<le> 2 ^ 53"
  shows "of_int n * fdiv (fmul D (flit q)) (float_of_int n) \<le> D * q * (1 + 1 / 2 ^ 51)"
proof -
  let ?u = "1 + 1 / 2 ^ 53 :: rat" and ?n = "of_int n :: rat"
  have f: "flit q \<le> q * ?u" "1 / 2 ^ 4 \<le> flit q"
    using rnd_up [of 3 q] rnd_ge_pow [of 3 q] q by (simp_all add: flit_def)
  have Df: "1 / 2 ^ 6 \<le> D * flit q"
    using mult_mono [OF D f(2)] D by simp
  have X: "fmul D (flit q) \<le> D * flit q * ?u" "1 / 2 ^ 7 \<le> fmul D (flit q)"
    using rnd_up [of 6 "D * flit q"] rnd_ge_pow [of 6 "D * flit q"] Df by (simp_all add: fmul_def)
  have n': "0 < ?n" "?n \<le> 2 ^ 53" using n by (simp_all add: of_int_le_iff [of n "2 ^ 53", simplified])
  have "1 / 2 ^ 7 / 2 ^ 53 \<le> fmul D (flit q) / ?n"
    using X(2) n' by (intro frac_le) auto
  then have "1 / 2 ^ 60 \<le> fmul D (flit q) / ?n" by simp
  from rnd_up [OF this] have "rnd (fmul D (flit q) / ?n) \<le> fmul D (flit q) / ?n * ?u" by simp
  then have "?n * rnd (fmul D (flit q) / ?n) \<le> ?n * (fmul D (flit q) / ?n * ?u)"
    using n' by (intro mult_left_mono) auto
  moreover have "fdiv (fmul D (flit q)) (float_of_int n) = rnd (fmul D (flit q) / ?n)"
    using n by (simp add: fdiv_def float_of_int_exact)
  ultimately have "?n * fdiv (fmul D (flit q)) (float_of_int n) \<le> ?n * (fmul D (flit q) / ?n * ?u)"
    by (simp only:)
  also have "\<dots> = fmul D (flit q) * ?u" using n' by simp
  also have "\<dots> \<le> (D * flit q * ?u) * ?u" using X(1) by (intro mult_right_mono) auto
  also have "\<dots> \<le> (D * (q * ?u) * ?u) * ?u" using f(1) D by (intro mult_right_mono mult_left_mono) auto
  also have "\<dots> = D * q * (?u * ?u * ?u)" by (simp only: ac_simps)
  also have "\<dots> \<le> D * q * (1 + 1 / 2 ^ 51)"
    using three_roundings D q by (intro mult_left_mono) auto
  finally show ?thesis .
qed

lemma band_paid:
  assumes "1 / 4 \<le> fmul P (rewardParticipationRate (int (length rks)))" (is "_ \<le> ?D")
    and "band_share b = flit q" and "1 / 8 \<le> q" and "length rks \<le> 2 ^ 53"
  shows "sum_list (map ra_RewardAmount (band_allocations P d tm rks el b)) \<le> ?D * q * (1 + 1 / 2 ^ 51)"
proof (cases "0 < band_eligible rks el b")
  case True
  have "length (filter (\<lambda>r. in_band b r \<and> re_RewardEligible (el (rk_NodeID r))) rks) \<le> 2 ^ 53"
    by (rule le_trans [OF length_filter_le assms(4)])
  then have "band_eligible rks el b \<le> 2 ^ 53" by (simp add: band_eligible_def)
  with share_paid [OF assms(1,3) True] True assms(2) show ?thesis
    by (simp add: band_total band_amount_def)
next
  case False
  then have "sum_list (map ra_RewardAmount (band_allocations P d tm rks el b)) = 0"
    by (simp add: band_total)
  also have "0 \<le> ?D * q * (1 + 1 / 2 ^ 51)" using assms by (intro mult_nonneg_nonneg) auto
  finally show ?thesis .
qed

lemma distributed_quarter:
  assumes "1 \<le> P" and "rks \<noteq> []"
  shows "1 / 4 \<le> fmul P (rewardParticipationRate (int (length rks)))"
proof -
  have "1 / 4 = rnd (1 * flit (1 / 4))" by code_simp
  also have "\<dots> \<le> rnd (P * rewardParticipationRate (int (length rks)))"
  proof (intro rnd_mono mult_mono)
    have "rewardParticipationRate 1 \<le> rewardParticipationRate (int (length rks))"
      using assms(2) by (intro participation_mono) (cases rks; simp)
    moreover have "flit (1 / 4) \<le> rewardParticipationRate 1"
      by (simp add: rewardParticipationRate_def flit_def rnd_mono)
    ultimately show "flit (1 / 4) \<le> rewardParticipationRate (int (length rks))" by simp
    show "0 \<le> flit (1 / 4)" by (simp add: flit_def rnd_nonneg)
  qed (use assms in auto)
  finally show ?thesis by (simp add: fmul_def)
qed

lemma total_paid:
  assumes "1 \<le> P" and "rks \<noteq> []" and "length rks \<le> 2 ^ 53"
  shows "sum_list (map ra_RewardAmount (allocation_records P clk d rks rs))
    \<le> fmul P (rewardParticipationRate (int (length rks))) * (1 + 1 / 2 ^ 51)"
proof -
  let ?D = "fmul P (rewardParticipationRate (int (length rks)))" and ?e = "1 + 1 / 2 ^ 51 :: rat"
  let ?A = "band_allocations P d (format_rfc3339 (clk At_Allocation)) rks
    (index_eligibility (rewardEligibilityIndex rs))"
  note paid = band_paid [OF distributed_quarter [OF assms(1,2)] _ _ assms(3)]
  have "sum_list (map ra_RewardAmount (allocation_records P clk d rks rs)) =
      (\<Sum>b \<leftarrow> reward_bands. sum_list (map ra_RewardAmount (?A b)))"
    using assms(2) by (simp add: allocation_records_def reward_bands_def)
  also have "\<dots> \<le> ?D * (25 / 100) * ?e + (?D * (35 / 100) * ?e + (?D * (25 / 100) * ?e + ?D * (15 / 100) * ?e))"
    unfolding reward_bands_def list.map sum_list.Cons sum_list.Nil add_0_right
    by (intro add_mono paid) simp_all
  also have "\<dots> = ?D * ?e" by (simp add: algebra_simps)
  finally show ?thesis .
qed

end
