(* ===== verification/Ranking.thy ===== *)
theory Ranking
  imports Rewards
begin

text \<open>
  The ranking of \<^verbatim>\<open>portal/internal/server/qualification.go\<close>: \<^verbatim>\<open>computeDecentralizationScores\<close>,
  \<^verbatim>\<open>totalScore\<close>, \<^verbatim>\<open>registrationTimeLess\<close> and \<^verbatim>\<open>rebuildRankings\<close>.

  \<open>rank_order\<close> shows that the comparator is a strict weak order that separates records of different
  nodes; with the contract of \<^verbatim>\<open>sort.Slice\<close> the ranking is therefore a function of the base records
  and the evidence (\<open>ranking_unique\<close>), whatever the library's algorithm and the order of Go's maps.
\<close>

section \<open>Decentralization\<close>

definition infraKey :: "decentralization_evidence \<Rightarrow> string" where
  "infraKey ev = itoa (dc_ASN ev) @ ''|'' @ dc_ProviderID ev @ ''|'' @ dc_InfrastructureID ev"

text \<open>\<^verbatim>\<open>m[k]++\<close> and \<^verbatim>\<open>m[k]\<close> on a map of counters.\<close>

definition increment :: "string \<Rightarrow> (string, int) gomap \<Rightarrow> (string, int) gomap" where
  "increment k m = map_put k ((case map_get m k of None \<Rightarrow> 0 | Some n \<Rightarrow> n) + 1) m"

definition count_at :: "(string, int) gomap \<Rightarrow> string \<Rightarrow> int" where
  "count_at m k = (case map_get m k of None \<Rightarrow> 0 | Some n \<Rightarrow> n)"

abbreviation infra_evidence :: "store \<Rightarrow> string \<Rightarrow> base_performance_record \<Rightarrow> decentralization_evidence option" where
  "infra_evidence st dateUTC r \<equiv>
     GetLatestDecentralizationEvidenceForNodeAndDate st (bp_NodeID r) dateUTC"

text \<open>The first loop: how often each country and each infrastructure occurs.\<close>

definition count_infra ::
    "store \<Rightarrow> string \<Rightarrow> base_performance_record \<Rightarrow> (string, int) gomap \<times> (string, int) gomap
      \<Rightarrow> (string, int) gomap \<times> (string, int) gomap" where
  "count_infra st dateUTC r counts =
     (case infra_evidence st dateUTC r of
        None \<Rightarrow> counts
      | Some ev \<Rightarrow>
          (if dc_CountryCode ev \<noteq> [] then increment (dc_CountryCode ev) (fst counts) else fst counts,
           increment (infraKey ev) (snd counts)))"

definition infra_counts ::
    "store \<Rightarrow> string \<Rightarrow> base_performance_record list \<Rightarrow> (string, int) gomap \<times> (string, int) gomap" where
  "infra_counts st dateUTC records = fold (count_infra st dateUTC) records ([], [])"

definition decentralization_score ::
    "(string, int) gomap \<times> (string, int) gomap \<Rightarrow> decentralization_evidence option \<Rightarrow> float64" where
  "decentralization_score counts evidence =
     (case evidence of
        None \<Rightarrow> 0
      | Some ev \<Rightarrow>
          let s = (if dc_CountryCode ev \<noteq> [] \<and> count_at (fst counts) (dc_CountryCode ev) = 1
                   then fadd (fadd 0 15) 5 else 0)
          in if 0 < dc_ASN ev \<and> trim_space (dc_ProviderID ev) \<noteq> []
                \<and> count_at (snd counts) (infraKey ev) = 1
             then fadd s 10 else s)"

text \<open>The second loop fills the map of scores; a node without an entry reads 0.\<close>

definition computeDecentralizationScores ::
    "store \<Rightarrow> string \<Rightarrow> base_performance_record list \<Rightarrow> (string, float64) gomap" where
  "computeDecentralizationScores st dateUTC records =
     (let counts = infra_counts st dateUTC records
      in fold (\<lambda>r m. map_put (bp_NodeID r)
                (decentralization_score counts (infra_evidence st dateUTC r)) m) records [])"

definition score_at :: "(string, float64) gomap \<Rightarrow> string \<Rightarrow> float64" where
  "score_at m nodeID = (case map_get m nodeID of None \<Rightarrow> 0 | Some s \<Rightarrow> s)"

definition totalScore :: "float64 \<Rightarrow> float64 \<Rightarrow> float64" where
  "totalScore basePerformanceScore decentralizationScore =
     clampScore (fadd (fmul (flit (7 / 10)) basePerformanceScore)
                      (fmul (flit (3 / 10)) decentralizationScore))"

section \<open>The ranking\<close>

definition registrationTimeLess :: "string \<Rightarrow> string \<Rightarrow> bool" where
  "registrationTimeLess left right =
     (case (parseRFC3339 left, parseRFC3339 right) of
        (Some leftTime, Some rightTime) \<Rightarrow> leftTime < rightTime
      | (Some leftTime, None) \<Rightarrow> True
      | (None, Some rightTime) \<Rightarrow> False
      | (None, None) \<Rightarrow> False)"

definition rank_before ::
    "store \<Rightarrow> (string, float64) gomap \<Rightarrow> base_performance_record \<Rightarrow> base_performance_record \<Rightarrow> bool" where
  "rank_before st scores a b =
     (let leftTotal = totalScore (bp_BasePerformanceScore a) (score_at scores (bp_NodeID a));
          rightTotal = totalScore (bp_BasePerformanceScore b) (score_at scores (bp_NodeID b))
      in if leftTotal = rightTotal then
           if bp_BasePerformanceScore a = bp_BasePerformanceScore b then
             if bp_FinalizationScore a = bp_FinalizationScore b then
               if bp_AvailabilityScore a = bp_AvailabilityScore b then
                 let iReg = nd_ValidatedRegistrationAt (node_or_zero st (bp_NodeID a));
                     jReg = nd_ValidatedRegistrationAt (node_or_zero st (bp_NodeID b))
                 in if registrationTimeLess iReg jReg then True
                    else if registrationTimeLess jReg iReg then False
                    else bp_NodeID a < bp_NodeID b
               else bp_AvailabilityScore a > bp_AvailabilityScore b
             else bp_FinalizationScore a > bp_FinalizationScore b
           else bp_BasePerformanceScore a > bp_BasePerformanceScore b
         else leftTotal > rightTotal)"

definition ranking_group :: "store \<Rightarrow> string \<Rightarrow> string \<Rightarrow> string" where
  "ranking_group st dateUTC nodeID =
     (case GetLatestOperatorGroupEvidenceForNodeAndDate st nodeID dateUTC of
        Some ev \<Rightarrow> if trim_space (og_OperatorGroupID ev) \<noteq> [] then og_OperatorGroupID ev else nodeID
      | None \<Rightarrow> nodeID)"

definition ranking_of ::
    "store \<Rightarrow> string \<Rightarrow> (string, float64) gomap \<Rightarrow> string \<Rightarrow> int \<Rightarrow> base_performance_record \<Rightarrow> ranking_record" where
  "ranking_of st dateUTC scores computedAt position r =
     \<lparr>rk_NodeID = bp_NodeID r, rk_DateUTC = bp_DateUTC r, rk_PolicyVersion = bp_PolicyVersion r,
      rk_RankPosition = position, rk_AvailabilityScore = bp_AvailabilityScore r,
      rk_FinalizationScore = bp_FinalizationScore r, rk_ChainSyncScore = bp_ChainSyncScore r,
      rk_VotingKeyScore = bp_VotingKeyScore r, rk_BasePerformanceScore = bp_BasePerformanceScore r,
      rk_DecentralizationScore = score_at scores (bp_NodeID r),
      rk_TotalScore = totalScore (bp_BasePerformanceScore r) (score_at scores (bp_NodeID r)),
      rk_OperatorGroupID = ranking_group st dateUTC (bp_NodeID r), rk_RewardEligible = True,
      rk_ExclusionReason = [], rk_ComputedAt = computedAt\<rparr>"

definition ranked_base :: "store \<Rightarrow> string \<Rightarrow> base_performance_record list" where
  "ranked_base st dateUTC =
     (let records = ListBasePerformanceRecordsByDate st dateUTC
      in sort_slice (rank_before st (computeDecentralizationScores st dateUTC records)) records)"

definition ranking_records :: "clk \<Rightarrow> store \<Rightarrow> string \<Rightarrow> ranking_record list" where
  "ranking_records clk st dateUTC =
     (let scores = computeDecentralizationScores st dateUTC (ListBasePerformanceRecordsByDate st dateUTC);
          records = ranked_base st dateUTC
      in map (\<lambda>(i, r). ranking_of st dateUTC scores (format_rfc3339 (clk At_Ranking)) (i + 1) r)
           (zip (map int [0..<length records]) records))"

definition rebuildRankings :: "'w env \<Rightarrow> clk \<Rightarrow> string \<Rightarrow> store \<Rightarrow> store" where
  "rebuildRankings e clk dateUTC st =
     (let rankings = ranking_records clk st dateUTC
      in rebuildRewardEligibility e clk dateUTC rankings
           (ReplaceRankingRecordsForDate dateUTC rankings st))"

section \<open>The comparator\<close>

text \<open>Registration time as a key: records without a readable time come last.\<close>

definition registration_key :: "string \<Rightarrow> int \<times> instant" where
  "registration_key raw = (case parseRFC3339 raw of Some t \<Rightarrow> (0, t) | None \<Rightarrow> (1, 0))"

lemma registrationTimeLess_key:
  "registrationTimeLess l r \<longleftrightarrow> registration_key l < registration_key r"
  by (auto simp: registrationTimeLess_def registration_key_def split: option.split)

definition record_total :: "(string, float64) gomap \<Rightarrow> base_performance_record \<Rightarrow> float64" where
  "record_total scores r = totalScore (bp_BasePerformanceScore r) (score_at scores (bp_NodeID r))"

definition record_registration :: "store \<Rightarrow> base_performance_record \<Rightarrow> int \<times> instant" where
  "record_registration st r =
     registration_key (nd_ValidatedRegistrationAt (node_or_zero st (bp_NodeID r)))"

lemma three_way:
  "(if a < b then True else if b < a then False else c) = (if a = b then c else a < (b::'k::linorder))"
  by auto

lemma rank_before_chain:
  "rank_before st scores =
     (\<lambda>a b. if record_total scores a = record_total scores b
        then if bp_BasePerformanceScore a = bp_BasePerformanceScore b
          then if bp_FinalizationScore a = bp_FinalizationScore b
            then if bp_AvailabilityScore a = bp_AvailabilityScore b
              then if record_registration st a = record_registration st b
                then bp_NodeID a < bp_NodeID b
                else record_registration st a < record_registration st b
              else bp_AvailabilityScore a > bp_AvailabilityScore b
            else bp_FinalizationScore a > bp_FinalizationScore b
          else bp_BasePerformanceScore a > bp_BasePerformanceScore b
        else record_total scores a > record_total scores b)"
  unfolding rank_before_def registrationTimeLess_key record_total_def record_registration_def Let_def
    three_way by (rule refl)

interpretation rank_order: slice_order "rank_before st scores" for st scores
  unfolding rank_before_chain by (intro slice_order_chain)

lemma rank_before_total: "record_total scores b < record_total scores a \<Longrightarrow> rank_before st scores a b"
  by (simp add: rank_before_chain)

lemma rank_separates:
  "bp_NodeID a \<noteq> bp_NodeID b \<Longrightarrow> rank_before st scores a b \<or> rank_before st scores b a"
  unfolding rank_before_chain by (simp add: neq_iff)


section \<open>What the scores are\<close>

lemma count_at_increment: "count_at (increment k m) k' = count_at m k' + (if k' = k then 1 else 0)"
  by (simp add: count_at_def increment_def map_get_put)

definition has_country :: "store \<Rightarrow> string \<Rightarrow> string \<Rightarrow> base_performance_record \<Rightarrow> bool" where
  "has_country st d c r \<longleftrightarrow> map_option dc_CountryCode (infra_evidence st d r) = Some c"

definition has_infra :: "store \<Rightarrow> string \<Rightarrow> string \<Rightarrow> base_performance_record \<Rightarrow> bool" where
  "has_infra st d k r \<longleftrightarrow> map_option infraKey (infra_evidence st d r) = Some k"

lemma count_infra_fields:
  "c \<noteq> [] \<Longrightarrow> count_at (fst (count_infra st d r m)) c =
     count_at (fst m) c + (if has_country st d c r then 1 else 0)"
  "count_at (snd (count_infra st d r m)) k = count_at (snd m) k + (if has_infra st d k r then 1 else 0)"
  by (auto simp: count_infra_def has_country_def has_infra_def count_at_increment split: option.split)

lemma fold_count_infra:
  "c \<noteq> [] \<Longrightarrow> count_at (fst (fold (count_infra st d) rs m)) c =
     count_at (fst m) c + number (has_country st d c) rs"
  "count_at (snd (fold (count_infra st d) rs m)) k = count_at (snd m) k + number (has_infra st d k) rs"
  by (induction rs arbitrary: m) (simp_all add: count_infra_fields)

lemma infra_counts_number:
  "c \<noteq> [] \<Longrightarrow> count_at (fst (infra_counts st d rs)) c = number (has_country st d c) rs"
  "count_at (snd (infra_counts st d rs)) k = number (has_infra st d k) rs"
  using fold_count_infra(1) [of c st d rs "([], [])"] fold_count_infra(2) [of st d rs "([], [])" k]
  by (simp_all add: infra_counts_def count_at_def)

lemma score_sums: "fadd (fadd 0 15) 5 = 20" "fadd 20 10 = 30" "fadd 0 10 = 10"
  by (simp_all add: fadd_def rnd_numeral)

text \<open>
  The score of a node with evidence: 20 for the only node of its country, 10 for the only node on its
  infrastructure. The counts run over the day's qualified nodes.
\<close>

lemma decentralization_score_value:
  "decentralization_score (infra_counts st d rs) (Some ev) =
     (if dc_CountryCode ev \<noteq> [] \<and> number (has_country st d (dc_CountryCode ev)) rs = 1 then 20 else 0)
     + (if 0 < dc_ASN ev \<and> trim_space (dc_ProviderID ev) \<noteq> []
          \<and> number (has_infra st d (infraKey ev)) rs = 1 then 10 else 0)"
  by (cases "dc_CountryCode ev = []")
    (simp_all add: decentralization_score_def infra_counts_number score_sums Let_def)

lemma decentralization_score_range:
  "decentralization_score counts ev \<in> {0, 10, 20, 30}"
  by (cases ev) (simp_all add: decentralization_score_def score_sums Let_def)

lemma fold_put_get:
  "map_get (fold (\<lambda>r m. map_put (k r) (f r) m) rs m) x =
     (case find (\<lambda>r. k r = x) (rev rs) of None \<Rightarrow> map_get m x | Some r \<Rightarrow> Some (f r))"
proof (induction rs arbitrary: m)
  case (Cons r rs)
  then show ?case by (simp add: map_get_put find_append split: option.splits)
qed simp

lemma score_at_range: "score_at (computeDecentralizationScores st d rs) n \<in> {0, 10, 20, 30}"
proof -
  have "score_at (computeDecentralizationScores st d rs) n = 0 \<or>
      (\<exists>ev. score_at (computeDecentralizationScores st d rs) n = decentralization_score (infra_counts st d rs) ev)"
    by (auto simp: score_at_def computeDecentralizationScores_def Let_def fold_put_get split: option.split)
  then show ?thesis using decentralization_score_range by (metis insertI1)
qed

lemma score_at_value:
  assumes "distinct (map bp_NodeID rs)" and "r \<in> set rs"
  shows "score_at (computeDecentralizationScores st d rs) (bp_NodeID r) =
    decentralization_score (infra_counts st d rs) (infra_evidence st d r)"
proof -
  have "find (\<lambda>x. bp_NodeID x = bp_NodeID r) (rev rs) = Some r"
  proof (cases "find (\<lambda>x. bp_NodeID x = bp_NodeID r) (rev rs)")
    case None
    with assms(2) show ?thesis by (auto simp: find_None_iff)
  next
    case (Some x)
    then have "x \<in> set rs" "bp_NodeID x = bp_NodeID r"
      by (auto simp: find_Some_iff) (metis length_rev nth_mem set_rev)
    with assms Some show ?thesis by (metis distinct_map inj_onD)
  qed
  then show ?thesis
    by (simp add: score_at_def computeDecentralizationScores_def Let_def fold_put_get)
qed

lemma totalScore_range:
  assumes "0 \<le> b" "b \<le> 70" "d \<in> {0, 10, 20, 30}"
  shows "0 \<le> totalScore b d" "totalScore b d \<le> 58"
proof -
  have d: "0 \<le> d" "d \<le> 30" using assms(3) by auto
  have w: "0 \<le> flit (7 / 10)" "0 \<le> flit (3 / 10)" by (simp_all add: flit_def rnd_nonneg)
  have "fadd (fmul (flit (7 / 10)) b) (fmul (flit (3 / 10)) d)
      \<le> fadd (fmul (flit (7 / 10)) 70) (fmul (flit (3 / 10)) 30)"
    using assms d w by (intro fadd_mono fmul_mono) auto
  also have "\<dots> \<le> 58" by code_simp
  finally have le: "fadd (fmul (flit (7 / 10)) b) (fmul (flit (3 / 10)) d) \<le> 58" .
  have "0 \<le> fadd (fmul (flit (7 / 10)) b) (fmul (flit (3 / 10)) d)"
    using assms d w by (intro fadd_nonneg fmul_nonneg) auto
  with le show "0 \<le> totalScore b d" "totalScore b d \<le> 58"
    by (simp_all add: totalScore_def clampScore_def)
qed

section \<open>The ranking of a day\<close>

lemma base_day_distinct:
  assumes "wf_store st" and "d \<noteq> []"
  shows "distinct (map bp_NodeID (ListBasePerformanceRecordsByDate st d))"
    and "\<forall>r \<in> set (ListBasePerformanceRecordsByDate st d). bp_DateUTC r = d"
proof -
  let ?rs = "filter (\<lambda>r. selects d (bp_DateUTC r)) (map_vals (st_basePerformance st))"
  have date: "\<forall>r \<in> set ?rs. bp_DateUTC r = d" using assms(2) by (simp add: selects_date)
  have "distinct (map bp_key (map_vals (st_basePerformance st)))"
    using assms(1) by (intro keyed_map_distinct) (simp add: wf_store_def dated_map_def)
  then have "distinct (map bp_key ?rs)" by (rule distinct_map_filter)
  moreover have "map bp_key ?rs = map (\<lambda>n. n @ [CHR 0x00] @ d) (map bp_NodeID ?rs)"
    using date by (simp add: bp_key_def basePerformanceKey_def)
  ultimately have "distinct (map bp_NodeID ?rs)" by (metis distinct_map)
  then show "distinct (map bp_NodeID (ListBasePerformanceRecordsByDate st d))"
    by (simp add: ListBasePerformanceRecordsByDate_def)
  show "\<forall>r \<in> set (ListBasePerformanceRecordsByDate st d). bp_DateUTC r = d"
    using date by (simp add: ListBasePerformanceRecordsByDate_def)
qed

lemma ranked_base_facts:
  "mset (ranked_base st d) = mset (ListBasePerformanceRecordsByDate st d)"
  "set (ranked_base st d) = set (ListBasePerformanceRecordsByDate st d)"
  "distinct (map bp_NodeID (ranked_base st d)) =
     distinct (map bp_NodeID (ListBasePerformanceRecordsByDate st d))"
  by (simp_all add: ranked_base_def Let_def)

lemma ranking_records_nodes:
  "map rk_NodeID (ranking_records clk st d) = map bp_NodeID (ranked_base st d)"
  "length (ranking_records clk st d) = length (ranked_base st d)"
  "map rk_RankPosition (ranking_records clk st d) = map (\<lambda>i. int i + 1) [0..<length (ranked_base st d)]"
proof -
  have m: "map (f \<circ> (\<lambda>(i, r). ranking_of st d sc tm (i + 1) r)) (zip (map int [0..<length rs]) rs) = map g rs"
    if "\<And>i r. f (ranking_of st d sc tm i r) = g r" for f g sc tm rs
    using that by (intro nth_equalityI) auto
  show "map rk_NodeID (ranking_records clk st d) = map bp_NodeID (ranked_base st d)"
    unfolding ranking_records_def Let_def map_map by (rule m) (simp add: ranking_of_def)
  show "length (ranking_records clk st d) = length (ranked_base st d)"
    by (simp add: ranking_records_def Let_def)
  show "map rk_RankPosition (ranking_records clk st d) = map (\<lambda>i. int i + 1) [0..<length (ranked_base st d)]"
    by (intro nth_equalityI) (simp_all add: ranking_records_def Let_def ranking_of_def)
qed

lemma ranking_nth:
  assumes "i < length (ranked_base st d)"
  shows "ranking_records clk st d ! i =
    ranking_of st d (computeDecentralizationScores st d (ListBasePerformanceRecordsByDate st d))
      (format_rfc3339 (clk At_Ranking)) (int i + 1) (ranked_base st d ! i)"
  using assms by (simp add: ranking_records_def Let_def)

lemma sorted_positions: "sorted (map (\<lambda>i. int i + 1) [0..<n])"
  by (simp add: sorted_iff_nth_mono)

lemma ranking_rank_sorted:
  assumes "length (ranked_base st d) \<le> 2 ^ 30"
  shows "rank_sorted (ranking_records clk st d)"
proof -
  have "rk_RankPosition r \<in> set (map (\<lambda>i. int i + 1) [0..<length (ranked_base st d)])"
    if "r \<in> set (ranking_records clk st d)" for r
    using that ranking_records_nodes(3) [of clk st d] by (metis image_eqI list.set_map)
  then show ?thesis
    using assms ranking_records_nodes(3) [of clk st d] sorted_positions
    by (fastforce simp: rank_sorted_def)
qed

text \<open>Any other ordering of the day's records that respects the comparator is the same ranking.\<close>

lemma ranked_base_unique:
  assumes "wf_store st" "d \<noteq> []" and "mset rs = mset (ListBasePerformanceRecordsByDate st d)"
    and "ordered (rank_before st
      (computeDecentralizationScores st d (ListBasePerformanceRecordsByDate st d))) rs"
  shows "rs = ranked_base st d"
  unfolding ranked_base_def Let_def
proof (rule rank_order.sort_unique [OF assms(3,4)])
  fix x y assume "x \<in> set (ListBasePerformanceRecordsByDate st d)"
    "y \<in> set (ListBasePerformanceRecordsByDate st d)" "x \<noteq> y"
  with base_day_distinct(1) [OF assms(1,2)] have "bp_NodeID x \<noteq> bp_NodeID y"
    by (auto simp: distinct_map dest: inj_onD)
  then show "rank_before st (computeDecentralizationScores st d (ListBasePerformanceRecordsByDate st d)) x y
      \<or> rank_before st (computeDecentralizationScores st d (ListBasePerformanceRecordsByDate st d)) y x"
    by (rule rank_separates)
qed

text \<open>The total never rises down the ranking.\<close>

lemma ranking_totals_descend:
  "sorted_wrt (\<lambda>a b. rk_TotalScore b \<le> rk_TotalScore a) (ranking_records clk st d)"
proof -
  let ?sc = "computeDecentralizationScores st d (ListBasePerformanceRecordsByDate st d)"
  have "ordered (rank_before st ?sc) (ranked_base st d)"
    unfolding ranked_base_def Let_def by (rule rank_order.ordered_sort)
  then have "\<not> rank_before st ?sc (ranked_base st d ! j) (ranked_base st d ! i)"
    if "i < j" "j < length (ranked_base st d)" for i j
    using that by (simp add: sorted_wrt_iff_nth_less)
  then have "record_total ?sc (ranked_base st d ! j) \<le> record_total ?sc (ranked_base st d ! i)"
    if "i < j" "j < length (ranked_base st d)" for i j
    using that rank_before_total by (metis linorder_not_le)
  then show ?thesis
    by (simp add: sorted_wrt_iff_nth_less ranking_records_nodes(2) ranking_nth ranking_of_def record_total_def)
qed


section \<open>The views of a day after a rebuild\<close>

definition ranking_frame :: "store \<Rightarrow> store \<Rightarrow> bool" where
  "ranking_frame s s' \<longleftrightarrow>
     s' = s\<lparr>st_rankingRecords := st_rankingRecords s', st_rewardEligibility := st_rewardEligibility s',
            st_rewardAllocations := st_rewardAllocations s'\<rparr>"

lemma ranking_frame_refl [simp]: "ranking_frame s s"
  by (simp add: ranking_frame_def)

lemma ranking_frame_trans: "ranking_frame s s' \<Longrightarrow> ranking_frame s' s'' \<Longrightarrow> ranking_frame s s''"
proof -
  assume a: "ranking_frame s s'" and b: "ranking_frame s' s''"
  show "ranking_frame s s''"
    unfolding ranking_frame_def
    by (subst b [unfolded ranking_frame_def], subst a [unfolded ranking_frame_def]) simp
qed

lemma ranking_frame_replace:
  "ranking_frame s (ReplaceRankingRecordsForDate d rs s)"
  "ranking_frame s (ReplaceRewardEligibilityRecordsForDate d es s)"
  "ranking_frame s (ReplaceRewardAllocationRecordsForDate d as s)"
  by (simp_all add: ranking_frame_def ReplaceRankingRecordsForDate_def
      ReplaceRewardEligibilityRecordsForDate_def ReplaceRewardAllocationRecordsForDate_def)

lemma frame_rebuildRewardEligibility: "ranking_frame s (rebuildRewardEligibility e clk d rks s)"
  unfolding rebuildRewardEligibility_def rebuildRewardAllocations_def Let_def
  by (rule ranking_frame_trans [OF ranking_frame_replace(2) ranking_frame_replace(3)])

lemma frame_rebuildRankings: "ranking_frame s (rebuildRankings e clk d s)"
  unfolding rebuildRankings_def Let_def
  by (rule ranking_frame_trans [OF ranking_frame_replace(1) frame_rebuildRewardEligibility])

text \<open>The eligibility pass reads only the evidence, which the frame keeps.\<close>

lemma evidence_of_frame:
  assumes "ranking_frame s s'"
  shows "GetLatestOperatorGroupEvidenceForNodeAndDate s' = GetLatestOperatorGroupEvidenceForNodeAndDate s"
    "GetLatestDomainEvidenceForNodeAndDate s' = GetLatestDomainEvidenceForNodeAndDate s"
    "GetLatestSharedControlPlaneEvidenceForNodeAndDate s' = GetLatestSharedControlPlaneEvidenceForNodeAndDate s"
  by (subst assms [unfolded ranking_frame_def],
      simp add: fun_eq_iff GetLatestOperatorGroupEvidenceForNodeAndDate_def
        GetLatestDomainEvidenceForNodeAndDate_def GetLatestSharedControlPlaneEvidenceForNodeAndDate_def)+

lemma eligibility_records_frame:
  assumes "ranking_frame s s'"
  shows "eligibility_records lower clk s' d rks = eligibility_records lower clk s d rks"
proof -
  have "group_of s' = group_of s" "domain_of lower s' = domain_of lower s" "plane_of s' = plane_of s"
    by (simp_all add: fun_eq_iff group_of_def domain_of_def plane_of_def evidence_of_frame [OF assms])
  then have step: "eligibility_step lower s' = eligibility_step lower s"
    by (simp add: fun_eq_iff eligibility_step_def)
  have "eligibility_loop lower s' d tm rks seen = eligibility_loop lower s d tm rks seen" for tm seen
    by (induction rks arbitrary: seen) (simp_all add: step)
  then show ?thesis by (simp add: eligibility_records_def)
qed

text \<open>A ranking of a day as the code makes one.\<close>

definition day_ranking :: "string \<Rightarrow> ranking_record list \<Rightarrow> bool" where
  "day_ranking d rks \<longleftrightarrow> (\<forall>r \<in> set rks. rk_DateUTC r = d) \<and> distinct (map rk_NodeID rks)
     \<and> rank_sorted rks \<and> sorted (map (\<lambda>r. (rk_RankPosition r, rk_NodeID r)) rks)"

lemma map_pair_cong:
  "map f xs = map f' ys \<Longrightarrow> map g xs = map g' ys \<Longrightarrow>
     map (\<lambda>x. (f x, g x)) xs = map (\<lambda>y. (f' y, g' y)) ys"
proof (induction xs arbitrary: ys)
  case (Cons x xs)
  then show ?case by (cases ys) auto
qed simp

lemma rebuild_eligibility_wf:
  assumes "wf_store s" and "no_nul d"
  shows "wf_store (rebuildRewardEligibility e clk d rks s)"
  unfolding rebuildRewardEligibility_def rebuildRewardAllocations_def Let_def
  by (intro wf_ops assms(1); use assms(2) eligibility_records_date allocation_dates in fastforce)

lemma rebuild_eligibility_views:
  fixes e :: "'w env" and clk :: clk
  assumes wf: "wf_store s" and d: "no_nul d" "d \<noteq> []" and rks: "day_ranking d rks"
  defines "rs \<equiv> eligibility_records (out_lower (env_out e)) clk s d rks"
  shows "ListRewardEligibilityRecordsByDate (rebuildRewardEligibility e clk d rks s) d = rs"
    and "ListRewardAllocationRecordsByDate (rebuildRewardEligibility e clk d rks s) d =
      allocation_records (cfg_NominalDailyPool (env_cfg e)) clk d rks rs"
    and "ListRankingRecordsByDate (rebuildRewardEligibility e clk d rks s) d = ListRankingRecordsByDate s d"
proof -
  let ?as = "allocation_records (cfg_NominalDailyPool (env_cfg e)) clk d rks rs"
  let ?s1 = "ReplaceRewardEligibilityRecordsForDate d rs s"
  have eq: "rebuildRewardEligibility e clk d rks s = ReplaceRewardAllocationRecordsForDate d ?as ?s1"
    by (simp add: rebuildRewardEligibility_def rebuildRewardAllocations_def Let_def rs_def)
  note nodes = eligibility_records_nodes [of "out_lower (env_out e)" clk s d rks, folded rs_def]
  have rank: "rank_sorted rks" and dist: "distinct (map rk_NodeID rks)"
    and srt: "sorted (map (\<lambda>r. (rk_RankPosition r, rk_NodeID r)) rks)"
    using rks by (simp_all add: day_ranking_def)
  note anodes = allocation_nodes [OF rank, of "cfg_NominalDailyPool (env_cfg e)" clk d rs]
  have wf1: "wf_store ?s1"
    using eligibility_records_date [of "out_lower (env_out e)" clk s d rks] d wf
    by (intro wf_ReplaceRewardEligibilityRecordsForDate) (auto simp: rs_def)
  have pr: "map (\<lambda>r. (re_RankPosition r, re_NodeID r)) rs = map (\<lambda>r. (rk_RankPosition r, rk_NodeID r)) rks"
    by (rule map_pair_cong) (fact nodes(2), fact nodes(1))
  have pa: "map (\<lambda>r. (ra_RankPosition r, ra_NodeID r)) ?as = map (\<lambda>r. (rk_RankPosition r, rk_NodeID r)) rks"
    by (rule map_pair_cong) (fact anodes(2), fact anodes(1))
  have "ListRewardEligibilityRecordsByDate (ReplaceRewardAllocationRecordsForDate d ?as ?s1) d =
      ListRewardEligibilityRecordsByDate ?s1 d"
    by (simp add: ListRewardEligibilityRecordsByDate_def ReplaceRewardAllocationRecordsForDate_def)
  also have "\<dots> = rs"
  proof (rule eligibility_days.read_back [OF wf d])
    show "\<forall>r \<in> set rs. re_DateUTC r = d" unfolding rs_def by (rule eligibility_records_date)
    show "distinct (map (snd \<circ> (\<lambda>r. (re_RankPosition r, re_NodeID r))) rs)"
      using dist nodes(1) by (simp add: comp_def)
    show "sorted (map (\<lambda>r. (re_RankPosition r, re_NodeID r)) rs)" using srt pr by simp
  qed
  finally show "ListRewardEligibilityRecordsByDate (rebuildRewardEligibility e clk d rks s) d = rs"
    unfolding eq .
  show "ListRewardAllocationRecordsByDate (rebuildRewardEligibility e clk d rks s) d = ?as"
    unfolding eq
  proof (rule allocation_days.read_back [OF wf1 d])
    show "\<forall>r \<in> set ?as. ra_DateUTC r = d" by (rule allocation_dates)
    show "distinct (map (snd \<circ> (\<lambda>r. (ra_RankPosition r, ra_NodeID r))) ?as)"
      using dist anodes(1) by (simp add: comp_def)
    show "sorted (map (\<lambda>r. (ra_RankPosition r, ra_NodeID r)) ?as)" using srt pa by simp
  qed
  show "ListRankingRecordsByDate (rebuildRewardEligibility e clk d rks s) d = ListRankingRecordsByDate s d"
    unfolding eq by (simp add: ListRankingRecordsByDate_def ReplaceRewardAllocationRecordsForDate_def
        ReplaceRewardEligibilityRecordsForDate_def)
qed

lemma ranking_records_day:
  assumes "wf_store s" "d \<noteq> []" and "length (ranked_base s d) \<le> 2 ^ 30"
  shows "day_ranking d (ranking_records clk s d)"
proof -
  have "sorted (map (\<lambda>r. (rk_RankPosition r, rk_NodeID r)) (ranking_records clk s d))"
  proof (subst sorted_iff_nth_mono_less, intro allI impI)
    fix i j
    assume ij: "i < j" "j < length (map (\<lambda>r. (rk_RankPosition r, rk_NodeID r)) (ranking_records clk s d))"
    then have "i < length (ranked_base s d)" "j < length (ranked_base s d)"
      by (simp_all add: ranking_records_nodes(2))
    with ij show "map (\<lambda>r. (rk_RankPosition r, rk_NodeID r)) (ranking_records clk s d) ! i
        \<le> map (\<lambda>r. (rk_RankPosition r, rk_NodeID r)) (ranking_records clk s d) ! j"
      by (simp add: ranking_nth ranking_of_def ranking_records_nodes(2) less_eq_prod_def)
  qed
  moreover have "rk_DateUTC r = d" if "r \<in> set (ranking_records clk s d)" for r
  proof -
    from that obtain i where i: "i < length (ranked_base s d)" "r = ranking_records clk s d ! i"
      by (metis in_set_conv_nth ranking_records_nodes(2))
    then have "ranked_base s d ! i \<in> set (ListBasePerformanceRecordsByDate s d)"
      by (metis nth_mem ranked_base_facts(2))
    with i base_day_distinct(2) [OF assms(1,2)] show ?thesis by (simp add: ranking_nth ranking_of_def)
  qed
  ultimately show ?thesis
    using base_day_distinct(1) [OF assms(1,2)] ranking_rank_sorted [OF assms(3)]
    by (simp add: day_ranking_def ranking_records_nodes(1) ranked_base_facts(3))
qed

lemma rebuild_rankings_wf:
  assumes "wf_store s" "no_nul d"
  shows "wf_store (rebuildRankings e clk d s)"
proof -
  have "no_nul (rk_DateUTC r)" if "r \<in> set (ranking_records clk s d)" for r
  proof -
    from that obtain i where i: "i < length (ranked_base s d)" "r = ranking_records clk s d ! i"
      by (metis in_set_conv_nth ranking_records_nodes(2))
    then have "ranked_base s d ! i \<in> set (map_vals (st_basePerformance s))"
      using nth_mem [OF i(1)] by (simp add: ranked_base_facts(2) ListBasePerformanceRecordsByDate_def)
    with assms(1) have "no_nul (bp_DateUTC (ranked_base s d ! i))"
      by (simp add: wf_store_def dated_map_def)
    with i show ?thesis by (simp add: ranking_nth ranking_of_def)
  qed
  then show ?thesis
    unfolding rebuildRankings_def Let_def
    by (intro rebuild_eligibility_wf wf_ReplaceRankingRecordsForDate assms) auto
qed

text \<open>After \<^verbatim>\<open>rebuildRankings\<close> the three views of the day are exactly what the passes computed.\<close>

lemma rebuild_rankings_views:
  fixes e :: "'w env" and clk :: clk
  assumes wf: "wf_store s" and d: "no_nul d" "d \<noteq> []" and len: "length (ranked_base s d) \<le> 2 ^ 30"
  defines "rks \<equiv> ranking_records clk s d"
  defines "rs \<equiv> eligibility_records (out_lower (env_out e)) clk s d rks"
  shows "ListRankingRecordsByDate (rebuildRankings e clk d s) d = rks"
    and "ListRewardEligibilityRecordsByDate (rebuildRankings e clk d s) d = rs"
    and "ListRewardAllocationRecordsByDate (rebuildRankings e clk d s) d =
      allocation_records (cfg_NominalDailyPool (env_cfg e)) clk d rks rs"
proof -
  let ?s1 = "ReplaceRankingRecordsForDate d rks s"
  have day: "day_ranking d rks" unfolding rks_def by (rule ranking_records_day [OF wf d(2) len])
  then have dn: "\<forall>r \<in> set rks. rk_DateUTC r = d" "distinct (map rk_NodeID rks)"
    "sorted (map (\<lambda>r. (rk_RankPosition r, rk_NodeID r)) rks)" by (simp_all add: day_ranking_def)
  have wf1: "wf_store ?s1" using dn(1) d by (intro wf_ReplaceRankingRecordsForDate wf) auto
  have eq: "rebuildRankings e clk d s = rebuildRewardEligibility e clk d rks ?s1"
    by (simp add: rebuildRankings_def Let_def rks_def)
  have rs: "eligibility_records (out_lower (env_out e)) clk ?s1 d rks = rs"
    unfolding rs_def by (rule eligibility_records_frame [OF ranking_frame_replace(1)])
  note v = rebuild_eligibility_views [OF wf1 d day, of e clk, unfolded rs]
  have "ListRankingRecordsByDate ?s1 d = rks"
    by (rule ranking_days.read_back [OF wf d]) (use dn in \<open>simp_all add: comp_def\<close>)
  with v(3) show "ListRankingRecordsByDate (rebuildRankings e clk d s) d = rks" unfolding eq by simp
  show "ListRewardEligibilityRecordsByDate (rebuildRankings e clk d s) d = rs" unfolding eq by (rule v(1))
  show "ListRewardAllocationRecordsByDate (rebuildRankings e clk d s) d =
      allocation_records (cfg_NominalDailyPool (env_cfg e)) clk d rks rs" unfolding eq by (rule v(2))
qed

end
