(* ===== verification/Alerts.thy ===== *)
theory Alerts
  imports Portal_World
begin

text \<open>
  \<^verbatim>\<open>portal/internal/server/alerts.go\<close>: the alert codes and their severities, cooldowns and messages,
  \<^verbatim>\<open>maybeNotifyAlert\<close> with its delivery records, and the heartbeat scan of the alert loop.

  \<open>alert_frame\<close> says which parts of the store an alert may touch. \<open>sent_log\<close> is the abstract view of
  the deliveries of one alert of one node, and \<open>spaced\<close> its specification: \<open>alerts_spaced\<close> shows that
  any sequence of alert attempts keeps successive deliveries a cooldown apart.
\<close>

definition severityForAlert :: "string \<Rightarrow> severity" where
  "severityForAlert alertCode =
     (if alertCode = alertHeartbeatFailed \<or> alertCode = alertNodeOutage \<or> alertCode = alertFinalizedLag
      then Critical
      else if alertCode = alertHeartbeatStale then Warning
      else Warning)"

definition cooldownForSeverity :: "severity \<Rightarrow> duration" where
  "cooldownForSeverity sev = (if sev = Critical then 15 * minute else 24 * hour)"

definition notificationMessage :: "string \<Rightarrow> string" where
  "notificationMessage alertCode =
     (if alertCode = alertHeartbeatStale then ''Program Agent heartbeat is stale''
      else if alertCode = alertHeartbeatFailed then ''Program Agent heartbeat is failed''
      else if alertCode = alertNodeOutage then ''Node availability is below the qualification threshold''
      else if alertCode = alertFinalizedLag then ''Finalized lag is above the qualification threshold''
      else if alertCode = ''portal_unreachable'' then ''Program Agent cannot reach portal''
      else if alertCode = ''voting_key_expiry_risk'' then ''Voting key expiry is approaching''
      else if alertCode = ''certificate_expiry_risk'' then ''TLS certificate expiry is approaching''
      else if alertCode = ''local_check_execution_failed'' then ''Local hardware check execution failed''
      else ''SSNP portal alert'')"

definition isSupportedWarningCode :: "string \<Rightarrow> bool" where
  "isSupportedWarningCode code \<longleftrightarrow>
     code = ''portal_unreachable'' \<or> code = ''local_check_execution_failed''
     \<or> code = ''voting_key_expiry_risk'' \<or> code = ''certificate_expiry_risk''"

definition failure_delivery ::
    "string \<Rightarrow> string \<Rightarrow> severity \<Rightarrow> string \<Rightarrow> instant \<Rightarrow> string \<Rightarrow> string \<Rightarrow> string \<Rightarrow> notification_delivery" where
  "failure_delivery nodeID alertCode sev occurredAt now channel recipient detail =
     \<lparr>dl_NodeID = nodeID, dl_AlertCode = alertCode, dl_Severity = severity_str sev,
      dl_Channel = channel, dl_Recipient = recipient, dl_OccurredAt = occurredAt,
      dl_SentAt = format_rfc3339 now, dl_Status = ''failed'', dl_ErrorDetail = detail\<rparr>"

text \<open>A failed persist is only printed to the standard error stream.\<close>

definition recordDeliveryFailure ::
    "'w env \<Rightarrow> string \<Rightarrow> string \<Rightarrow> severity \<Rightarrow> string \<Rightarrow> instant \<Rightarrow> string \<Rightarrow> string \<Rightarrow> string
      \<Rightarrow> 'w server \<Rightarrow> 'w server" where
  "recordDeliveryFailure e nodeID alertCode sev occurredAt now channel recipient detail s =
     fst (persist e
       (on_store (AddOperationalEvent
           \<lparr>oe_NodeID = nodeID, oe_EventCode = operationalEventDeliveryFailure,
            oe_Severity = ''warning'', oe_EventTimestamp = format_rfc3339 now, oe_Detail = detail\<rparr>)
         (on_store (AddNotificationDelivery
             (failure_delivery nodeID alertCode sev occurredAt now channel recipient detail)) s)))"

definition in_cooldown :: "store \<Rightarrow> string \<Rightarrow> string \<Rightarrow> instant \<Rightarrow> bool" where
  "in_cooldown st nodeID alertCode now =
     (let sev = severityForAlert alertCode
      in case GetAlertState st nodeID alertCode (severity_str sev) of
           None \<Rightarrow> False
         | Some state \<Rightarrow>
             (case parse_rfc3339 (as_LastSentAt state) of
                None \<Rightarrow> False
              | Some lastSentAt \<Rightarrow> now < lastSentAt + cooldownForSeverity sev))"

definition alert_recipient :: "config \<Rightarrow> store \<Rightarrow> string \<Rightarrow> string" where
  "alert_recipient cfg st nodeID =
     (case GetNode st nodeID of
        Some node \<Rightarrow>
          if trim_space (nd_OperatorEmail node) \<noteq> [] then trim_space (nd_OperatorEmail node)
          else trim_space (cfg_NotificationEmailTo cfg)
      | None \<Rightarrow> trim_space (cfg_NotificationEmailTo cfg))"

definition alert_notification :: "string \<Rightarrow> string \<Rightarrow> string \<Rightarrow> string \<Rightarrow> notification" where
  "alert_notification nodeID alertCode occurredAt recipient =
     \<lparr>no_NodeID = nodeID, no_AlertCode = alertCode, no_Severity = severityForAlert alertCode,
      no_Channel = ''email'', no_Recipient = recipient, no_OccurredAt = occurredAt,
      no_Message = notificationMessage alertCode\<rparr>"

definition sent_state :: "string \<Rightarrow> string \<Rightarrow> string \<Rightarrow> instant \<Rightarrow> alert_state" where
  "sent_state nodeID alertCode recipient now =
     \<lparr>as_NodeID = nodeID, as_AlertCode = alertCode,
      as_Severity = severity_str (severityForAlert alertCode), as_LastSentAt = format_rfc3339 now,
      as_LastChannel = ''email'', as_Recipient = recipient\<rparr>"

definition sent_delivery :: "string \<Rightarrow> string \<Rightarrow> string \<Rightarrow> string \<Rightarrow> instant \<Rightarrow> notification_delivery" where
  "sent_delivery nodeID alertCode occurredAt recipient now =
     \<lparr>dl_NodeID = nodeID, dl_AlertCode = alertCode,
      dl_Severity = severity_str (severityForAlert alertCode), dl_Channel = ''email'',
      dl_Recipient = recipient, dl_OccurredAt = occurredAt, dl_SentAt = format_rfc3339 now,
      dl_Status = ''sent'', dl_ErrorDetail = []\<rparr>"

definition maybeNotifyAlert ::
    "'w env \<Rightarrow> string \<Rightarrow> string \<Rightarrow> string \<Rightarrow> instant \<Rightarrow> 'w server \<Rightarrow> 'w server \<times> goerr option" where
  "maybeNotifyAlert e nodeID alertCode occurredAt now s =
     (if in_cooldown (sv_store s) nodeID alertCode now then (s, None)
      else
        let sev = severityForAlert alertCode;
            recipient = alert_recipient (env_cfg e) (sv_store s) nodeID
        in if recipient = [] then
             (recordDeliveryFailure e nodeID alertCode sev occurredAt now ''email'' []
                ''missing notification recipient'' s, None)
           else
             (case out_send (env_out e) (sv_world s)
                     (alert_notification nodeID alertCode occurredAt recipient) of
                (w, Some err) \<Rightarrow>
                  (recordDeliveryFailure e nodeID alertCode sev occurredAt now ''email'' recipient
                     err (s\<lparr>sv_world := w\<rparr>), None)
              | (w, None) \<Rightarrow>
                  persist e
                    (on_store (AddNotificationDelivery
                        (sent_delivery nodeID alertCode occurredAt recipient now))
                      (on_store (SaveAlertState (sent_state nodeID alertCode recipient now))
                        (s\<lparr>sv_world := w\<rparr>)))))"

text \<open>One node of the scan; the errors go to the standard error stream.\<close>

definition evaluate_node :: "'w env \<Rightarrow> instant \<Rightarrow> node \<Rightarrow> 'w server \<Rightarrow> 'w server" where
  "evaluate_node e now node s =
     (if nd_AgentPublicKey node = [] \<or> nd_LastHeartbeatTimestamp node = [] then s
      else
        (case parse_rfc3339 (nd_LastHeartbeatTimestamp node) of
           None \<Rightarrow> s
         | Some lastSeen \<Rightarrow>
             let age = time_sub now lastSeen
             in if cfg_HeartbeatFailedAfter (env_cfg e) \<le> age then
                  fst (maybeNotifyAlert e (nd_NodeID node) alertHeartbeatFailed (format_rfc3339 now) now s)
                else if cfg_HeartbeatStaleAfter (env_cfg e) \<le> age then
                  fst (maybeNotifyAlert e (nd_NodeID node) alertHeartbeatStale (format_rfc3339 now) now s)
                else s))"

definition evaluateHeartbeatAlerts :: "'w env \<Rightarrow> instant \<Rightarrow> 'w server \<Rightarrow> 'w server" where
  "evaluateHeartbeatAlerts e now s = fold (evaluate_node e now) (ListNodes (sv_store s)) s"

section \<open>What an alert may change\<close>

definition alert_frame :: "store \<Rightarrow> store \<Rightarrow> bool" where
  "alert_frame s s' \<longleftrightarrow>
     s' = s\<lparr>st_alertStates := st_alertStates s', st_deliveries := st_deliveries s',
            st_operational := st_operational s'\<rparr>"

lemma alert_frame_refl [simp]: "alert_frame s s"
  by (simp add: alert_frame_def)

lemma alert_frame_trans: "alert_frame s s' \<Longrightarrow> alert_frame s' s'' \<Longrightarrow> alert_frame s s''"
proof -
  assume a: "alert_frame s s'" and b: "alert_frame s' s''"
  show "alert_frame s s''"
    unfolding alert_frame_def by (subst b [unfolded alert_frame_def], subst a [unfolded alert_frame_def]) simp
qed

lemma alert_frame_intros:
  "alert_frame s (AddNotificationDelivery d s)" "alert_frame s (AddOperationalEvent o' s)"
  "alert_frame s (SaveAlertState a s)"
  by (simp_all add: alert_frame_def AddNotificationDelivery_def AddOperationalEvent_def SaveAlertState_def)

lemma alert_frame_failure:
  "alert_frame (sv_store s) (sv_store (recordDeliveryFailure e n c sev o' now ch r d s))"
  by (simp add: recordDeliveryFailure_def)
    (blast intro: alert_frame_trans alert_frame_intros)

lemma alert_frame_notify:
  "alert_frame (sv_store s) (sv_store (fst (maybeNotifyAlert e n c o' now s)))"
proof -
  have "alert_frame (sv_store s)
      (AddNotificationDelivery d (SaveAlertState a (sv_store s)))" for a d
    by (blast intro: alert_frame_trans alert_frame_intros)
  then show ?thesis
    using alert_frame_failure [of "s\<lparr>sv_world := w\<rparr>" for w]
    by (auto simp: maybeNotifyAlert_def Let_def alert_frame_failure split: prod.split option.split)
qed

lemma alert_frame_scan:
  "alert_frame (sv_store s) (sv_store (evaluateHeartbeatAlerts e now s))"
proof -
  have one: "alert_frame (sv_store s) (sv_store (evaluate_node e now n s))" for n and s :: "'a server"
    by (simp add: evaluate_node_def Let_def alert_frame_notify split: option.split)
  have "alert_frame (sv_store s) (sv_store (fold (evaluate_node e now) ns s))" for ns and s :: "'a server"
  proof (induction ns arbitrary: s)
    case (Cons n ns)
    from alert_frame_trans [OF one Cons.IH] show ?case by simp
  qed simp
  then show ?thesis by (simp add: evaluateHeartbeatAlerts_def)
qed


section \<open>Cooldown\<close>

lemma severity_no_nul [simp]: "CHR 0x00 \<notin> set (severity_str sev)"
  by (cases sev) simp_all

lemma alertKey_eq_iff:
  assumes "no_nul c" and "no_nul c'"
  shows "alertKey n c (severity_str sev) = alertKey n' c' (severity_str sev')
    \<longleftrightarrow> n = n' \<and> c = c' \<and> severity_str sev = severity_str sev'"
proof -
  have split: "alertKey n c (severity_str sev) = (n @ [CHR 0x00] @ c) @ [CHR 0x00] @ severity_str sev"
    for n c sev by (simp add: alertKey_def)
  show ?thesis
    unfolding split using assms
    by (subst nul_key_eq_iff) (simp_all add: no_nul_def nul_key_eq_iff [simplified])
qed

text \<open>An alert in its cooldown leaves the server as it is: no delivery, no record, no save.\<close>

lemma notify_in_cooldown:
  "in_cooldown (sv_store s) n c now \<Longrightarrow> maybeNotifyAlert e n c o' now s = (s, None)"
  by (simp add: maybeNotifyAlert_def)

text \<open>The three outcomes of an attempt, as they show in the store.\<close>

lemma notify_cases:
  obtains (quiet) "in_cooldown (sv_store s) n c now"
      "sv_store (fst (maybeNotifyAlert e n c o' now s)) = sv_store s"
  | (failed) d oe where "\<not> in_cooldown (sv_store s) n c now"
      "dl_Status d = ''failed'' \<and> dl_NodeID d = n \<and> oe_NodeID oe = n"
      "sv_store (fst (maybeNotifyAlert e n c o' now s)) =
         AddOperationalEvent oe (AddNotificationDelivery d (sv_store s))"
  | (sent) "\<not> in_cooldown (sv_store s) n c now"
      "sv_store (fst (maybeNotifyAlert e n c o' now s)) =
         AddNotificationDelivery
           (sent_delivery n c o' (alert_recipient (env_cfg e) (sv_store s) n) now)
           (SaveAlertState (sent_state n c (alert_recipient (env_cfg e) (sv_store s) n) now) (sv_store s))"
proof (cases "in_cooldown (sv_store s) n c now")
  case True
  then show thesis by (intro quiet) (simp_all add: notify_in_cooldown)
next
  case F: False
  let ?oe = "\<lambda>d. \<lparr>oe_NodeID = n, oe_EventCode = operationalEventDeliveryFailure, oe_Severity = ''warning'',
      oe_EventTimestamp = format_rfc3339 now, oe_Detail = d\<rparr>"
  have fd: "dl_Status (failure_delivery n c sev o' now ch r d) = ''failed''
      \<and> dl_NodeID (failure_delivery n c sev o' now ch r d) = n \<and> oe_NodeID (?oe d) = n" for sev ch r d
    by (simp add: failure_delivery_def)
  show thesis
  proof (cases "alert_recipient (env_cfg e) (sv_store s) n = []")
    case True
    show thesis
      by (rule failed [OF F fd]) (simp add: maybeNotifyAlert_def F True Let_def recordDeliveryFailure_def)
  next
    case R: False
    obtain w err where o: "out_send (env_out e) (sv_world s)
        (alert_notification n c o' (alert_recipient (env_cfg e) (sv_store s) n)) = (w, err)"
      by (cases "out_send (env_out e) (sv_world s)
        (alert_notification n c o' (alert_recipient (env_cfg e) (sv_store s) n))") auto
    show thesis
    proof (cases err)
      case None
      show thesis
        by (rule sent [OF F]) (simp add: maybeNotifyAlert_def F R Let_def o None)
    next
      case (Some m)
      show thesis
        by (rule failed [OF F fd])
          (simp add: maybeNotifyAlert_def F R Let_def o Some recordDeliveryFailure_def)
    qed
  qed
qed

text \<open>The deliveries of one alert of one node, by the time recorded for them.\<close>

definition sent_log :: "store \<Rightarrow> string \<Rightarrow> string \<Rightarrow> string list" where
  "sent_log s n c =
     map dl_SentAt (filter (\<lambda>d. dl_NodeID d = n \<and> dl_AlertCode d = c \<and> dl_Status d = ''sent'')
       (st_deliveries s))"

definition at_least_after :: "duration \<Rightarrow> string \<Rightarrow> string \<Rightarrow> bool" where
  "at_least_after w a b =
     (case (parse_rfc3339 a, parse_rfc3339 b) of (Some x, Some y) \<Rightarrow> x + w \<le> y | _ \<Rightarrow> False)"

definition spaced :: "duration \<Rightarrow> string list \<Rightarrow> bool" where
  "spaced w ts \<longleftrightarrow> sorted_wrt (at_least_after w) ts"

abbreviation cooldown_of :: "string \<Rightarrow> duration" where
  "cooldown_of c \<equiv> cooldownForSeverity (severityForAlert c)"

definition log_ok :: "store \<Rightarrow> string \<Rightarrow> string \<Rightarrow> bool" where
  "log_ok s n c \<longleftrightarrow>
     spaced (cooldown_of c) (sent_log s n c)
     \<and> (\<forall>ts \<in> set (sent_log s n c). \<exists>t. in_era t \<and> ts = format_rfc3339 t)
     \<and> (sent_log s n c \<noteq> [] \<longrightarrow>
          map_option as_LastSentAt (GetAlertState s n c (severity_str (severityForAlert c)))
            = Some (last (sent_log s n c)))"

definition alert_attempts ::
    "'w env \<Rightarrow> (string \<times> string \<times> string \<times> instant) list \<Rightarrow> 'w server \<Rightarrow> 'w server" where
  "alert_attempts e as s = fold (\<lambda>(n, c, o', t) s. fst (maybeNotifyAlert e n c o' t s)) as s"

lemma cooldown_seconds: "\<exists>k. cooldown_of c = k * second \<and> 0 < k"
  by (rule exI [of _ "cooldown_of c div second"])
    (simp add: cooldownForSeverity_def duration_defs)

lemma whole_seconds_le:
  assumes "x = seconds_of t * second" and "w = k * second" and "x + w \<le> now"
  shows "x + w \<le> seconds_of now * second"
proof -
  have eq: "x + w = (seconds_of t + k) * second" using assms(1,2) by (simp add: algebra_simps)
  have "seconds_of (x + w) \<le> seconds_of now" using assms(3) by (rule seconds_of_mono)
  then have "seconds_of t + k \<le> seconds_of now" unfolding eq seconds_of_second .
  then show ?thesis unfolding eq by (rule mult_right_mono) (simp add: second_def)
qed

lemma sent_log_simps [simp]:
  "sent_log (AddOperationalEvent oe s) n c = sent_log s n c"
  "sent_log (SaveAlertState a s) n c = sent_log s n c"
  "sent_log (AddNotificationDelivery d s) n c = sent_log s n c @
     (if dl_NodeID d = n \<and> dl_AlertCode d = c \<and> dl_Status d = ''sent'' then [dl_SentAt d] else [])"
  by (simp_all add: sent_log_def AddOperationalEvent_def SaveAlertState_def AddNotificationDelivery_def)

lemma GetAlertState_simps [simp]:
  "GetAlertState (AddOperationalEvent oe s) n c v = GetAlertState s n c v"
  "GetAlertState (AddNotificationDelivery d s) n c v = GetAlertState s n c v"
  by (simp_all add: GetAlertState_def AddOperationalEvent_def AddNotificationDelivery_def)

lemma log_ok_sent:
  assumes ok: "log_ok s n c" and nn: "no_nul c" "no_nul c'" and era: "in_era now"
    and free: "\<not> in_cooldown s n' c' now"
  shows "log_ok (AddNotificationDelivery (sent_delivery n' c' o' r now)
    (SaveAlertState (sent_state n' c' r now) s)) n c" (is "log_ok ?s n c")
proof (cases "n' = n \<and> c' = c")
  case False
  then have "GetAlertState ?s n c (severity_str (severityForAlert c))
      = GetAlertState s n c (severity_str (severityForAlert c))"
    using nn by (auto simp: GetAlertState_def SaveAlertState_def sent_state_def map_get_put
        alertKey_eq_iff AddNotificationDelivery_def)
  moreover have "sent_log ?s n c = sent_log s n c" using False by (auto simp: sent_delivery_def)
  ultimately show ?thesis using ok by (simp add: log_ok_def)
next
  case True
  then have log: "sent_log ?s n c = sent_log s n c @ [format_rfc3339 now]"
    by (simp add: sent_delivery_def)
  have st: "GetAlertState ?s n c (severity_str (severityForAlert c)) = Some (sent_state n c r now)"
    using True by (simp add: GetAlertState_def SaveAlertState_def sent_state_def AddNotificationDelivery_def)
  obtain k where k: "cooldown_of c = k * second" "0 < k" using cooldown_seconds by blast
  have now: "parse_rfc3339 (format_rfc3339 now) = Some (seconds_of now * second)"
    using era by (rule parse_format)
  have "at_least_after (cooldown_of c) ts (format_rfc3339 now)" if ts: "ts \<in> set (sent_log s n c)" for ts
  proof -
    from ts have ne: "sent_log s n c \<noteq> []" by auto
    obtain t where t: "in_era t" "last (sent_log s n c) = format_rfc3339 t"
      using ok last_in_set [OF ne] unfolding log_ok_def by blast
    then have "seconds_of t * second + cooldown_of c \<le> now"
      using ok ne free True parse_format [OF t(1)]
      by (auto simp: log_ok_def in_cooldown_def Let_def split: option.splits)
    then have le: "seconds_of t * second + cooldown_of c \<le> seconds_of now * second"
      by (intro whole_seconds_le [OF refl k(1)])
    show ?thesis
    proof (cases "ts = last (sent_log s n c)")
      case True
      with le t now parse_format [OF t(1)] show ?thesis by (simp add: at_least_after_def)
    next
      case False
      have "ts \<in> set (butlast (sent_log s n c))"
        using ts False ne by (metis append_butlast_last_id in_set_conv_decomp set_ConsD rotate1.simps(2) set_rotate1)
      then have "at_least_after (cooldown_of c) ts (last (sent_log s n c))"
        using ok ne unfolding log_ok_def spaced_def
        by (metis append_butlast_last_id list.set_intros(1) sorted_wrt_append)
      with le t now parse_format [OF t(1)] k show ?thesis
        by (auto simp: at_least_after_def second_def split: option.splits)
    qed
  qed
  with ok log st era show ?thesis
    by (auto simp: log_ok_def spaced_def sorted_wrt_append sent_state_def)
qed

lemma log_ok_notify:
  assumes "log_ok (sv_store s) n c" and "no_nul c" "no_nul c'" and "in_era now"
  shows "log_ok (sv_store (fst (maybeNotifyAlert e n' c' o' now s))) n c"
proof (cases rule: notify_cases [of s n' c' now e o'])
  case quiet
  with assms show ?thesis by simp
next
  case (failed d oe)
  with assms(1) show ?thesis by (simp add: log_ok_def)
next
  case sent
  with log_ok_sent [OF assms sent(1)] show ?thesis by simp
qed

lemma log_ok_attempts:
  assumes "log_ok (sv_store s) n c" and "no_nul c"
    and "\<forall>(n', c', o', t) \<in> set as. no_nul c' \<and> in_era t"
  shows "log_ok (sv_store (alert_attempts e as s)) n c"
  using assms
proof (induction as arbitrary: s)
  case (Cons a as)
  then show ?case by (auto simp: alert_attempts_def log_ok_notify split: prod.splits)
qed (simp add: alert_attempts_def)

lemma log_ok_New: "log_ok (New_Store ns) n c"
  by (simp add: log_ok_def sent_log_def New_Store_def spaced_def)


lemma wf_notify:
  assumes "wf_store (sv_store s)"
  shows "wf_store (sv_store (fst (maybeNotifyAlert e n c o' now s)))"
  by (cases rule: notify_cases [of s n c now e o']) (simp_all add: assms wf_ops)

lemma wf_scan:
  assumes "wf_store (sv_store s)"
  shows "wf_store (sv_store (evaluateHeartbeatAlerts e now s))"
proof -
  have one: "wf_store (sv_store t) \<Longrightarrow> wf_store (sv_store (evaluate_node e now n t))" for n and t :: "'a server"
    by (simp add: evaluate_node_def Let_def wf_notify split: option.split)
  have "wf_store (sv_store t) \<Longrightarrow> wf_store (sv_store (fold (evaluate_node e now) ns t))" for ns and t :: "'a server"
    by (induction ns arbitrary: t) (simp_all add: one)
  with assms show ?thesis by (simp add: evaluateHeartbeatAlerts_def)
qed

end
