(* ===== verification/Artifacts.thy ===== *)
theory Artifacts
  imports Ranking Alerts
begin

text \<open>
  \<^verbatim>\<open>updateQualificationArtifacts\<close> of \<^verbatim>\<open>portal/internal/server/qualification.go\<close>: what every accepted
  heartbeat, check, probe event or voting-key evidence recomputes for its node and day. The lemmas
  say what the store holds afterwards: the summary and the decision just computed, a base record
  exactly for a qualified node (\<open>artifacts_base\<close>), and a ranking of the day in which the node appears
  exactly when it is qualified (\<open>artifacts_ranked_iff\<close>).
\<close>

definition store_base_performance ::
    "string \<Rightarrow> string \<Rightarrow> base_performance_record option \<Rightarrow> store \<Rightarrow> store" where
  "store_base_performance nodeID dateUTC base st =
     (case base of
        Some r \<Rightarrow> SaveBasePerformanceRecord r st
      | None \<Rightarrow> DeleteBasePerformanceRecord nodeID dateUTC st)"

definition updateQualificationArtifacts ::
    "'w env \<Rightarrow> clk \<Rightarrow> string \<Rightarrow> string \<Rightarrow> 'w server \<Rightarrow> 'w server" where
  "updateQualificationArtifacts e clk nodeID dateUTC s =
     (let summary = computeDailyQualificationSummary (env_policy e) clk (sv_store s) nodeID dateUTC;
          s1 = on_store (SaveDailyQualificationSummary summary) s;
          decision = computeQualifiedDecisionRecord clk (sv_store s1) nodeID summary;
          s2 = on_store (SaveQualifiedDecisionRecord decision) s1;
          s3 = on_store (store_base_performance nodeID dateUTC
                 (computeBasePerformanceRecord clk summary decision)) s2;
          s4 = on_store (rebuildRankings e clk dateUTC) s3;
          now = clk At_Artifacts;
          s5 = (if 0 < ds_ValidProbeCount summary \<and> \<not> ds_AvailabilityPassed summary
                then fst (maybeNotifyAlert e nodeID alertNodeOutage (format_rfc3339 now) now s4)
                else s4)
      in if 0 < ds_FinalizedLagMeasurableCount summary \<and> \<not> ds_FinalizedLagPassed summary
         then fst (maybeNotifyAlert e nodeID alertFinalizedLag (format_rfc3339 now) now s5)
         else s5)"

text \<open>The store before the alerts.\<close>

definition day_summary :: "'w env \<Rightarrow> clk \<Rightarrow> store \<Rightarrow> string \<Rightarrow> string \<Rightarrow> daily_qualification_summary" where
  "day_summary e clk st n d = computeDailyQualificationSummary (env_policy e) clk st n d"

definition day_decision :: "'w env \<Rightarrow> clk \<Rightarrow> store \<Rightarrow> string \<Rightarrow> string \<Rightarrow> qualified_decision_record" where
  "day_decision e clk st n d = computeQualifiedDecisionRecord clk st n (day_summary e clk st n d)"

definition artifacts_records :: "'w env \<Rightarrow> clk \<Rightarrow> string \<Rightarrow> string \<Rightarrow> store \<Rightarrow> store" where
  "artifacts_records e clk n d st =
     store_base_performance n d
       (computeBasePerformanceRecord clk (day_summary e clk st n d) (day_decision e clk st n d))
       (SaveQualifiedDecisionRecord (day_decision e clk st n d)
         (SaveDailyQualificationSummary (day_summary e clk st n d) st))"

text \<open>The decision reads nothing that saving the summary changes.\<close>

lemma decision_after_summary:
  "computeQualifiedDecisionRecord clk (SaveDailyQualificationSummary r st) n summary =
     computeQualifiedDecisionRecord clk st n summary"
  by (simp add: computeQualifiedDecisionRecord_def SaveDailyQualificationSummary_def node_or_zero_def
      GetNode_def ListHeartbeatEventsByNode_def LatestCheckEventForNodeAndDate_def
      GetLatestVotingKeyEvidenceForNodeAndDate_def Let_def)

text \<open>The two alerts of the day, on the store with its records and rankings rebuilt.\<close>

lemma artifacts_alerts:
  obtains p q s4 A where "updateQualificationArtifacts e clk n d s =
      (if q then A alertFinalizedLag (if p then A alertNodeOutage s4 else s4)
       else (if p then A alertNodeOutage s4 else s4))"
    and "sv_store s4 = rebuildRankings e clk d (artifacts_records e clk n d (sv_store s))"
    and "A = (\<lambda>c t. fst (maybeNotifyAlert e n c (format_rfc3339 (clk At_Artifacts)) (clk At_Artifacts) t))"
proof -
  define s4 where "s4 = on_store (rebuildRankings e clk d) (on_store (store_base_performance n d
      (computeBasePerformanceRecord clk (day_summary e clk (sv_store s) n d)
        (day_decision e clk (sv_store s) n d)))
      (on_store (SaveQualifiedDecisionRecord (day_decision e clk (sv_store s) n d))
        (on_store (SaveDailyQualificationSummary (day_summary e clk (sv_store s) n d)) s)))"
  define A where "A = (\<lambda>c t. fst (maybeNotifyAlert e n c (format_rfc3339 (clk At_Artifacts))
      (clk At_Artifacts) t))"
  have "\<exists>p q. updateQualificationArtifacts e clk n d s =
      (if q then A alertFinalizedLag (if p then A alertNodeOutage s4 else s4)
       else (if p then A alertNodeOutage s4 else s4))"
    unfolding updateQualificationArtifacts_def Let_def A_def s4_def on_store_simps decision_after_summary
      day_summary_def day_decision_def by (rule exI, rule exI, rule refl)
  then obtain p q where u: "updateQualificationArtifacts e clk n d s =
      (if q then A alertFinalizedLag (if p then A alertNodeOutage s4 else s4)
       else (if p then A alertNodeOutage s4 else s4))" by blast
  have "sv_store s4 = rebuildRankings e clk d (artifacts_records e clk n d (sv_store s))"
    by (simp add: artifacts_records_def s4_def)
  from u this A_def show thesis by (rule that)
qed

lemma artifacts_frame:
  "alert_frame (rebuildRankings e clk d (artifacts_records e clk n d (sv_store s)))
     (sv_store (updateQualificationArtifacts e clk n d s))"
proof -
  obtain p q s4 A where u: "updateQualificationArtifacts e clk n d s =
      (if q then A alertFinalizedLag (if p then A alertNodeOutage s4 else s4)
       else (if p then A alertNodeOutage s4 else s4))"
    and s4: "sv_store s4 = rebuildRankings e clk d (artifacts_records e clk n d (sv_store s))"
    and A: "A = (\<lambda>c t. fst (maybeNotifyAlert e n c (format_rfc3339 (clk At_Artifacts)) (clk At_Artifacts) t))"
    by (rule artifacts_alerts)
  have "alert_frame (sv_store t) (sv_store (if p then A c t else t))" for c t p
    by (simp add: A alert_frame_notify)
  from alert_frame_trans [OF this this] show ?thesis unfolding u s4 [symmetric] .
qed

text \<open>Reading back what a save put under a composite key.\<close>

lemma base_key_eq:
  "no_nul d \<Longrightarrow> no_nul d' \<Longrightarrow> basePerformanceKey n d = basePerformanceKey n' d' \<longleftrightarrow> n = n' \<and> d = d'"
  by (simp add: basePerformanceKey_def nul_key_eq_iff [simplified] no_nul_def)

lemma computeBase_fields:
  "computeBasePerformanceRecord clk summary decision = Some r \<Longrightarrow>
     bp_NodeID r = ds_NodeID summary \<and> bp_DateUTC r = ds_DateUTC summary \<and> qd_Qualified decision"
  by (auto simp: computeBasePerformanceRecord_def Let_def split: if_splits)

lemma computeBase_None_iff:
  "computeBasePerformanceRecord clk summary decision = None \<longleftrightarrow> \<not> qd_Qualified decision"
  by (simp add: computeBasePerformanceRecord_def Let_def)

lemma day_summary_fields: "ds_NodeID (day_summary e clk st n d) = n" "ds_DateUTC (day_summary e clk st n d) = d"
  by (simp_all add: day_summary_def summary_fields)

lemma day_decision_fields: "qd_NodeID (day_decision e clk st n d) = n" "qd_DateUTC (day_decision e clk st n d) = d"
  by (simp_all add: day_decision_def decision_fields day_summary_fields)

lemma artifacts_records_wf:
  assumes "wf_store st" "no_nul d"
  shows "wf_store (artifacts_records e clk n d st)"
proof -
  have "wf_store (SaveQualifiedDecisionRecord (day_decision e clk st n d)
      (SaveDailyQualificationSummary (day_summary e clk st n d) st))"
    by (intro wf_ops assms(1)) (simp_all add: day_summary_fields day_decision_fields assms(2))
  then show ?thesis
    unfolding artifacts_records_def store_base_performance_def
    by (auto intro!: wf_ops dest!: computeBase_fields simp: day_summary_fields assms(2) split: option.split)
qed

lemma artifacts_records_base:
  "map_get (st_basePerformance (artifacts_records e clk n d st)) k =
     (if k = basePerformanceKey n d
      then computeBasePerformanceRecord clk (day_summary e clk st n d) (day_decision e clk st n d)
      else map_get (st_basePerformance st) k)"
  by (auto simp: artifacts_records_def store_base_performance_def SaveBasePerformanceRecord_def
      DeleteBasePerformanceRecord_def SaveQualifiedDecisionRecord_def SaveDailyQualificationSummary_def
      map_get_put map_get_remove day_summary_fields split: option.split dest!: computeBase_fields)

lemma artifacts_records_other:
  "st_dailySummaries (artifacts_records e clk n d st) =
     map_put (dailySummaryKey n d) (day_summary e clk st n d) (st_dailySummaries st)"
  "st_qualifiedDecisions (artifacts_records e clk n d st) =
     map_put (qualifiedDecisionKey n d) (day_decision e clk st n d) (st_qualifiedDecisions st)"
  by (simp_all add: artifacts_records_def store_base_performance_def SaveBasePerformanceRecord_def
      DeleteBasePerformanceRecord_def SaveQualifiedDecisionRecord_def SaveDailyQualificationSummary_def
      day_summary_fields day_decision_fields split: option.split)

text \<open>What the two frames keep.\<close>

lemma alert_frame_keeps:
  assumes "alert_frame s s'"
  shows "st_nodes s' = st_nodes s" "st_challenges s' = st_challenges s" "st_checkEvents s' = st_checkEvents s"
    "st_heartbeatEvents s' = st_heartbeatEvents s" "st_telemetryEvents s' = st_telemetryEvents s"
    "st_probeEvents s' = st_probeEvents s" "st_dailySummaries s' = st_dailySummaries s"
    "st_qualifiedDecisions s' = st_qualifiedDecisions s" "st_basePerformance s' = st_basePerformance s"
    "st_rankingRecords s' = st_rankingRecords s" "st_rewardEligibility s' = st_rewardEligibility s"
    "st_rewardAllocations s' = st_rewardAllocations s" "st_operatorGroups s' = st_operatorGroups s"
    "st_votingKeyEvidence s' = st_votingKeyEvidence s" "st_decentralization s' = st_decentralization s"
    "st_domainEvidence s' = st_domainEvidence s" "st_controlPlane s' = st_controlPlane s"
    "st_latestTelemetry s' = st_latestTelemetry s"
  by (subst assms [unfolded alert_frame_def], simp)+

lemma ranking_frame_keeps:
  assumes "ranking_frame s s'"
  shows "st_nodes s' = st_nodes s" "st_challenges s' = st_challenges s" "st_checkEvents s' = st_checkEvents s"
    "st_heartbeatEvents s' = st_heartbeatEvents s" "st_telemetryEvents s' = st_telemetryEvents s"
    "st_probeEvents s' = st_probeEvents s" "st_dailySummaries s' = st_dailySummaries s"
    "st_qualifiedDecisions s' = st_qualifiedDecisions s" "st_basePerformance s' = st_basePerformance s"
    "st_operatorGroups s' = st_operatorGroups s"
    "st_votingKeyEvidence s' = st_votingKeyEvidence s" "st_decentralization s' = st_decentralization s"
    "st_domainEvidence s' = st_domainEvidence s" "st_controlPlane s' = st_controlPlane s"
    "st_latestTelemetry s' = st_latestTelemetry s" "st_alertStates s' = st_alertStates s"
    "st_deliveries s' = st_deliveries s" "st_operational s' = st_operational s"
  by (subst assms [unfolded ranking_frame_def], simp)+

section \<open>What the store holds afterwards\<close>

lemma artifacts_summary:
  "GetDailyQualificationSummary (sv_store (updateQualificationArtifacts e clk n d s)) n d =
     Some (day_summary e clk (sv_store s) n d)"
  by (simp add: GetDailyQualificationSummary_def alert_frame_keeps(7) [OF artifacts_frame]
      ranking_frame_keeps(7) [OF frame_rebuildRankings] artifacts_records_other)

lemma artifacts_decision:
  "GetQualifiedDecisionRecord (sv_store (updateQualificationArtifacts e clk n d s)) n d =
     Some (day_decision e clk (sv_store s) n d)"
  by (simp add: GetQualifiedDecisionRecord_def alert_frame_keeps(8) [OF artifacts_frame]
      ranking_frame_keeps(8) [OF frame_rebuildRankings] artifacts_records_other)

lemma artifacts_base:
  "GetBasePerformanceRecord (sv_store (updateQualificationArtifacts e clk n d s)) n d =
     computeBasePerformanceRecord clk (day_summary e clk (sv_store s) n d)
       (day_decision e clk (sv_store s) n d)"
  by (simp add: GetBasePerformanceRecord_def alert_frame_keeps(9) [OF artifacts_frame]
      ranking_frame_keeps(9) [OF frame_rebuildRankings] artifacts_records_base)

text \<open>A node is in the list of base records of a day exactly when a record is stored for it.\<close>

lemma base_day_member:
  assumes "wf_store st" "no_nul d" "d \<noteq> []"
  shows "n \<in> bp_NodeID ` set (ListBasePerformanceRecordsByDate st d) \<longleftrightarrow>
    GetBasePerformanceRecord st n d \<noteq> None"
proof -
  have m: "dated_map bp_DateUTC bp_key (st_basePerformance st)" using assms(1) by (simp add: wf_store_def)
  then have km: "keyed_map bp_key (st_basePerformance st)" by (simp add: dated_map_def)
  have "(\<exists>r \<in> set (map_vals (st_basePerformance st)). bp_DateUTC r = d \<and> bp_NodeID r = n) \<longleftrightarrow>
      (\<exists>r. map_get (st_basePerformance st) (basePerformanceKey n d) = Some r)"
  proof
    assume "\<exists>r \<in> set (map_vals (st_basePerformance st)). bp_DateUTC r = d \<and> bp_NodeID r = n"
    then show "\<exists>r. map_get (st_basePerformance st) (basePerformanceKey n d) = Some r"
      using keyed_map_vals [OF km] by (auto simp: bp_key_def)
  next
    assume "\<exists>r. map_get (st_basePerformance st) (basePerformanceKey n d) = Some r"
    then obtain r where r: "map_get (st_basePerformance st) (basePerformanceKey n d) = Some r" by blast
    from keyed_map_get [OF km r] have key: "bp_key r = basePerformanceKey n d" .
    with r have in_m: "r \<in> set (map_vals (st_basePerformance st))" by (simp add: keyed_map_vals [OF km])
    with m have "no_nul (bp_DateUTC r)" by (simp add: dated_map_def)
    with key have "bp_NodeID r = n \<and> bp_DateUTC r = d"
      by (simp add: bp_key_def base_key_eq assms(2))
    with in_m show "\<exists>r \<in> set (map_vals (st_basePerformance st)). bp_DateUTC r = d \<and> bp_NodeID r = n"
      by blast
  qed
  then show ?thesis
    using assms(3) by (auto simp: ListBasePerformanceRecordsByDate_def GetBasePerformanceRecord_def
        selects_date image_iff)
qed

lemma artifacts_ranking:
  assumes "wf_store (sv_store s)" "no_nul d" "d \<noteq> []"
    and "length (ranked_base (artifacts_records e clk n d (sv_store s)) d) \<le> 2 ^ 30"
  shows "ListRankingRecordsByDate (sv_store (updateQualificationArtifacts e clk n d s)) d =
    ranking_records clk (artifacts_records e clk n d (sv_store s)) d"
  using rebuild_rankings_views(1) [OF artifacts_records_wf [OF assms(1,2)] assms(2,3,4)]
  by (simp add: ListRankingRecordsByDate_def alert_frame_keeps(10) [OF artifacts_frame])

lemma artifacts_ranked_iff:
  assumes "wf_store (sv_store s)" "no_nul d" "d \<noteq> []"
    and "length (ranked_base (artifacts_records e clk n d (sv_store s)) d) \<le> 2 ^ 30"
  shows "n \<in> rk_NodeID ` set (ListRankingRecordsByDate (sv_store (updateQualificationArtifacts e clk n d s)) d)
    \<longleftrightarrow> qd_Qualified (day_decision e clk (sv_store s) n d)"
proof -
  let ?st = "artifacts_records e clk n d (sv_store s)"
  have wf: "wf_store ?st" by (rule artifacts_records_wf [OF assms(1,2)])
  have "rk_NodeID ` set (ranking_records clk ?st d) = bp_NodeID ` set (ListBasePerformanceRecordsByDate ?st d)"
    using ranking_records_nodes(1) [of clk ?st d] ranked_base_facts(2) [of ?st d] by (metis list.set_map)
  moreover have "GetBasePerformanceRecord ?st n d =
      computeBasePerformanceRecord clk (day_summary e clk (sv_store s) n d) (day_decision e clk (sv_store s) n d)"
    by (simp add: GetBasePerformanceRecord_def artifacts_records_base)
  ultimately show ?thesis
    unfolding artifacts_ranking [OF assms]
    using base_day_member [OF wf assms(2,3), of n] computeBase_None_iff by simp
qed

text \<open>The update keeps the invariant of the store.\<close>

lemma artifacts_wf:
  assumes "wf_store (sv_store s)" "no_nul d"
  shows "wf_store (sv_store (updateQualificationArtifacts e clk n d s))"
proof -
  have "wf_store (rebuildRankings e clk d (artifacts_records e clk n d (sv_store s)))"
    by (intro rebuild_rankings_wf artifacts_records_wf assms)
  then show ?thesis
    unfolding updateQualificationArtifacts_def Let_def on_store_simps decision_after_summary
      artifacts_records_def day_summary_def day_decision_def
    by (simp add: wf_notify)
qed


section \<open>The score of a qualified node\<close>

lemma qualified_gates:
  assumes "qd_Qualified (day_decision e clk st n d)"
  shows "ds_AvailabilityPassed (day_summary e clk st n d)" "ds_FinalizedLagPassed (day_summary e clk st n d)"
    "ds_ChainLagPassed (day_summary e clk st n d)" "qd_VotingKeyPassed (day_decision e clk st n d)"
proof -
  have p: "ds_QualifiedProbeEvidencePassed (day_summary e clk st n d)"
    and v: "qd_VotingKeyPassed (day_decision e clk st n d)"
    using assms by (simp_all add: day_decision_def computeQualifiedDecisionRecord_def Let_def)
  from p show "ds_AvailabilityPassed (day_summary e clk st n d)" "ds_FinalizedLagPassed (day_summary e clk st n d)"
    "ds_ChainLagPassed (day_summary e clk st n d)"
    by (simp_all add: day_summary_def summary_fields(14))
  from v show "qd_VotingKeyPassed (day_decision e clk st n d)" .
qed

lemma summary_ratios_unit:
  assumes "length (probe_events_of st n d) \<le> 2 ^ 46"
  shows "ds_AvailabilityRatio (day_summary e clk st n d) \<le> 1"
    "ds_FinalizedLagRatio (day_summary e clk st n d) \<le> 1"
    "ds_ChainLagRatio (day_summary e clk st n d) \<le> 1"
proof -
  let ?es = "probe_events_of st n d"
  have len: "int (length ?es) \<le> 2 ^ 53" using assms by simp
  have le: "number P ?es \<le> 2 ^ 53" for P using number_le [of P ?es] len by linarith
  show "ds_AvailabilityRatio (day_summary e clk st n d) \<le> 1"
    "ds_FinalizedLagRatio (day_summary e clk st n d) \<le> 1"
    "ds_ChainLagRatio (day_summary e clk st n d) \<le> 1"
    unfolding day_summary_def summary_fields
    by (rule ratio_unit(2); use len le number_good_le in simp)+
qed

lemma base_range:
  assumes b: "computeBasePerformanceRecord clk (day_summary e clk st n d) (day_decision e clk st n d) = Some r"
    and len: "length (probe_events_of st n d) \<le> 2 ^ 46"
  shows "68 \<le> bp_BasePerformanceScore r \<and> bp_BasePerformanceScore r \<le> 70
    \<and> bp_VotingKeyScore r = 10 \<and> bp_AvailabilityScore r \<le> 30 \<and> bp_FinalizationScore r \<le> 20
    \<and> bp_ChainSyncScore r \<le> 10"
proof -
  let ?s = "day_summary e clk st n d"
  have q: "qd_Qualified (day_decision e clk st n d)" using computeBase_fields [OF b] by blast
  note g = qualified_gates [OF q] and u = summary_ratios_unit [OF len, of e clk]
  have l: "flit (99 / 100) \<le> ds_AvailabilityRatio ?s" "flit (95 / 100) \<le> ds_FinalizedLagRatio ?s"
    "flit (95 / 100) \<le> ds_ChainLagRatio ?s"
    using g by (simp_all add: day_summary_def summary_fields(10-12))
  have z: "0 \<le> flit (99 / 100)" "0 \<le> flit (95 / 100)" by (simp_all add: flit_def rnd_nonneg)
  note a = part_range [OF z(1) l(1) u(1), of 30, simplified]
    and f = part_range [OF z(2) l(2) u(2), of 20, simplified]
    and c = part_range [OF z(2) l(3) u(3), of 10, simplified]
  have r: "bp_AvailabilityScore r = fmul 30 (ds_AvailabilityRatio ?s)"
    "bp_FinalizationScore r = fmul 20 (ds_FinalizedLagRatio ?s)"
    "bp_ChainSyncScore r = fmul 10 (ds_ChainLagRatio ?s)" "bp_VotingKeyScore r = 10"
    "bp_BasePerformanceScore r = fadd (fadd (fadd (fmul 30 (ds_AvailabilityRatio ?s))
       (fmul 20 (ds_FinalizedLagRatio ?s))) (fmul 10 (ds_ChainLagRatio ?s))) 10"
    using b q g(4) a(1) f(1) c(1) by (auto simp: computeBasePerformanceRecord_def Let_def)
  have "68 \<le> bp_BasePerformanceScore r"
    unfolding r by (rule order_trans [OF score_at_gates])
      (intro fadd_mono order_refl fmul_mono z l; simp)
  moreover have "bp_BasePerformanceScore r \<le> 70"
    unfolding r by (rule sum4_range) (use a(3) f(3) c(3) in simp_all)
  ultimately show ?thesis using r a(3) f(3) c(3) by simp
qed

text \<open>The length of the day's ranking, from the number of base performance records stored.\<close>

lemma length_map_put: "length (map_put k v m) \<le> Suc (length m)"
  by (induction m) auto

lemma length_map_remove: "length (AList.delete k m) \<le> length m"
  by (simp add: AList.delete_eq)

lemma length_day_base:
  "length (ranked_base (artifacts_records e clk n d st) d) \<le> Suc (length (st_basePerformance st))"
proof -
  let ?st = "artifacts_records e clk n d st"
  have "length (ranked_base ?st d) = length (ListBasePerformanceRecordsByDate ?st d)"
    using ranked_base_facts(1) mset_eq_length by blast
  also have "\<dots> \<le> length (map_vals (st_basePerformance ?st))"
    by (simp add: ListBasePerformanceRecordsByDate_def)
  also have "\<dots> = length (st_basePerformance ?st)" by (simp add: map_vals_def)
  also have "\<dots> \<le> Suc (length (st_basePerformance st))"
    by (auto simp: artifacts_records_def store_base_performance_def SaveBasePerformanceRecord_def
        DeleteBasePerformanceRecord_def SaveQualifiedDecisionRecord_def SaveDailyQualificationSummary_def
        length_map_put le_SucI [OF length_map_remove] split: option.split)
  finally show ?thesis .
qed

end
