(* ===== verification/Examples.thy ===== *)
theory Examples
  imports Artifacts
begin

text \<open>
  Concrete inputs for the witnesses of the properties: a policy, a configuration, two nodes, the
  evidence of one day (2026-04-07), and a world that records what is sent and keeps the last store
  saved.
\<close>

definition ex_policy :: policy_document where
  "ex_policy =
     \<lparr>po_PolicyVersion = ''v1'', po_HeartbeatIntervalSeconds = 300,
      po_CPUProfile =
        \<lparr>cpu_ID = ''cpu-v1'', cpu_DurationSeconds = 60, cpu_WarmupSeconds = 10, cpu_MeasuredSeconds = 40,
         cpu_CooldownSeconds = 10, cpu_WorkerCap = 8,
         cpu_WorkloadMix = \<lparr>wm_Hashing = 1 / 2, wm_Integer = 1 / 4, wm_Matrix = 1 / 4\<rparr>,
         cpu_AcceptanceFloor = \<lparr>af_Type = ''normalized_score'', af_Minimum = 1\<rparr>\<rparr>,
      po_DiskProfile =
        \<lparr>disk_ID = ''disk-v1'', disk_DurationSeconds = 60, disk_WarmupSeconds = 10,
         disk_MeasuredSeconds = 40, disk_CooldownSeconds = 10, disk_BlockSizeBytes = 4096,
         disk_QueueDepth = 32, disk_Concurrency = 4, disk_ReadRatio = 3 / 4, disk_WriteRatio = 1 / 4,
         disk_AcceptanceFloor = \<lparr>af_Type = ''iops'', af_Minimum = 1\<rparr>\<rparr>,
      po_HardwareThresholds =
        \<lparr>hw_CPUCoresMin = 4, hw_RAMGBMin = 16, hw_StorageGBMin = 750, hw_SSDRequired = True\<rparr>,
      po_ProbeThresholds = \<lparr>pt_FinalizedLagMaxBlocks = 2, pt_ChainLagMaxBlocks = 5\<rparr>,
      po_ReferenceEnvironment =
        \<lparr>ref_ID = ''ref-v1'', ref_OSImageID = ''os'', ref_AgentVersion = ''0.1.0'',
         ref_CPUProfileID = ''cpu-v1'', ref_DiskProfileID = ''disk-v1'',
         ref_BaselineSourceDate = ''2026-01-01''\<rparr>\<rparr>"

definition ex_config :: config where
  "ex_config =
     \<lparr>cfg_ListenAddr = ''127.0.0.1:8080'', cfg_PolicyPath = ''policy.yaml'',
      cfg_NodesConfigPath = ''nodes.yaml'', cfg_StatePath = ''state.json'',
      cfg_AllowedClockSkewSeconds = 300, cfg_NotificationEmailTo = ''ops'', cfg_SMTPHost = [],
      cfg_SMTPPort = 0, cfg_SMTPUsername = [], cfg_SMTPPassword = [], cfg_SMTPFrom = [],
      cfg_HeartbeatStaleAfter = 15 * minute, cfg_HeartbeatFailedAfter = 30 * minute,
      cfg_AlertScanInterval = minute, cfg_EnrollmentChallengeTTL = 10 * minute,
      cfg_NominalDailyPool = 1000, cfg_Notifier = Some Noop\<rparr>"

text \<open>The world: what was sent, and the store last saved.\<close>

definition ex_outside :: "(recorder \<times> store option) outside" where
  "ex_outside =
     \<lparr>out_send = (\<lambda>w n. case Recorder_Send (fst w) n of (r, err) \<Rightarrow> ((r, snd w), err)),
      out_save = (\<lambda>w st. ((fst w, Some st), None)),
      out_lower = id, out_upper = id, out_verify = (\<lambda>k d sg. True), out_sha256 = id\<rparr>"

definition ex_env :: "(recorder \<times> store option) env" where
  "ex_env = \<lparr>env_cfg = ex_config, env_policy = ex_policy, env_out = ex_outside\<rparr>"

text \<open>2026-04-07T11:00:00Z.\<close>

definition ex_now :: instant where "ex_now = 1775559600 * second"

definition ex_clk :: clk where "ex_clk = (\<lambda>_. ex_now)"

definition ex_day :: string where "ex_day = ''2026-04-07''"

definition ex_node :: "string \<Rightarrow> node" where
  "ex_node n = zero_node\<lparr>nd_NodeID := n, nd_Enabled := True,
     nd_ValidatedRegistrationAt := ''2026-04-01T00:00:00Z''\<rparr>"

definition ex_probe :: "string \<Rightarrow> string \<Rightarrow> string \<Rightarrow> probe_event" where
  "ex_probe i n region =
     \<lparr>pe_ProbeID = i, pe_NodeID = n, pe_RegionID = region, pe_ObservedAt = ''2026-04-07T10:00:00Z'',
      pe_Endpoint = ''https'', pe_AvailabilityUp = True, pe_FinalizedLagBlocks = Some 1,
      pe_ChainLagBlocks = Some 2, pe_SourceHeight = Some 100, pe_PeerHeight = Some 102,
      pe_MeasurementWindowSeconds = 30, pe_HTTPStatus = None, pe_ErrorCode = [], pe_ResolverIP = [],
      pe_Notes = []\<rparr>"

definition ex_heartbeat :: "string \<Rightarrow> int \<Rightarrow> heartbeat_event" where
  "ex_heartbeat n k =
     \<lparr>hb_NodeID = n, hb_HeartbeatTimestamp = ''2026-04-07T10:55:00Z'', hb_SequenceNumber = k\<rparr>"

definition ex_check :: "string \<Rightarrow> string \<Rightarrow> check_event" where
  "ex_check i n = \<lparr>ck_EventID = i, ck_NodeID = n, ck_OverallPassed = True,
     ck_CheckedAt = ''2026-04-07T09:00:00Z''\<rparr>"

definition ex_voting :: "string \<Rightarrow> string \<Rightarrow> voting_key_evidence" where
  "ex_voting i n = \<lparr>vk_EvidenceRef = i, vk_NodeID = n, vk_ObservedAt = ''2026-04-07T09:30:00Z'',
     vk_CurrentEpoch = 7, vk_VotingKeyPresent = True, vk_VotingKeyValidForEpoch = True,
     vk_Source = ''probe''\<rparr>"

text \<open>All the evidence a node needs on the day.\<close>

definition ex_evidence :: "string \<Rightarrow> store \<Rightarrow> store" where
  "ex_evidence n s =
     fst (SaveVotingKeyEvidence (ex_voting (''vk-'' @ n) n)
       (fst (SaveCheckEvent (ex_check (''ck-'' @ n) n)
         (SaveHeartbeatEvent (ex_heartbeat n 2)
           (SaveHeartbeatEvent (ex_heartbeat n 1)
             (fst (SaveProbeEvent (ex_probe (''p2-'' @ n) n ''eu'')
               (fst (SaveProbeEvent (ex_probe (''p1-'' @ n) n ''us'') s)))))))))"

definition ex_store :: store where
  "ex_store = ex_evidence ''b'' (ex_evidence ''a'' (New_Store [ex_node ''a'', ex_node ''b'']))"

definition ex_server :: "(recorder \<times> store option) server" where
  "ex_server = \<lparr>sv_store = ex_store, sv_world = (\<lparr>rc_Notifications = [], rc_Err = None\<rparr>, None)\<rparr>"

lemma ex_store_wf: "wf_store ex_store"
  unfolding ex_store_def ex_evidence_def by (intro wf_ops)

lemma ex_day_no_nul: "no_nul ex_day" "ex_day \<noteq> []"
  by (simp_all add: no_nul_def ex_day_def)

end
