(* ===== verification/Daily_Properties.thy ===== *)
theory Daily_Properties
  imports Examples
begin

text \<open>
  What the daily qualification of a node promises: when the probe gate passes, when the decision is
  "qualified", which base scores a qualified node can get, and what
  \<^verbatim>\<open>updateQualificationArtifacts\<close> leaves in the store. Each property is applied to the day of
  \<^verbatim>\<open>Examples\<close>.
\<close>

text \<open>
  C1: the probe gate of a day is exact. The summary's gate (whose ratios the code computes in floating
  point) passes iff the node has probes, from two regions, 99 in a hundred of them up, and 95 in a
  hundred of them within each lag bound, the percentages compared exactly over the integers, for any
  day of at most \<open>2 ^ 46\<close> probes.
\<close>

theorem daily_gate_exact:
  assumes "length (probe_events_of st n d) \<le> 2 ^ 46"
  shows "ds_QualifiedProbeEvidencePassed (computeDailyQualificationSummary pol clk st n d)
    \<longleftrightarrow> probe_day_ok (po_ProbeThresholds pol) (probe_events_of st n d)"
  using assms by (rule summary_passed_iff)

lemma ex_probe_count: "length (probe_events_of ex_store ''a'' ex_day) \<le> 2 ^ 46"
proof -
  have "length (probe_events_of ex_store ''a'' ex_day) = 2" by code_simp
  then show ?thesis by simp
qed

theorem daily_gate_exact_witness:
  "ds_QualifiedProbeEvidencePassed
     (computeDailyQualificationSummary ex_policy ex_clk ex_store ''a'' ex_day)"
  unfolding daily_gate_exact [OF ex_probe_count] by code_simp


lemma ex_qualified: "qd_Qualified (day_decision ex_env ex_clk ex_store ''a'' ex_day)"
  by code_simp


text \<open>
  A qualified node's base score lies between 68 and 70, its parts within their weights (30, 20, 10)
  and its voting key part is 10, whatever the rounding of the floating point sums.
\<close>

theorem base_score_range:
  assumes "computeBasePerformanceRecord clk (day_summary e clk st n d) (day_decision e clk st n d) = Some r"
    and "length (probe_events_of st n d) \<le> 2 ^ 46"
  shows "68 \<le> bp_BasePerformanceScore r \<and> bp_BasePerformanceScore r \<le> 70
    \<and> bp_VotingKeyScore r = 10 \<and> bp_AvailabilityScore r \<le> 30 \<and> bp_FinalizationScore r \<le> 20
    \<and> bp_ChainSyncScore r \<le> 10"
  by (rule base_range [OF assms])

theorem base_score_range_witness:
  "\<exists>r. computeBasePerformanceRecord ex_clk (day_summary ex_env ex_clk ex_store ''a'' ex_day)
      (day_decision ex_env ex_clk ex_store ''a'' ex_day) = Some r
    \<and> 68 \<le> bp_BasePerformanceScore r \<and> bp_BasePerformanceScore r \<le> 70"
proof -
  obtain r where r: "computeBasePerformanceRecord ex_clk (day_summary ex_env ex_clk ex_store ''a'' ex_day)
      (day_decision ex_env ex_clk ex_store ''a'' ex_day) = Some r"
    using computeBase_None_iff ex_qualified by (metis not_None_eq)
  with base_score_range [OF r ex_probe_count] show ?thesis by blast
qed

text \<open>
  C3: \<^verbatim>\<open>updateQualificationArtifacts\<close> leaves for the node and the day exactly the summary and the
  decision computed from the store it was given, a base performance record exactly when the decision
  is "qualified" (a record of an earlier evaluation is deleted), the day's new ranking as the ranking,
  with the node in it exactly when it is qualified, and a well-formed store.
\<close>

theorem artifacts_of_the_day:
  assumes "wf_store (sv_store s)" "no_nul d" "d \<noteq> []"
    and "length (st_basePerformance (sv_store s)) < 2 ^ 30"
  shows "let s' = sv_store (updateQualificationArtifacts e clk n d s);
             decision = day_decision e clk (sv_store s) n d
    in GetDailyQualificationSummary s' n d = Some (day_summary e clk (sv_store s) n d)
     \<and> GetQualifiedDecisionRecord s' n d = Some decision
     \<and> GetBasePerformanceRecord s' n d =
         computeBasePerformanceRecord clk (day_summary e clk (sv_store s) n d) decision
     \<and> (GetBasePerformanceRecord s' n d \<noteq> None \<longleftrightarrow> qd_Qualified decision)
     \<and> ListRankingRecordsByDate s' d = ranking_records clk (artifacts_records e clk n d (sv_store s)) d
     \<and> (n \<in> rk_NodeID ` set (ListRankingRecordsByDate s' d) \<longleftrightarrow> qd_Qualified decision)
     \<and> wf_store s'"
proof -
  have len: "length (ranked_base (artifacts_records e clk n d (sv_store s)) d) \<le> 2 ^ 30"
    using length_day_base [of e clk n d "sv_store s"] assms(4) by linarith
  show ?thesis
    unfolding Let_def artifacts_summary artifacts_decision artifacts_base
      artifacts_ranking [OF assms(1-3) len] artifacts_ranked_iff [OF assms(1-3) len, unfolded artifacts_ranking [OF assms(1-3) len]]
    by (simp add: computeBase_None_iff artifacts_wf [OF assms(1,2)])
qed

lemma ex_no_base: "length (st_basePerformance ex_store) < 2 ^ 30"
proof -
  have "st_basePerformance ex_store = []" by code_simp
  then show ?thesis by simp
qed

theorem artifacts_of_the_day_witness:
  "''a'' \<in> rk_NodeID ` set (ListRankingRecordsByDate
     (sv_store (updateQualificationArtifacts ex_env ex_clk ''a'' ex_day ex_server)) ex_day)"
proof -
  have st: "sv_store ex_server = ex_store" by (simp add: ex_server_def)
  note facts = artifacts_of_the_day [of ex_server, unfolded st Let_def,
      OF ex_store_wf ex_day_no_nul ex_no_base]
  from facts ex_qualified show ?thesis by blast
qed

end
