(* ===== verification/Reward_Properties.thy ===== *)
theory Reward_Properties
  imports Examples
begin

text \<open>
  What the ranking and the rewards of a day promise: one ranking whatever the order in which the
  records are read, sound positions and totals, anti-concentration, and an allocation that pays every
  eligible node of a band alike and no more than the distributed pool in all.
\<close>

section \<open>Examples\<close>

text \<open>Two nodes with base records of the day; node \<open>a\<close> is alone in its country.\<close>

definition ex_infra :: decentralization_evidence where
  "ex_infra = \<lparr>dc_EvidenceRef = ''dc'', dc_NodeID = ''a'', dc_ObservedAt = ''2026-04-07T08:00:00Z'',
     dc_CountryCode = ''JP'', dc_ASN = 64500, dc_ProviderID = ''p'', dc_InfrastructureID = ''rack'',
     dc_Source = ''probe''\<rparr>"

definition ex_base :: "string \<Rightarrow> base_performance_record" where
  "ex_base n = \<lparr>bp_NodeID = n, bp_DateUTC = ex_day, bp_PolicyVersion = ''v1'', bp_AvailabilityScore = 30,
     bp_FinalizationScore = 20, bp_ChainSyncScore = 10, bp_VotingKeyScore = 10,
     bp_BasePerformanceScore = 70, bp_QualifiedDecisionRef = [], bp_DailySummaryRef = [], bp_ComputedAt = []\<rparr>"

definition ex_two :: store where
  "ex_two = SaveBasePerformanceRecord (ex_base ''b'') (SaveBasePerformanceRecord (ex_base ''a'')
     (fst (SaveDecentralizationEvidence ex_infra ex_store)))"

lemma ex_two_wf: "wf_store ex_two"
  unfolding ex_two_def by (intro wf_ops ex_store_wf) (simp_all add: ex_base_def ex_day_no_nul)

lemma ex_two_day: "ListBasePerformanceRecordsByDate ex_two ex_day = [ex_base ''a'', ex_base ''b'']"
  by code_simp

lemma ex_two_length: "length (ranked_base ex_two ex_day) \<le> 2 ^ 30"
proof -
  have "length (ranked_base ex_two ex_day) = length (ListBasePerformanceRecordsByDate ex_two ex_day)"
    using ranked_base_facts(1) by (rule mset_eq_length)
  then show ?thesis by (simp add: ex_two_day)
qed

section \<open>Groups of the eligible nodes\<close>

lemma eligibility_loop_groups:
  "set (seen_groups seen) \<inter> re_OperatorGroupID ` set (filter re_RewardEligible
       (eligibility_loop lower st d tm rks seen)) = {}
   \<and> distinct (map re_OperatorGroupID (filter re_RewardEligible (eligibility_loop lower st d tm rks seen)))"
proof (induction rks arbitrary: seen)
  case (Cons rk rks)
  obtain r seen' where r: "eligibility_step lower st d tm rk seen = (r, seen')"
    and loop: "eligibility_loop lower st d tm (rk # rks) seen = r # eligibility_loop lower st d tm rks seen'"
    by (rule eligibility_loop_Cons)
  note f = eligibility_step_facts [OF r]
  show ?case
    using Cons.IH [of seen'] f(8) f(4) f(6,7) unfolding loop
    by (auto simp: exclusion_of_Nil split: if_splits)
qed simp

lemma eligible_groups:
  "distinct (map re_OperatorGroupID (filter re_RewardEligible (eligibility_records lower clk st d rks)))"
  using eligibility_loop_groups by (simp add: eligibility_records_def)

section \<open>Amounts\<close>

lemma allocation_in_band:
  assumes "a \<in> set (allocation_records P clk d rks rs)"
  obtains b where "b \<in> set reward_bands"
    and "a \<in> set (band_allocations P d (format_rfc3339 (clk At_Allocation)) rks
           (index_eligibility (rewardEligibilityIndex rs)) b)"
  using assms by (auto simp: allocation_records_def split: if_splits)

lemma allocation_zero:
  assumes "a \<in> set (allocation_records P clk d rks rs)" and "\<not> ra_RewardEligible a"
  shows "ra_RewardAmount a = 0"
  using allocation_in_band [OF assms(1)] band_allocation_amount(1) assms(2) by metis

lemma band_label_inj: "b \<in> set reward_bands \<Longrightarrow> b' \<in> set reward_bands \<Longrightarrow> band_label b = band_label b' \<Longrightarrow> b = b'"
  by (auto simp: reward_bands_def)

lemma allocation_equal:
  assumes "a \<in> set (allocation_records P clk d rks rs)" and "a' \<in> set (allocation_records P clk d rks rs)"
    and "ra_RewardEligible a" "ra_RewardEligible a'" "ra_BandLabel a = ra_BandLabel a'"
  shows "ra_RewardAmount a = ra_RewardAmount a'"
proof -
  obtain b where b: "b \<in> set reward_bands" "a \<in> set (band_allocations P d (format_rfc3339 (clk At_Allocation)) rks
      (index_eligibility (rewardEligibilityIndex rs)) b)" using assms(1) by (rule allocation_in_band)
  obtain b' where b': "b' \<in> set reward_bands" "a' \<in> set (band_allocations P d (format_rfc3339 (clk At_Allocation)) rks
      (index_eligibility (rewardEligibilityIndex rs)) b')" using assms(2) by (rule allocation_in_band)
  have "b = b'"
    using assms(5) b(1) b'(1) by (intro band_label_inj)
      (simp_all add: band_allocation_amount(3) [OF b(2)] band_allocation_amount(3) [OF b'(2)])
  with band_allocation_amount(1) [OF b(2)] band_allocation_amount(1) [OF b'(2)] assms(3,4)
  show ?thesis by simp
qed

section \<open>Ranking\<close>

text \<open>
  C4: the ranking of a day is unique. The day's base performance records come out of a map in an
  unspecified order; any arrangement of them that is ordered by the ranking's comparison (total, base,
  finalization, availability, registration time, node id) is the one the portal computes.
\<close>

theorem ranking_unique:
  assumes "wf_store st" "d \<noteq> []" and "mset rs = mset (ListBasePerformanceRecordsByDate st d)"
    and "ordered (rank_before st
      (computeDecentralizationScores st d (ListBasePerformanceRecordsByDate st d))) rs"
  shows "map bp_NodeID rs = map rk_NodeID (ranking_records clk st d)"
  using ranked_base_unique [OF assms] by (simp add: ranking_records_nodes)

theorem ranking_unique_witness:
  "[''a'', ''b''] = map rk_NodeID (ranking_records ex_clk ex_two ex_day)"
proof -
  have scores: "computeDecentralizationScores ex_two ex_day [ex_base ''a'', ex_base ''b''] = [(''a'', 30), (''b'', 0)]"
    by code_simp
  have "\<not> rank_before ex_two [(''a'', 30), (''b'', 0)] (ex_base ''b'') (ex_base ''a'')"
    by code_simp
  then have "ordered (rank_before ex_two (computeDecentralizationScores ex_two ex_day
      (ListBasePerformanceRecordsByDate ex_two ex_day))) [ex_base ''a'', ex_base ''b'']"
    by (simp add: ex_two_day scores)
  from ranking_unique [OF ex_two_wf ex_day_no_nul(2) _ this]
  show ?thesis by (simp add: ex_two_day) (simp add: ex_base_def)
qed

text \<open>
  After \<^verbatim>\<open>rebuildRankings\<close> the day's ranking has exactly the nodes with a base performance
  record, each once, at the positions 1, 2, 3 and so on, in an order where the totals never increase.
\<close>

theorem ranking_wellformed:
  assumes "wf_store s" "no_nul d" "d \<noteq> []" and "length (ranked_base s d) \<le> 2 ^ 30"
  shows "let rks = ListRankingRecordsByDate (rebuildRankings e clk d s) d
    in map rk_RankPosition rks = map (\<lambda>i. int i + 1) [0..<length (ListBasePerformanceRecordsByDate s d)]
     \<and> mset (map rk_NodeID rks) = mset (map bp_NodeID (ListBasePerformanceRecordsByDate s d))
     \<and> distinct (map rk_NodeID rks)
     \<and> sorted_wrt (\<lambda>a b. rk_TotalScore b \<le> rk_TotalScore a) rks"
proof -
  have "length (ranked_base s d) = length (ListBasePerformanceRecordsByDate s d)"
    using ranked_base_facts(1) by (rule mset_eq_length)
  then show ?thesis
    unfolding Let_def rebuild_rankings_views(1) [OF assms] ranking_records_nodes
    using base_day_distinct(1) [OF assms(1,3)]
    by (simp add: ranking_totals_descend ranked_base_facts)
qed

theorem ranking_wellformed_witness:
  "distinct (map rk_NodeID (ListRankingRecordsByDate (rebuildRankings ex_env ex_clk ex_day ex_two) ex_day))"
  using ranking_wellformed [OF ex_two_wf ex_day_no_nul ex_two_length, of ex_env ex_clk, unfolded Let_def] by blast

text \<open>
  The decentralization score of a ranked node is 20 when no other node of the day has its country,
  plus 10 when it has a known network and provider and no other node has the same infrastructure key,
  and nothing else.
\<close>

theorem decentralization_rewards_uniqueness:
  assumes "wf_store st" "d \<noteq> []" and "r \<in> set (ListBasePerformanceRecordsByDate st d)"
    and "infra_evidence st d r = Some ev"
  shows "let rs = ListBasePerformanceRecordsByDate st d
    in score_at (computeDecentralizationScores st d rs) (bp_NodeID r) =
       (if dc_CountryCode ev \<noteq> [] \<and> number (has_country st d (dc_CountryCode ev)) rs = 1 then 20 else 0)
       + (if 0 < dc_ASN ev \<and> trim_space (dc_ProviderID ev) \<noteq> []
            \<and> number (has_infra st d (infraKey ev)) rs = 1 then 10 else 0)"
  unfolding Let_def score_at_value [OF base_day_distinct(1) [OF assms(1,2)] assms(3)] assms(4)
  by (rule decentralization_score_value)

theorem decentralization_rewards_uniqueness_witness:
  "score_at (computeDecentralizationScores ex_two ex_day
     (ListBasePerformanceRecordsByDate ex_two ex_day)) ''a'' = 30"
proof -
  have ev: "infra_evidence ex_two ex_day (ex_base ''a'') = Some ex_infra" by code_simp
  have alone: "number (has_country ex_two ex_day (dc_CountryCode ex_infra)) [ex_base ''a'', ex_base ''b''] = 1"
    "number (has_infra ex_two ex_day (infraKey ex_infra)) [ex_base ''a'', ex_base ''b''] = 1"
    by code_simp+
  have known: "dc_CountryCode ex_infra \<noteq> []" "0 < dc_ASN ex_infra" "trim_space (dc_ProviderID ex_infra) \<noteq> []"
    "bp_NodeID (ex_base ''a'') = ''a''"
    by code_simp+
  have "ex_base ''a'' \<in> set (ListBasePerformanceRecordsByDate ex_two ex_day)" by (simp add: ex_two_day)
  from decentralization_rewards_uniqueness [OF ex_two_wf ex_day_no_nul(2) this ev]
  show ?thesis unfolding ex_two_day Let_def alone known(4) using known by simp
qed

section \<open>Anti-concentration\<close>


lemma ex_two_ranking: "map rk_NodeID (ranking_records ex_clk ex_two ex_day) = [''a'', ''b'']"
  by code_simp



text \<open>
  C6: no two eligible nodes of a day share an operator group: in the eligibility list stored, the
  operator groups of the eligible nodes are distinct.
\<close>

theorem eligible_groups_distinct:
  assumes "wf_store s" "no_nul d" "d \<noteq> []" and "length (ranked_base s d) \<le> 2 ^ 30"
  shows "distinct (map re_OperatorGroupID (filter re_RewardEligible
    (ListRewardEligibilityRecordsByDate (rebuildRankings e clk d s) d)))"
  unfolding rebuild_rankings_views(2) [OF assms] by (rule eligible_groups)

theorem eligible_groups_distinct_witness:
  "distinct (map re_OperatorGroupID (filter re_RewardEligible
    (ListRewardEligibilityRecordsByDate (rebuildRankings ex_env ex_clk ex_day ex_two) ex_day)))"
  by (rule eligible_groups_distinct [OF ex_two_wf ex_day_no_nul ex_two_length])

text \<open>
  The review state of an operator group claim does not matter. The group the eligibility pass
  assigns to a ranked node is the group of its latest evidence of the day, accepted or not: a pending
  or rejected claim excludes the lower ranked node just as an accepted one does, because the ranking
  record already carries the unreviewed group and the pass falls back to it.
\<close>

theorem review_state_ignored:
  assumes "GetLatestOperatorGroupEvidenceForNodeAndDate st (bp_NodeID r) d = Some ev"
    and "trim_space (og_OperatorGroupID ev) \<noteq> []"
  shows "group_of st d (ranking_of st d scores t p r) = og_OperatorGroupID ev"
  using assms by (auto simp: group_of_def ranking_of_def ranking_group_def)

text \<open>A claim under review.\<close>

definition ex_pending :: operator_group_evidence where
  "ex_pending = \<lparr>og_EvidenceRef = ''og'', og_NodeID = ''b'', og_OperatorGroupID = ''a'',
     og_ObservedAt = ''2026-04-07T08:00:00Z'', og_Source = ''portal'', og_ReviewState = ''pending''\<rparr>"

theorem review_state_ignored_witness:
  "group_of (fst (SaveOperatorGroupEvidence ex_pending ex_two)) ex_day
     (ranking_of (fst (SaveOperatorGroupEvidence ex_pending ex_two)) ex_day [] ''t'' 2 (ex_base ''b''))
   = ''a''"
proof -
  have "GetLatestOperatorGroupEvidenceForNodeAndDate (fst (SaveOperatorGroupEvidence ex_pending ex_two))
      (bp_NodeID (ex_base ''b'')) ex_day = Some ex_pending"
    "trim_space (og_OperatorGroupID ex_pending) \<noteq> []"
    by code_simp+
  from review_state_ignored [OF this] show ?thesis by (simp add: ex_pending_def)
qed

section \<open>Allocation\<close>

text \<open>
  C7: after \<^verbatim>\<open>rebuildRankings\<close> the day's allocation lists the nodes of the ranking, each once and in
  order, whatever bands they fall in; a node that is not eligible gets nothing, and two eligible nodes
  of one band get the same amount.
\<close>

theorem allocation_fair:
  assumes "wf_store s" "no_nul d" "d \<noteq> []" and "length (ranked_base s d) \<le> 2 ^ 30"
  shows "let s' = rebuildRankings e clk d s; as = ListRewardAllocationRecordsByDate s' d
    in map ra_NodeID as = map rk_NodeID (ListRankingRecordsByDate s' d)
     \<and> (\<forall>a \<in> set as. \<not> ra_RewardEligible a \<longrightarrow> ra_RewardAmount a = 0)
     \<and> (\<forall>a \<in> set as. \<forall>a' \<in> set as. ra_RewardEligible a \<and> ra_RewardEligible a'
          \<and> ra_BandLabel a = ra_BandLabel a' \<longrightarrow> ra_RewardAmount a = ra_RewardAmount a')"
proof -
  let ?rks = "ranking_records clk s d"
  let ?rs = "eligibility_records (out_lower (env_out e)) clk s d ?rks"
  let ?as = "allocation_records (cfg_NominalDailyPool (env_cfg e)) clk d ?rks ?rs"
  have "rank_sorted ?rks" using assms(4) by (rule ranking_rank_sorted)
  then have nodes: "map ra_NodeID ?as = map rk_NodeID ?rks" by (rule allocation_nodes)
  show ?thesis
    unfolding Let_def rebuild_rankings_views [OF assms] nodes
    using allocation_zero allocation_equal by fast
qed

theorem allocation_fair_witness:
  "map ra_NodeID (ListRewardAllocationRecordsByDate (rebuildRankings ex_env ex_clk ex_day ex_two) ex_day)
     = [''a'', ''b'']"
  using allocation_fair [OF ex_two_wf ex_day_no_nul ex_two_length, of ex_env ex_clk]
  unfolding Let_def rebuild_rankings_views(1) [OF ex_two_wf ex_day_no_nul ex_two_length] ex_two_ranking
  by blast

text \<open>
  C8: the amounts of a day add up to no more than the distributed pool (the nominal pool times the
  participation rate of the number of ranked nodes), up to the rounding of the floating point
  divisions, one part in \<open>2 ^ 51\<close>; and the distributed pool is no more than the nominal pool.
\<close>

theorem allocation_within_pool:
  assumes "1 \<le> P" and "is_float P" and "rks \<noteq> []" and "length rks \<le> 2 ^ 53"
  shows "sum_list (map ra_RewardAmount (allocation_records P clk d rks rs))
      \<le> fmul P (rewardParticipationRate (int (length rks))) * (1 + 1 / 2 ^ 51)
    \<and> fmul P (rewardParticipationRate (int (length rks))) \<le> P"
  using total_paid [OF assms(1,3,4)] pool_split(2) [of P] assms(1,2) by auto

lemma ex_rankings_length:
  "ranking_records ex_clk ex_two ex_day \<noteq> []" "length (ranking_records ex_clk ex_two ex_day) \<le> 2 ^ 53"
proof -
  have l: "length (ranking_records ex_clk ex_two ex_day) = length [''a'', ''b'']"
    unfolding ex_two_ranking [symmetric] by simp
  then show "ranking_records ex_clk ex_two ex_day \<noteq> []" by auto
  from l have "length (ranking_records ex_clk ex_two ex_day) = 2" by simp
  then show "length (ranking_records ex_clk ex_two ex_day) \<le> 2 ^ 53" by simp
qed

theorem allocation_within_pool_witness:
  "fmul 1000 (rewardParticipationRate (int (length (ranking_records ex_clk ex_two ex_day)))) \<le> 1000"
proof -
  have "(1::rat) \<le> 1000" "is_float 1000" by code_simp+
  from allocation_within_pool [OF this ex_rankings_length] show ?thesis by blast
qed

end
