(* ===== verification/Store_Properties.thy ===== *)
theory Store_Properties
  imports Examples
begin

text \<open>
  What the store, the alerts and the policy loader promise: evidence is kept as first submitted,
  "latest" evidence does not depend on the order of a Go map, the days of a ranking do not disturb
  each other, alerts respect their cooldown, and the two policy validators agree but for one check.
\<close>

section \<open>Evidence\<close>

text \<open>
  Evidence is append only, and the first submission wins. After any series of submissions, with
  any repetitions, a probe id, check id or voting key evidence reference names what was stored for it
  before, or else the first submission that carried it; later ones change nothing.
\<close>

theorem evidence_first_wins:
  "GetProbeEvent (save_each SaveProbeEvent ps s) i =
     (case GetProbeEvent s i of Some x \<Rightarrow> Some x | None \<Rightarrow> find (\<lambda>e. pe_ProbeID e = i) ps)
   \<and> GetCheckEvent (save_each SaveCheckEvent cs s) i =
     (case GetCheckEvent s i of Some x \<Rightarrow> Some x | None \<Rightarrow> find (\<lambda>e. ck_EventID e = i) cs)
   \<and> map_get (st_votingKeyEvidence (save_each SaveVotingKeyEvidence vs s)) i =
     (case map_get (st_votingKeyEvidence s) i of Some x \<Rightarrow> Some x
      | None \<Rightarrow> find (\<lambda>e. vk_EvidenceRef e = i) vs)"
  using probe_log.first_wins [of ps s i] check_log.first_wins [of cs s i] voting_log.first_wins [of vs s i]
  by (simp only: option.map_ident)

text \<open>
  The voting key evidence the qualification reads is the latest of the node's evidence of the day:
  it is stored, is the node's and of the day, and none such is later. When no two of them carry the
  same time it is the only one, so that the order in which Go ranges over the map does not matter.
\<close>

theorem latest_voting_key_evidence:
  assumes "GetLatestVotingKeyEvidenceForNodeAndDate s n d = Some e"
  shows "let day = filter (\<lambda>e. vk_NodeID e = n \<and> on_date d (vk_ObservedAt e))
                     (map_vals (st_votingKeyEvidence s))
    in e \<in> set day \<and> (\<forall>e' \<in> set day. vk_ObservedAt e' \<le> vk_ObservedAt e)
     \<and> (inj_on vk_ObservedAt (set day) \<longrightarrow>
          (\<forall>evs. mset evs = mset day \<longrightarrow> latest vk_ObservedAt evs = Some e))"
  unfolding Let_def
proof (intro conjI impI allI)
  let ?day = "filter (\<lambda>e. vk_NodeID e = n \<and> on_date d (vk_ObservedAt e)) (map_vals (st_votingKeyEvidence s))"
  have e: "latest vk_ObservedAt ?day = Some e"
    using assms by (simp only: GetLatestVotingKeyEvidenceForNodeAndDate_def)
  from latest_Some [OF e] show "e \<in> set ?day" "\<forall>e' \<in> set ?day. vk_ObservedAt e' \<le> vk_ObservedAt e" by auto
  fix evs assume inj: "inj_on vk_ObservedAt (set ?day)" and evs: "mset evs = mset ?day"
  from evs have "set evs = set ?day" by (rule mset_eq_setD)
  from latest_perm [OF this inj] e show "latest vk_ObservedAt evs = Some e" by simp
qed

theorem latest_voting_key_evidence_witness:
  "ex_voting ''vk-a'' ''a'' \<in> set (filter (\<lambda>e. vk_NodeID e = ''a'' \<and> on_date ex_day (vk_ObservedAt e))
      (map_vals (st_votingKeyEvidence ex_store)))"
proof -
  have "GetLatestVotingKeyEvidenceForNodeAndDate ex_store ''a'' ex_day = Some (ex_voting ''vk-a'' ''a'')"
    by code_simp
  from latest_voting_key_evidence [OF this, unfolded Let_def] show ?thesis by blast
qed

section \<open>Days\<close>

text \<open>
  Replacing the ranking of a day replaces that day's ranking and nothing else: what is written in
  rank order is read back as written, and every other day reads as before.
\<close>

theorem day_replaced_alone:
  assumes "wf_store s" "no_nul d" "d \<noteq> []" and "\<forall>r \<in> set rs. rk_DateUTC r = d"
    and "distinct (map rk_NodeID rs)" and "sorted (map (\<lambda>r. (rk_RankPosition r, rk_NodeID r)) rs)"
    and "d' \<noteq> []"
  shows "ListRankingRecordsByDate (ReplaceRankingRecordsForDate d rs s) d' =
    (if d' = d then rs else ListRankingRecordsByDate s d')"
proof (cases "d' = d")
  case True
  then show ?thesis using ranking_days.read_back [OF assms(1-4)] assms(5,6) by (simp add: comp_def)
next
  case False
  then show ?thesis using ranking_days.other_dates [OF assms(1,2,4)] assms(5,7) by (simp add: comp_def)
qed

theorem day_replaced_alone_witness:
  "ListRankingRecordsByDate (ReplaceRankingRecordsForDate ex_day [] ex_store) ex_day = []"
proof -
  have "(\<forall>r \<in> set ([] :: ranking_record list). rk_DateUTC r = ex_day)" "distinct (map rk_NodeID [])"
    "sorted (map (\<lambda>r. (rk_RankPosition r, rk_NodeID r)) [])" by simp_all
  from day_replaced_alone [OF ex_store_wf ex_day_no_nul this ex_day_no_nul(2)]
  show ?thesis by simp
qed

section \<open>Policy\<close>

text \<open>
  The portal's policy check accepts exactly the documents that meet the specification
  \<open>good_policy\<close> and name the type of both acceptance floors, so every policy the portal loads passes
  the agent's check; the agent's check, which lacks the two floor types, accepts the others as well.
\<close>

theorem policy_checks_agree:
  "(portal_validate doc = None \<longleftrightarrow> good_policy doc \<and> has_floor_types doc)
   \<and> (agent_validate doc = None \<longleftrightarrow> good_policy doc)"
  using portal_validate_iff agent_validate_iff by blast

section \<open>Alerts\<close>

text \<open>
  Deliveries of one alert of one node are spaced by the alert's cooldown (15 minutes when critical,
  24 hours otherwise). From an empty store, whatever alerts are attempted, for whatever nodes, at
  whatever times and with whatever answers of the mail server, the deliveries recorded as sent for a
  node and a code are at least the cooldown apart.
\<close>

theorem alerts_spaced:
  assumes "sv_store s = New_Store nodes" and "no_nul c"
    and "\<forall>(n', c', o', t) \<in> set as. no_nul c' \<and> in_era t"
  shows "spaced (cooldownForSeverity (severityForAlert c)) (sent_log (sv_store (alert_attempts e as s)) n c)"
  using log_ok_attempts [of s n c as e] log_ok_New [of nodes n c] assms by (simp add: log_ok_def)

definition ex_attempts :: "(string \<times> string \<times> string \<times> instant) list" where
  "ex_attempts =
     [(''a'', alertHeartbeatFailed, ''o1'', ex_now), (''a'', alertHeartbeatFailed, ''o2'', ex_now + minute),
      (''a'', alertHeartbeatFailed, ''o3'', ex_now + 16 * minute)]"

definition ex_fresh :: "(recorder \<times> store option) server" where
  "ex_fresh = ex_server\<lparr>sv_store := New_Store [ex_node ''a'']\<rparr>"

theorem alerts_spaced_witness:
  "spaced (15 * minute) [''2026-04-07T11:00:00Z'', ''2026-04-07T11:16:00Z'']"
proof -
  have "sv_store ex_fresh = New_Store [ex_node ''a'']" by (simp add: ex_fresh_def)
  moreover have "no_nul alertHeartbeatFailed" by code_simp
  moreover have "\<forall>(n', c', o', t) \<in> set ex_attempts. no_nul c' \<and> in_era t" by code_simp
  ultimately have "spaced (cooldownForSeverity (severityForAlert alertHeartbeatFailed))
      (sent_log (sv_store (alert_attempts ex_env ex_attempts ex_fresh)) ''a'' alertHeartbeatFailed)"
    by (rule alerts_spaced)
  moreover have "sent_log (sv_store (alert_attempts ex_env ex_attempts ex_fresh)) ''a'' alertHeartbeatFailed =
      [''2026-04-07T11:00:00Z'', ''2026-04-07T11:16:00Z'']" by code_simp
  moreover have "cooldownForSeverity (severityForAlert alertHeartbeatFailed) = 15 * minute" by code_simp
  ultimately show ?thesis by simp
qed

text \<open>
  An alert that could not be sent does not start a cooldown. When the mail server refuses it, the
  alert states are as before, the attempt shows as one failed delivery and one operational event, and
  the next attempt is free to be made.
\<close>

theorem failed_alert_not_muted:
  assumes "\<not> in_cooldown (sv_store s) n c now"
    and "snd (out_send (env_out e) (sv_world s)
           (alert_notification n c o' (alert_recipient (env_cfg e) (sv_store s) n))) = Some err"
  shows "let s' = fst (maybeNotifyAlert e n c o' now s)
    in st_alertStates (sv_store s') = st_alertStates (sv_store s)
     \<and> (\<exists>d. st_deliveries (sv_store s') = st_deliveries (sv_store s) @ [d] \<and> dl_Status d = ''failed'')
     \<and> length (st_operational (sv_store s')) = Suc (length (st_operational (sv_store s)))
     \<and> \<not> in_cooldown (sv_store s') n c now"
proof -
  let ?s' = "fst (maybeNotifyAlert e n c o' now s)"
  let ?n = "alert_notification n c o' (alert_recipient (env_cfg e) (sv_store s) n)"
  obtain w where w: "out_send (env_out e) (sv_world s) ?n = (w, Some err)"
    using assms(2) by (cases "out_send (env_out e) (sv_world s) ?n") auto
  have s': "\<exists>d x. sv_store ?s' = AddOperationalEvent x (AddNotificationDelivery d (sv_store s)) \<and> dl_Status d = ''failed''"
  proof (cases "alert_recipient (env_cfg e) (sv_store s) n = []")
    case True
    then show ?thesis
      by (simp add: maybeNotifyAlert_def assms(1) Let_def recordDeliveryFailure_def) (auto simp: failure_delivery_def)
  next
    case False
    then show ?thesis
      by (simp add: maybeNotifyAlert_def assms(1) Let_def w recordDeliveryFailure_def) (auto simp: failure_delivery_def)
  qed
  then show ?thesis
    using assms(1)
    by (auto simp: Let_def AddOperationalEvent_def AddNotificationDelivery_def in_cooldown_def GetAlertState_def)
qed

text \<open>A mail server that is down.\<close>

definition ex_down :: "(recorder \<times> store option) server" where
  "ex_down = ex_fresh\<lparr>sv_world := (\<lparr>rc_Notifications = [], rc_Err = Some ''down''\<rparr>, None)\<rparr>"

theorem failed_alert_not_muted_witness:
  "\<not> in_cooldown (sv_store (fst (maybeNotifyAlert ex_env ''a'' alertHeartbeatFailed ''o'' ex_now ex_down)))
     ''a'' alertHeartbeatFailed ex_now"
proof -
  have "\<not> in_cooldown (sv_store ex_down) ''a'' alertHeartbeatFailed ex_now"
    "snd (out_send (env_out ex_env) (sv_world ex_down) (alert_notification ''a'' alertHeartbeatFailed ''o''
       (alert_recipient (env_cfg ex_env) (sv_store ex_down) ''a''))) = Some ''down''"
    by code_simp+
  from failed_alert_not_muted [OF this] show ?thesis by (simp add: Let_def)
qed

end
