(* ===== verification/Json.thy ===== *)
theory Json
  imports Go_Sort Go_Strings Policy
begin

text \<open>
  JSON values as the server sees them: the decoded body of a request (\<^verbatim>\<open>decodeObject\<close>, with numbers
  kept as their literal, and the field helpers of
  \<^verbatim>\<open>portal/internal/server/json_auth_helpers.go\<close>), the text \<^verbatim>\<open>json.Marshal\<close> prints, and the
  canonical form of \<^verbatim>\<open>portal/internal/verify/verify.go\<close> that signatures are made over.

  Splitting the bytes of a body into tokens is the decoder's and the model starts after it. The
  decoder replaces ill-formed UTF-8, so the strings of a value are well formed, and a number is a
  literal of the JSON grammar (\<open>decoded\<close>). \<open>marshal_inj\<close> shows that the printed text determines the
  value, which is what makes a signature over it bind every field.
\<close>

datatype json =
    JNull | JBool bool | JNum string | JStr string
  | JArr "json list" | JObj "(string \<times> json) list"

section \<open>Decoding and fields\<close>

text \<open>A body: text the decoder refuses, with its error, or the document it holds, members in order.\<close>

datatype body = Undecodable string | Document json

text \<open>Decoding into \<^verbatim>\<open>any\<close>: an object becomes a map, a repeated key keeps its last value.\<close>

definition put_pairs :: "(string \<times> json) list \<Rightarrow> (string, json) gomap" where
  "put_pairs kvs = fold (\<lambda>(k, v). map_put k v) kvs []"

primrec any_of :: "json \<Rightarrow> json" where
  "any_of JNull = JNull"
| "any_of (JBool b) = JBool b"
| "any_of (JNum l) = JNum l"
| "any_of (JStr s) = JStr s"
| "any_of (JArr vs) = JArr (map any_of vs)"
| "any_of (JObj kvs) = JObj (put_pairs (map (map_prod id any_of) kvs))"

text \<open>Decoding into a map: \<^verbatim>\<open>null\<close> leaves the nil map, anything but an object is refused.\<close>

definition decodeObject :: "body \<Rightarrow> goerr + (string, json) gomap" where
  "decodeObject b =
     (case b of
        Undecodable m \<Rightarrow> Inl (Json_Error m)
      | Document v \<Rightarrow>
          (case v of
             JObj kvs \<Rightarrow> Inr (put_pairs (map (map_prod id any_of) kvs))
           | JNull \<Rightarrow> Inr []
           | _ \<Rightarrow> Inl (Json_Error ''json: cannot unmarshal into Go value of type map[string]interface {}'')))"

definition stringField :: "(string, json) gomap \<Rightarrow> string \<Rightarrow> string" where
  "stringField payload key = (case map_get payload key of Some (JStr s) \<Rightarrow> s | _ \<Rightarrow> [])"

definition boolField :: "(string, json) gomap \<Rightarrow> string \<Rightarrow> bool option" where
  "boolField payload key = (case map_get payload key of Some (JBool b) \<Rightarrow> Some b | _ \<Rightarrow> None)"

definition arrayField :: "(string, json) gomap \<Rightarrow> string \<Rightarrow> json list option" where
  "arrayField payload key = (case map_get payload key of Some (JArr vs) \<Rightarrow> Some vs | _ \<Rightarrow> None)"

text \<open>
  \<^verbatim>\<open>intField\<close> and \<^verbatim>\<open>optionalNonNegativeIntField\<close>; \<^verbatim>\<open>int\<close> has 64 bits. A decoded number is always a
  \<^verbatim>\<open>json.Number\<close>, so their branch for \<^verbatim>\<open>float64\<close> has no value to take.
\<close>

definition intField :: "(string, json) gomap \<Rightarrow> string \<Rightarrow> int option" where
  "intField payload key = (case map_get payload key of Some (JNum l) \<Rightarrow> parse_int64 l | _ \<Rightarrow> None)"

definition optionalNonNegativeIntField :: "(string, json) gomap \<Rightarrow> string \<Rightarrow> goerr + int option" where
  "optionalNonNegativeIntField payload key =
     (case map_get payload key of
        None \<Rightarrow> Inr None
      | Some JNull \<Rightarrow> Inr None
      | Some (JNum l) \<Rightarrow>
          (case parse_int64 l of
             None \<Rightarrow> Inl (Field_Error key '' must be an integer'')
           | Some n \<Rightarrow> if n < 0 then Inl (Field_Error key '' must be >= 0'') else Inr (Some n))
      | Some _ \<Rightarrow> Inl (Field_Error key '' must be an integer''))"

section \<open>Printing\<close>

definition hex_digit :: "nat \<Rightarrow> char" where
  "hex_digit n = (if n < 10 then char_of (48 + n) else char_of (87 + n))"

definition byte :: "char \<Rightarrow> nat" where "byte c = of_char c"

text \<open>
  The escapes of \<^verbatim>\<open>encoding/json\<close> with HTML escaping on: quote and backslash, the control bytes, the
  three HTML characters, and the two line separators U+2028 and U+2029 (three bytes each).
\<close>

definition escape_byte :: "char \<Rightarrow> string" where
  "escape_byte c =
     (if c = CHR 0x22 then [CHR 0x5C, CHR 0x22]
      else if c = CHR 0x5C then [CHR 0x5C, CHR 0x5C]
      else if c = CHR 0x08 then [CHR 0x5C, CHR ''b'']
      else if c = CHR 0x0C then [CHR 0x5C, CHR ''f'']
      else if c = CHR 0x0A then [CHR 0x5C, CHR ''n'']
      else if c = CHR 0x0D then [CHR 0x5C, CHR ''r'']
      else if c = CHR 0x09 then [CHR 0x5C, CHR ''t'']
      else if byte c < 32 \<or> c = CHR ''<'' \<or> c = CHR ''>'' \<or> c = CHR ''&''
      then [CHR 0x5C, CHR ''u'', CHR ''0'', CHR ''0'', hex_digit (byte c div 16), hex_digit (byte c mod 16)]
      else [c])"

definition line_separator :: "string \<Rightarrow> bool" where
  "line_separator s \<longleftrightarrow> has_prefix s [CHR 0xE2, CHR 0x80, CHR 0xA8] \<or> has_prefix s [CHR 0xE2, CHR 0x80, CHR 0xA9]"

definition separator_escape :: "string \<Rightarrow> string" where
  "separator_escape s =
     (if has_prefix s [CHR 0xE2, CHR 0x80, CHR 0xA8] then CHR 0x5C # ''u2028'' else CHR 0x5C # ''u2029'')"

function escape :: "string \<Rightarrow> string" where
  "escape [] = []"
| "escape (c # cs) =
     (if line_separator (c # cs) then separator_escape (c # cs) @ escape (drop 2 cs)
      else escape_byte c @ escape cs)"
  by pat_completeness auto
termination
  by (relation "measure length") auto

definition quote :: "string \<Rightarrow> string" where
  "quote s = CHR 0x22 # escape s @ [CHR 0x22]"

fun join_commas :: "string list \<Rightarrow> string" where
  "join_commas [] = []"
| "join_commas [s] = s"
| "join_commas (s # t # ss) = s @ '','' @ join_commas (t # ss)"

primrec marshal :: "json \<Rightarrow> string" where
  "marshal JNull = ''null''"
| "marshal (JBool b) = (if b then ''true'' else ''false'')"
| "marshal (JNum l) = l"
| "marshal (JStr s) = quote s"
| "marshal (JArr vs) = ''['' @ join_commas (map marshal vs) @ '']''"
| "marshal (JObj kvs) =
     ''{'' @ join_commas (map (\<lambda>(k, t). quote k @ '':'' @ t) (map (map_prod id marshal) kvs)) @ ''}''"

section \<open>The canonical form\<close>

primrec normalize_json :: "json \<Rightarrow> json" where
  "normalize_json JNull = JNull"
| "normalize_json (JBool b) = JBool b"
| "normalize_json (JNum l) = JNum l"
| "normalize_json (JStr s) = JStr s"
| "normalize_json (JArr vs) = JArr (map normalize_json vs)"
| "normalize_json (JObj kvs) = JObj (sort_slice (\<lambda>a b. fst a < fst b) (map (map_prod id normalize_json) kvs))"

definition marshalCanonical :: "json \<Rightarrow> string" where
  "marshalCanonical v = marshal (normalize_json v)"

definition CanonicalJSONWithoutSignature :: "(string, json) gomap \<Rightarrow> string" where
  "CanonicalJSONWithoutSignature m =
     marshalCanonical (JObj (filter (\<lambda>kv. fst kv \<noteq> ''signature'') m))"

section \<open>Reading a printed string back\<close>

definition hex_val :: "char \<Rightarrow> nat" where
  "hex_val c = (if is_digit c then byte c - 48 else byte c - 87)"

definition unescape_byte :: "char \<Rightarrow> char" where
  "unescape_byte e =
     (if e = CHR ''b'' then CHR 0x08 else if e = CHR ''f'' then CHR 0x0C else if e = CHR ''n'' then CHR 0x0A
      else if e = CHR ''r'' then CHR 0x0D else if e = CHR ''t'' then CHR 0x09 else e)"

definition unescape_rune :: "string \<Rightarrow> string" where
  "unescape_rune h =
     (if h = ''2028'' then [CHR 0xE2, CHR 0x80, CHR 0xA8]
      else if h = ''2029'' then [CHR 0xE2, CHR 0x80, CHR 0xA9]
      else [char_of (16 * hex_val (h ! 2) + hex_val (h ! 3))])"

function read_string :: "string \<Rightarrow> (string \<times> string) option" where
  "read_string [] = None"
| "read_string (c # cs) =
     (if c = CHR 0x22 then Some ([], cs)
      else if c \<noteq> CHR 0x5C then map_option (apfst ((#) c)) (read_string cs)
      else if take 1 cs = ''u''
      then map_option (apfst ((@) (unescape_rune (take 4 (drop 1 cs))))) (read_string (drop 5 cs))
      else map_option (apfst ((@) (map unescape_byte (take 1 cs)))) (read_string (drop 1 cs)))"
  by pat_completeness auto
termination
  by (relation "measure length") auto

lemma read_string_step:
  "read_string (CHR 0x22 # cs) = Some ([], cs)"
  "c \<noteq> CHR 0x22 \<Longrightarrow> c \<noteq> CHR 0x5C \<Longrightarrow> read_string (c # cs) = map_option (apfst ((#) c)) (read_string cs)"
  "e \<noteq> CHR ''u'' \<Longrightarrow> read_string (CHR 0x5C # e # cs) =
     map_option (apfst ((#) (unescape_byte e))) (read_string cs)"
  "length h = 4 \<Longrightarrow> read_string (CHR 0x5C # CHR ''u'' # h @ t) =
     map_option (apfst ((@) (unescape_rune h))) (read_string t)"
proof -
  have one: "(@) [x] = (#) (x :: char)" for x by auto
  show "e \<noteq> CHR ''u'' \<Longrightarrow> read_string (CHR 0x5C # e # cs) =
      map_option (apfst ((#) (unescape_byte e))) (read_string cs)"
    by (simp add: one)
qed simp_all

declare read_string.simps(2) [simp del] escape.simps(2) [simp del]

lemma hex_val_digit: "n < 16 \<Longrightarrow> hex_val (hex_digit n) = n"
  by (auto simp: hex_val_def hex_digit_def byte_def is_digit_def)

lemma escape_code_point:
  "unescape_rune [CHR ''0'', CHR ''0'', hex_digit (byte c div 16), hex_digit (byte c mod 16)] = [c]"
proof -
  have lt: "byte c < 256" unfolding byte_def by simp
  then have "byte c div 16 < 16" by (simp add: less_mult_imp_div_less)
  then have "hex_val (hex_digit (byte c div 16)) = byte c div 16" by (rule hex_val_digit)
  moreover have "hex_val (hex_digit (byte c mod 16)) = byte c mod 16" by (rule hex_val_digit) simp
  ultimately have "char_of (16 * hex_val (hex_digit (byte c div 16)) + hex_val (hex_digit (byte c mod 16))) = c"
    by (simp add: byte_def)
  then show ?thesis by (simp add: unescape_rune_def)
qed

lemma read_escape_byte:
  "read_string (escape_byte c @ t) = map_option (apfst ((#) c)) (read_string t)"
proof -
  consider "c \<in> {CHR 0x22, CHR 0x5C, CHR 0x08, CHR 0x0C, CHR 0x0A, CHR 0x0D, CHR 0x09}"
    | "escape_byte c = CHR 0x5C # ''u00'' @ [hex_digit (byte c div 16), hex_digit (byte c mod 16)]"
    | "escape_byte c = [c]" "c \<noteq> CHR 0x22" "c \<noteq> CHR 0x5C"
    by (cases "byte c < 32 \<or> c = CHR ''<'' \<or> c = CHR ''>'' \<or> c = CHR ''&''";
        cases "c \<in> {CHR 0x22, CHR 0x5C, CHR 0x08, CHR 0x0C, CHR 0x0A, CHR 0x0D, CHR 0x09}")
      (simp_all add: escape_byte_def)
  then show ?thesis
  proof cases
    case 1
    then show ?thesis by (elim insertE emptyE) (simp_all add: escape_byte_def unescape_byte_def read_string_step(3))
  next
    case 2
    let ?h = "[CHR ''0'', CHR ''0'', hex_digit (byte c div 16), hex_digit (byte c mod 16)]"
    have "length ?h = 4" by simp
    from read_string_step(4) [OF this, of t]
    have "read_string (CHR 0x5C # CHR ''u'' # ?h @ t) = map_option (apfst ((@) [c])) (read_string t)"
      unfolding escape_code_point .
    moreover have "escape_byte c @ t = CHR 0x5C # CHR ''u'' # ?h @ t" using 2 by simp
    moreover have "(@) [c] = (#) c" by auto
    ultimately show ?thesis by simp
  next
    case 3
    then show ?thesis by (simp add: read_string_step(2))
  qed
qed

lemma read_separator:
  assumes "line_separator s"
  shows "read_string (separator_escape s @ t) = map_option (apfst ((@) (take 3 s))) (read_string t)"
proof (cases "has_prefix s [CHR 0xE2, CHR 0x80, CHR 0xA8]")
  case True
  then have "separator_escape s = CHR 0x5C # ''u'' @ ''2028''" "take 3 s = unescape_rune ''2028''"
    by (simp_all add: separator_escape_def has_prefix_def unescape_rune_def numeral_3_eq_3)
  then show ?thesis using read_string_step(4) [of "''2028''" t] by simp
next
  case False
  with assms have "has_prefix s [CHR 0xE2, CHR 0x80, CHR 0xA9]" by (simp add: line_separator_def)
  with False have "separator_escape s = CHR 0x5C # ''u'' @ ''2029''" "take 3 s = unescape_rune ''2029''"
    by (simp_all add: separator_escape_def has_prefix_def unescape_rune_def numeral_3_eq_3)
  then show ?thesis using read_string_step(4) [of "''2029''" t] by simp
qed

text \<open>What is printed as a string is read back as it was.\<close>

lemma read_escape: "read_string (escape s @ CHR 0x22 # r) = Some (s, r)"
proof (induction s rule: escape.induct)
  case 1
  then show ?case by (simp add: read_string_step)
next
  case (2 c cs)
  show ?case
  proof (cases "line_separator (c # cs)")
    case True
    have eq: "take 3 (c # cs) @ drop 2 cs = c # cs"
      by (simp add: take_Cons')
    have "escape (c # cs) = separator_escape (c # cs) @ escape (drop 2 cs)"
      using True by (simp only: escape.simps(2) if_True)
    then have "read_string (escape (c # cs) @ CHR 0x22 # r) = Some (take 3 (c # cs) @ drop 2 cs, r)"
      by (simp only: append_assoc read_separator [OF True] 2(1) [OF True] option.map apfst_conv)
    then show ?thesis unfolding eq .
  next
    case False
    then have "escape (c # cs) = escape_byte c @ escape cs" by (simp only: escape.simps(2) if_False)
    then show ?thesis by (simp only: append_assoc read_escape_byte 2(2) [OF False] option.map apfst_conv)
  qed
qed

lemma quote_inj:
  assumes "quote s @ t = quote s' @ t'"
  shows "s = s' \<and> t = t'"
proof -
  have "escape s @ CHR 0x22 # t = escape s' @ CHR 0x22 # t'"
    using assms by (simp only: quote_def append_Cons append_assoc append_Nil list.inject)
  then have "read_string (escape s @ CHR 0x22 # t) = Some (s', t')" by (simp only: read_escape)
  then show ?thesis by (simp only: read_escape option.inject prod.inject)
qed

section \<open>The printed text determines the value\<close>

text \<open>The numbers a decoder hands over, and the values made of them.\<close>

definition number_byte :: "char \<Rightarrow> bool" where
  "number_byte c \<longleftrightarrow> is_digit c \<or> c \<in> set ''+-.eE''"

definition number_literal :: "string \<Rightarrow> bool" where
  "number_literal l \<longleftrightarrow> l \<noteq> [] \<and> (is_digit (hd l) \<or> hd l = CHR ''-'') \<and> list_all number_byte l"

primrec decoded :: "json \<Rightarrow> bool" where
  "decoded JNull \<longleftrightarrow> True"
| "decoded (JBool b) \<longleftrightarrow> True"
| "decoded (JNum l) \<longleftrightarrow> number_literal l"
| "decoded (JStr s) \<longleftrightarrow> True"
| "decoded (JArr vs) \<longleftrightarrow> list_all id (map decoded vs)"
| "decoded (JObj kvs) \<longleftrightarrow> list_all (id \<circ> snd) (map (map_prod id decoded) kvs)"

text \<open>What may follow a value in the text.\<close>

definition ends :: "string \<Rightarrow> bool" where
  "ends s \<longleftrightarrow> s = [] \<or> hd s \<in> {CHR '','', CHR '']'', CHR ''}''}"

text \<open>A printer \<open>p\<close> whose output, followed by such a text, determines its input \<open>x\<close>.\<close>

definition readable :: "('a \<Rightarrow> string) \<Rightarrow> ('a \<Rightarrow> bool) \<Rightarrow> 'a \<Rightarrow> bool" where
  "readable p ok x \<longleftrightarrow> (\<forall>y s t. ok y \<longrightarrow> p x @ s = p y @ t \<longrightarrow> ends s \<longrightarrow> ends t \<longrightarrow> x = y \<and> s = t)"

definition starts :: "('a \<Rightarrow> string) \<Rightarrow> 'a \<Rightarrow> bool" where
  "starts p x \<longleftrightarrow> (\<exists>c cs. p x = c # cs \<and> c \<notin> {CHR '']'', CHR ''}''})"

lemma readableD:
  "readable p ok x \<Longrightarrow> ok y \<Longrightarrow> p x @ s = p y @ t \<Longrightarrow> ends s \<Longrightarrow> ends t \<Longrightarrow> x = y \<and> s = t"
  unfolding readable_def by blast

lemma join_commas_Cons:
  "join_commas (x # xs) = x @ concat (map (\<lambda>y. CHR '','' # y) xs)"
  by (induction xs arbitrary: x) simp_all

definition rest :: "('a \<Rightarrow> string) \<Rightarrow> 'a list \<Rightarrow> string" where
  "rest p xs = concat (map (\<lambda>x. CHR '','' # p x) xs)"

lemma rest_simps [simp]: "rest p [] = []" "rest p (x # xs) = CHR '','' # p x @ rest p xs"
  by (simp_all add: rest_def)

lemma ends_rest: "c \<in> {CHR '']'', CHR ''}''} \<Longrightarrow> ends (rest p xs @ c # s)"
  by (cases xs) (auto simp: ends_def)

lemma rest_readable:
  assumes "\<forall>x \<in> set xs. readable p ok x" "\<forall>y \<in> set ys. ok y" and c: "c \<in> {CHR '']'', CHR ''}''}"
    and "rest p xs @ c # s = rest p ys @ c # t"
  shows "xs = ys \<and> s = t"
  using assms
proof (induction xs arbitrary: ys)
  case Nil
  then show ?case by (cases ys) auto
next
  case (Cons x xs)
  then obtain y ys' where ys: "ys = y # ys'" by (cases ys) auto
  from Cons.prems have eq: "p x @ rest p xs @ c # s = p y @ rest p ys' @ c # t"
    by (simp add: ys)
  have "x = y \<and> rest p xs @ c # s = rest p ys' @ c # t"
    using Cons.prems by (intro readableD [of p ok x y, OF _ _ eq]) (simp_all add: ys ends_rest)
  with Cons.IH [of ys'] Cons.prems show ?case by (simp add: ys)
qed

lemma join_readable:
  assumes "\<forall>x \<in> set xs. readable p ok x \<and> starts p x" "\<forall>y \<in> set ys. ok y \<and> starts p y"
    and c: "c \<in> {CHR '']'', CHR ''}''}"
    and eq: "join_commas (map p xs) @ c # s = join_commas (map p ys) @ c # t"
  shows "xs = ys \<and> s = t"
proof (cases "xs = [] \<or> ys = []")
  case True
  then show ?thesis
    using assms by (cases xs; cases ys) (auto simp: join_commas_Cons starts_def)
next
  case False
  then obtain x xs' y ys' where xy: "xs = x # xs'" "ys = y # ys'" by (auto simp: neq_Nil_conv)
  have "rest p xs @ c # s = rest p ys @ c # t"
    using eq by (simp add: xy join_commas_Cons rest_def comp_def)
  then show ?thesis using assms by (intro rest_readable [of xs p ok ys c]) auto
qed

text \<open>The first byte tells the kind of a value.\<close>

definition kind_byte :: "json \<Rightarrow> char \<Rightarrow> bool" where
  "kind_byte v c \<longleftrightarrow>
     (case v of JNull \<Rightarrow> c = CHR ''n'' | JBool b \<Rightarrow> c = (if b then CHR ''t'' else CHR ''f'')
      | JNum _ \<Rightarrow> is_digit c \<or> c = CHR ''-'' | JStr _ \<Rightarrow> c = CHR 0x22 | JArr _ \<Rightarrow> c = CHR ''[''
      | JObj _ \<Rightarrow> c = CHR ''{'')"

lemma kind_of_marshal:
  assumes "decoded v"
  obtains c cs where "marshal v = c # cs" "kind_byte v c"
proof -
  have "marshal v \<noteq> [] \<and> kind_byte v (hd (marshal v))"
    using assms by (cases v) (auto simp: kind_byte_def quote_def number_literal_def)
  with that show thesis by (metis list.collapse)
qed

lemma kind_byte_not_end: "kind_byte v c \<Longrightarrow> c \<notin> {CHR '','', CHR '']'', CHR ''}''}"
  by (cases v) (auto simp: kind_byte_def is_digit_def)

lemma kind_byte_unique:
  "kind_byte v c \<Longrightarrow> kind_byte w c \<Longrightarrow>
     (case v of JNull \<Rightarrow> w = JNull | JBool b \<Rightarrow> w = JBool b | JNum _ \<Rightarrow> \<exists>l. w = JNum l
      | JStr _ \<Rightarrow> \<exists>s. w = JStr s | JArr _ \<Rightarrow> \<exists>vs. w = JArr vs | JObj _ \<Rightarrow> \<exists>kvs. w = JObj kvs)"
  by (cases v; cases w) (auto simp: kind_byte_def is_digit_def split: if_splits)

lemma same_kind:
  assumes "decoded v" "decoded w" "marshal v @ s = marshal w @ t"
  shows "case v of JNull \<Rightarrow> w = JNull | JBool b \<Rightarrow> w = JBool b | JNum _ \<Rightarrow> \<exists>l. w = JNum l
    | JStr _ \<Rightarrow> \<exists>s. w = JStr s | JArr _ \<Rightarrow> \<exists>vs. w = JArr vs | JObj _ \<Rightarrow> \<exists>kvs. w = JObj kvs"
proof -
  obtain c cs where c: "marshal v = c # cs" "kind_byte v c" using assms(1) by (rule kind_of_marshal)
  obtain d ds where d: "marshal w = d # ds" "kind_byte w d" using assms(2) by (rule kind_of_marshal)
  have "d = c" using assms(3) c(1) d(1) by simp
  with d(2) have "kind_byte w c" by simp
  with c(2) show ?thesis by (rule kind_byte_unique)
qed

lemma number_end:
  assumes "list_all number_byte l" "list_all number_byte l'" "l @ s = l' @ t" "ends s" "ends t"
  shows "l = l' \<and> s = t"
proof -
  have stop: "takeWhile number_byte (l @ s) = l" if "list_all number_byte l" "ends s" for l s
    using that by (cases s) (auto simp: ends_def number_byte_def is_digit_def list_all_iff takeWhile_tail)
  show ?thesis using stop [OF assms(1,4)] stop [OF assms(2,5)] assms(3) by simp
qed

definition member :: "string \<times> json \<Rightarrow> string" where
  "member kv = quote (fst kv) @ CHR '':'' # marshal (snd kv)"

lemma marshal_JObj: "marshal (JObj kvs) = CHR ''{'' # join_commas (map member kvs) @ ''}''"
  by (simp add: member_def [abs_def] comp_def case_prod_unfold)

lemma decoded_simps:
  "decoded (JArr vs) \<longleftrightarrow> (\<forall>v \<in> set vs. decoded v)"
  "decoded (JObj kvs) \<longleftrightarrow> (\<forall>kv \<in> set kvs. decoded (snd kv))"
  by (auto simp: list_all_iff)

lemma starts_marshal: "decoded v \<Longrightarrow> starts marshal v"
  unfolding starts_def by (metis kind_of_marshal kind_byte_not_end insert_iff)

lemma readable_marshal:
  "decoded v \<Longrightarrow> readable marshal decoded v"
proof (induction v)
  case (JNum l)
  show ?case unfolding readable_def
  proof (intro allI impI)
    fix w s t assume w: "decoded w" "marshal (JNum l) @ s = marshal w @ t" "ends s" "ends t"
    from same_kind [OF JNum w(1,2)] obtain l' where "w = JNum l'" by auto
    with w JNum number_end [of l l' s t] show "JNum l = w \<and> s = t" by (simp add: number_literal_def)
  qed
next
  case (JArr vs)
  show ?case unfolding readable_def
  proof (intro allI impI)
    fix w s t assume w: "decoded w" "marshal (JArr vs) @ s = marshal w @ t" "ends s" "ends t"
    from same_kind [OF JArr.prems w(1,2)] obtain ws where ws: "w = JArr ws" by auto
    from JArr w(1) ws have "vs = ws \<and> s = t"
      using w(2) by (intro join_readable [of vs marshal decoded ws "CHR '']''"])
        (auto simp: decoded_simps intro: starts_marshal simp del: decoded.simps)
    then show "JArr vs = w \<and> s = t" by (simp add: ws)
  qed
next
  case (JObj kvs)
  have ok: "readable member (decoded \<circ> snd) kv" if kv: "kv \<in> set kvs" for kv
    unfolding readable_def
  proof (intro allI impI)
    fix kv' s t assume a: "(decoded \<circ> snd) kv'" "member kv @ s = member kv' @ t" "ends s" "ends t"
    have "fst kv = fst kv' \<and> CHR '':'' # marshal (snd kv) @ s = CHR '':'' # marshal (snd kv') @ t"
      using a(2) by (intro quote_inj) (simp add: member_def)
    moreover have "readable marshal decoded (snd kv)"
      using JObj.IH [OF kv, of "snd kv"] JObj.prems kv by (cases kv) (auto simp: decoded_simps simp del: decoded.simps)
    ultimately show "kv = kv' \<and> s = t"
      using readableD [of marshal decoded "snd kv" "snd kv'" s t] a by (auto simp: prod_eq_iff)
  qed
  have st: "starts member kv" for kv by (simp add: starts_def member_def quote_def)
  show ?case unfolding readable_def
  proof (intro allI impI)
    fix w s t assume w: "decoded w" "marshal (JObj kvs) @ s = marshal w @ t" "ends s" "ends t"
    from same_kind [OF JObj.prems w(1,2)] obtain ws where ws: "w = JObj ws" by auto
    have "kvs = ws \<and> s = t"
      using w(1,2) ok st by (intro join_readable [of kvs member "decoded \<circ> snd" ws "CHR ''}''"])
        (simp_all add: ws marshal_JObj decoded_simps del: marshal.simps decoded.simps)
    then show "JObj kvs = w \<and> s = t" by (simp add: ws)
  qed
next
  case JNull
  show ?case unfolding readable_def
    using same_kind [OF JNull] by fastforce
next
  case (JBool b)
  show ?case unfolding readable_def
    using same_kind [OF JBool] by fastforce
next
  case (JStr x)
  show ?case unfolding readable_def
  proof (intro allI impI)
    fix w s t assume w: "decoded w" "marshal (JStr x) @ s = marshal w @ t" "ends s" "ends t"
    from same_kind [OF JStr w(1,2)] obtain y where "w = JStr y" by auto
    with w quote_inj [of x s y t] show "JStr x = w \<and> s = t" by simp
  qed
qed

lemma marshal_inj: "decoded v \<Longrightarrow> decoded w \<Longrightarrow> marshal v = marshal w \<Longrightarrow> v = w"
  using readableD [OF readable_marshal, of v w "[]" "[]"] by (simp add: ends_def)

section \<open>What a signature binds\<close>

lemma decoded_normalize: "decoded v \<Longrightarrow> decoded (normalize_json v)"
  by (induction v) (auto simp: list_all_iff)

lemma map_get_sorted:
  assumes "distinct (map fst m)"
  shows "map_get (sort_slice (\<lambda>a b. fst a < fst b) m) k = map_get m k"
proof -
  have "distinct (map fst (sort_slice (\<lambda>a b. fst a < fst b) m))" using assms by simp
  then have "map_get (sort_slice (\<lambda>a b. fst a < fst b) m) k = Some v \<longleftrightarrow> map_get m k = Some v" for v
    using assms by (simp add: map_of_eq_Some_iff)
  then show ?thesis by (metis option.exhaust)
qed

lemma map_get_filter_key: "k \<noteq> x \<Longrightarrow> map_get (filter (\<lambda>kv. fst kv \<noteq> x) m) k = map_get m k"
  by (induction m) auto

lemma map_get_map_prod: "map_get (map (map_prod id f) m) k = map_option f (map_get m k)"
  by (induction m) auto

lemma distinct_fst_map_prod: "map fst (map (map_prod id f) m) = map fst m"
  by simp

lemma distinct_fst_inj: "distinct (map fst m) \<Longrightarrow> inj_on fst (set m)"
  by (simp add: distinct_map)

definition signed_part :: "(string, json) gomap \<Rightarrow> (string, json) gomap" where
  "signed_part m = filter (\<lambda>kv. fst kv \<noteq> ''signature'') m"

lemma canonical_signed_part: "CanonicalJSONWithoutSignature m = marshal (normalize_json (JObj (signed_part m)))"
  by (simp add: CanonicalJSONWithoutSignature_def marshalCanonical_def signed_part_def)

lemma distinct_signed_part: "wf_map m \<Longrightarrow> distinct (map fst (signed_part m))"
  by (simp add: wf_map_def signed_part_def distinct_map_filter)

text \<open>Equal canonical forms come from equal fields, the signature apart.\<close>

lemma canonical_binds:
  assumes wf: "wf_map m" "wf_map m'"
    and dec: "\<forall>v \<in> snd ` set m. decoded v" "\<forall>v \<in> snd ` set m'. decoded v"
    and eq: "CanonicalJSONWithoutSignature m = CanonicalJSONWithoutSignature m'"
    and k: "k \<noteq> ''signature''"
  shows "map_option normalize_json (map_get m k) = map_option normalize_json (map_get m' k)"
proof -
  let ?n = "\<lambda>m. sort_slice (\<lambda>a b. fst a < fst b) (map (map_prod id normalize_json) (signed_part m))"
  have "decoded (JObj (signed_part m))" "decoded (JObj (signed_part m'))"
    using dec by (auto simp: signed_part_def list_all_iff)
  with eq have "normalize_json (JObj (signed_part m)) = normalize_json (JObj (signed_part m'))"
    unfolding canonical_signed_part by (intro marshal_inj decoded_normalize)
  then have "?n m = ?n m'" by simp
  then have "map_get (?n m) k = map_get (?n m') k" by simp
  moreover have "map_get (?n m) k = map_option normalize_json (map_get m k)" if "wf_map m" for m
  proof -
    have "distinct (map fst (map (map_prod id normalize_json) (signed_part m)))"
      unfolding distinct_fst_map_prod using that by (rule distinct_signed_part)
    from map_get_sorted [OF this] show ?thesis
      using k by (simp add: map_get_map_prod map_get_filter_key signed_part_def del: map_map)
  qed
  ultimately show ?thesis using wf by simp
qed

text \<open>The order in which the map is ranged over does not matter.\<close>

lemma canonical_perm:
  assumes "wf_map m" and "mset m' = mset m"
  shows "CanonicalJSONWithoutSignature m' = CanonicalJSONWithoutSignature m"
proof -
  let ?f = "map (map_prod id normalize_json)"
  have "mset (?f (signed_part m')) = mset (?f (signed_part m))"
    using assms(2) by (simp add: signed_part_def)
  moreover have "inj_on fst (set (?f (signed_part m)))"
    using distinct_signed_part [OF assms(1)] by (intro distinct_fst_inj) simp
  ultimately have "sort_slice (\<lambda>a b. fst a < fst b) (?f (signed_part m')) =
      sort_slice (\<lambda>a b. fst a < fst b) (?f (signed_part m))"
    by (rule key_order.key_sort_perm)
  then show ?thesis unfolding canonical_signed_part by simp
qed

end
