(* ===== verification/Verify.thy ===== *)
theory Verify
  imports Json
begin

text \<open>
  \<^verbatim>\<open>portal/internal/verify/verify.go\<close>: hexadecimal keys and signatures, the fingerprint of a key, and
  the check of a signature. \<^verbatim>\<open>sha256.Sum256\<close> and \<^verbatim>\<open>ed25519.Verify\<close> are parameters. (The canonical
  form is in \<open>Json\<close>.)
\<close>

definition hex_value :: "char \<Rightarrow> nat option" where
  "hex_value c =
     (if is_digit c then Some (byte c - 48)
      else if 97 \<le> byte c \<and> byte c \<le> 102 then Some (byte c - 87)
      else if 65 \<le> byte c \<and> byte c \<le> 70 then Some (byte c - 55)
      else None)"

text \<open>\<^verbatim>\<open>hex.DecodeString\<close> and \<^verbatim>\<open>hex.EncodeToString\<close>.\<close>

fun hex_decode :: "string \<Rightarrow> goerr + string" where
  "hex_decode [] = Inr []"
| "hex_decode [c] = (if hex_value c = None then Inl (Hex_Invalid_Byte c) else Inl Hex_Odd_Length)"
| "hex_decode (c # d # cs) =
     (case hex_value c of
        None \<Rightarrow> Inl (Hex_Invalid_Byte c)
      | Some a \<Rightarrow>
          (case hex_value d of
             None \<Rightarrow> Inl (Hex_Invalid_Byte d)
           | Some b \<Rightarrow> map_sum id ((#) (char_of (16 * a + b))) (hex_decode cs)))"

definition hex_encode :: "string \<Rightarrow> string" where
  "hex_encode s = concat (map (\<lambda>c. [hex_digit (byte c div 16), hex_digit (byte c mod 16)]) s)"

definition FingerprintFromHexPublicKey :: "(string \<Rightarrow> string) \<Rightarrow> string \<Rightarrow> goerr + string" where
  "FingerprintFromHexPublicKey sha256 hexKey =
     (case hex_decode hexKey of
        Inl err \<Rightarrow> Inl err
      | Inr key \<Rightarrow>
          if length key \<noteq> 32 then Inl (Msg ''invalid ed25519 public key length'')
          else Inr (hex_encode (take 16 (sha256 key))))"

definition VerifyHexPublicKeySignature ::
    "(string \<Rightarrow> string \<Rightarrow> string \<Rightarrow> bool) \<Rightarrow> string \<Rightarrow> string \<Rightarrow> string \<Rightarrow> goerr option" where
  "VerifyHexPublicKeySignature verify hexKey hexSig data =
     (case hex_decode hexKey of
        Inl err \<Rightarrow> Some err
      | Inr key \<Rightarrow>
          if length key \<noteq> 32 then Some (Msg ''invalid ed25519 public key length'')
          else
            (case hex_decode hexSig of
               Inl err \<Rightarrow> Some err
             | Inr sig \<Rightarrow> if \<not> verify key data sig then Some (Msg ''invalid signature'') else None))"

lemma hex_value_digit: "n < 16 \<Longrightarrow> hex_value (hex_digit n) = Some n"
  by (auto simp: hex_value_def hex_digit_def byte_def is_digit_def)

lemma byte_nibbles:
  "byte c div 16 < 16" "char_of (16 * (byte c div 16) + byte c mod 16) = c"
proof -
  have "byte c < 256" unfolding byte_def by simp
  then show "byte c div 16 < 16" by (simp add: less_mult_imp_div_less)
  show "char_of (16 * (byte c div 16) + byte c mod 16) = c" by (simp add: byte_def)
qed

text \<open>Encoding and decoding again.\<close>

lemma hex_decode_encode: "hex_decode (hex_encode s) = Inr s"
  by (induction s)
    (simp_all add: hex_encode_def hex_value_digit byte_nibbles(1), simp add: byte_def)

lemma hex_encode_inj: "hex_encode s = hex_encode t \<Longrightarrow> s = t"
  by (metis hex_decode_encode sum.inject(2))

text \<open>A signature is accepted for a well-formed key, a hexadecimal signature, and only if it verifies.\<close>

lemma signature_ok_iff:
  "VerifyHexPublicKeySignature verify k s d = None \<longleftrightarrow>
     (\<exists>key sig. hex_decode k = Inr key \<and> length key = 32 \<and> hex_decode s = Inr sig \<and> verify key d sig)"
  by (auto simp: VerifyHexPublicKeySignature_def split: sum.splits)

end
