(* ===== verification/Go_Duration.thy ===== *)
theory Go_Duration
  imports Go_Strings Go_Float Go_Time
begin

text \<open>
  64-bit arithmetic and \<^verbatim>\<open>time.ParseDuration\<close> of Go's library, for the agent's reading of the node's API.
\<close>

section \<open>Signed 64-bit integers\<close>

text \<open>What does not fit in 64 bits wraps.\<close>

definition wrap64 :: "int \<Rightarrow> int" where
  "wrap64 n = (n + 2 ^ 63) mod 2 ^ 64 - 2 ^ 63"

lemma wrap64_id: "- (2 ^ 63) \<le> n \<Longrightarrow> n < 2 ^ 63 \<Longrightarrow> wrap64 n = n"
  by (simp add: wrap64_def)

text \<open>\<^verbatim>\<open>int64(f)\<close> of a float cuts toward zero; out of range it gives the least integer (on amd64).\<close>

definition int_of_float :: "float64 \<Rightarrow> int" where
  "int_of_float x =
     (let n = (if 0 \<le> x then \<lfloor>x\<rfloor> else \<lceil>x\<rceil>)
      in if - (2 ^ 63) \<le> n \<and> n < 2 ^ 63 then n else - (2 ^ 63))"

text \<open>Division of Go's integers cuts toward zero.\<close>

definition go_div :: "int \<Rightarrow> int \<Rightarrow> int" where
  "go_div a b = sgn a * sgn b * (\<bar>a\<bar> div \<bar>b\<bar>)"

lemma go_div_nonneg: "0 \<le> a \<Longrightarrow> 0 < b \<Longrightarrow> go_div a b = a div b"
  by (simp add: go_div_def sgn_if)

section \<open>Durations\<close>

text \<open>\<^verbatim>\<open>leadingInt\<close>: digits up to a value of \<open>2 ^ 63\<close>, and what follows them.\<close>

fun leadingInt :: "int \<Rightarrow> string \<Rightarrow> (int \<times> string) option" where
  "leadingInt x [] = Some (x, [])"
| "leadingInt x (c # cs) =
     (if \<not> is_digit c then Some (x, c # cs)
      else if 2 ^ 63 div 10 < x then None
      else if 2 ^ 63 < x * 10 + digit_val c then None
      else leadingInt (x * 10 + digit_val c) cs)"

text \<open>\<^verbatim>\<open>leadingFraction\<close>: digits that no longer fit are skipped.\<close>

fun leadingFraction :: "bool \<Rightarrow> int \<Rightarrow> int \<Rightarrow> string \<Rightarrow> int \<times> int \<times> string" where
  "leadingFraction overflow x scale [] = (x, scale, [])"
| "leadingFraction overflow x scale (c # cs) =
     (if \<not> is_digit c then (x, scale, c # cs)
      else if overflow \<or> (2 ^ 63 - 1) div 10 < x \<or> 2 ^ 63 < x * 10 + digit_val c
      then leadingFraction True x scale cs
      else leadingFraction False (x * 10 + digit_val c) (scale * 10) cs)"

definition unit_of :: "string \<Rightarrow> int option" where
  "unit_of u = map_of
     [(''ns'', 1), (''us'', 1000), ([CHR 0xC2, CHR 0xB5, CHR ''s''], 1000),
      ([CHR 0xCE, CHR 0xBC, CHR ''s''], 1000), (''ms'', 1000000), (''s'', second), (''m'', minute),
      (''h'', hour)] u"

text \<open>One number with its unit, in nanoseconds, and what follows it.\<close>

definition duration_part :: "string \<Rightarrow> (int \<times> string) option" where
  "duration_part s =
     (if s = [] \<or> \<not> (is_digit (hd s) \<or> hd s = CHR ''.'') then None
      else (case leadingInt 0 s of
        None \<Rightarrow> None
      | Some (v, s1) \<Rightarrow>
          let (f, scale, s2) =
                (if take 1 s1 = ''.'' then leadingFraction False 0 1 (drop 1 s1) else (0, 1, s1));
              pre = (s1 \<noteq> s);
              post = (take 1 s1 = ''.'' \<and> s2 \<noteq> drop 1 s1);
              u = takeWhile (\<lambda>c. c \<noteq> CHR ''.'' \<and> \<not> is_digit c) s2;
              rest = dropWhile (\<lambda>c. c \<noteq> CHR ''.'' \<and> \<not> is_digit c) s2
          in if \<not> pre \<and> \<not> post then None
             else if u = [] then None
             else (case unit_of u of
               None \<Rightarrow> None
             | Some unit \<Rightarrow>
                 if 2 ^ 63 div unit < v then None
                 else
                   let v' = v * unit + (if 0 < f
                          then \<lfloor>fmul (float_of_int f) (fdiv (float_of_int unit) (float_of_int scale))\<rfloor> else 0)
                   in if 0 < f \<and> 2 ^ 63 < v' then None else Some (v', rest))))"

lemma leadingInt_rest: "leadingInt x s = Some (n, r) \<Longrightarrow> length r \<le> length s"
  by (induction x s rule: leadingInt.induct) (auto split: if_splits)

lemma leadingFraction_rest: "leadingFraction b x sc s = (n, sc', r) \<Longrightarrow> length r \<le> length s"
  by (induction b x sc s rule: leadingFraction.induct) (auto split: if_splits)

lemma duration_part_shorter:
  assumes "duration_part s = Some (v, r)"
  shows "length r < length s"
proof -
  obtain n s1 f sc s2 where l: "leadingInt 0 s = Some (n, s1)"
    and f: "(if take 1 s1 = ''.'' then leadingFraction False 0 1 (drop 1 s1) else (0, 1, s1)) = (f, sc, s2)"
    and u: "takeWhile (\<lambda>c. c \<noteq> CHR ''.'' \<and> \<not> is_digit c) s2 \<noteq> []"
    and r: "r = dropWhile (\<lambda>c. c \<noteq> CHR ''.'' \<and> \<not> is_digit c) s2"
    using assms by (auto simp: duration_part_def Let_def split: if_splits option.splits prod.splits)
  have "length s2 \<le> length s1" using f leadingFraction_rest by (fastforce split: if_splits)
  moreover have "length s1 \<le> length s" by (rule leadingInt_rest [OF l])
  moreover have "length r < length s2"
    using u unfolding r by (metis length_append length_greater_0_conv less_add_same_cancel2 takeWhile_dropWhile_id)
  ultimately show ?thesis by simp
qed

function duration_parts :: "int \<Rightarrow> string \<Rightarrow> int option" where
  "duration_parts d s =
     (if s = [] then Some d
      else (case duration_part s of
        None \<Rightarrow> None
      | Some (v, r) \<Rightarrow>
          let d' = (d + v) mod 2 ^ 64 in if 2 ^ 63 < d' then None else duration_parts d' r))"
  by pat_completeness auto
termination
  by (relation "measure (\<lambda>(d, s). length s)") (auto dest: duration_part_shorter)

declare duration_parts.simps [simp del]

definition ParseDuration :: "string \<Rightarrow> duration option" where
  "ParseDuration s =
     (let neg = (take 1 s = ''-'');
          body = (if take 1 s = ''-'' \<or> take 1 s = ''+'' then drop 1 s else s)
      in if body = ''0'' then Some 0
         else if body = [] then None
         else (case duration_parts 0 body of
           None \<Rightarrow> None
         | Some d \<Rightarrow> if neg then Some (- d) else if 2 ^ 63 - 1 < d then None else Some d))"

text \<open>A plain number of seconds is read as such.\<close>

lemma digit_val_nonneg: "is_digit c \<Longrightarrow> 0 \<le> digit_val c"
  unfolding is_digit_def digit_val_def by linarith

lemma digits_grow: "list_all is_digit ds \<Longrightarrow> 0 \<le> y \<Longrightarrow> y \<le> foldl (\<lambda>a c. 10 * a + digit_val c) y ds"
proof (induction ds arbitrary: y)
  case (Cons c ds)
  have "0 \<le> digit_val c" using Cons.prems(1) by (simp add: digit_val_nonneg)
  with Cons.IH [of "10 * y + digit_val c"] Cons.prems show ?case by simp
qed simp

lemma leadingInt_digits:
  assumes "list_all is_digit ds" and "0 \<le> x" and "foldl (\<lambda>a c. 10 * a + digit_val c) x ds < 2 ^ 63"
    and "r = [] \<or> \<not> is_digit (hd r)"
  shows "leadingInt x (ds @ r) = Some (foldl (\<lambda>a c. 10 * a + digit_val c) x ds, r)"
  using assms
proof (induction ds arbitrary: x)
  case Nil
  then show ?case by (cases r) auto
next
  case (Cons c ds)
  have d: "0 \<le> digit_val c" using Cons.prems(1) by (simp add: digit_val_nonneg)
  have "10 * x + digit_val c < 2 ^ 63"
    using digits_grow [of ds "10 * x + digit_val c"] Cons.prems(1,2,3) d by simp
  then have "\<not> 2 ^ 63 div 10 < x" "\<not> 2 ^ 63 < x * 10 + digit_val c" using d by simp_all
  with Cons.IH [of "10 * x + digit_val c"] Cons.prems d show ?case by (simp add: mult.commute)
qed

lemma ParseDuration_seconds:
  assumes "0 \<le> n" and "n < 9223372036"
  shows "ParseDuration (itoa n @ ''s'') = Some (n * second)"
proof -
  let ?ds = "nat_digits (nat n)"
  have i: "itoa n = ?ds" using assms(1) by (simp add: itoa_def)
  have v: "foldl (\<lambda>a c. 10 * a + digit_val c) 0 ?ds = n"
    using digits_val_nat_digits [of "nat n"] assms(1) by (simp add: digits_val_def)
  have l: "leadingInt 0 (?ds @ ''s'') = Some (n, ''s'')"
    using leadingInt_digits [of ?ds 0 "''s''"] v assms by (simp add: is_digit_def)
  have hd: "is_digit (hd (?ds @ ''s''))" using nat_digits_hd [of "nat n"] by simp
  have "unit_of ''s'' = Some second" by (simp add: unit_of_def)
  moreover have "\<not> 2 ^ 63 div second < n" using assms(2) by (simp add: second_def)
  ultimately have part: "duration_part (?ds @ ''s'') = Some (n * second, [])"
    using l hd by (simp add: duration_part_def is_digit_def)
  have "\<not> 2 ^ 63 < n * second" "n * second \<le> 2 ^ 63 - 1" "(0 + n * second) mod 2 ^ 64 = n * second"
    using assms by (simp_all add: second_def)
  then have parts: "duration_parts 0 (?ds @ ''s'') = Some (n * second)"
    using part by (subst duration_parts.simps) (simp add: duration_parts.simps [of _ "[]"] Let_def)
  have "?ds @ ''s'' \<noteq> ''0''" "take 1 (?ds @ ''s'') \<noteq> ''-''" "take 1 (?ds @ ''s'') \<noteq> ''+''"
    using hd by (cases ?ds; auto)+
  then show ?thesis
    using parts \<open>n * second \<le> 2 ^ 63 - 1\<close> unfolding i by (simp add: ParseDuration_def Let_def)
qed

end
