(* ===== verification/Http.thy ===== *)
theory Http
  imports Portal_World Verify Go_Duration
begin

text \<open>
  Requests and responses, and the helpers the handlers share
  (\<^verbatim>\<open>json_auth_helpers.go\<close>, \<^verbatim>\<open>http_helpers.go\<close>, \<^verbatim>\<open>writeError\<close> and \<^verbatim>\<open>writeJSON\<close> of \<^verbatim>\<open>alerts.go\<close>, the view
  types of \<^verbatim>\<open>server.go\<close>).

  A request carries its method, its path, the parsed query (in order) and the decoded body. A
  response carries the status and the value handed to the JSON encoder. The message of an error
  response is the error itself, whose text the code prints.
\<close>

record request =
  rq_Method :: string
  rq_Path :: string
  rq_Query :: "(string \<times> string) list"
  rq_Body :: body

definition query_get :: "request \<Rightarrow> string \<Rightarrow> string" where
  "query_get r k = (case map_of (rq_Query r) k of None \<Rightarrow> [] | Some v \<Rightarrow> v)"

record public_node_status_view =
  pv_NodeID :: string
  pv_DateUTC :: string
  pv_Qualified :: bool
  pv_RankPosition :: "int option"
  pv_RewardEligible :: bool
  pv_StatusReason :: string

record operator_node_status_view =
  ov_NodeID :: string
  ov_DateUTC :: string
  ov_Qualified :: bool
  ov_RankPosition :: "int option"
  ov_RewardEligible :: bool
  ov_StatusReason :: string
  ov_FailureReasons :: "string list"
  ov_HeartbeatPassed :: bool
  ov_HardwarePassed :: bool
  ov_VotingKeyPassed :: bool
  ov_OperatorGroupID :: string
  ov_ExclusionReason :: string

record anti_concentration_view =
  av_NodeID :: string
  av_DateUTC :: string
  av_OperatorGroupID :: string
  av_OperatorGroupSource :: string
  av_OperatorGroupReviewState :: string
  av_RegistrableDomain :: string
  av_SharedControlPlaneID :: string
  av_SharedControlClassification :: string
  av_SharedControlSource :: string
  av_SharedControlReviewState :: string

datatype resp_body =
    Error_Body string goerr
  | Map_Body "(string \<times> json) list"
  | Policy_Body policy_document
  | Summary_Body daily_qualification_summary
  | Telemetry_Items "telemetry_event list"
  | Latest_Telemetry_Items "latest_telemetry list"
  | Ranking_Items string "ranking_record list"
  | Eligibility_Items string "reward_eligibility_record list"
  | Allocation_Items string "reward_allocation_record list"
  | Evidence_Items string "anti_concentration_view list"
  | Public_Items string "public_node_status_view list"
  | Operator_Body operator_node_status_view
  | No_Body

record response =
  rs_Status :: int
  rs_Body :: resp_body

definition writeError :: "int \<Rightarrow> string \<Rightarrow> goerr \<Rightarrow> response" where
  "writeError status errorCode message = \<lparr>rs_Status = status, rs_Body = Error_Body errorCode message\<rparr>"

definition writeJSON :: "int \<Rightarrow> resp_body \<Rightarrow> response" where
  "writeJSON status payload = \<lparr>rs_Status = status, rs_Body = payload\<rparr>"

abbreviation fail :: "int \<Rightarrow> string \<Rightarrow> string \<Rightarrow> response" where
  "fail status errorCode message \<equiv> writeError status errorCode (Msg message)"

lemma response_simps [simp]:
  "rs_Status (writeError st c m) = st" "rs_Status (writeJSON st b) = st"
  "rs_Body (writeError st c m) = Error_Body c m" "rs_Body (writeJSON st b) = b"
  by (simp_all add: writeError_def writeJSON_def)

definition validateTimestamp :: "config \<Rightarrow> clk \<Rightarrow> string \<Rightarrow> goerr option" where
  "validateTimestamp cfg clk raw =
     (case parse_rfc3339 raw of
        None \<Rightarrow> Some (Time_Syntax raw)
      | Some ts \<Rightarrow>
          let maxSkew = wrap64 (cfg_AllowedClockSkewSeconds cfg * second);
              now = clk At_Validate
          in if ts < now + wrap64 (- maxSkew) \<or> now + maxSkew < ts
             then Some (Msg ''timestamp outside allowed clock skew'') else None)"

lemma validateTimestamp_parses: "validateTimestamp cfg clk raw = None \<Longrightarrow> \<exists>ts. parse_rfc3339 raw = Some ts"
  by (cases "parse_rfc3339 raw") (auto simp: validateTimestamp_def)

lemma validateTimestamp_window:
  assumes "validateTimestamp cfg clk raw = None" and "parse_rfc3339 raw = Some ts"
    and "0 \<le> cfg_AllowedClockSkewSeconds cfg" "cfg_AllowedClockSkewSeconds cfg \<le> 2 ^ 33"
  shows "\<bar>ts - clk At_Validate\<bar> \<le> cfg_AllowedClockSkewSeconds cfg * second"
proof -
  let ?w = "cfg_AllowedClockSkewSeconds cfg * second"
  have w: "0 \<le> ?w" "?w \<le> 2 ^ 33 * second"
    using assms(3,4) by (simp add: second_def) (rule mult_right_mono, rule assms(4), simp add: second_def)
  then have "wrap64 ?w = ?w" "wrap64 (- ?w) = - ?w"
    by (intro wrap64_id; simp add: second_def)+
  with assms(1,2) show ?thesis by (auto simp: validateTimestamp_def Let_def split: if_splits)
qed

definition authorizeMapPayload :: "'w env \<Rightarrow> node \<Rightarrow> (string, json) gomap \<Rightarrow> goerr option" where
  "authorizeMapPayload e node payload =
     (if nd_AgentPublicKey node = [] then Some (Msg ''unknown fingerprint'')
      else if stringField payload ''agent_key_fingerprint'' \<noteq> nd_ActiveAgentKeyFingerprint node
      then Some (Msg ''unknown fingerprint'')
      else VerifyHexPublicKeySignature (out_verify (env_out e)) (nd_AgentPublicKey node)
             (stringField payload ''signature'') (CanonicalJSONWithoutSignature payload))"

text \<open>\<^verbatim>\<open>strings.Contains\<close>; only the errors made from a constant can contain one of the two phrases.\<close>

fun contains :: "string \<Rightarrow> string \<Rightarrow> bool" where
  "contains [] p \<longleftrightarrow> p = []"
| "contains (c # cs) p \<longleftrightarrow> has_prefix (c # cs) p \<or> contains cs p"

definition error_contains :: "goerr \<Rightarrow> string \<Rightarrow> bool" where
  "error_contains err p = (case err of Msg m \<Rightarrow> contains m p | _ \<Rightarrow> False)"

definition classifyAuthError :: "goerr \<Rightarrow> int \<times> string" where
  "classifyAuthError err =
     (if error_contains err ''unknown fingerprint'' then (401, ''unknown_fingerprint'')
      else if error_contains err ''invalid signature'' then (401, ''invalid_signature'')
      else (400, ''invalid_payload''))"

definition auth_failure :: "goerr \<Rightarrow> response" where
  "auth_failure err = (case classifyAuthError err of (status, code) \<Rightarrow> writeError status code err)"

definition acceptedResponse :: "clk \<Rightarrow> string \<Rightarrow> (string \<times> json) list" where
  "acceptedResponse clk nodeID =
     [(''status'', JStr ''accepted''), (''node_id'', JStr nodeID),
      (''received_at'', JStr (format_rfc3339 (clk At_Response)))]"

text \<open>The end of every handler that changes the store: persist, then the answer.\<close>

definition persist_and :: "'w env \<Rightarrow> response \<Rightarrow> 'w server \<Rightarrow> 'w server \<times> response" where
  "persist_and e answer s =
     (case persist e s of
        (s', None) \<Rightarrow> (s', answer)
      | (s', Some err) \<Rightarrow> (s', writeError 500 ''state_persist_failed'' err))"

lemma auth_failure_status: "rs_Status (auth_failure err) \<in> {400, 401}"
  by (simp add: auth_failure_def classifyAuthError_def)

lemma persist_and_store [simp]: "sv_store (fst (persist_and e a s)) = sv_store s"
  by (simp add: persist_and_def persist_def split: prod.split option.split)

text \<open>An answer other than 500 was given after the state was saved as it is.\<close>

definition saved :: "'w env \<Rightarrow> 'w server \<Rightarrow> bool" where
  "saved e s \<longleftrightarrow> (\<exists>w. out_save (env_out e) w (sv_store s) = (sv_world s, None))"

lemma persist_and_saved:
  assumes "persist_and e a s = (s', r)" and "rs_Status r \<noteq> 500"
  shows "saved e s' \<and> r = a"
  using assms by (auto simp: persist_and_def persist_def saved_def split: prod.splits option.splits)

end
