(* ===== verification/Handlers_Agent.thy ===== *)
theory Handlers_Agent
  imports Artifacts Http
begin

text \<open>
  \<^verbatim>\<open>portal/internal/server/agent_handlers.go\<close>: what the portal does for an agent. A handler that changes
  the store is written in two parts: \<open>..._check\<close> runs its guards in their order and reads only, and
  the handler acts on what the guards let through. The split is also where a handler gives up what it
  read to other requests: the store is locked within an operation, not across the handler.
\<close>

section \<open>Policy and enrollment challenge\<close>

definition handlePolicy :: "'w env \<Rightarrow> request \<Rightarrow> store \<Rightarrow> response" where
  "handlePolicy e r st =
     (let nodeID = trim_space (query_get r ''node_id'');
          fingerprint = trim_space (query_get r ''agent_key_fingerprint'')
      in if rq_Method r \<noteq> ''GET'' then fail 400 ''invalid_method'' ''invalid method''
         else if nodeID = [] then fail 400 ''missing_node_id'' ''missing node_id''
         else if fingerprint = []
           then fail 400 ''missing_agent_key_fingerprint'' ''missing agent_key_fingerprint''
         else if GetNode st nodeID = None then fail 404 ''unknown_node'' ''unknown node''
         else writeJSON 200 (Policy_Body (env_policy e)))"

definition new_challenge :: "config \<Rightarrow> instant \<Rightarrow> string \<Rightarrow> enrollment_challenge" where
  "new_challenge cfg issuedAt nodeID =
     \<lparr>ec_ChallengeID = nodeID @ ''-'' @ itoa issuedAt, ec_NodeID = nodeID,
      ec_IssuedAt = format_rfc3339 issuedAt,
      ec_ExpiresAt = format_rfc3339 (issuedAt + cfg_EnrollmentChallengeTTL cfg), ec_UsedAt = []\<rparr>"

definition challenge_check :: "request \<Rightarrow> store \<Rightarrow> response + string" where
  "challenge_check r st =
     (if rq_Method r \<noteq> ''POST'' then Inl (fail 400 ''invalid_method'' ''invalid method'')
      else (case decodeObject (rq_Body r) of
        Inl err \<Rightarrow> Inl (writeError 400 ''invalid_json'' err)
      | Inr payload \<Rightarrow>
          let nodeID = stringField payload ''node_id''
          in if nodeID = [] then Inl (fail 400 ''missing_node_id'' ''missing node_id'')
             else if GetNode st nodeID = None then Inl (fail 404 ''unknown_node'' ''unknown node'')
             else Inr nodeID))"

definition handleEnrollmentChallenge ::
    "'w env \<Rightarrow> clk \<Rightarrow> request \<Rightarrow> 'w server \<Rightarrow> 'w server \<times> response" where
  "handleEnrollmentChallenge e clk r s =
     (case challenge_check r (sv_store s) of
        Inl resp \<Rightarrow> (s, resp)
      | Inr nodeID \<Rightarrow>
          let challenge = new_challenge (env_cfg e) (clk At_Challenge) nodeID
          in persist_and e
               (writeJSON 200 (Map_Body
                  [(''status'', JStr ''ok''), (''challenge_id'', JStr (ec_ChallengeID challenge)),
                   (''node_id'', JStr (ec_NodeID challenge)), (''expires_at'', JStr (ec_ExpiresAt challenge))]))
               (on_store (SaveEnrollmentChallenge challenge) s))"

section \<open>Enrollment\<close>

record enrollment =
  el_NodeID :: string
  el_ChallengeID :: string
  el_PublicKey :: string
  el_Fingerprint :: string
  el_Node :: node

definition enroll_check :: "'w env \<Rightarrow> clk \<Rightarrow> request \<Rightarrow> store \<Rightarrow> response + enrollment" where
  "enroll_check e clk r st =
     (if rq_Method r \<noteq> ''POST'' then Inl (fail 400 ''invalid_method'' ''invalid method'')
      else (case decodeObject (rq_Body r) of
        Inl err \<Rightarrow> Inl (writeError 400 ''invalid_json'' err)
      | Inr payload \<Rightarrow>
          let nodeID = stringField payload ''node_id'';
              challengeID = stringField payload ''enrollment_challenge_id'';
              publicKey = stringField payload ''agent_public_key'';
              signature = stringField payload ''signature''
          in if nodeID = [] \<or> challengeID = [] \<or> publicKey = [] \<or> signature = []
             then Inl (fail 400 ''missing_field'' ''missing required field'')
             else (case GetNode st nodeID of
               None \<Rightarrow> Inl (fail 404 ''unknown_node'' ''unknown node'')
             | Some node \<Rightarrow>
                 (case GetEnrollmentChallenge st challengeID of
                    None \<Rightarrow> Inl (fail 401 ''invalid_enrollment_challenge'' ''invalid enrollment challenge'')
                  | Some challenge \<Rightarrow>
                      if ec_NodeID challenge \<noteq> nodeID
                      then Inl (fail 401 ''invalid_enrollment_challenge''
                                  ''enrollment challenge does not match node'')
                      else if trim_space (ec_UsedAt challenge) \<noteq> []
                      then Inl (fail 409 ''enrollment_challenge_used'' ''enrollment challenge already used'')
                      else if \<not> (case parse_rfc3339 (ec_ExpiresAt challenge) of
                                    None \<Rightarrow> False | Some expiresAt \<Rightarrow> clk At_Enroll_Check < expiresAt)
                      then Inl (fail 401 ''enrollment_challenge_expired'' ''enrollment challenge expired'')
                      else (case FingerprintFromHexPublicKey (out_sha256 (env_out e)) publicKey of
                        Inl err \<Rightarrow> Inl (writeError 400 ''invalid_public_key'' err)
                      | Inr fingerprint \<Rightarrow>
                          (case VerifyHexPublicKeySignature (out_verify (env_out e)) publicKey signature
                                  (CanonicalJSONWithoutSignature payload) of
                             Some err \<Rightarrow> Inl (writeError 401 ''invalid_signature'' err)
                           | None \<Rightarrow>
                               Inr \<lparr>el_NodeID = nodeID, el_ChallengeID = challengeID,
                                    el_PublicKey = publicKey, el_Fingerprint = fingerprint,
                                    el_Node = node\<rparr>))))))"

definition enrolled_node :: "string \<Rightarrow> instant \<Rightarrow> enrollment \<Rightarrow> node" where
  "enrolled_node policyVersion now el =
     (let node = el_Node el
      in node\<lparr>nd_ActiveAgentKeyFingerprint := el_Fingerprint el,
              nd_AgentPublicKey := el_PublicKey el,
              nd_EnrollmentGeneration := nd_EnrollmentGeneration node + 1,
              nd_ValidatedRegistrationAt :=
                (if trim_space (nd_ValidatedRegistrationAt node) = [] then format_rfc3339 now
                 else nd_ValidatedRegistrationAt node),
              nd_LastPolicyVersion := policyVersion,
              nd_LastHeartbeatSequence := 0\<rparr>)"

definition enroll_store :: "'w env \<Rightarrow> clk \<Rightarrow> enrollment \<Rightarrow> store \<Rightarrow> store" where
  "enroll_store e clk el st =
     fst (ConsumeEnrollmentChallenge (el_ChallengeID el) (format_rfc3339 (clk At_Enroll_Used))
       (SaveNode (enrolled_node (po_PolicyVersion (env_policy e)) (clk At_Enroll_Registered) el) st))"

definition enroll_commit :: "'w env \<Rightarrow> clk \<Rightarrow> enrollment \<Rightarrow> 'w server \<Rightarrow> 'w server \<times> response" where
  "enroll_commit e clk el s =
     persist_and e
       (writeJSON 200 (Map_Body
          [(''status'', JStr ''ok''), (''node_id'', JStr (el_NodeID el)),
           (''agent_key_fingerprint'', JStr (el_Fingerprint el)),
           (''policy_version'', JStr (po_PolicyVersion (env_policy e)))]))
       (on_store (enroll_store e clk el) s)"

definition handleEnroll :: "'w env \<Rightarrow> clk \<Rightarrow> request \<Rightarrow> 'w server \<Rightarrow> 'w server \<times> response" where
  "handleEnroll e clk r s =
     (case enroll_check e clk r (sv_store s) of
        Inl resp \<Rightarrow> (s, resp)
      | Inr el \<Rightarrow> enroll_commit e clk el s)"

section \<open>Heartbeat\<close>

text \<open>
  The payload struct. Decoding goes member by member: a member belongs to a field when the names agree
  up to case (the two non-ASCII runes that fold to ASCII letters included), \<^verbatim>\<open>null\<close> leaves the field
  alone, a value of another type is an error, other members are skipped. \<open>None\<close> is the nil slice.
\<close>

record heartbeat_payload =
  hp_NodeID :: string
  hp_AgentKeyFingerprint :: string
  hp_HeartbeatTimestamp :: string
  hp_SequenceNumber :: int
  hp_AgentVersion :: string
  hp_EnrollmentGeneration :: int
  hp_LocalObservationFlags :: "string list option"
  hp_Signature :: string

definition zero_heartbeat :: heartbeat_payload where
  "zero_heartbeat =
     \<lparr>hp_NodeID = [], hp_AgentKeyFingerprint = [], hp_HeartbeatTimestamp = [], hp_SequenceNumber = 0,
      hp_AgentVersion = [], hp_EnrollmentGeneration = 0, hp_LocalObservationFlags = None,
      hp_Signature = []\<rparr>"

function fold_name :: "string \<Rightarrow> string" where
  "fold_name [] = []"
| "fold_name (c # cs) =
     (if has_prefix (c # cs) [CHR 0xC5, CHR 0xBF] then CHR ''s'' # fold_name (drop 1 cs)
      else if has_prefix (c # cs) [CHR 0xE2, CHR 0x84, CHR 0xAA] then CHR ''k'' # fold_name (drop 2 cs)
      else ascii_lower c # fold_name cs)"
  by pat_completeness auto
termination
  by (relation "measure length") auto

definition mismatch :: "goerr" where
  "mismatch = Json_Error ''json: cannot unmarshal value into Go struct field''"

definition string_value :: "string \<Rightarrow> json \<Rightarrow> goerr + string" where
  "string_value old v = (case v of JNull \<Rightarrow> Inr old | JStr s \<Rightarrow> Inr s | _ \<Rightarrow> Inl mismatch)"

definition int_value :: "int \<Rightarrow> json \<Rightarrow> goerr + int" where
  "int_value old v =
     (case v of
        JNull \<Rightarrow> Inr old
      | JNum l \<Rightarrow> (case parse_int64 l of None \<Rightarrow> Inl mismatch | Some n \<Rightarrow> Inr n)
      | _ \<Rightarrow> Inl mismatch)"

fun string_values :: "json list \<Rightarrow> goerr + string list" where
  "string_values [] = Inr []"
| "string_values (v # vs) =
     (case string_value [] v of Inl err \<Rightarrow> Inl err | Inr s \<Rightarrow> map_sum id ((#) s) (string_values vs))"

definition strings_value :: "json \<Rightarrow> goerr + string list option" where
  "strings_value v =
     (case v of JNull \<Rightarrow> Inr None | JArr vs \<Rightarrow> map_sum id Some (string_values vs) | _ \<Rightarrow> Inl mismatch)"

definition set_member :: "string \<times> json \<Rightarrow> heartbeat_payload \<Rightarrow> goerr + heartbeat_payload" where
  "set_member kv p =
     (let f = fold_name (fst kv); v = snd kv
      in if f = ''node_id'' then map_sum id (\<lambda>x. p\<lparr>hp_NodeID := x\<rparr>) (string_value (hp_NodeID p) v)
         else if f = ''agent_key_fingerprint''
         then map_sum id (\<lambda>x. p\<lparr>hp_AgentKeyFingerprint := x\<rparr>) (string_value (hp_AgentKeyFingerprint p) v)
         else if f = ''heartbeat_timestamp''
         then map_sum id (\<lambda>x. p\<lparr>hp_HeartbeatTimestamp := x\<rparr>) (string_value (hp_HeartbeatTimestamp p) v)
         else if f = ''sequence_number''
         then map_sum id (\<lambda>x. p\<lparr>hp_SequenceNumber := x\<rparr>) (int_value (hp_SequenceNumber p) v)
         else if f = ''agent_version''
         then map_sum id (\<lambda>x. p\<lparr>hp_AgentVersion := x\<rparr>) (string_value (hp_AgentVersion p) v)
         else if f = ''enrollment_generation''
         then map_sum id (\<lambda>x. p\<lparr>hp_EnrollmentGeneration := x\<rparr>) (int_value (hp_EnrollmentGeneration p) v)
         else if f = ''local_observation_flags''
         then map_sum id (\<lambda>x. p\<lparr>hp_LocalObservationFlags := x\<rparr>) (strings_value v)
         else if f = ''signature''
         then map_sum id (\<lambda>x. p\<lparr>hp_Signature := x\<rparr>) (string_value (hp_Signature p) v)
         else Inr p)"

fun set_members :: "(string \<times> json) list \<Rightarrow> heartbeat_payload \<Rightarrow> goerr + heartbeat_payload" where
  "set_members [] p = Inr p"
| "set_members (kv # kvs) p =
     (case set_member kv p of Inl err \<Rightarrow> Inl err | Inr p' \<Rightarrow> set_members kvs p')"

definition decode_heartbeat :: "body \<Rightarrow> goerr + heartbeat_payload" where
  "decode_heartbeat b =
     (case b of
        Undecodable m \<Rightarrow> Inl (Json_Error m)
      | Document v \<Rightarrow>
          (case v of JNull \<Rightarrow> Inr zero_heartbeat | JObj kvs \<Rightarrow> set_members kvs zero_heartbeat
           | _ \<Rightarrow> Inl mismatch))"

text \<open>The bytes signed: the struct in field order, its signature emptied and so omitted.\<close>

definition heartbeat_json :: "heartbeat_payload \<Rightarrow> json" where
  "heartbeat_json p =
     JObj
       [(''node_id'', JStr (hp_NodeID p)),
        (''agent_key_fingerprint'', JStr (hp_AgentKeyFingerprint p)),
        (''heartbeat_timestamp'', JStr (hp_HeartbeatTimestamp p)),
        (''sequence_number'', JNum (itoa (hp_SequenceNumber p))),
        (''agent_version'', JStr (hp_AgentVersion p)),
        (''enrollment_generation'', JNum (itoa (hp_EnrollmentGeneration p))),
        (''local_observation_flags'',
          (case hp_LocalObservationFlags p of None \<Rightarrow> JNull | Some fs \<Rightarrow> JArr (map JStr fs)))]"

definition heartbeat_canonical :: "heartbeat_payload \<Rightarrow> string" where
  "heartbeat_canonical p = marshal (heartbeat_json p)"

definition heartbeat_check ::
    "'w env \<Rightarrow> clk \<Rightarrow> request \<Rightarrow> store \<Rightarrow> response + heartbeat_payload \<times> node" where
  "heartbeat_check e clk r st =
     (if rq_Method r \<noteq> ''POST'' then Inl (fail 400 ''invalid_method'' ''invalid method'')
      else (case decode_heartbeat (rq_Body r) of
        Inl err \<Rightarrow> Inl (writeError 400 ''invalid_json'' err)
      | Inr payload \<Rightarrow>
          (case GetNode st (hp_NodeID payload) of
             None \<Rightarrow> Inl (fail 404 ''unknown_node'' ''unknown node'')
           | Some node \<Rightarrow>
               if nd_AgentPublicKey node = []
                 \<or> hp_AgentKeyFingerprint payload \<noteq> nd_ActiveAgentKeyFingerprint node
               then Inl (fail 401 ''unknown_fingerprint'' ''unknown fingerprint'')
               else if hp_EnrollmentGeneration payload \<noteq> nd_EnrollmentGeneration node
               then Inl (fail 409 ''enrollment_generation_mismatch'' ''enrollment generation mismatch'')
               else (case validateTimestamp (env_cfg e) clk (hp_HeartbeatTimestamp payload) of
                 Some err \<Rightarrow> Inl (writeError 400 ''invalid_timestamp'' err)
               | None \<Rightarrow>
                   (case VerifyHexPublicKeySignature (out_verify (env_out e)) (nd_AgentPublicKey node)
                           (hp_Signature payload) (heartbeat_canonical payload) of
                      Some err \<Rightarrow> Inl (writeError 401 ''invalid_signature'' err)
                    | None \<Rightarrow>
                        if hp_SequenceNumber payload \<le> nd_LastHeartbeatSequence node
                        then Inl (fail 409 ''stale_sequence'' ''sequence number must be strictly increasing'')
                        else Inr (payload, node))))))"

definition heartbeat_store :: "'w env \<Rightarrow> heartbeat_payload \<Rightarrow> node \<Rightarrow> store \<Rightarrow> store" where
  "heartbeat_store e payload node st =
     SaveHeartbeatEvent
       \<lparr>hb_NodeID = hp_NodeID payload, hb_HeartbeatTimestamp = hp_HeartbeatTimestamp payload,
        hb_SequenceNumber = hp_SequenceNumber payload\<rparr>
       (SaveNode
         (node\<lparr>nd_LastHeartbeatSequence := hp_SequenceNumber payload,
               nd_LastHeartbeatTimestamp := hp_HeartbeatTimestamp payload,
               nd_LastPolicyVersion := po_PolicyVersion (env_policy e)\<rparr>) st)"

text \<open>\<^verbatim>\<open>if dateUTC, err := datePart(ts); err == nil { act(dateUTC) }\<close>\<close>

definition on_day_of :: "string \<Rightarrow> (string \<Rightarrow> 'w server \<Rightarrow> 'w server) \<Rightarrow> 'w server \<Rightarrow> 'w server" where
  "on_day_of timestamp act s = (case datePart timestamp of Some dateUTC \<Rightarrow> act dateUTC s | None \<Rightarrow> s)"

definition handleHeartbeat :: "'w env \<Rightarrow> clk \<Rightarrow> request \<Rightarrow> 'w server \<Rightarrow> 'w server \<times> response" where
  "handleHeartbeat e clk r s =
     (case heartbeat_check e clk r (sv_store s) of
        Inl resp \<Rightarrow> (s, resp)
      | Inr (payload, node) \<Rightarrow>
          persist_and e (writeJSON 200 (Map_Body (acceptedResponse clk (hp_NodeID payload))))
            (on_day_of (hp_HeartbeatTimestamp payload) (updateQualificationArtifacts e clk (hp_NodeID payload))
              (on_store (heartbeat_store e payload node) s)))"

section \<open>Hardware checks\<close>

definition check_bool_keys :: "string list" where
  "check_bool_keys =
     [''cpu_check_passed'', ''disk_check_passed'', ''ram_check_passed'', ''storage_size_check_passed'',
      ''ssd_check_passed'', ''cpu_load_test_passed'']"

definition checks_result :: "(string, json) gomap \<Rightarrow> string \<Rightarrow> string \<Rightarrow> response + check_event" where
  "checks_result payload nodeID eventID =
     (case find (\<lambda>k. boolField payload k = None) check_bool_keys of
        Some key \<Rightarrow> Inl (fail 400 ''missing_field'' (''missing '' @ key))
      | None \<Rightarrow>
          (case boolField payload ''overall_passed'' of
             None \<Rightarrow> Inl (fail 400 ''missing_field'' ''missing overall_passed'')
           | Some overall \<Rightarrow>
               if overall \<noteq> list_all (\<lambda>k. boolField payload k = Some True) check_bool_keys
               then Inl (fail 400 ''invalid_overall_passed'' ''overall_passed does not match sub-checks'')
               else Inr \<lparr>ck_EventID = eventID, ck_NodeID = nodeID, ck_OverallPassed = overall,
                         ck_CheckedAt = stringField payload ''checked_at''\<rparr>))"

definition checks_check :: "'w env \<Rightarrow> clk \<Rightarrow> request \<Rightarrow> store \<Rightarrow> response + check_event" where
  "checks_check e clk r st =
     (if rq_Method r \<noteq> ''POST'' then Inl (fail 400 ''invalid_method'' ''invalid method'')
      else (case decodeObject (rq_Body r) of
        Inl err \<Rightarrow> Inl (writeError 400 ''invalid_json'' err)
      | Inr payload \<Rightarrow>
          let nodeID = stringField payload ''node_id'';
              eventID = stringField payload ''event_id'';
              eventType = stringField payload ''event_type''
          in (case GetNode st nodeID of
            None \<Rightarrow> Inl (fail 404 ''unknown_node'' ''unknown node'')
          | Some node \<Rightarrow>
              (case authorizeMapPayload e node payload of
                 Some err \<Rightarrow> Inl (auth_failure err)
               | None \<Rightarrow>
                   if stringField payload ''policy_version'' \<noteq> po_PolicyVersion (env_policy e)
                   then Inl (fail 409 ''policy_version_mismatch'' ''policy version mismatch'')
                   else if stringField payload ''schema_version'' \<noteq> ''1''
                   then Inl (fail 400 ''invalid_schema_version'' ''invalid schema_version'')
                   else if stringField payload ''cpu_profile_id'' \<noteq> cpu_ID (po_CPUProfile (env_policy e))
                   then Inl (fail 409 ''cpu_profile_mismatch'' ''cpu profile mismatch'')
                   else if stringField payload ''disk_profile_id'' \<noteq> disk_ID (po_DiskProfile (env_policy e))
                   then Inl (fail 409 ''disk_profile_mismatch'' ''disk profile mismatch'')
                   else if eventID = [] then Inl (fail 400 ''missing_field'' ''missing event_id'')
                   else if eventType \<notin> set [''registration'', ''voting_key_renewal'', ''recheck'']
                   then Inl (fail 400 ''invalid_event_type'' ''invalid event_type'')
                   else (case validateTimestamp (env_cfg e) clk (stringField payload ''checked_at'') of
                     Some err \<Rightarrow> Inl (writeError 400 ''invalid_timestamp'' err)
                   | None \<Rightarrow> checks_result payload nodeID eventID)))))"

definition handleChecks :: "'w env \<Rightarrow> clk \<Rightarrow> request \<Rightarrow> 'w server \<Rightarrow> 'w server \<times> response" where
  "handleChecks e clk r s =
     (case checks_check e clk r (sv_store s) of
        Inl resp \<Rightarrow> (s, resp)
      | Inr event \<Rightarrow>
          (case SaveCheckEvent event (sv_store s) of
             (st, False) \<Rightarrow> (s, fail 409 ''duplicate_event_id'' ''duplicate event_id'')
           | (st, True) \<Rightarrow>
               let s1 = on_store (\<lambda>_. st) s;
                   s2 = (if ck_CheckedAt event \<noteq> []
                         then on_day_of (ck_CheckedAt event)
                                (updateQualificationArtifacts e clk (ck_NodeID event)) s1
                         else s1)
               in persist_and e
                    (writeJSON 200 (Map_Body
                       [(''status'', JStr ''accepted''), (''node_id'', JStr (ck_NodeID event)),
                        (''event_id'', JStr (ck_EventID event)),
                        (''overall_passed'', JBool (ck_OverallPassed event)),
                        (''received_at'', JStr (format_rfc3339 (clk At_Response)))])) s2))"

section \<open>Telemetry\<close>

definition telemetry_check ::
    "'w env \<Rightarrow> clk \<Rightarrow> request \<Rightarrow> store \<Rightarrow> response + string \<times> string \<times> json list" where
  "telemetry_check e clk r st =
     (if rq_Method r \<noteq> ''POST'' then Inl (fail 400 ''invalid_method'' ''invalid method'')
      else (case decodeObject (rq_Body r) of
        Inl err \<Rightarrow> Inl (writeError 400 ''invalid_json'' err)
      | Inr payload \<Rightarrow>
          let nodeID = stringField payload ''node_id'';
              timestamp = stringField payload ''telemetry_timestamp''
          in (case GetNode st nodeID of
            None \<Rightarrow> Inl (fail 404 ''unknown_node'' ''unknown node'')
          | Some node \<Rightarrow>
              (case authorizeMapPayload e node payload of
                 Some err \<Rightarrow> Inl (auth_failure err)
               | None \<Rightarrow>
                   if stringField payload ''policy_version'' \<noteq> po_PolicyVersion (env_policy e)
                   then Inl (fail 409 ''policy_version_mismatch'' ''policy version mismatch'')
                   else (case validateTimestamp (env_cfg e) clk timestamp of
                     Some err \<Rightarrow> Inl (writeError 400 ''invalid_timestamp'' err)
                   | None \<Rightarrow>
                       (case arrayField payload ''warning_flags'' of
                          Some flags \<Rightarrow>
                            if flags = [] then Inl (fail 400 ''missing_field'' ''missing warning_flags'')
                            else Inr (nodeID, timestamp, flags)
                        | None \<Rightarrow> Inl (fail 400 ''missing_field'' ''missing warning_flags'')))))))"

definition warning_code :: "json \<Rightarrow> string" where
  "warning_code raw = (case raw of JStr s \<Rightarrow> s | _ \<Rightarrow> [])"

text \<open>The loop over the flags; a bad flag ends it with what was done for the flags before it.\<close>

fun telemetry_loop ::
    "'w env \<Rightarrow> clk \<Rightarrow> string \<Rightarrow> string \<Rightarrow> nat \<Rightarrow> json list \<Rightarrow> 'w server \<Rightarrow> 'w server \<times> response option" where
  "telemetry_loop e clk nodeID timestamp i [] s = (s, None)"
| "telemetry_loop e clk nodeID timestamp i (raw # flags) s =
     (let code = warning_code raw
      in if \<not> isSupportedWarningCode code
         then (s, Some (fail 400 ''invalid_warning_code'' ''invalid warning_code''))
         else
           let event = \<lparr>te_NodeID = nodeID, te_TelemetryTimestamp = timestamp, te_WarningCode = code\<rparr>
           in (case maybeNotifyAlert e nodeID code timestamp (clk (At_Flag i))
                      (on_store (AddTelemetryEvent event) s) of
                 (s', Some err) \<Rightarrow> (s', Some (writeError 500 ''state_persist_failed'' err))
               | (s', None) \<Rightarrow> telemetry_loop e clk nodeID timestamp (Suc i) flags s'))"

definition handleTelemetryRead :: "request \<Rightarrow> store \<Rightarrow> response" where
  "handleTelemetryRead r st =
     (let nodeID = trim_space (query_get r ''node_id'');
          warningCode = trim_space (query_get r ''warning_code'');
          view = trim_space (query_get r ''view'')
      in if view = ''latest'' then writeJSON 200 (Latest_Telemetry_Items (ListLatestTelemetry st nodeID warningCode))
         else writeJSON 200 (Telemetry_Items (ListTelemetry st nodeID warningCode)))"

definition handleTelemetry :: "'w env \<Rightarrow> clk \<Rightarrow> request \<Rightarrow> 'w server \<Rightarrow> 'w server \<times> response" where
  "handleTelemetry e clk r s =
     (if rq_Method r = ''GET'' then (s, handleTelemetryRead r (sv_store s))
      else (case telemetry_check e clk r (sv_store s) of
        Inl resp \<Rightarrow> (s, resp)
      | Inr (nodeID, timestamp, flags) \<Rightarrow>
          (case telemetry_loop e clk nodeID timestamp 0 flags s of
             (s', Some resp) \<Rightarrow> (s', resp)
           | (s', None) \<Rightarrow>
               persist_and e (writeJSON 200 (Map_Body (acceptedResponse clk nodeID))) s')))"

end
