(* ===== verification/Signature_Properties.thy ===== *)
theory Signature_Properties
  imports Handlers_Agent
begin

text \<open>
  What a signature is made over: the text that is signed determines the payload, does not depend on the
  order of a Go map, and stamps and hexadecimal text are read back as written.
\<close>

section \<open>The canonical text of a payload\<close>



definition ex_signed :: "string \<Rightarrow> (string, json) gomap" where
  "ex_signed sg = [(''node_id'', JStr ''a''), (''signature'', JStr sg), (''asn'', JNum ''7'')]"


text \<open>
  The canonical text does not depend on the order in which the map is ranged over, nor on the
  signature field.
\<close>

theorem canonical_text_unique:
  assumes "wf_map m" and "mset (signed_part m') = mset (signed_part m)"
  shows "CanonicalJSONWithoutSignature m' = CanonicalJSONWithoutSignature m"
proof -
  have idem: "signed_part (signed_part x) = signed_part x" for x by (simp add: signed_part_def)
  have same: "CanonicalJSONWithoutSignature (signed_part x) = CanonicalJSONWithoutSignature x" for x
    by (simp add: canonical_signed_part idem)
  have "wf_map (signed_part m)" using assms(1) by (simp add: signed_part_def)
  from canonical_perm [OF this assms(2)] show ?thesis by (simp only: same)
qed

theorem canonical_text_unique_witness:
  "CanonicalJSONWithoutSignature (rev (ex_signed ''00'')) = CanonicalJSONWithoutSignature (ex_signed ''01'')"
  by (rule canonical_text_unique) (simp_all add: ex_signed_def wf_map_def signed_part_def)

section \<open>The text of a heartbeat\<close>

lemma number_itoa: "number_literal (itoa n)"
proof -
  have d: "list_all number_byte (nat_digits k)" for k
    using nat_digits_is_digit [of k] by (auto simp: list_all_iff number_byte_def)
  show ?thesis using nat_digits_ne nat_digits_hd by (simp add: number_literal_def itoa_def d) (simp add: number_byte_def)
qed

lemma heartbeat_decoded: "decoded (heartbeat_json p)"
  by (simp add: heartbeat_json_def number_itoa list_all_iff split: option.split)

text \<open>
  A heartbeat's signature covers the whole heartbeat: two payloads with the same signed text are
  the same but for the signature.
\<close>

theorem heartbeat_text_covers:
  assumes "heartbeat_canonical p = heartbeat_canonical q"
  shows "p\<lparr>hp_Signature := []\<rparr> = q\<lparr>hp_Signature := []\<rparr>"
proof -
  have "heartbeat_json p = heartbeat_json q"
    using marshal_inj [OF heartbeat_decoded heartbeat_decoded] assms by (simp add: heartbeat_canonical_def)
  moreover have "inj JStr" by (simp add: inj_def)
  ultimately show ?thesis
    by (cases p; cases q) (auto simp: heartbeat_json_def inj_map_eq_map dest!: itoa_inj split: option.splits)
qed

theorem heartbeat_text_covers_witness:
  "zero_heartbeat\<lparr>hp_Signature := []\<rparr> = (zero_heartbeat\<lparr>hp_Signature := ''00''\<rparr>)\<lparr>hp_Signature := []\<rparr>"
  by (rule heartbeat_text_covers) (simp add: heartbeat_canonical_def heartbeat_json_def)

section \<open>Reading back\<close>

text \<open>
  What the portal prints it reads back. A quoted string is read back whatever its bytes, a
  hexadecimal text decodes to what was encoded, and the fingerprint of a printed key is that of the key.
\<close>

theorem printed_text_reads_back:
  "read_string (tl (quote s) @ r) = Some (s, r) \<and> hex_decode (hex_encode k) = Inr k
   \<and> (length k = 32 \<longrightarrow> FingerprintFromHexPublicKey sha256 (hex_encode k) = Inr (hex_encode (take 16 (sha256 k))))"
  using read_escape [of s r] by (simp add: quote_def hex_decode_encode FingerprintFromHexPublicKey_def)

theorem printed_text_reads_back_witness:
  "FingerprintFromHexPublicKey id (hex_encode (replicate 32 CHR ''k'')) = Inr (hex_encode (replicate 16 CHR ''k''))"
  using printed_text_reads_back [of "[]" "[]" "replicate 32 CHR ''k''" id] by simp

text \<open>
  Comparing the portal's own stamps as strings is comparing times. For times of years 0 to 9999 the
  printed stamp is read back as its whole second, its day is the day of the time, it falls on that day
  for the queries by date, and one stamp is less than another exactly when its second is earlier.
\<close>

theorem stamps_ordered:
  assumes "in_era s" and "in_era t"
  shows "parse_rfc3339 (format_rfc3339 t) = Some (seconds_of t * second)
    \<and> datePart (format_rfc3339 t) = Some (format_day t) \<and> on_date (format_day t) (format_rfc3339 t)
    \<and> (format_rfc3339 s < format_rfc3339 t \<longleftrightarrow> seconds_of s < seconds_of t)"
proof -
  have "has_prefix (format_rfc3339 t) (format_day t)" by (simp add: has_prefix_iff format_rfc3339_def)
  with assms show ?thesis by (simp add: parse_format datePart_format format_less_iff on_date_def)
qed

theorem stamps_ordered_witness:
  "format_rfc3339 0 < format_rfc3339 (second * 86400)"
  using stamps_ordered [of 0 "second * 86400"] by (simp add: in_era_def seconds_of_def second_def)

end
