(* ===== verification/Snapshot.thy ===== *)
theory Snapshot
  imports Store Portal_World
begin

text \<open>
  \<^verbatim>\<open>portal/internal/store/snapshot.go\<close>: the configured nodes, the value that is saved, putting it back,
  and the file operations of a save.

  The text of a file is read and written by \<^verbatim>\<open>encoding/json\<close> and \<^verbatim>\<open>yaml\<close>, which are parameters here.
  Loading stops at the first record of an unknown node; the half filled store is dropped by the caller,
  so the model returns the error alone.
\<close>

section \<open>Configured nodes\<close>

definition fresh_node :: "node \<Rightarrow> node" where
  "fresh_node n =
     n\<lparr>nd_Enabled := True, nd_ActiveAgentKeyFingerprint := [], nd_AgentPublicKey := [],
       nd_EnrollmentGeneration := 0, nd_ValidatedRegistrationAt := [], nd_LastHeartbeatSequence := 0,
       nd_LastHeartbeatTimestamp := [], nd_LastPolicyVersion := []\<rparr>"

fun seed_loop :: "string list \<Rightarrow> node list \<Rightarrow> goerr + node list" where
  "seed_loop seen [] = Inr []"
| "seed_loop seen (n # ns) =
     (if nd_NodeID n = [] then Inl (Msg ''missing node_id'')
      else if nd_NodeID n \<in> set seen then Inl (Msg ''duplicate node_id'')
      else map_sum id ((#) (fresh_node n)) (seed_loop (nd_NodeID n # seen) ns))"

definition LoadNodesConfig :: "(string \<Rightarrow> goerr + string) \<Rightarrow> (string \<Rightarrow> goerr + node list) \<Rightarrow> string \<Rightarrow> goerr + node list" where
  "LoadNodesConfig read_file yaml path =
     (case read_file path of
        Inl err \<Rightarrow> Inl err
      | Inr data \<Rightarrow>
          (case yaml data of
             Inl err \<Rightarrow> Inl err
           | Inr nodes \<Rightarrow>
               if nodes = [] then Inl (Msg ''missing nodes'')
               else map_sum id (sort_slice (\<lambda>a b. nd_NodeID a < nd_NodeID b)) (seed_loop [] nodes)))"

section \<open>The saved value\<close>

record snapshot =
  sn_Nodes :: "node list"
  sn_EnrollmentChallenges :: "enrollment_challenge list"
  sn_CheckEvents :: "check_event list"
  sn_HeartbeatEvents :: "heartbeat_event list"
  sn_TelemetryEvents :: "telemetry_event list"
  sn_ProbeEvents :: "probe_event list"
  sn_DailySummaries :: "daily_qualification_summary list"
  sn_QualifiedDecisions :: "qualified_decision_record list"
  sn_BasePerformanceRecords :: "base_performance_record list"
  sn_RankingRecords :: "ranking_record list"
  sn_RewardEligibility :: "reward_eligibility_record list"
  sn_RewardAllocations :: "reward_allocation_record list"
  sn_OperatorGroupEvidence :: "operator_group_evidence list"
  sn_VotingKeyEvidence :: "voting_key_evidence list"
  sn_DecentralizationEvidence :: "decentralization_evidence list"
  sn_DomainEvidence :: "domain_evidence list"
  sn_SharedControlPlaneEvidence :: "shared_control_plane_evidence list"
  sn_LatestTelemetry :: "latest_telemetry list"
  sn_AlertStates :: "alert_state list"
  sn_NotificationDeliveries :: "notification_delivery list"
  sn_OperationalEvents :: "operational_event list"

text \<open>The comparators: by reference, by date and node, by date, rank and node, or as written.\<close>

definition by_date :: "('r \<Rightarrow> string) \<Rightarrow> ('r \<Rightarrow> string) \<Rightarrow> 'r \<Rightarrow> 'r \<Rightarrow> bool" where
  "by_date date node a b \<longleftrightarrow> (if date a = date b then node a < node b else date a < date b)"

definition by_rank :: "('r \<Rightarrow> string) \<Rightarrow> ('r \<Rightarrow> int) \<Rightarrow> ('r \<Rightarrow> string) \<Rightarrow> 'r \<Rightarrow> 'r \<Rightarrow> bool" where
  "by_rank date rank node a b \<longleftrightarrow>
     (if date a = date b
      then if rank a = rank b then node a < node b else rank a < rank b
      else date a < date b)"

definition heartbeat_before :: "heartbeat_event \<Rightarrow> heartbeat_event \<Rightarrow> bool" where
  "heartbeat_before a b \<longleftrightarrow>
     (if hb_HeartbeatTimestamp a = hb_HeartbeatTimestamp b
      then if hb_NodeID a = hb_NodeID b then hb_SequenceNumber a < hb_SequenceNumber b
           else hb_NodeID a < hb_NodeID b
      else hb_HeartbeatTimestamp a < hb_HeartbeatTimestamp b)"

definition alert_before :: "alert_state \<Rightarrow> alert_state \<Rightarrow> bool" where
  "alert_before a b \<longleftrightarrow>
     (if as_NodeID a = as_NodeID b
      then if as_AlertCode a = as_AlertCode b then as_Severity a < as_Severity b
           else as_AlertCode a < as_AlertCode b
      else as_NodeID a < as_NodeID b)"

text \<open>The values of a map, sorted by their reference, by date and node, or as alerts are.\<close>

definition sorted_by_ref :: "('r \<Rightarrow> string) \<Rightarrow> (string, 'r) gomap \<Rightarrow> 'r list" where
  "sorted_by_ref ref m = sort_slice (\<lambda>a b. ref a < ref b) (map_vals m)"

definition sorted_by_date :: "('r \<Rightarrow> string) \<Rightarrow> ('r \<Rightarrow> string) \<Rightarrow> (string, 'r) gomap \<Rightarrow> 'r list" where
  "sorted_by_date date node m = sort_slice (by_date date node) (map_vals m)"

definition sorted_alerts :: "(string, alert_state) gomap \<Rightarrow> alert_state list" where
  "sorted_alerts m = sort_slice alert_before (map_vals m)"

definition snapshot_of :: "store \<Rightarrow> snapshot" where
  "snapshot_of s =
     \<lparr>sn_Nodes = sorted_by_ref nd_NodeID (st_nodes s),
      sn_EnrollmentChallenges = sorted_by_date ec_NodeID ec_ChallengeID (st_challenges s),
      sn_CheckEvents = sorted_by_ref ck_EventID (st_checkEvents s),
      sn_HeartbeatEvents = sort_slice heartbeat_before (st_heartbeatEvents s),
      sn_TelemetryEvents = st_telemetryEvents s,
      sn_ProbeEvents = sorted_by_ref pe_ProbeID (st_probeEvents s),
      sn_DailySummaries = sorted_by_date ds_DateUTC ds_NodeID (st_dailySummaries s),
      sn_QualifiedDecisions = sorted_by_date qd_DateUTC qd_NodeID (st_qualifiedDecisions s),
      sn_BasePerformanceRecords = sorted_by_date bp_DateUTC bp_NodeID (st_basePerformance s),
      sn_RankingRecords =
        sort_slice (by_rank rk_DateUTC rk_RankPosition rk_NodeID) (map_vals (st_rankingRecords s)),
      sn_RewardEligibility =
        sort_slice (by_rank re_DateUTC re_RankPosition re_NodeID) (map_vals (st_rewardEligibility s)),
      sn_RewardAllocations =
        sort_slice (by_rank ra_DateUTC ra_RankPosition ra_NodeID) (map_vals (st_rewardAllocations s)),
      sn_OperatorGroupEvidence =
        sorted_by_ref og_EvidenceRef (st_operatorGroups s),
      sn_VotingKeyEvidence =
        sorted_by_ref vk_EvidenceRef (st_votingKeyEvidence s),
      sn_DecentralizationEvidence =
        sorted_by_ref dc_EvidenceRef (st_decentralization s),
      sn_DomainEvidence =
        sorted_by_ref dm_EvidenceRef (st_domainEvidence s),
      sn_SharedControlPlaneEvidence =
        sorted_by_ref cp_EvidenceRef (st_controlPlane s),
      sn_LatestTelemetry = sorted_by_date lt_NodeID lt_WarningCode (st_latestTelemetry s),
      sn_AlertStates = sorted_alerts (st_alertStates s),
      sn_NotificationDeliveries = st_deliveries s,
      sn_OperationalEvents = st_operational s\<rparr>"

section \<open>Putting it back\<close>

text \<open>What a snapshot adds to a configured node.\<close>

definition restore_node :: "node \<Rightarrow> node \<Rightarrow> node" where
  "restore_node node seedNode =
     seedNode\<lparr>nd_ActiveAgentKeyFingerprint := nd_ActiveAgentKeyFingerprint node,
       nd_AgentPublicKey := nd_AgentPublicKey node, nd_EnrollmentGeneration := nd_EnrollmentGeneration node,
       nd_ValidatedRegistrationAt := nd_ValidatedRegistrationAt node,
       nd_LastHeartbeatSequence := nd_LastHeartbeatSequence node,
       nd_LastHeartbeatTimestamp := nd_LastHeartbeatTimestamp node,
       nd_LastPolicyVersion := nd_LastPolicyVersion node\<rparr>"

fun restore_nodes :: "node list \<Rightarrow> (string, node) gomap \<Rightarrow> goerr + (string, node) gomap" where
  "restore_nodes [] m = Inr m"
| "restore_nodes (n # ns) m =
     (case map_get m (nd_NodeID n) of
        None \<Rightarrow> Inl (Msg ''snapshot contains unknown node_id'')
      | Some seedNode \<Rightarrow> restore_nodes ns (map_put (nd_NodeID n) (restore_node n seedNode) m))"

text \<open>A loop that stops at a record of an unknown node, into a map or into a slice.\<close>

fun restore_loop ::
    "(string \<Rightarrow> bool) \<Rightarrow> ('r \<Rightarrow> string) \<Rightarrow> ('r \<Rightarrow> 'm \<Rightarrow> 'm) \<Rightarrow> string \<Rightarrow> 'r list \<Rightarrow> 'm \<Rightarrow> goerr + 'm" where
  "restore_loop is_seed node put what [] m = Inr m"
| "restore_loop is_seed node put what (r # rs) m =
     (if \<not> is_seed (node r) then Inl (Msg (''snapshot '' @ what @ '' contains unknown node_id''))
      else restore_loop is_seed node put what rs (put r m))"

definition into_map :: "('r \<Rightarrow> string) \<Rightarrow> 'r \<Rightarrow> (string, 'r) gomap \<Rightarrow> (string, 'r) gomap" where
  "into_map key r m = map_put (key r) r m"

definition into_slice :: "'r \<Rightarrow> 'r list \<Rightarrow> 'r list" where
  "into_slice r rs = rs @ [r]"

text \<open>The last part of \<^verbatim>\<open>applySnapshot\<close>: warnings, alerts, deliveries and operational events.\<close>

definition restore_notices :: "(string \<Rightarrow> bool) \<Rightarrow> snapshot \<Rightarrow> store \<Rightarrow> goerr + store" where
  "restore_notices seed snap s =
     and_then (restore_loop seed lt_NodeID (into_map (\<lambda>r. telemetryKey (lt_NodeID r) (lt_WarningCode r)))
       ''latest telemetry'' (sn_LatestTelemetry snap) []) (\<lambda>latest.
     and_then (restore_loop seed as_NodeID
       (into_map (\<lambda>r. alertKey (as_NodeID r) (as_AlertCode r) (as_Severity r))) ''alert state''
       (sn_AlertStates snap) []) (\<lambda>alerts.
     and_then (restore_loop seed dl_NodeID into_slice ''delivery'' (sn_NotificationDeliveries snap) []) (\<lambda>deliveries.
     and_then (restore_loop seed oe_NodeID into_slice ''operational event'' (sn_OperationalEvents snap) []) (\<lambda>operational.
     Inr (s\<lparr>st_latestTelemetry := latest, st_alertStates := alerts, st_deliveries := deliveries,
            st_operational := operational\<rparr>)))))"

definition applySnapshot :: "snapshot \<Rightarrow> store \<Rightarrow> goerr + store" where
  "applySnapshot snap s =
     and_then (restore_nodes (sn_Nodes snap) (st_nodes s)) (\<lambda>nodes.
     let seed = has_key nodes in
     and_then (restore_loop seed ec_NodeID (into_map ec_ChallengeID) ''enrollment challenge''
       (sn_EnrollmentChallenges snap) []) (\<lambda>challenges.
     and_then (restore_loop seed ck_NodeID (into_map ck_EventID) ''check event'' (sn_CheckEvents snap) []) (\<lambda>checks.
     and_then (restore_loop seed hb_NodeID into_slice ''heartbeat event'' (sn_HeartbeatEvents snap) []) (\<lambda>heartbeats.
     and_then (restore_loop seed te_NodeID into_slice ''telemetry'' (sn_TelemetryEvents snap) []) (\<lambda>telemetry.
     and_then (restore_loop seed pe_NodeID (into_map pe_ProbeID) ''probe event'' (sn_ProbeEvents snap) []) (\<lambda>probes.
     and_then (restore_loop seed ds_NodeID (into_map (\<lambda>r. dailySummaryKey (ds_NodeID r) (ds_DateUTC r)))
       ''daily summary'' (sn_DailySummaries snap) []) (\<lambda>summaries.
     and_then (restore_loop seed qd_NodeID (into_map (\<lambda>r. qualifiedDecisionKey (qd_NodeID r) (qd_DateUTC r)))
       ''qualified decision'' (sn_QualifiedDecisions snap) []) (\<lambda>decisions.
     and_then (restore_loop seed bp_NodeID (into_map (\<lambda>r. basePerformanceKey (bp_NodeID r) (bp_DateUTC r)))
       ''base performance record'' (sn_BasePerformanceRecords snap) []) (\<lambda>bases.
     and_then (restore_loop seed rk_NodeID (into_map (\<lambda>r. rankingRecordKey (rk_NodeID r) (rk_DateUTC r)))
       ''ranking record'' (sn_RankingRecords snap) []) (\<lambda>rankings.
     and_then (restore_loop seed re_NodeID (into_map (\<lambda>r. rewardEligibilityKey (re_NodeID r) (re_DateUTC r)))
       ''reward eligibility'' (sn_RewardEligibility snap) []) (\<lambda>eligibility.
     and_then (restore_loop seed ra_NodeID (into_map (\<lambda>r. rewardAllocationKey (ra_NodeID r) (ra_DateUTC r)))
       ''reward allocation'' (sn_RewardAllocations snap) []) (\<lambda>allocations.
     and_then (restore_loop seed og_NodeID (into_map og_EvidenceRef) ''operator group evidence''
       (sn_OperatorGroupEvidence snap) []) (\<lambda>groups.
     and_then (restore_loop seed vk_NodeID (into_map vk_EvidenceRef) ''voting key evidence''
       (sn_VotingKeyEvidence snap) []) (\<lambda>voting.
     and_then (restore_loop seed dc_NodeID (into_map dc_EvidenceRef) ''decentralization evidence''
       (sn_DecentralizationEvidence snap) []) (\<lambda>infra.
     and_then (restore_loop seed dm_NodeID (into_map dm_EvidenceRef) ''domain evidence'' (sn_DomainEvidence snap) [])
       (\<lambda>domains.
     and_then (restore_loop seed cp_NodeID (into_map cp_EvidenceRef) ''shared control plane evidence''
       (sn_SharedControlPlaneEvidence snap) []) (\<lambda>planes.
     restore_notices seed snap \<lparr>st_nodes = nodes, st_challenges = challenges, st_checkEvents = checks,
          st_heartbeatEvents = heartbeats, st_telemetryEvents = telemetry, st_probeEvents = probes,
          st_dailySummaries = summaries, st_qualifiedDecisions = decisions, st_basePerformance = bases,
          st_rankingRecords = rankings, st_rewardEligibility = eligibility, st_rewardAllocations = allocations,
          st_operatorGroups = groups, st_votingKeyEvidence = voting, st_decentralization = infra,
          st_domainEvidence = domains, st_controlPlane = planes, st_latestTelemetry = [],
          st_alertStates = [], st_deliveries = [], st_operational = []\<rparr>)))))))))))))))))"

lemmas apply_defs = applySnapshot_def restore_notices_def
lemmas snapshot_defs = snapshot_of_def sorted_by_ref_def sorted_by_date_def sorted_alerts_def

section \<open>Loading and saving\<close>

text \<open>
  A file of the directory: its bytes, and whether they have reached the disk. A directory maps paths to
  files; a crash keeps its entries and the bytes of synced files, and may leave anything in the others.
\<close>

record disk_file =
  f_data :: string
  f_synced :: bool

type_synonym files = "string \<Rightarrow> disk_file option"

text \<open>\<^verbatim>\<open>Load\<close>: a missing state file is a fresh start.\<close>

datatype read_result = Missing | Read_Error goerr | Read string

definition ReadFile :: "goerr option \<Rightarrow> files \<Rightarrow> string \<Rightarrow> read_result" where
  "ReadFile fault d path =
     (case fault of
        Some err \<Rightarrow> Read_Error err
      | None \<Rightarrow> (case d path of None \<Rightarrow> Missing | Some f \<Rightarrow> Read (f_data f)))"

definition Load :: "(string \<Rightarrow> goerr + snapshot) \<Rightarrow> node list \<Rightarrow> string \<Rightarrow> read_result \<Rightarrow> goerr + store" where
  "Load unmarshal seedNodes snapshotPath result =
     (let st = New_Store seedNodes
      in if snapshotPath = [] then Inr st
         else (case result of
           Missing \<Rightarrow> Inr st
         | Read_Error err \<Rightarrow> Inl err
         | Read data \<Rightarrow> and_then (unmarshal data) (\<lambda>snap. applySnapshot snap st)))"

text \<open>
  \<^verbatim>\<open>Save\<close> writes a temporary file, syncs and closes it and renames it over the state file. Each step can
  fail; a failed write leaves some of the bytes, and removing the temporary file can fail unseen. The
  result is the directory after every step that changes it, in order, and the error.
\<close>

datatype save_step = Mkdir_Step | Create_Step | Write_Step | Sync_Step | Close_Step | Rename_Step

record save_world =
  sw_fault :: "save_step \<Rightarrow> goerr option"
  sw_short :: nat
  sw_removed :: bool
  sw_tmp :: string

definition cleanup :: "save_world \<Rightarrow> files \<Rightarrow> files" where
  "cleanup w d = (if sw_removed w then d(sw_tmp w := None) else d)"

definition Save :: "(snapshot \<Rightarrow> goerr + string) \<Rightarrow> save_world \<Rightarrow> string \<Rightarrow> store \<Rightarrow> files \<Rightarrow> files list \<times> goerr option" where
  "Save marshal_indent w path s d =
     (if path = [] then ([], Some (Msg ''missing state path''))
      else (case marshal_indent (snapshot_of s) of
        Inl err \<Rightarrow> ([], Some err)
      | Inr data \<Rightarrow>
      (case sw_fault w Mkdir_Step of
        Some err \<Rightarrow> ([], Some err)
      | None \<Rightarrow>
      (case sw_fault w Create_Step of
        Some err \<Rightarrow> ([], Some err)
      | None \<Rightarrow>
          let created = d(sw_tmp w \<mapsto> \<lparr>f_data = [], f_synced = False\<rparr>);
              partly = d(sw_tmp w \<mapsto> \<lparr>f_data = take (sw_short w) data, f_synced = False\<rparr>);
              written = d(sw_tmp w \<mapsto> \<lparr>f_data = data, f_synced = False\<rparr>);
              synced = d(sw_tmp w \<mapsto> \<lparr>f_data = data, f_synced = True\<rparr>);
              renamed = d(sw_tmp w := None, path \<mapsto> \<lparr>f_data = data, f_synced = True\<rparr>)
          in (case sw_fault w Write_Step of
            Some err \<Rightarrow> ([created, partly, cleanup w partly], Some err)
          | None \<Rightarrow>
          (case sw_fault w Sync_Step of
            Some err \<Rightarrow> ([created, written, cleanup w written], Some err)
          | None \<Rightarrow>
          (case sw_fault w Close_Step of
            Some err \<Rightarrow> ([created, written, synced, cleanup w synced], Some err)
          | None \<Rightarrow>
          (case sw_fault w Rename_Step of
            Some err \<Rightarrow> ([created, written, synced, cleanup w synced], Some err)
          | None \<Rightarrow> ([created, written, synced, renamed], None)))))))))"

definition files_after :: "files \<Rightarrow> files list \<Rightarrow> files" where
  "files_after d ds = last (d # ds)"

section \<open>The round trip\<close>

text \<open>Two stores with the same content: maps as functions, the heartbeat log up to its order.\<close>

definition same_store :: "store \<Rightarrow> store \<Rightarrow> bool" where
  "same_store a b \<longleftrightarrow>
     map_get (st_nodes a) = map_get (st_nodes b) \<and> map_get (st_challenges a) = map_get (st_challenges b) \<and>
     map_get (st_checkEvents a) = map_get (st_checkEvents b) \<and>
     mset (st_heartbeatEvents a) = mset (st_heartbeatEvents b) \<and>
     st_telemetryEvents a = st_telemetryEvents b \<and> map_get (st_probeEvents a) = map_get (st_probeEvents b) \<and>
     map_get (st_dailySummaries a) = map_get (st_dailySummaries b) \<and>
     map_get (st_qualifiedDecisions a) = map_get (st_qualifiedDecisions b) \<and>
     map_get (st_basePerformance a) = map_get (st_basePerformance b) \<and>
     map_get (st_rankingRecords a) = map_get (st_rankingRecords b) \<and>
     map_get (st_rewardEligibility a) = map_get (st_rewardEligibility b) \<and>
     map_get (st_rewardAllocations a) = map_get (st_rewardAllocations b) \<and>
     map_get (st_operatorGroups a) = map_get (st_operatorGroups b) \<and>
     map_get (st_votingKeyEvidence a) = map_get (st_votingKeyEvidence b) \<and>
     map_get (st_decentralization a) = map_get (st_decentralization b) \<and>
     map_get (st_domainEvidence a) = map_get (st_domainEvidence b) \<and>
     map_get (st_controlPlane a) = map_get (st_controlPlane b) \<and>
     map_get (st_latestTelemetry a) = map_get (st_latestTelemetry b) \<and>
     map_get (st_alertStates a) = map_get (st_alertStates b) \<and>
     st_deliveries a = st_deliveries b \<and> st_operational a = st_operational b"

lemma restore_loop_ok:
  "list_all (is_seed \<circ> node) rs \<Longrightarrow> restore_loop is_seed node put what rs m = Inr (fold put rs m)"
  by (induction rs arbitrary: m) simp_all

lemma restore_loop_unknown:
  "\<not> list_all (is_seed \<circ> node) rs \<Longrightarrow>
    restore_loop is_seed node put what rs m = Inl (Msg (''snapshot '' @ what @ '' contains unknown node_id''))"
  by (induction rs arbitrary: m) auto

lemma fold_into_map: "fold (into_map key) rs m = put_all key rs m"
  by (induction rs arbitrary: m) (simp_all add: into_map_def)

lemma fold_into_slice: "fold into_slice rs m = m @ rs"
  by (induction rs arbitrary: m) (simp_all add: into_slice_def)

lemmas restore_simps = restore_loop_ok fold_into_map fold_into_slice

lemma list_all_sort [simp]: "list_all P (sort_slice lt xs) \<longleftrightarrow> list_all P xs"
  by (simp add: list_all_iff)

lemma sorted_vals_back:
  "keyed_map key m \<Longrightarrow> map_get (put_all key (sort_slice lt (map_vals m)) []) = map_get m"
  by (rule put_all_vals) simp_all

lemma find_SomeD: "find P xs = Some x \<Longrightarrow> x \<in> set xs \<and> P x"
  by (induction xs) (auto split: if_splits)

text \<open>Restoring the nodes: each configured node gets its saved state.\<close>

lemma restore_nodes_get:
  assumes "distinct (map nd_NodeID ns)" and "\<forall>n \<in> set ns. map_get m (nd_NodeID n) \<noteq> None"
  shows "\<exists>m'. restore_nodes ns m = Inr m' \<and>
    (\<forall>k. map_get m' k =
      (case find (\<lambda>n. nd_NodeID n = k) ns of None \<Rightarrow> map_get m k
       | Some n \<Rightarrow> map_option (restore_node n) (map_get m k)))"
  using assms
proof (induction ns arbitrary: m)
  case (Cons n ns)
  then obtain sn where s: "map_get m (nd_NodeID n) = Some sn" by auto
  let ?m = "map_put (nd_NodeID n) (restore_node n sn) m"
  have "\<forall>x \<in> set ns. map_get ?m (nd_NodeID x) \<noteq> None" using Cons.prems(2) by (simp add: map_get_put)
  with Cons.IH [of ?m] Cons.prems(1) obtain m' where m': "restore_nodes ns ?m = Inr m'"
    "\<forall>k. map_get m' k = (case find (\<lambda>n. nd_NodeID n = k) ns of None \<Rightarrow> map_get ?m k
       | Some x \<Rightarrow> map_option (restore_node x) (map_get ?m k))" by auto
  have "find (\<lambda>x. nd_NodeID x = nd_NodeID n) ns = None"
    using Cons.prems(1) by (auto simp: find_None_iff) (metis imageI)
  then show ?case using m' s by (auto simp: map_get_put split: option.split)
qed simp

end
