(* ===== verification/Handlers_Evidence.thy ===== *)
theory Handlers_Evidence
  imports Handlers_Agent
begin

text \<open>
  \<^verbatim>\<open>portal/internal/server/evidence_write_handlers.go\<close> and \<^verbatim>\<open>probe_handlers.go\<close>: the five kinds of
  evidence and the probe events. Each handler is its \<open>..._check\<close> (the guards, up to the value to
  store) followed by \<open>accept_evidence\<close>, the end they all have: store the value unless its reference is
  taken, recompute what depends on the day of its timestamp, persist, answer.
\<close>

definition evidence_answer :: "clk \<Rightarrow> string \<Rightarrow> string \<Rightarrow> string \<Rightarrow> response" where
  "evidence_answer clk key ref nodeID =
     writeJSON 200 (Map_Body
       [(''status'', JStr ''accepted''), (key, JStr ref), (''node_id'', JStr nodeID),
        (''received_at'', JStr (format_rfc3339 (clk At_Response)))])"

definition accept_evidence ::
    "'w env \<Rightarrow> (store \<Rightarrow> store \<times> bool) \<Rightarrow> response \<Rightarrow> string \<Rightarrow> (string \<Rightarrow> 'w server \<Rightarrow> 'w server) \<Rightarrow> response
      \<Rightarrow> 'w server \<Rightarrow> 'w server \<times> response" where
  "accept_evidence e save duplicate observedAt recompute answer s =
     (case save (sv_store s) of
        (st, False) \<Rightarrow> (s, duplicate)
      | (st, True) \<Rightarrow> persist_and e answer (on_day_of observedAt recompute (on_store (\<lambda>_. st) s)))"

abbreviation duplicate_ref :: response where
  "duplicate_ref \<equiv> fail 409 ''duplicate_evidence_ref'' ''duplicate evidence_ref''"

text \<open>The recomputations: everything of a node's day, the day's ranking, the day's eligibility.\<close>

definition refresh_node :: "'w env \<Rightarrow> clk \<Rightarrow> string \<Rightarrow> string \<Rightarrow> 'w server \<Rightarrow> 'w server" where
  "refresh_node e clk nodeID dateUTC s = updateQualificationArtifacts e clk nodeID dateUTC s"

definition refresh_rankings :: "'w env \<Rightarrow> clk \<Rightarrow> string \<Rightarrow> 'w server \<Rightarrow> 'w server" where
  "refresh_rankings e clk dateUTC s = on_store (rebuildRankings e clk dateUTC) s"

definition refresh_eligibility :: "'w env \<Rightarrow> clk \<Rightarrow> string \<Rightarrow> 'w server \<Rightarrow> 'w server" where
  "refresh_eligibility e clk dateUTC s =
     on_store (\<lambda>st. rebuildRewardEligibility e clk dateUTC (ListRankingRecordsByDate st dateUTC) st) s"

section \<open>Voting key evidence\<close>

definition voting_key_check :: "'w env \<Rightarrow> clk \<Rightarrow> request \<Rightarrow> store \<Rightarrow> response + voting_key_evidence" where
  "voting_key_check e clk r st =
     (if rq_Method r \<noteq> ''POST'' then Inl (fail 400 ''invalid_method'' ''invalid method'')
      else (case decodeObject (rq_Body r) of
        Inl err \<Rightarrow> Inl (writeError 400 ''invalid_json'' err)
      | Inr payload \<Rightarrow>
          let nodeID = stringField payload ''node_id'';
              evidenceRef = stringField payload ''evidence_ref'';
              observedAt = stringField payload ''observed_at'';
              source = stringField payload ''source''
          in if nodeID = [] \<or> evidenceRef = [] \<or> observedAt = [] \<or> source = []
             then Inl (fail 400 ''missing_required_field'' ''missing required field'')
             else if GetNode st nodeID = None then Inl (fail 404 ''unknown_node_id'' ''unknown node'')
             else (case validateTimestamp (env_cfg e) clk observedAt of
               Some err \<Rightarrow> Inl (writeError 400 ''stale_timestamp'' err)
             | None \<Rightarrow>
                 (case intField payload ''current_epoch'' of
                    None \<Rightarrow> Inl (fail 400 ''missing_required_field'' ''missing current_epoch'')
                  | Some currentEpoch \<Rightarrow>
                      if currentEpoch < 0
                      then Inl (fail 400 ''missing_required_field'' ''missing current_epoch'')
                      else (case boolField payload ''voting_key_present'' of
                        None \<Rightarrow> Inl (fail 400 ''missing_required_field'' ''missing voting_key_present'')
                      | Some present \<Rightarrow>
                          (case boolField payload ''voting_key_valid_for_epoch'' of
                             None \<Rightarrow> Inl (fail 400 ''missing_required_field''
                                          ''missing voting_key_valid_for_epoch'')
                           | Some valid \<Rightarrow>
                               Inr \<lparr>vk_EvidenceRef = evidenceRef, vk_NodeID = nodeID,
                                    vk_ObservedAt = observedAt, vk_CurrentEpoch = currentEpoch,
                                    vk_VotingKeyPresent = present, vk_VotingKeyValidForEpoch = valid,
                                    vk_Source = source\<rparr>))))))"

definition handleVotingKeyEvidence :: "'w env \<Rightarrow> clk \<Rightarrow> request \<Rightarrow> 'w server \<Rightarrow> 'w server \<times> response" where
  "handleVotingKeyEvidence e clk r s =
     (case voting_key_check e clk r (sv_store s) of
        Inl resp \<Rightarrow> (s, resp)
      | Inr ev \<Rightarrow>
          accept_evidence e (SaveVotingKeyEvidence ev) duplicate_ref (vk_ObservedAt ev)
            (refresh_node e clk (vk_NodeID ev))
            (evidence_answer clk ''evidence_ref'' (vk_EvidenceRef ev) (vk_NodeID ev)) s)"

section \<open>Operator groups\<close>

definition normalizeEvidenceSource :: "string \<Rightarrow> string" where
  "normalizeEvidenceSource raw = trim_space raw"

definition normalizeReviewState :: "(string \<Rightarrow> string) \<Rightarrow> string \<Rightarrow> string" where
  "normalizeReviewState lower raw =
     (let reviewState = to_lower lower (trim_space raw)
      in if reviewState = [] then ''accepted'' else reviewState)"

definition validEvidenceSource :: "string \<Rightarrow> bool" where
  "validEvidenceSource source \<longleftrightarrow> source \<in> set [''manual_review'', ''probe_derived'', ''operator_submitted'']"

definition validReviewState :: "string \<Rightarrow> bool" where
  "validReviewState reviewState \<longleftrightarrow> reviewState \<in> set [''pending'', ''accepted'', ''rejected'']"

definition operator_group_check :: "'w env \<Rightarrow> clk \<Rightarrow> request \<Rightarrow> store \<Rightarrow> response + operator_group_evidence" where
  "operator_group_check e clk r st =
     (if rq_Method r \<noteq> ''POST'' then Inl (fail 400 ''invalid_method'' ''invalid method'')
      else (case decodeObject (rq_Body r) of
        Inl err \<Rightarrow> Inl (writeError 400 ''invalid_json'' err)
      | Inr payload \<Rightarrow>
          let nodeID = stringField payload ''node_id'';
              evidenceRef = stringField payload ''evidence_ref'';
              operatorGroupID = stringField payload ''operator_group_id'';
              observedAt = stringField payload ''observed_at'';
              source = normalizeEvidenceSource (stringField payload ''source'');
              reviewState = normalizeReviewState (out_lower (env_out e)) (stringField payload ''review_state'')
          in if nodeID = [] \<or> evidenceRef = [] \<or> operatorGroupID = [] \<or> observedAt = [] \<or> source = []
             then Inl (fail 400 ''missing_required_field'' ''missing required field'')
             else if \<not> validEvidenceSource source then Inl (fail 400 ''invalid_source'' ''invalid source'')
             else if \<not> validReviewState reviewState
             then Inl (fail 400 ''invalid_review_state'' ''invalid review_state'')
             else if GetNode st nodeID = None then Inl (fail 404 ''unknown_node_id'' ''unknown node'')
             else (case validateTimestamp (env_cfg e) clk observedAt of
               Some err \<Rightarrow> Inl (writeError 400 ''stale_timestamp'' err)
             | None \<Rightarrow>
                 Inr \<lparr>og_EvidenceRef = evidenceRef, og_NodeID = nodeID,
                      og_OperatorGroupID = operatorGroupID, og_ObservedAt = observedAt,
                      og_Source = source, og_ReviewState = reviewState\<rparr>)))"

definition handleOperatorGroupEvidence :: "'w env \<Rightarrow> clk \<Rightarrow> request \<Rightarrow> 'w server \<Rightarrow> 'w server \<times> response" where
  "handleOperatorGroupEvidence e clk r s =
     (case operator_group_check e clk r (sv_store s) of
        Inl resp \<Rightarrow> (s, resp)
      | Inr ev \<Rightarrow>
          accept_evidence e (SaveOperatorGroupEvidence ev) duplicate_ref (og_ObservedAt ev)
            (refresh_eligibility e clk)
            (evidence_answer clk ''evidence_ref'' (og_EvidenceRef ev) (og_NodeID ev)) s)"

section \<open>Decentralization and domains\<close>

definition decentralization_check ::
    "'w env \<Rightarrow> clk \<Rightarrow> request \<Rightarrow> store \<Rightarrow> response + decentralization_evidence" where
  "decentralization_check e clk r st =
     (if rq_Method r \<noteq> ''POST'' then Inl (fail 400 ''invalid_method'' ''invalid method'')
      else (case decodeObject (rq_Body r) of
        Inl err \<Rightarrow> Inl (writeError 400 ''invalid_json'' err)
      | Inr payload \<Rightarrow>
          let nodeID = stringField payload ''node_id'';
              evidenceRef = stringField payload ''evidence_ref'';
              observedAt = stringField payload ''observed_at'';
              countryCode = to_upper (out_upper (env_out e)) (trim_space (stringField payload ''country_code''));
              providerID = trim_space (stringField payload ''provider_id'');
              infrastructureID = trim_space (stringField payload ''infrastructure_id'');
              source = stringField payload ''source''
          in if nodeID = [] \<or> evidenceRef = [] \<or> observedAt = [] \<or> countryCode = [] \<or> providerID = []
                \<or> source = []
             then Inl (fail 400 ''missing_required_field'' ''missing required field'')
             else if GetNode st nodeID = None then Inl (fail 404 ''unknown_node_id'' ''unknown node'')
             else (case validateTimestamp (env_cfg e) clk observedAt of
               Some err \<Rightarrow> Inl (writeError 400 ''stale_timestamp'' err)
             | None \<Rightarrow>
                 (case intField payload ''asn'' of
                    None \<Rightarrow> Inl (fail 400 ''missing_required_field'' ''missing asn'')
                  | Some asn \<Rightarrow>
                      if asn \<le> 0 then Inl (fail 400 ''missing_required_field'' ''missing asn'')
                      else Inr \<lparr>dc_EvidenceRef = evidenceRef, dc_NodeID = nodeID, dc_ObservedAt = observedAt,
                                dc_CountryCode = countryCode, dc_ASN = asn, dc_ProviderID = providerID,
                                dc_InfrastructureID = infrastructureID, dc_Source = source\<rparr>))))"

definition handleDecentralizationEvidence :: "'w env \<Rightarrow> clk \<Rightarrow> request \<Rightarrow> 'w server \<Rightarrow> 'w server \<times> response" where
  "handleDecentralizationEvidence e clk r s =
     (case decentralization_check e clk r (sv_store s) of
        Inl resp \<Rightarrow> (s, resp)
      | Inr ev \<Rightarrow>
          accept_evidence e (SaveDecentralizationEvidence ev) duplicate_ref (dc_ObservedAt ev)
            (refresh_rankings e clk)
            (evidence_answer clk ''evidence_ref'' (dc_EvidenceRef ev) (dc_NodeID ev)) s)"

definition domain_check :: "'w env \<Rightarrow> clk \<Rightarrow> request \<Rightarrow> store \<Rightarrow> response + domain_evidence" where
  "domain_check e clk r st =
     (if rq_Method r \<noteq> ''POST'' then Inl (fail 400 ''invalid_method'' ''invalid method'')
      else (case decodeObject (rq_Body r) of
        Inl err \<Rightarrow> Inl (writeError 400 ''invalid_json'' err)
      | Inr payload \<Rightarrow>
          let nodeID = stringField payload ''node_id'';
              evidenceRef = stringField payload ''evidence_ref'';
              observedAt = stringField payload ''observed_at'';
              registrableDomain =
                to_lower (out_lower (env_out e)) (trim_space (stringField payload ''registrable_domain''));
              source = stringField payload ''source''
          in if nodeID = [] \<or> evidenceRef = [] \<or> observedAt = [] \<or> registrableDomain = [] \<or> source = []
             then Inl (fail 400 ''missing_required_field'' ''missing required field'')
             else if GetNode st nodeID = None then Inl (fail 404 ''unknown_node_id'' ''unknown node'')
             else (case validateTimestamp (env_cfg e) clk observedAt of
               Some err \<Rightarrow> Inl (writeError 400 ''stale_timestamp'' err)
             | None \<Rightarrow>
                 Inr \<lparr>dm_EvidenceRef = evidenceRef, dm_NodeID = nodeID, dm_ObservedAt = observedAt,
                      dm_RegistrableDomain = registrableDomain, dm_Source = source\<rparr>)))"

definition handleDomainEvidence :: "'w env \<Rightarrow> clk \<Rightarrow> request \<Rightarrow> 'w server \<Rightarrow> 'w server \<times> response" where
  "handleDomainEvidence e clk r s =
     (case domain_check e clk r (sv_store s) of
        Inl resp \<Rightarrow> (s, resp)
      | Inr ev \<Rightarrow>
          accept_evidence e (SaveDomainEvidence ev) duplicate_ref (dm_ObservedAt ev)
            (refresh_eligibility e clk)
            (evidence_answer clk ''evidence_ref'' (dm_EvidenceRef ev) (dm_NodeID ev)) s)"

section \<open>Shared control planes\<close>

definition control_plane_check ::
    "'w env \<Rightarrow> clk \<Rightarrow> request \<Rightarrow> store \<Rightarrow> response + shared_control_plane_evidence" where
  "control_plane_check e clk r st =
     (if rq_Method r \<noteq> ''POST'' then Inl (fail 400 ''invalid_method'' ''invalid method'')
      else (case decodeObject (rq_Body r) of
        Inl err \<Rightarrow> Inl (writeError 400 ''invalid_json'' err)
      | Inr payload \<Rightarrow>
          let nodeID = stringField payload ''node_id'';
              evidenceRef = stringField payload ''evidence_ref'';
              observedAt = stringField payload ''observed_at'';
              controlPlaneID = trim_space (stringField payload ''control_plane_id'');
              classification = trim_space (stringField payload ''classification'');
              source = normalizeEvidenceSource (stringField payload ''source'');
              reviewState = normalizeReviewState (out_lower (env_out e)) (stringField payload ''review_state'')
          in if nodeID = [] \<or> evidenceRef = [] \<or> observedAt = [] \<or> controlPlaneID = []
                \<or> classification = [] \<or> source = []
             then Inl (fail 400 ''missing_required_field'' ''missing required field'')
             else if \<not> validEvidenceSource source then Inl (fail 400 ''invalid_source'' ''invalid source'')
             else if \<not> validReviewState reviewState
             then Inl (fail 400 ''invalid_review_state'' ''invalid review_state'')
             else if classification \<notin> set [''managed_provider'', ''operational_contractor'',
                       ''shared_certificate_admin'', ''material_overlap'']
             then Inl (fail 400 ''invalid_classification'' ''invalid classification'')
             else if GetNode st nodeID = None then Inl (fail 404 ''unknown_node_id'' ''unknown node'')
             else (case validateTimestamp (env_cfg e) clk observedAt of
               Some err \<Rightarrow> Inl (writeError 400 ''stale_timestamp'' err)
             | None \<Rightarrow>
                 Inr \<lparr>cp_EvidenceRef = evidenceRef, cp_NodeID = nodeID, cp_ObservedAt = observedAt,
                      cp_ControlPlaneID = controlPlaneID, cp_Classification = classification,
                      cp_Source = source, cp_ReviewState = reviewState\<rparr>)))"

definition handleSharedControlPlaneEvidence ::
    "'w env \<Rightarrow> clk \<Rightarrow> request \<Rightarrow> 'w server \<Rightarrow> 'w server \<times> response" where
  "handleSharedControlPlaneEvidence e clk r s =
     (case control_plane_check e clk r (sv_store s) of
        Inl resp \<Rightarrow> (s, resp)
      | Inr ev \<Rightarrow>
          accept_evidence e (SaveSharedControlPlaneEvidence ev) duplicate_ref (cp_ObservedAt ev)
            (refresh_eligibility e clk)
            (evidence_answer clk ''evidence_ref'' (cp_EvidenceRef ev) (cp_NodeID ev)) s)"

section \<open>Probe events\<close>

text \<open>The optional counters, in the order in which they are read; only the last has its own error code.\<close>

fun lag_fields :: "(string, json) gomap \<Rightarrow> string list \<Rightarrow> response + int option list" where
  "lag_fields payload [] = Inr []"
| "lag_fields payload (key # keys) =
     (case optionalNonNegativeIntField payload key of
        Inl err \<Rightarrow> Inl (writeError 400 (if key = ''http_status'' then ''invalid_payload'' else ''invalid_lag_value'') err)
      | Inr v \<Rightarrow> map_sum id ((#) v) (lag_fields payload keys))"

definition probe_event_of ::
    "(string, json) gomap \<Rightarrow> bool \<Rightarrow> int \<Rightarrow> int option list \<Rightarrow> probe_event" where
  "probe_event_of payload availabilityUp window lags =
     \<lparr>pe_ProbeID = stringField payload ''probe_id'', pe_NodeID = stringField payload ''node_id'',
      pe_RegionID = stringField payload ''region_id'', pe_ObservedAt = stringField payload ''observed_at'',
      pe_Endpoint = stringField payload ''endpoint'', pe_AvailabilityUp = availabilityUp,
      pe_FinalizedLagBlocks = lags ! 0, pe_ChainLagBlocks = lags ! 1, pe_SourceHeight = lags ! 2,
      pe_PeerHeight = lags ! 3, pe_MeasurementWindowSeconds = window, pe_HTTPStatus = lags ! 4,
      pe_ErrorCode = stringField payload ''error_code'', pe_ResolverIP = stringField payload ''resolver_ip'',
      pe_Notes = stringField payload ''notes''\<rparr>"

definition probe_check :: "'w env \<Rightarrow> clk \<Rightarrow> request \<Rightarrow> store \<Rightarrow> response + probe_event" where
  "probe_check e clk r st =
     (if rq_Method r \<noteq> ''POST'' then Inl (fail 400 ''invalid_method'' ''invalid method'')
      else (case decodeObject (rq_Body r) of
        Inl err \<Rightarrow> Inl (writeError 400 ''invalid_json'' err)
      | Inr payload \<Rightarrow>
          if stringField payload ''schema_version'' \<noteq> ''1''
          then Inl (fail 400 ''invalid_schema_version'' ''invalid schema_version'')
          else if stringField payload ''probe_id'' = [] \<or> stringField payload ''node_id'' = []
            \<or> stringField payload ''region_id'' = [] \<or> stringField payload ''observed_at'' = []
            \<or> stringField payload ''endpoint'' = []
          then Inl (fail 400 ''missing_required_field'' ''missing required field'')
          else if GetNode st (stringField payload ''node_id'') = None
          then Inl (fail 404 ''unknown_node_id'' ''unknown node'')
          else (case validateTimestamp (env_cfg e) clk (stringField payload ''observed_at'') of
            Some err \<Rightarrow> Inl (writeError 400 ''stale_timestamp'' err)
          | None \<Rightarrow>
              (case boolField payload ''availability_up'' of
                 None \<Rightarrow> Inl (fail 400 ''missing_required_field'' ''missing availability_up'')
               | Some up \<Rightarrow>
                   (case intField payload ''measurement_window_seconds'' of
                      None \<Rightarrow> Inl (fail 400 ''missing_required_field'' ''missing measurement_window_seconds'')
                    | Some window \<Rightarrow>
                        if window \<le> 0
                        then Inl (fail 400 ''missing_required_field'' ''missing measurement_window_seconds'')
                        else (case lag_fields payload
                                [''finalized_lag_blocks'', ''chain_lag_blocks'', ''source_height'',
                                 ''peer_height'', ''http_status''] of
                          Inl resp \<Rightarrow> Inl resp
                        | Inr lags \<Rightarrow>
                            if up \<and> (lags ! 0 = None \<or> lags ! 1 = None \<or> lags ! 2 = None \<or> lags ! 3 = None)
                            then Inl (fail 400 ''missing_required_field''
                                        ''missing measurable fields for available probe'')
                            else Inr (probe_event_of payload up window lags)))))))"

text \<open>
  Unlike the others this handler answers 400 when the day of the timestamp cannot be read; the stored
  event then stays. A timestamp that passed the guards can always be read (\<open>probe_day\<close> below).
\<close>

definition handleProbeEvents :: "'w env \<Rightarrow> clk \<Rightarrow> request \<Rightarrow> 'w server \<Rightarrow> 'w server \<times> response" where
  "handleProbeEvents e clk r s =
     (case probe_check e clk r (sv_store s) of
        Inl resp \<Rightarrow> (s, resp)
      | Inr ev \<Rightarrow>
          if datePart (pe_ObservedAt ev) = None \<and> snd (SaveProbeEvent ev (sv_store s))
          then (on_store (\<lambda>st. fst (SaveProbeEvent ev st)) s,
                writeError 400 ''stale_timestamp'' (Time_Syntax (pe_ObservedAt ev)))
          else accept_evidence e (SaveProbeEvent ev)
                 (fail 409 ''duplicate_probe_id'' ''duplicate probe_id'') (pe_ObservedAt ev)
                 (refresh_node e clk (pe_NodeID ev))
                 (evidence_answer clk ''probe_id'' (pe_ProbeID ev) (pe_NodeID ev)) s)"

end
