(* ===== verification/Handlers_Read.thy ===== *)
theory Handlers_Read
  imports Handlers_Evidence
begin

text \<open>
  \<^verbatim>\<open>portal/internal/server/read_handlers.go\<close>, \<^verbatim>\<open>read_views.go\<close> and the daily summary of
  \<^verbatim>\<open>probe_handlers.go\<close>: the read side. A read handler gets the request and the store and answers.
\<close>

definition rankingIndex :: "ranking_record list \<Rightarrow> (string, ranking_record) gomap" where
  "rankingIndex records = put_all rk_NodeID records []"

definition summarizeStatusReason :: "qualified_decision_record \<Rightarrow> reward_eligibility_record \<Rightarrow> string" where
  "summarizeStatusReason decision reward =
     (if re_ExclusionReason reward \<noteq> [] then re_ExclusionReason reward
      else if \<not> qd_Qualified decision then
        if qd_InsufficientEvidenceReason decision \<noteq> [] then qd_InsufficientEvidenceReason decision
        else (case qd_FailureReasons decision of f # fs \<Rightarrow> f | [] \<Rightarrow> ''not_qualified'')
      else if re_NodeID reward = [] then ''qualified''
      else if re_RewardEligible reward then ''reward_eligible''
      else ''qualified'')"

text \<open>Indexing a missing node gives the zero record, whose node id is empty.\<close>

definition zero_ranking :: ranking_record where
  "zero_ranking =
     \<lparr>rk_NodeID = [], rk_DateUTC = [], rk_PolicyVersion = [], rk_RankPosition = 0,
      rk_AvailabilityScore = 0, rk_FinalizationScore = 0, rk_ChainSyncScore = 0, rk_VotingKeyScore = 0,
      rk_BasePerformanceScore = 0, rk_DecentralizationScore = 0, rk_TotalScore = 0,
      rk_OperatorGroupID = [], rk_RewardEligible = False, rk_ExclusionReason = [], rk_ComputedAt = []\<rparr>"

definition index_ranking :: "(string, ranking_record) gomap \<Rightarrow> string \<Rightarrow> ranking_record" where
  "index_ranking m nodeID = (case map_get m nodeID of None \<Rightarrow> zero_ranking | Some r \<Rightarrow> r)"

definition rank_position :: "ranking_record \<Rightarrow> int option" where
  "rank_position ranking = (if rk_NodeID ranking \<noteq> [] then Some (rk_RankPosition ranking) else None)"

definition buildPublicNodeStatusView ::
    "string \<Rightarrow> string \<Rightarrow> qualified_decision_record \<Rightarrow> ranking_record \<Rightarrow> reward_eligibility_record
      \<Rightarrow> public_node_status_view" where
  "buildPublicNodeStatusView nodeID dateUTC decision ranking reward =
     \<lparr>pv_NodeID = nodeID, pv_DateUTC = dateUTC, pv_Qualified = qd_Qualified decision,
      pv_RankPosition = rank_position ranking, pv_RewardEligible = re_RewardEligible reward,
      pv_StatusReason = summarizeStatusReason decision reward\<rparr>"

definition buildOperatorNodeStatusView ::
    "string \<Rightarrow> string \<Rightarrow> qualified_decision_record \<Rightarrow> ranking_record \<Rightarrow> reward_eligibility_record
      \<Rightarrow> operator_node_status_view" where
  "buildOperatorNodeStatusView nodeID dateUTC decision ranking reward =
     \<lparr>ov_NodeID = nodeID, ov_DateUTC = dateUTC, ov_Qualified = qd_Qualified decision,
      ov_RankPosition = rank_position ranking, ov_RewardEligible = re_RewardEligible reward,
      ov_StatusReason = summarizeStatusReason decision reward,
      ov_FailureReasons = qd_FailureReasons decision, ov_HeartbeatPassed = qd_HeartbeatPassed decision,
      ov_HardwarePassed = qd_HardwarePassed decision, ov_VotingKeyPassed = qd_VotingKeyPassed decision,
      ov_OperatorGroupID = (if re_NodeID reward \<noteq> [] then re_OperatorGroupID reward else []),
      ov_ExclusionReason = (if re_NodeID reward \<noteq> [] then re_ExclusionReason reward else [])\<rparr>"

text \<open>The shape the reads of a day share: method, date, answer.\<close>

definition read_day :: "string \<Rightarrow> request \<Rightarrow> (string \<Rightarrow> resp_body) \<Rightarrow> response" where
  "read_day route r answer =
     (let dateUTC = trim_space (trim_prefix (rq_Path r) route)
      in if rq_Method r \<noteq> ''GET'' then fail 400 ''invalid_method'' ''invalid method''
         else if parse_date dateUTC = None then fail 400 ''missing_required_field'' ''invalid date_utc''
         else writeJSON 200 (answer dateUTC))"

definition handleRankingRead :: "request \<Rightarrow> store \<Rightarrow> response" where
  "handleRankingRead r st =
     read_day ''/api/v1/rankings/'' r (\<lambda>d. Ranking_Items d (ListRankingRecordsByDate st d))"

definition handleRewardEligibilityRead :: "request \<Rightarrow> store \<Rightarrow> response" where
  "handleRewardEligibilityRead r st =
     read_day ''/api/v1/reward-eligibility/'' r
       (\<lambda>d. Eligibility_Items d (ListRewardEligibilityRecordsByDate st d))"

definition handleRewardAllocationRead :: "request \<Rightarrow> store \<Rightarrow> response" where
  "handleRewardAllocationRead r st =
     read_day ''/api/v1/reward-allocations/'' r
       (\<lambda>d. Allocation_Items d (ListRewardAllocationRecordsByDate st d))"

definition anti_concentration_of :: "store \<Rightarrow> string \<Rightarrow> node \<Rightarrow> anti_concentration_view" where
  "anti_concentration_of st d n =
     (let grp = GetLatestOperatorGroupEvidenceForNodeAndDate st (nd_NodeID n) d;
          dom = GetLatestDomainEvidenceForNodeAndDate st (nd_NodeID n) d;
          plane = GetLatestSharedControlPlaneEvidenceForNodeAndDate st (nd_NodeID n) d
      in \<lparr>av_NodeID = nd_NodeID n, av_DateUTC = d,
          av_OperatorGroupID = (case grp of Some ev \<Rightarrow> og_OperatorGroupID ev | None \<Rightarrow> []),
          av_OperatorGroupSource = (case grp of Some ev \<Rightarrow> og_Source ev | None \<Rightarrow> []),
          av_OperatorGroupReviewState = (case grp of Some ev \<Rightarrow> og_ReviewState ev | None \<Rightarrow> []),
          av_RegistrableDomain = (case dom of Some ev \<Rightarrow> dm_RegistrableDomain ev | None \<Rightarrow> []),
          av_SharedControlPlaneID = (case plane of Some ev \<Rightarrow> cp_ControlPlaneID ev | None \<Rightarrow> []),
          av_SharedControlClassification = (case plane of Some ev \<Rightarrow> cp_Classification ev | None \<Rightarrow> []),
          av_SharedControlSource = (case plane of Some ev \<Rightarrow> cp_Source ev | None \<Rightarrow> []),
          av_SharedControlReviewState = (case plane of Some ev \<Rightarrow> cp_ReviewState ev | None \<Rightarrow> [])\<rparr>)"

definition handleAntiConcentrationEvidenceRead :: "request \<Rightarrow> store \<Rightarrow> response" where
  "handleAntiConcentrationEvidenceRead r st =
     read_day ''/api/v1/anti-concentration-evidence/'' r
       (\<lambda>d. Evidence_Items d
         (filter (\<lambda>v. \<not> (av_OperatorGroupID v = [] \<and> av_RegistrableDomain v = [] \<and> av_SharedControlPlaneID v = []))
           (map (anti_concentration_of st d) (ListNodes st))))"

definition public_items :: "store \<Rightarrow> string \<Rightarrow> public_node_status_view list" where
  "public_items st d =
     (let rankingByNode = rankingIndex (ListRankingRecordsByDate st d);
          rewardByNode = rewardEligibilityIndex (ListRewardEligibilityRecordsByDate st d)
      in concat (map (\<lambda>n.
           case GetQualifiedDecisionRecord st (nd_NodeID n) d of
             None \<Rightarrow> []
           | Some decision \<Rightarrow>
               [buildPublicNodeStatusView (nd_NodeID n) d decision (index_ranking rankingByNode (nd_NodeID n))
                  (index_eligibility rewardByNode (nd_NodeID n))]) (ListNodes st)))"

definition handlePublicNodeStatusRead :: "request \<Rightarrow> store \<Rightarrow> response" where
  "handlePublicNodeStatusRead r st =
     read_day ''/api/v1/public-node-status/'' r (\<lambda>d. Public_Items d (public_items st d))"

text \<open>The two reads of a node's day take both from the path.\<close>

definition node_and_day :: "string \<Rightarrow> request \<Rightarrow> store \<Rightarrow> response + string \<times> string" where
  "node_and_day route r st =
     (if rq_Method r \<noteq> ''GET'' then Inl (fail 400 ''invalid_method'' ''invalid method'')
      else (case split_on (CHR ''/'') (trim_prefix (rq_Path r) route) of
        [p, q] \<Rightarrow>
          let nodeID = trim_space p; dateUTC = trim_space q
          in if nodeID = [] \<or> dateUTC = []
             then Inl (fail 400 ''missing_required_field'' ''missing node_id or date_utc'')
             else if parse_date dateUTC = None
             then Inl (fail 400 ''missing_required_field'' ''invalid date_utc'')
             else if GetNode st nodeID = None then Inl (fail 404 ''unknown_node_id'' ''unknown node'')
             else Inr (nodeID, dateUTC)
      | _ \<Rightarrow> Inl (fail 400 ''missing_required_field'' ''missing node_id or date_utc'')))"

definition handleOperatorNodeStatusRead :: "request \<Rightarrow> store \<Rightarrow> response" where
  "handleOperatorNodeStatusRead r st =
     (case node_and_day ''/api/v1/operator-node-status/'' r st of
        Inl resp \<Rightarrow> resp
      | Inr (nodeID, dateUTC) \<Rightarrow>
          (case GetQualifiedDecisionRecord st nodeID dateUTC of
             None \<Rightarrow> fail 404 ''missing_qualified_decision'' ''qualified decision not found''
           | Some decision \<Rightarrow>
               writeJSON 200 (Operator_Body
                 (buildOperatorNodeStatusView nodeID dateUTC decision
                   (index_ranking (rankingIndex (ListRankingRecordsByDate st dateUTC)) nodeID)
                   (index_eligibility
                     (rewardEligibilityIndex (ListRewardEligibilityRecordsByDate st dateUTC)) nodeID)))))"

definition handleDailyProbeSummary :: "request \<Rightarrow> store \<Rightarrow> response" where
  "handleDailyProbeSummary r st =
     (case node_and_day ''/api/v1/probes/daily-summaries/'' r st of
        Inl resp \<Rightarrow> resp
      | Inr (nodeID, dateUTC) \<Rightarrow>
          (case GetDailyQualificationSummary st nodeID dateUTC of
             None \<Rightarrow> fail 404 ''missing_daily_summary'' ''daily summary not found''
           | Some summary \<Rightarrow> writeJSON 200 (Summary_Body summary)))"

end
