(* ===== verification/Server.thy ===== *)
theory Server
  imports Handlers_Read
begin

text \<open>
  The portal as a whole: the routes of \<^verbatim>\<open>Handler\<close> (\<^verbatim>\<open>portal/internal/server/server.go\<close>), one request
  served at a time, the alert loop's scan between requests, and the states such a server can reach.
\<close>

section \<open>Routing\<close>

text \<open>
  \<^verbatim>\<open>http.ServeMux\<close>: a pattern that ends in a slash stands for the paths below it, any other for itself;
  a subtree named without its slash is redirected. (Paths that are not clean are redirected before
  they reach a handler, and no two patterns here match the same path.)
\<close>

datatype route =
    Policy | Challenges | Enroll | Heartbeat | Checks | Telemetry | Probe_Events | Daily_Summaries
  | Voting_Key | Decentralization | Domain | Control_Plane | Operator_Group
  | Rankings | Reward_Eligibility | Anti_Concentration | Reward_Allocations | Public_Status | Operator_Status

definition routes :: "(string \<times> route) list" where
  "routes =
     [(''/api/v1/agent/policy'', Policy),
      (''/api/v1/agent/enrollment-challenges'', Challenges),
      (''/api/v1/agent/enroll'', Enroll),
      (''/api/v1/agent/heartbeat'', Heartbeat),
      (''/api/v1/agent/checks'', Checks),
      (''/api/v1/agent/telemetry'', Telemetry),
      (''/api/v1/probes/events'', Probe_Events),
      (''/api/v1/probes/daily-summaries/'', Daily_Summaries),
      (''/api/v1/voting-key-evidence'', Voting_Key),
      (''/api/v1/decentralization-evidence'', Decentralization),
      (''/api/v1/domain-evidence'', Domain),
      (''/api/v1/shared-control-plane-evidence'', Control_Plane),
      (''/api/v1/operator-group-evidence'', Operator_Group),
      (''/api/v1/rankings/'', Rankings),
      (''/api/v1/reward-eligibility/'', Reward_Eligibility),
      (''/api/v1/anti-concentration-evidence/'', Anti_Concentration),
      (''/api/v1/reward-allocations/'', Reward_Allocations),
      (''/api/v1/public-node-status/'', Public_Status),
      (''/api/v1/operator-node-status/'', Operator_Status)]"

definition matches :: "string \<Rightarrow> string \<Rightarrow> bool" where
  "matches path pat \<longleftrightarrow> (if last pat = CHR ''/'' then has_prefix path pat else path = pat)"

definition route_of :: "string \<Rightarrow> route option" where
  "route_of path = map_option snd (find (\<lambda>(pat, _). matches path pat) routes)"

definition serve_route ::
    "'w env \<Rightarrow> clk \<Rightarrow> route \<Rightarrow> request \<Rightarrow> 'w server \<Rightarrow> 'w server \<times> response" where
  "serve_route e clk rt r s =
     (case rt of
        Policy \<Rightarrow> (s, handlePolicy e r (sv_store s))
      | Challenges \<Rightarrow> handleEnrollmentChallenge e clk r s
      | Enroll \<Rightarrow> handleEnroll e clk r s
      | Heartbeat \<Rightarrow> handleHeartbeat e clk r s
      | Checks \<Rightarrow> handleChecks e clk r s
      | Telemetry \<Rightarrow> handleTelemetry e clk r s
      | Probe_Events \<Rightarrow> handleProbeEvents e clk r s
      | Daily_Summaries \<Rightarrow> (s, handleDailyProbeSummary r (sv_store s))
      | Voting_Key \<Rightarrow> handleVotingKeyEvidence e clk r s
      | Decentralization \<Rightarrow> handleDecentralizationEvidence e clk r s
      | Domain \<Rightarrow> handleDomainEvidence e clk r s
      | Control_Plane \<Rightarrow> handleSharedControlPlaneEvidence e clk r s
      | Operator_Group \<Rightarrow> handleOperatorGroupEvidence e clk r s
      | Rankings \<Rightarrow> (s, handleRankingRead r (sv_store s))
      | Reward_Eligibility \<Rightarrow> (s, handleRewardEligibilityRead r (sv_store s))
      | Anti_Concentration \<Rightarrow> (s, handleAntiConcentrationEvidenceRead r (sv_store s))
      | Reward_Allocations \<Rightarrow> (s, handleRewardAllocationRead r (sv_store s))
      | Public_Status \<Rightarrow> (s, handlePublicNodeStatusRead r (sv_store s))
      | Operator_Status \<Rightarrow> (s, handleOperatorNodeStatusRead r (sv_store s)))"

definition Handler :: "'w env \<Rightarrow> clk \<Rightarrow> request \<Rightarrow> 'w server \<Rightarrow> 'w server \<times> response" where
  "Handler e clk r s =
     (case route_of (rq_Path r) of
        Some rt \<Rightarrow> serve_route e clk rt r s
      | None \<Rightarrow>
          (s, writeJSON (if list_ex (\<lambda>(pat, _). pat = rq_Path r @ ''/'') routes then 301 else 404) No_Body))"

end
