(* ===== verification/Portal_Steps.thy ===== *)
theory Portal_Steps
  imports Server
begin

text \<open>
  What one request, or one scan of the alert loop, can do to the store: a sequence of the primitive
  changes listed in \<open>change\<close>, each with what the handlers have checked before they make it. An
  invariant of the portal is then proved change by change (\<open>Portal_Invariants\<close>).
\<close>

definition known :: "store \<Rightarrow> string \<Rightarrow> bool" where
  "known st n \<longleftrightarrow> GetNode st n \<noteq> None"

lemma known_nodes: "st_nodes s' = st_nodes s \<Longrightarrow> known s' n \<longleftrightarrow> known s n"
  by (simp add: known_def GetNode_def)

text \<open>Every clock reading is a time the formats cover (years 0 to 9999).\<close>

definition clk_ok :: "clk \<Rightarrow> bool" where
  "clk_ok clk \<longleftrightarrow> (\<forall>x. in_era (clk x))"

definition alert_codes :: "string list" where
  "alert_codes =
     [alertHeartbeatStale, alertHeartbeatFailed, alertNodeOutage, alertFinalizedLag, ''portal_unreachable'',
      ''local_check_execution_failed'', ''voting_key_expiry_risk'', ''certificate_expiry_risk'']"

inductive change :: "'w env \<Rightarrow> store \<Rightarrow> store \<Rightarrow> bool" for e where
  Challenge: "known st n \<Longrightarrow> change e st (SaveEnrollmentChallenge (new_challenge (env_cfg e) t n) st)"
| Enroll: "enroll_check e clk r st = Inr el \<Longrightarrow> clk_ok clk \<Longrightarrow> change e st (enroll_store e clk el st)"
| Heartbeat: "heartbeat_check e clk r st = Inr (p, node) \<Longrightarrow> clk_ok clk \<Longrightarrow>
    change e st (heartbeat_store e p node st)"
| Check: "checks_check e clk r st = Inr ev \<Longrightarrow> change e st (fst (SaveCheckEvent ev st))"
| Probe: "probe_check e clk r st = Inr ev \<Longrightarrow> change e st (fst (SaveProbeEvent ev st))"
| Voting: "voting_key_check e clk r st = Inr ev \<Longrightarrow> change e st (fst (SaveVotingKeyEvidence ev st))"
| Group: "operator_group_check e clk r st = Inr og \<Longrightarrow> change e st (fst (SaveOperatorGroupEvidence og st))"
| Infra: "decentralization_check e clk r st = Inr dc \<Longrightarrow> change e st (fst (SaveDecentralizationEvidence dc st))"
| Dom: "domain_check e clk r st = Inr dm \<Longrightarrow> change e st (fst (SaveDomainEvidence dm st))"
| Plane: "control_plane_check e clk r st = Inr cp \<Longrightarrow> change e st (fst (SaveSharedControlPlaneEvidence cp st))"
| Flag: "known st (te_NodeID te) \<Longrightarrow> change e st (AddTelemetryEvent te st)"
| Day: "known st n \<Longrightarrow> no_nul d \<Longrightarrow> d \<noteq> [] \<Longrightarrow>
    change e st (rebuildRankings e clk d (artifacts_records e clk n d st))"
| Ranks: "no_nul d \<Longrightarrow> d \<noteq> [] \<Longrightarrow> change e st (rebuildRankings e clk d st)"
| Eligible: "no_nul d \<Longrightarrow> d \<noteq> [] \<Longrightarrow>
    change e st (rebuildRewardEligibility e clk d (ListRankingRecordsByDate st d) st)"
| Sent: "known st n \<Longrightarrow> c \<in> set alert_codes \<Longrightarrow> in_era now \<Longrightarrow> \<not> in_cooldown st n c now \<Longrightarrow>
    change e st (AddNotificationDelivery (sent_delivery n c o' rcpt now)
      (SaveAlertState (sent_state n c rcpt now) st))"
| Failed: "known st n \<Longrightarrow> dl_Status dl = ''failed'' \<Longrightarrow> dl_NodeID dl = n \<Longrightarrow> oe_NodeID oe = n \<Longrightarrow>
    change e st (AddOperationalEvent oe (AddNotificationDelivery dl st))"

abbreviation changes :: "'w env \<Rightarrow> store \<Rightarrow> store \<Rightarrow> bool" where
  "changes e \<equiv> (change e)\<^sup>*\<^sup>*"

lemma changes_trans: "changes e a b \<Longrightarrow> changes e b c \<Longrightarrow> changes e a c"
  by (rule rtranclp_trans)

lemma one_change: "change e a b \<Longrightarrow> changes e a b"
  by (rule r_into_rtranclp)

section \<open>Dates\<close>

lemma digit_not_nul: "is_digit c \<Longrightarrow> c \<noteq> CHR 0x00"
  by (auto simp: is_digit_def)

lemma zpad_no_nul: "CHR 0x00 \<notin> set (zpad w n)"
  using nat_digits_is_digit [of "nat \<bar>n\<bar>"] by (auto simp: zpad_def list_all_iff dest: digit_not_nul)

lemma format_day_no_nul: "no_nul (format_day t)" "format_day t \<noteq> []"
  by (auto simp: no_nul_def format_day_def format_date_def zpad_no_nul split: prod.split)

lemma datePart_no_nul: "datePart ts = Some d \<Longrightarrow> no_nul d \<and> d \<noteq> []"
  by (auto simp: datePart_def format_day_no_nul)

section \<open>Alerts\<close>

lemma notify_changes:
  assumes "known (sv_store s) n" and "c \<in> set alert_codes" and "in_era now"
  shows "changes e (sv_store s) (sv_store (fst (maybeNotifyAlert e n c o' now s)))"
proof (cases rule: notify_cases [of s n c now e o'])
  case quiet
  then show ?thesis by simp
next
  case (failed d oe)
  then show ?thesis using assms(1) by (auto intro!: one_change Failed)
next
  case sent
  then show ?thesis using assms by (auto intro!: one_change Sent)
qed

lemma known_alert_frame: "alert_frame s s' \<Longrightarrow> known s' n \<longleftrightarrow> known s n"
  by (intro known_nodes alert_frame_keeps(1))

lemma known_notify:
  "known (sv_store (fst (maybeNotifyAlert e n' c o' now s))) n \<longleftrightarrow> known (sv_store s) n"
  by (rule known_alert_frame) (rule alert_frame_notify)

lemma known_rank_frame: "ranking_frame s s' \<Longrightarrow> known s' n \<longleftrightarrow> known s n"
  by (intro known_nodes ranking_frame_keeps(1))

lemma nodes_artifacts_records: "st_nodes (artifacts_records e clk n d st) = st_nodes st"
  by (simp add: artifacts_records_def store_base_performance_def SaveBasePerformanceRecord_def
      DeleteBasePerformanceRecord_def SaveQualifiedDecisionRecord_def SaveDailyQualificationSummary_def
      split: option.split)

lemma artifacts_changes:
  assumes k: "known (sv_store s) n" and d: "no_nul d" "d \<noteq> []" and c: "clk_ok clk"
  shows "changes e (sv_store s) (sv_store (updateQualificationArtifacts e clk n d s))"
proof -
  obtain p q s4 A where u: "updateQualificationArtifacts e clk n d s =
      (if q then A alertFinalizedLag (if p then A alertNodeOutage s4 else s4)
       else (if p then A alertNodeOutage s4 else s4))"
    and s4: "sv_store s4 = rebuildRankings e clk d (artifacts_records e clk n d (sv_store s))"
    and A: "A = (\<lambda>c t. fst (maybeNotifyAlert e n c (format_rfc3339 (clk At_Artifacts)) (clk At_Artifacts) t))"
    by (rule artifacts_alerts)
  have day: "changes e (sv_store s) (sv_store s4)" unfolding s4 using k d by (intro one_change Day)
  have k4: "known (sv_store s4) n"
    unfolding s4 known_rank_frame [OF frame_rebuildRankings] known_nodes [OF nodes_artifacts_records] by (rule k)
  have step: "changes e (sv_store t) (sv_store (if b then A code t else t)) \<and>
      known (sv_store (if b then A code t else t)) n"
    if "known (sv_store t) n" "code \<in> set alert_codes" for b code t
    using that c by (cases b) (simp_all add: A clk_ok_def known_notify notify_changes)
  have codes: "alertNodeOutage \<in> set alert_codes" "alertFinalizedLag \<in> set alert_codes"
    by (simp_all add: alert_codes_def)
  define t where "t = (if p then A alertNodeOutage s4 else s4)"
  have 1: "changes e (sv_store s4) (sv_store t) \<and> known (sv_store t) n"
    unfolding t_def by (rule step [OF k4 codes(1)])
  then have 2: "changes e (sv_store t) (sv_store (if q then A alertFinalizedLag t else t))"
    using step [of t alertFinalizedLag q] codes(2) by blast
  from day 1 2 show ?thesis unfolding u t_def [symmetric] by (blast intro: changes_trans)
qed

section \<open>The handlers\<close>

lemma refresh_changes:
  assumes "known (sv_store s) n" and "clk_ok clk"
  shows "changes e (sv_store s) (sv_store (on_day_of ts (updateQualificationArtifacts e clk n) s))"
  using assms artifacts_changes [of s n _ clk e]
  by (auto simp: on_day_of_def dest!: datePart_no_nul split: option.split)

lemma challenge_check_Inr: "challenge_check r st = Inr n \<Longrightarrow> known st n"
  by (auto simp: challenge_check_def Let_def known_def split: sum.splits if_splits)

lemma heartbeat_check_Inr:
  assumes "heartbeat_check e clk r st = Inr (p, node)"
  shows "decode_heartbeat (rq_Body r) = Inr p" "GetNode st (hp_NodeID p) = Some node"
    "nd_AgentPublicKey node \<noteq> []" "hp_AgentKeyFingerprint p = nd_ActiveAgentKeyFingerprint node"
    "hp_EnrollmentGeneration p = nd_EnrollmentGeneration node"
    "validateTimestamp (env_cfg e) clk (hp_HeartbeatTimestamp p) = None"
    "VerifyHexPublicKeySignature (out_verify (env_out e)) (nd_AgentPublicKey node) (hp_Signature p)
       (heartbeat_canonical p) = None"
    "nd_LastHeartbeatSequence node < hp_SequenceNumber p" "rq_Method r = ''POST''"
  using assms by (auto simp: heartbeat_check_def split: sum.splits option.splits if_splits)

lemma checks_result_Inr:
  assumes "checks_result payload n i = Inr ev"
  shows "ck_NodeID ev = n" "ck_EventID ev = i" "ck_CheckedAt ev = stringField payload ''checked_at''"
    "ck_OverallPassed ev \<longleftrightarrow> (\<forall>k \<in> set check_bool_keys. boolField payload k = Some True)"
  using assms by (auto simp: checks_result_def list_all_iff split: option.splits if_splits)

lemma checks_check_passed:
  assumes "checks_check e clk r st = Inr ev"
  shows "\<exists>payload node. decodeObject (rq_Body r) = Inr payload
    \<and> GetNode st (stringField payload ''node_id'') = Some node \<and> authorizeMapPayload e node payload = None
    \<and> stringField payload ''event_id'' \<noteq> []
    \<and> validateTimestamp (env_cfg e) clk (stringField payload ''checked_at'') = None
    \<and> checks_result payload (stringField payload ''node_id'') (stringField payload ''event_id'') = Inr ev"
  using assms by (auto simp: checks_check_def Let_def split: sum.splits option.splits if_splits)

lemma checks_check_Inr:
  assumes "checks_check e clk r st = Inr ev"
  obtains payload node where "decodeObject (rq_Body r) = Inr payload"
    "GetNode st (ck_NodeID ev) = Some node" "authorizeMapPayload e node payload = None"
    "checks_result payload (ck_NodeID ev) (ck_EventID ev) = Inr ev"
    "validateTimestamp (env_cfg e) clk (ck_CheckedAt ev) = None"
    "stringField payload ''node_id'' = ck_NodeID ev" "ck_EventID ev \<noteq> []"
proof -
  from checks_check_passed [OF assms] obtain payload node where p:
    "decodeObject (rq_Body r) = Inr payload" "GetNode st (stringField payload ''node_id'') = Some node"
    "authorizeMapPayload e node payload = None" "stringField payload ''event_id'' \<noteq> []"
    "validateTimestamp (env_cfg e) clk (stringField payload ''checked_at'') = None"
    "checks_result payload (stringField payload ''node_id'') (stringField payload ''event_id'') = Inr ev"
    by blast
  show thesis by (rule that [OF p(1) _ p(3)]) (use p in \<open>simp_all add: checks_result_Inr [OF p(6)]\<close>)
qed

lemma telemetry_check_Inr:
  assumes "telemetry_check e clk r st = Inr (n, ts, flags)"
  obtains payload node where "decodeObject (rq_Body r) = Inr payload"
    "GetNode st n = Some node" "authorizeMapPayload e node payload = None"
    "stringField payload ''node_id'' = n" "flags \<noteq> []"
  using assms
  by (auto simp: telemetry_check_def Let_def split: sum.splits option.splits if_splits)

lemma voting_key_check_Inr:
  assumes "voting_key_check e clk r st = Inr ev"
  shows "known st (vk_NodeID ev) \<and> validateTimestamp (env_cfg e) clk (vk_ObservedAt ev) = None"
proof -
  have "passes (\<lambda>ev. known st (vk_NodeID ev) \<and> validateTimestamp (env_cfg e) clk (vk_ObservedAt ev) = None) (voting_key_check e clk r st)"
    unfolding voting_key_check_def Let_def by (intro passes_rules) (simp_all add: known_def)
  then show ?thesis using assms by (rule passesD)
qed

lemma operator_group_check_Inr:
  assumes "operator_group_check e clk r st = Inr ev"
  shows "known st (og_NodeID ev) \<and> validateTimestamp (env_cfg e) clk (og_ObservedAt ev) = None
    \<and> og_ReviewState ev \<in> set [''pending'', ''accepted'', ''rejected'']"
proof -
  have "passes (\<lambda>ev. known st (og_NodeID ev) \<and> validateTimestamp (env_cfg e) clk (og_ObservedAt ev) = None
    \<and> og_ReviewState ev \<in> set [''pending'', ''accepted'', ''rejected'']) (operator_group_check e clk r st)"
    unfolding operator_group_check_def Let_def by (intro passes_rules) (simp_all add: known_def validReviewState_def)
  then show ?thesis using assms by (rule passesD)
qed

lemma decentralization_check_Inr:
  assumes "decentralization_check e clk r st = Inr ev"
  shows "known st (dc_NodeID ev) \<and> validateTimestamp (env_cfg e) clk (dc_ObservedAt ev) = None
    \<and> 0 < dc_ASN ev \<and> dc_CountryCode ev \<noteq> []"
proof -
  have "passes (\<lambda>ev. known st (dc_NodeID ev) \<and> validateTimestamp (env_cfg e) clk (dc_ObservedAt ev) = None
    \<and> 0 < dc_ASN ev \<and> dc_CountryCode ev \<noteq> []) (decentralization_check e clk r st)"
    unfolding decentralization_check_def Let_def by (intro passes_rules) (simp_all add: known_def)
  then show ?thesis using assms by (rule passesD)
qed

lemma domain_check_Inr:
  assumes "domain_check e clk r st = Inr ev"
  shows "known st (dm_NodeID ev) \<and> validateTimestamp (env_cfg e) clk (dm_ObservedAt ev) = None"
proof -
  have "passes (\<lambda>ev. known st (dm_NodeID ev) \<and> validateTimestamp (env_cfg e) clk (dm_ObservedAt ev) = None) (domain_check e clk r st)"
    unfolding domain_check_def Let_def by (intro passes_rules) (simp_all add: known_def)
  then show ?thesis using assms by (rule passesD)
qed

lemma control_plane_check_Inr:
  assumes "control_plane_check e clk r st = Inr ev"
  shows "known st (cp_NodeID ev) \<and> validateTimestamp (env_cfg e) clk (cp_ObservedAt ev) = None
    \<and> cp_ReviewState ev \<in> set [''pending'', ''accepted'', ''rejected'']"
proof -
  have "passes (\<lambda>ev. known st (cp_NodeID ev) \<and> validateTimestamp (env_cfg e) clk (cp_ObservedAt ev) = None
    \<and> cp_ReviewState ev \<in> set [''pending'', ''accepted'', ''rejected'']) (control_plane_check e clk r st)"
    unfolding control_plane_check_def Let_def by (intro passes_rules) (simp_all add: known_def validReviewState_def)
  then show ?thesis using assms by (rule passesD)
qed

lemma probe_check_Inr:
  assumes "probe_check e clk r st = Inr ev"
  shows "known st (pe_NodeID ev) \<and> validateTimestamp (env_cfg e) clk (pe_ObservedAt ev) = None
    \<and> 0 < pe_MeasurementWindowSeconds ev
    \<and> (pe_AvailabilityUp ev \<longrightarrow> pe_FinalizedLagBlocks ev \<noteq> None \<and> pe_ChainLagBlocks ev \<noteq> None)"
proof -
  have "passes (\<lambda>ev. known st (pe_NodeID ev) \<and> validateTimestamp (env_cfg e) clk (pe_ObservedAt ev) = None
    \<and> 0 < pe_MeasurementWindowSeconds ev
    \<and> (pe_AvailabilityUp ev \<longrightarrow> pe_FinalizedLagBlocks ev \<noteq> None \<and> pe_ChainLagBlocks ev \<noteq> None)) (probe_check e clk r st)"
    unfolding probe_check_def Let_def by (intro passes_rules) (simp_all add: known_def probe_event_of_def)
  then show ?thesis using assms by (rule passesD)
qed

text \<open>A timestamp that passed its check has a day.\<close>

lemma valid_day: "validateTimestamp cfg clk ts = None \<Longrightarrow> datePart ts \<noteq> None"
  using validateTimestamp_parses by (auto simp: datePart_def)

lemma probe_day:
  assumes "probe_check e clk r st = Inr ev"
  shows "datePart (pe_ObservedAt ev) \<noteq> None"
  by (rule valid_day [OF probe_check_Inr [OF assms, THEN conjunct2, THEN conjunct1]])

lemma accept_changes:
  assumes save: "change e (sv_store s) (fst (save (sv_store s)))"
    and nodes: "st_nodes (fst (save (sv_store s))) = st_nodes (sv_store s)"
    and re: "\<And>d t. no_nul d \<Longrightarrow> d \<noteq> [] \<Longrightarrow> st_nodes (sv_store t) = st_nodes (sv_store s) \<Longrightarrow>
      changes e (sv_store t) (sv_store (recompute d t))"
  shows "changes e (sv_store s) (sv_store (fst (accept_evidence e save dup ts recompute ans s)))"
proof -
  obtain st b where sv: "save (sv_store s) = (st, b)" by (cases "save (sv_store s)") auto
  show ?thesis
  proof (cases b)
    case True
    let ?t = "on_store (\<lambda>_. st) s"
    have "changes e (sv_store ?t) (sv_store (on_day_of ts recompute ?t))"
      using re [of _ ?t] nodes by (auto simp: on_day_of_def sv dest!: datePart_no_nul split: option.split)
    moreover have "changes e (sv_store s) (sv_store ?t)" using save by (simp add: sv one_change)
    ultimately show ?thesis by (auto simp: accept_evidence_def sv True intro: changes_trans)
  qed (simp add: accept_evidence_def sv)
qed

lemma refresh_rankings_changes:
  "no_nul d \<Longrightarrow> d \<noteq> [] \<Longrightarrow> changes e (sv_store t) (sv_store (refresh_rankings e clk d t))"
  by (simp add: refresh_rankings_def one_change Ranks)

lemma refresh_eligibility_changes:
  "no_nul d \<Longrightarrow> d \<noteq> [] \<Longrightarrow> changes e (sv_store t) (sv_store (refresh_eligibility e clk d t))"
  by (simp add: refresh_eligibility_def one_change Eligible)

lemma save_nodes [simp]:
  "st_nodes (fst (SaveCheckEvent a s)) = st_nodes s" "st_nodes (fst (SaveProbeEvent b s)) = st_nodes s"
  "st_nodes (fst (SaveVotingKeyEvidence c s)) = st_nodes s"
  "st_nodes (fst (SaveOperatorGroupEvidence f s)) = st_nodes s"
  "st_nodes (fst (SaveDecentralizationEvidence g s)) = st_nodes s"
  "st_nodes (fst (SaveDomainEvidence h s)) = st_nodes s"
  "st_nodes (fst (SaveSharedControlPlaneEvidence i s)) = st_nodes s"
  "st_nodes (AddTelemetryEvent j s) = st_nodes s"
  by (simp_all add: SaveCheckEvent_def SaveProbeEvent_def SaveVotingKeyEvidence_def
      SaveOperatorGroupEvidence_def SaveDecentralizationEvidence_def SaveDomainEvidence_def
      SaveSharedControlPlaneEvidence_def AddTelemetryEvent_def Let_def)

lemma refresh_node_changes:
  assumes "known (sv_store s) n" "clk_ok clk" "no_nul d" "d \<noteq> []" "st_nodes (sv_store t) = st_nodes (sv_store s)"
  shows "changes e (sv_store t) (sv_store (refresh_node e clk n d t))"
  using assms known_nodes [OF assms(5)] by (simp add: refresh_node_def artifacts_changes)

lemma telemetry_changes:
  assumes "known (sv_store s) n" and "clk_ok clk"
  shows "changes e (sv_store s) (sv_store (fst (telemetry_loop e clk n ts i flags s)))"
  using assms(1)
proof (induction flags arbitrary: i s)
  case (Cons raw flags)
  show ?case
  proof (cases "isSupportedWarningCode (warning_code raw)")
    case True
    let ?c = "warning_code raw"
    let ?te = "\<lparr>te_NodeID = n, te_TelemetryTimestamp = ts, te_WarningCode = ?c\<rparr>"
    let ?s1 = "on_store (AddTelemetryEvent ?te) s"
    obtain s2 err where n: "maybeNotifyAlert e n ?c ts (clk (At_Flag i)) ?s1 = (s2, err)"
      by (cases "maybeNotifyAlert e n ?c ts (clk (At_Flag i)) ?s1") auto
    have k1: "known (sv_store ?s1) n" using Cons.prems by (simp add: known_def GetNode_def)
    have 1: "changes e (sv_store s) (sv_store ?s1)"
      using Cons.prems by (simp add: one_change Flag)
    have "?c \<in> set alert_codes" using True by (auto simp: isSupportedWarningCode_def alert_codes_def)
    then have 2: "changes e (sv_store ?s1) (sv_store s2)"
      using notify_changes [OF k1, of ?c "clk (At_Flag i)" e ts] assms(2) by (simp add: n clk_ok_def)
    have "known (sv_store s2) n" using known_notify [of e n ?c ts "clk (At_Flag i)" ?s1 n] k1 by (simp add: n)
    from Cons.IH [OF this, of "Suc i"] 1 2 show ?thesis
      by (cases err) (auto simp: True n Let_def intro: changes_trans)
  qed (simp add: Let_def)
qed simp

lemma serve_route_changes:
  assumes c: "clk_ok clk"
  shows "changes e (sv_store s) (sv_store (fst (serve_route e clk rt r s)))"
proof -
  note [simp] = serve_route_def
  show ?thesis
  proof (cases rt)
    case Challenges
    then show ?thesis
      by (auto simp: handleEnrollmentChallenge_def Let_def split: sum.split
          intro!: one_change Challenge dest: challenge_check_Inr)
  next
    case Enroll
    then show ?thesis
      by (auto simp: handleEnroll_def enroll_commit_def split: sum.split intro!: one_change change.Enroll c)
  next
    case Heartbeat
    show ?thesis
    proof (cases "heartbeat_check e clk r (sv_store s)")
      case (Inr pn)
      obtain p node where pn: "pn = (p, node)" by (cases pn)
      let ?t = "on_store (heartbeat_store e p node) s"
      note h = heartbeat_check_Inr [OF Inr [unfolded pn]]
      have "known (sv_store ?t) (hp_NodeID p)"
        using h(2) by (simp add: known_def GetNode_def heartbeat_store_def SaveHeartbeatEvent_def SaveNode_def
            map_get_put)
      from refresh_changes [OF this c] have
        "changes e (sv_store ?t) (sv_store (on_day_of (hp_HeartbeatTimestamp p)
           (updateQualificationArtifacts e clk (hp_NodeID p)) ?t))" .
      moreover have "changes e (sv_store s) (sv_store ?t)"
        using Inr c by (auto simp: pn intro!: one_change change.Heartbeat)
      ultimately show ?thesis
        by (auto simp: Heartbeat handleHeartbeat_def Inr pn intro: changes_trans)
    qed (simp add: Heartbeat handleHeartbeat_def)
  next
    case Checks
    show ?thesis
    proof (cases "checks_check e clk r (sv_store s)")
      case (Inr ev)
      obtain st b where sv: "SaveCheckEvent ev (sv_store s) = (st, b)"
        by (cases "SaveCheckEvent ev (sv_store s)") auto
      let ?t = "on_store (\<lambda>_. st) s"
      have "known (sv_store s) (ck_NodeID ev)"
        using Inr by (rule checks_check_Inr) (simp add: known_def)
      then have "known (sv_store ?t) (ck_NodeID ev)"
        using save_nodes(1) [of ev "sv_store s"] by (simp add: sv known_def GetNode_def)
      from refresh_changes [OF this c, of e] have
        "changes e (sv_store ?t) (sv_store (on_day_of (ck_CheckedAt ev)
           (updateQualificationArtifacts e clk (ck_NodeID ev)) ?t))" .
      moreover have "changes e (sv_store s) (sv_store ?t)"
        using change.Check [OF Inr] by (simp add: sv one_change)
      ultimately show ?thesis
        by (auto simp: Checks handleChecks_def Inr sv Let_def split: bool.split intro: changes_trans)
    qed (simp add: Checks handleChecks_def)
  next
    case Telemetry
    show ?thesis
    proof (cases "telemetry_check e clk r (sv_store s)")
      case (Inr x)
      obtain n ts flags where x: "x = (n, ts, flags)" by (cases x)
      have "known (sv_store s) n"
        using Inr unfolding x by (rule telemetry_check_Inr) (simp add: known_def)
      from telemetry_changes [OF this c, of e ts 0 flags] show ?thesis
        by (cases "telemetry_loop e clk n ts 0 flags s")
          (simp add: Telemetry handleTelemetry_def Inr x split: option.split)
    qed (simp add: Telemetry handleTelemetry_def)
  next
    case Probe_Events
    show ?thesis
    proof (cases "probe_check e clk r (sv_store s)")
      case (Inr ev)
      have "changes e (sv_store s) (sv_store (fst (accept_evidence e (SaveProbeEvent ev) dup (pe_ObservedAt ev)
          (refresh_node e clk (pe_NodeID ev)) ans s)))" for dup ans
        using probe_check_Inr [OF Inr] c
        by (intro accept_changes change.Probe [OF Inr] save_nodes refresh_node_changes [of s]) simp_all
      moreover obtain d where "datePart (pe_ObservedAt ev) = Some d" using probe_day [OF Inr] by blast
      ultimately show ?thesis by (simp add: Probe_Events handleProbeEvents_def Inr)
    qed (simp add: Probe_Events handleProbeEvents_def)
  next
    case Voting_Key
    show ?thesis
    proof (cases "voting_key_check e clk r (sv_store s)")
      case (Inr ev)
      then show ?thesis using voting_key_check_Inr [OF Inr]
        by (simp add: Voting_Key handleVotingKeyEvidence_def Inr)
          (intro accept_changes change.Voting [OF Inr] save_nodes refresh_node_changes [of s]; simp add: c)
    qed (simp add: Voting_Key handleVotingKeyEvidence_def)
  next
    case Decentralization
    then show ?thesis
      by (auto simp: handleDecentralizationEvidence_def split: sum.split
          intro!: accept_changes change.Infra refresh_rankings_changes)
  next
    case Domain
    then show ?thesis
      by (auto simp: handleDomainEvidence_def split: sum.split
          intro!: accept_changes change.Dom refresh_eligibility_changes)
  next
    case Control_Plane
    then show ?thesis
      by (auto simp: handleSharedControlPlaneEvidence_def split: sum.split
          intro!: accept_changes change.Plane refresh_eligibility_changes)
  next
    case Operator_Group
    then show ?thesis
      by (auto simp: handleOperatorGroupEvidence_def split: sum.split
          intro!: accept_changes change.Group refresh_eligibility_changes)
  qed simp_all
qed

lemma Handler_changes:
  "clk_ok clk \<Longrightarrow> changes e (sv_store s) (sv_store (fst (Handler e clk r s)))"
  by (simp add: Handler_def serve_route_changes split: option.split)

section \<open>Runs\<close>

text \<open>
  The states a server reaches from a given one: it serves a request, or the alert loop scans. The
  requests, the clock and the outside world's answers are arbitrary.
\<close>

inductive reach :: "'w env \<Rightarrow> 'w server \<Rightarrow> 'w server \<Rightarrow> bool" for e s where
  Start: "reach e s s"
| Request: "reach e s s' \<Longrightarrow> clk_ok clk \<Longrightarrow> reach e s (fst (Handler e clk r s'))"
| Scan: "reach e s s' \<Longrightarrow> in_era now \<Longrightarrow> reach e s (evaluateHeartbeatAlerts e now s')"

lemma evaluate_node_changes:
  assumes "known (sv_store s) (nd_NodeID node)" and "in_era now"
  shows "changes e (sv_store s) (sv_store (evaluate_node e now node s))"
  using assms by (auto simp: evaluate_node_def Let_def alert_codes_def split: option.split intro!: notify_changes)

lemma scan_changes:
  assumes "wf_store (sv_store s)" and "in_era now"
  shows "changes e (sv_store s) (sv_store (evaluateHeartbeatAlerts e now s))"
proof -
  have "changes e (sv_store t) (sv_store (fold (evaluate_node e now) ns t))"
    if "\<forall>n \<in> set ns. known (sv_store t) (nd_NodeID n)" for ns and t
    using that
  proof (induction ns arbitrary: t)
    case (Cons n ns)
    have 1: "changes e (sv_store t) (sv_store (evaluate_node e now n t))"
      using Cons.prems assms(2) by (intro evaluate_node_changes) simp_all
    have "known (sv_store (evaluate_node e now n t)) m \<longleftrightarrow> known (sv_store t) m" for m
      by (simp add: evaluate_node_def Let_def known_notify split: option.split)
    with Cons.IH [of "evaluate_node e now n t"] Cons.prems 1 show ?case
      by (auto intro: changes_trans)
  qed simp
  moreover have "\<forall>n \<in> set (ListNodes (sv_store s)). known (sv_store s) (nd_NodeID n)"
    using assms(1) keyed_map_vals [of nd_NodeID "st_nodes (sv_store s)"]
    by (auto simp: ListNodes_def known_def GetNode_def wf_store_def)
  ultimately show ?thesis unfolding evaluateHeartbeatAlerts_def by blast
qed

section \<open>Invariants of the store\<close>

text \<open>
  The contract of a store invariant: kept by every change, on a well-formed store. It then holds in
  every reachable state; \<open>wf_store\<close> is the first.
\<close>

locale store_invariant =
  fixes e :: "'w env" and inv :: "store \<Rightarrow> bool"
  assumes kept: "change e st st' \<Longrightarrow> wf_store st \<Longrightarrow> inv st \<Longrightarrow> inv st'"

lemma wf_change:
  assumes "change e st st'" and "wf_store st"
  shows "wf_store st'"
  using assms
proof (cases rule: change.cases)
  case (Enroll clk r el)
  then show ?thesis using assms(2) by (simp add: enroll_store_def wf_ops)
next
  case (Heartbeat clk r p node)
  then show ?thesis using assms(2) by (simp add: heartbeat_store_def wf_ops)
next
  case (Day n d clk)
  then show ?thesis using assms(2) by (simp add: rebuild_rankings_wf artifacts_records_wf)
next
  case (Ranks d clk)
  then show ?thesis using assms(2) by (simp add: rebuild_rankings_wf)
next
  case (Eligible d clk)
  then show ?thesis using assms(2) by (simp add: rebuild_eligibility_wf)
qed (simp_all add: wf_ops)

lemma wf_changes: "changes e st st' \<Longrightarrow> wf_store st \<Longrightarrow> wf_store st'"
  by (induction rule: rtranclp_induct) (simp_all add: wf_change)

lemma reach_changes:
  assumes "reach e s s'" and "wf_store (sv_store s)"
  shows "changes e (sv_store s) (sv_store s') \<and> wf_store (sv_store s')"
  using assms(1)
proof induction
  case (Request s' clk r)
  from Handler_changes [OF Request(2), of e s' r] Request.IH show ?case
    by (blast intro: changes_trans wf_changes)
next
  case (Scan s' now)
  from scan_changes [OF _ Scan(2), of s' e] Scan.IH show ?case
    by (blast intro: changes_trans wf_changes)
qed (simp add: assms(2))

context store_invariant begin

lemma changes_kept: "changes e st st' \<Longrightarrow> wf_store st \<Longrightarrow> inv st \<Longrightarrow> inv st'"
proof (induction rule: rtranclp_induct)
  case (step b c)
  then show ?case using kept wf_changes by blast
qed

lemma always:
  assumes "reach e s s'" and "wf_store (sv_store s)" and "inv (sv_store s)"
  shows "inv (sv_store s')"
  using reach_changes [OF assms(1,2)] changes_kept assms(2,3) by blast

end

interpretation well_formed: store_invariant e wf_store for e :: "'w env"
  by unfold_locales (rule wf_change)

end
