(* ===== verification/Portal_Invariants.thy ===== *)
theory Portal_Invariants
  imports Portal_Steps
begin

text \<open>
  Invariants of the portal's store, each proved change by change and lifted to every reachable state by
  the contract \<open>store_invariant\<close>: the node ids of all records are those of configured nodes (so that a
  saved state can be loaded again), the deliveries of an alert respect its cooldown, and the pair of
  enrollment generation and heartbeat sequence of a node never goes back.
\<close>

section \<open>Configured nodes\<close>

text \<open>The nodes themselves: no change adds or removes one.\<close>

lemma known_SaveNode: "known (SaveNode node st) n \<longleftrightarrow> n = nd_NodeID node \<or> known st n"
  by (auto simp: known_def GetNode_def SaveNode_def map_get_put)

lemma known_fields [simp]:
  "known (SaveEnrollmentChallenge c st) = known st"
  "known (fst (ConsumeEnrollmentChallenge i u st)) = known st"
  "known (SaveHeartbeatEvent h st) = known st" "known (AddTelemetryEvent te st) = known st"
  "known (AddNotificationDelivery dl st) = known st" "known (AddOperationalEvent oe st) = known st"
  "known (SaveAlertState al st) = known st"
  by (simp_all add: fun_eq_iff known_def GetNode_def SaveEnrollmentChallenge_def ConsumeEnrollmentChallenge_def
      SaveHeartbeatEvent_def AddTelemetryEvent_def AddNotificationDelivery_def AddOperationalEvent_def
      SaveAlertState_def Let_def split: option.split)

lemma known_save [simp]:
  "known (fst (SaveCheckEvent a st)) = known st" "known (fst (SaveProbeEvent b st)) = known st"
  "known (fst (SaveVotingKeyEvidence c st)) = known st" "known (fst (SaveOperatorGroupEvidence f st)) = known st"
  "known (fst (SaveDecentralizationEvidence g st)) = known st" "known (fst (SaveDomainEvidence h st)) = known st"
  "known (fst (SaveSharedControlPlaneEvidence i st)) = known st"
  by (simp_all add: fun_eq_iff known_def GetNode_def)

lemma node_id:
  assumes "wf_store st" and "GetNode st n = Some node"
  shows "nd_NodeID node = n"
  using assms keyed_map_get [of nd_NodeID "st_nodes st" n node] by (simp add: wf_store_def GetNode_def)

text \<open>What passed the guards of an enrollment.\<close>

lemma enroll_check_passed:
  assumes "enroll_check e clk r st = Inr el"
  shows "\<exists>payload challenge expiresAt. rq_Method r = ''POST'' \<and> decodeObject (rq_Body r) = Inr payload
    \<and> el_NodeID el = stringField payload ''node_id'' \<and> el_NodeID el \<noteq> []
    \<and> el_ChallengeID el = stringField payload ''enrollment_challenge_id''
    \<and> el_PublicKey el = stringField payload ''agent_public_key'' \<and> el_PublicKey el \<noteq> []
    \<and> GetNode st (el_NodeID el) = Some (el_Node el)
    \<and> GetEnrollmentChallenge st (el_ChallengeID el) = Some challenge
    \<and> ec_NodeID challenge = el_NodeID el \<and> trim_space (ec_UsedAt challenge) = []
    \<and> parse_rfc3339 (ec_ExpiresAt challenge) = Some expiresAt \<and> clk At_Enroll_Check < expiresAt
    \<and> FingerprintFromHexPublicKey (out_sha256 (env_out e)) (el_PublicKey el) = Inr (el_Fingerprint el)
    \<and> VerifyHexPublicKeySignature (out_verify (env_out e)) (el_PublicKey el)
        (stringField payload ''signature'') (CanonicalJSONWithoutSignature payload) = None"
proof -
  have "passes (\<lambda>el. \<exists>payload challenge expiresAt. rq_Method r = ''POST'' \<and> decodeObject (rq_Body r) = Inr payload
    \<and> el_NodeID el = stringField payload ''node_id'' \<and> el_NodeID el \<noteq> []
    \<and> el_ChallengeID el = stringField payload ''enrollment_challenge_id''
    \<and> el_PublicKey el = stringField payload ''agent_public_key'' \<and> el_PublicKey el \<noteq> []
    \<and> GetNode st (el_NodeID el) = Some (el_Node el)
    \<and> GetEnrollmentChallenge st (el_ChallengeID el) = Some challenge
    \<and> ec_NodeID challenge = el_NodeID el \<and> trim_space (ec_UsedAt challenge) = []
    \<and> parse_rfc3339 (ec_ExpiresAt challenge) = Some expiresAt \<and> clk At_Enroll_Check < expiresAt
    \<and> FingerprintFromHexPublicKey (out_sha256 (env_out e)) (el_PublicKey el) = Inr (el_Fingerprint el)
    \<and> VerifyHexPublicKeySignature (out_verify (env_out e)) (el_PublicKey el)
        (stringField payload ''signature'') (CanonicalJSONWithoutSignature payload) = None) (enroll_check e clk r st)"
    unfolding enroll_check_def Let_def by (intro passes_rules) (auto split: option.splits)
  then show ?thesis using assms by (rule passesD)
qed

lemma enroll_check_node: "enroll_check e clk r st = Inr el \<Longrightarrow> GetNode st (el_NodeID el) = Some (el_Node el)"
  by (drule enroll_check_passed) blast

lemma enrolled_node_id [simp]: "nd_NodeID (enrolled_node v now el) = nd_NodeID (el_Node el)"
  by (simp add: enrolled_node_def Let_def)

lemma nodes_rebuild [simp]:
  "st_nodes (rebuildRankings e clk d st) = st_nodes st"
  "st_nodes (rebuildRewardEligibility e clk d rks st) = st_nodes st"
  by (rule ranking_frame_keeps(1) [OF frame_rebuildRankings],
      rule ranking_frame_keeps(1) [OF frame_rebuildRewardEligibility])

lemma known_rebuild [simp]:
  "known (rebuildRankings e clk d st) = known st"
  "known (rebuildRewardEligibility e clk d rks st) = known st"
  "known (artifacts_records e clk n d st) = known st"
  by (simp_all add: fun_eq_iff known_def GetNode_def nodes_artifacts_records)

lemma known_change:
  assumes "change e st st'" and wf: "wf_store st"
  shows "known st' = known st"
  using assms(1)
proof (cases rule: change.cases)
  case (Enroll clk r el)
  have "known st (nd_NodeID (el_Node el))"
    using enroll_check_node [OF Enroll(2)] node_id [OF wf] by (simp add: known_def)
  then show ?thesis by (auto simp: fun_eq_iff Enroll(1) enroll_store_def known_SaveNode)
next
  case (Heartbeat clk r p node)
  have "known st (nd_NodeID node)"
    using heartbeat_check_Inr(2) [OF Heartbeat(2)] node_id [OF wf] by (simp add: known_def)
  then show ?thesis by (auto simp: fun_eq_iff Heartbeat(1) heartbeat_store_def known_SaveNode)
qed simp_all


section \<open>Records of configured nodes only\<close>

text \<open>A property of the node id of every record of the store.\<close>

definition owners_all :: "(string \<Rightarrow> bool) \<Rightarrow> store \<Rightarrow> bool" where
  "owners_all P st \<longleftrightarrow>
     list_all (P \<circ> ec_NodeID) (map_vals (st_challenges st)) \<and> list_all (P \<circ> ck_NodeID) (map_vals (st_checkEvents st)) \<and>
     list_all (P \<circ> hb_NodeID) (st_heartbeatEvents st) \<and> list_all (P \<circ> te_NodeID) (st_telemetryEvents st) \<and>
     list_all (P \<circ> pe_NodeID) (map_vals (st_probeEvents st)) \<and>
     list_all (P \<circ> ds_NodeID) (map_vals (st_dailySummaries st)) \<and>
     list_all (P \<circ> qd_NodeID) (map_vals (st_qualifiedDecisions st)) \<and>
     list_all (P \<circ> bp_NodeID) (map_vals (st_basePerformance st)) \<and>
     list_all (P \<circ> rk_NodeID) (map_vals (st_rankingRecords st)) \<and>
     list_all (P \<circ> re_NodeID) (map_vals (st_rewardEligibility st)) \<and>
     list_all (P \<circ> ra_NodeID) (map_vals (st_rewardAllocations st)) \<and>
     list_all (P \<circ> og_NodeID) (map_vals (st_operatorGroups st)) \<and>
     list_all (P \<circ> vk_NodeID) (map_vals (st_votingKeyEvidence st)) \<and>
     list_all (P \<circ> dc_NodeID) (map_vals (st_decentralization st)) \<and>
     list_all (P \<circ> dm_NodeID) (map_vals (st_domainEvidence st)) \<and>
     list_all (P \<circ> cp_NodeID) (map_vals (st_controlPlane st)) \<and>
     list_all (P \<circ> lt_NodeID) (map_vals (st_latestTelemetry st)) \<and>
     list_all (P \<circ> as_NodeID) (map_vals (st_alertStates st)) \<and>
     list_all (P \<circ> dl_NodeID) (st_deliveries st) \<and> list_all (P \<circ> oe_NodeID) (st_operational st)"

definition owned :: "store \<Rightarrow> bool" where
  "owned st \<longleftrightarrow> owners_all (known st) st"

lemma all_put: "list_all Q (map_vals m) \<Longrightarrow> Q v \<Longrightarrow> list_all Q (map_vals (map_put k v m))"
  using map_vals_put [of k v m] by (auto simp: list_all_iff)

lemma all_remove: "list_all Q (map_vals m) \<Longrightarrow> list_all Q (map_vals (map_remove k m))"
  using map_vals_remove [of k m] by (auto simp: list_all_iff)

lemma all_replace:
  "list_all Q (map_vals m) \<Longrightarrow> list_all Q rs \<Longrightarrow> list_all Q (map_vals (put_all key rs (filter R m)))"
  using map_vals_put_all [of key rs "filter R m"] map_vals_filter [of R m] by (auto simp: list_all_iff)

named_theorems owner_ops \<open>an operation on the store keeps a property of the owners\<close>

lemma owners_SaveEnrollmentChallenge [owner_ops]:
  "owners_all P st \<Longrightarrow> P (ec_NodeID c) \<Longrightarrow> owners_all P (SaveEnrollmentChallenge c st)"
  by (simp add: owners_all_def SaveEnrollmentChallenge_def all_put)

lemma owners_SaveNode [owner_ops]: "owners_all P st \<Longrightarrow> owners_all P (SaveNode node st)"
  by (simp add: owners_all_def SaveNode_def)

lemma owners_ConsumeEnrollmentChallenge [owner_ops]:
  assumes "owners_all P st"
  shows "owners_all P (fst (ConsumeEnrollmentChallenge i u st))"
proof (cases "map_get (st_challenges st) i")
  case (Some c)
  then have "c \<in> set (map_vals (st_challenges st))" by (auto simp: in_map_vals dest: map_of_SomeD)
  then have "P (ec_NodeID c)" using assms by (auto simp: owners_all_def list_all_iff)
  with assms show ?thesis by (simp add: owners_all_def ConsumeEnrollmentChallenge_def Some Let_def all_put)
qed (simp add: ConsumeEnrollmentChallenge_def assms)

lemma owners_SaveCheckEvent [owner_ops]:
  "owners_all P st \<Longrightarrow> P (ck_NodeID a) \<Longrightarrow> owners_all P (fst (SaveCheckEvent a st))"
  by (simp add: owners_all_def SaveCheckEvent_def all_put)

lemma owners_SaveHeartbeatEvent [owner_ops]:
  "owners_all P st \<Longrightarrow> P (hb_NodeID a) \<Longrightarrow> owners_all P (SaveHeartbeatEvent a st)"
  by (simp add: owners_all_def SaveHeartbeatEvent_def)

lemma owners_SaveProbeEvent [owner_ops]:
  "owners_all P st \<Longrightarrow> P (pe_NodeID a) \<Longrightarrow> owners_all P (fst (SaveProbeEvent a st))"
  by (simp add: owners_all_def SaveProbeEvent_def all_put)

lemma owners_SaveVotingKeyEvidence [owner_ops]:
  "owners_all P st \<Longrightarrow> P (vk_NodeID a) \<Longrightarrow> owners_all P (fst (SaveVotingKeyEvidence a st))"
  by (simp add: owners_all_def SaveVotingKeyEvidence_def all_put)

lemma owners_SaveOperatorGroupEvidence [owner_ops]:
  "owners_all P st \<Longrightarrow> P (og_NodeID a) \<Longrightarrow> owners_all P (fst (SaveOperatorGroupEvidence a st))"
  by (simp add: owners_all_def SaveOperatorGroupEvidence_def og_default_def all_put)

lemma owners_SaveDecentralizationEvidence [owner_ops]:
  "owners_all P st \<Longrightarrow> P (dc_NodeID a) \<Longrightarrow> owners_all P (fst (SaveDecentralizationEvidence a st))"
  by (simp add: owners_all_def SaveDecentralizationEvidence_def all_put)

lemma owners_SaveDomainEvidence [owner_ops]:
  "owners_all P st \<Longrightarrow> P (dm_NodeID a) \<Longrightarrow> owners_all P (fst (SaveDomainEvidence a st))"
  by (simp add: owners_all_def SaveDomainEvidence_def all_put)

lemma owners_SaveSharedControlPlaneEvidence [owner_ops]:
  "owners_all P st \<Longrightarrow> P (cp_NodeID a) \<Longrightarrow> owners_all P (fst (SaveSharedControlPlaneEvidence a st))"
  by (simp add: owners_all_def SaveSharedControlPlaneEvidence_def cp_default_def all_put)

lemma owners_AddTelemetryEvent [owner_ops]:
  "owners_all P st \<Longrightarrow> P (te_NodeID a) \<Longrightarrow> owners_all P (AddTelemetryEvent a st)"
  by (simp add: owners_all_def AddTelemetryEvent_def all_put)

lemma owners_SaveAlertState [owner_ops]:
  "owners_all P st \<Longrightarrow> P (as_NodeID a) \<Longrightarrow> owners_all P (SaveAlertState a st)"
  by (simp add: owners_all_def SaveAlertState_def all_put)

lemma owners_AddNotificationDelivery [owner_ops]:
  "owners_all P st \<Longrightarrow> P (dl_NodeID a) \<Longrightarrow> owners_all P (AddNotificationDelivery a st)"
  by (simp add: owners_all_def AddNotificationDelivery_def)

lemma owners_AddOperationalEvent [owner_ops]:
  "owners_all P st \<Longrightarrow> P (oe_NodeID a) \<Longrightarrow> owners_all P (AddOperationalEvent a st)"
  by (simp add: owners_all_def AddOperationalEvent_def)

lemma owners_SaveDailyQualificationSummary [owner_ops]:
  "owners_all P st \<Longrightarrow> P (ds_NodeID a) \<Longrightarrow> owners_all P (SaveDailyQualificationSummary a st)"
  by (simp add: owners_all_def SaveDailyQualificationSummary_def all_put)

lemma owners_SaveQualifiedDecisionRecord [owner_ops]:
  "owners_all P st \<Longrightarrow> P (qd_NodeID a) \<Longrightarrow> owners_all P (SaveQualifiedDecisionRecord a st)"
  by (simp add: owners_all_def SaveQualifiedDecisionRecord_def all_put)

lemma owners_SaveBasePerformanceRecord [owner_ops]:
  "owners_all P st \<Longrightarrow> P (bp_NodeID a) \<Longrightarrow> owners_all P (SaveBasePerformanceRecord a st)"
  by (simp add: owners_all_def SaveBasePerformanceRecord_def all_put)

lemma owners_DeleteBasePerformanceRecord [owner_ops]:
  "owners_all P st \<Longrightarrow> owners_all P (DeleteBasePerformanceRecord i d st)"
  by (simp add: owners_all_def DeleteBasePerformanceRecord_def all_remove)

text \<open>The records of a day: rankings come from the base records, the rewards from the rankings.\<close>

lemma owners_ReplaceRankings [owner_ops]:
  "owners_all P st \<Longrightarrow> list_all (P \<circ> rk_NodeID) rs \<Longrightarrow> owners_all P (ReplaceRankingRecordsForDate d rs st)"
  by (simp add: owners_all_def ReplaceRankingRecordsForDate_def all_replace)

lemma owners_ReplaceEligibility [owner_ops]:
  "owners_all P st \<Longrightarrow> list_all (P \<circ> re_NodeID) rs \<Longrightarrow> owners_all P (ReplaceRewardEligibilityRecordsForDate d rs st)"
  by (simp add: owners_all_def ReplaceRewardEligibilityRecordsForDate_def all_replace)

lemma owners_ReplaceAllocations [owner_ops]:
  "owners_all P st \<Longrightarrow> list_all (P \<circ> ra_NodeID) rs \<Longrightarrow> owners_all P (ReplaceRewardAllocationRecordsForDate d rs st)"
  by (simp add: owners_all_def ReplaceRewardAllocationRecordsForDate_def all_replace)

lemma list_all_map_eq: "map f xs = map g ys \<Longrightarrow> list_all (P \<circ> f) xs \<longleftrightarrow> list_all (P \<circ> g) ys"
  by (simp add: list.pred_map [symmetric])

lemma owners_rebuild_eligibility [owner_ops]:
  assumes "owners_all P st" and rks: "list_all (P \<circ> rk_NodeID) rks"
  shows "owners_all P (rebuildRewardEligibility e clk d rks st)"
proof -
  have "list_all (P \<circ> ra_NodeID) (allocation_records pool clk d rks el)" for pool el
    using rks by (auto simp: list_all_iff allocation_records_def band_allocations_def Let_def)
  moreover have "list_all (P \<circ> re_NodeID) (eligibility_records lower clk st d rks)" for lower
    using rks list_all_map_eq [OF eligibility_records_nodes(1)] by blast
  ultimately show ?thesis using assms
    by (simp add: rebuildRewardEligibility_def rebuildRewardAllocations_def Let_def owner_ops)
qed

lemma owners_rebuild_rankings [owner_ops]:
  assumes "owners_all P st"
  shows "owners_all P (rebuildRankings e clk d st)"
proof -
  have "list_all (P \<circ> bp_NodeID) (ranked_base st d)"
    using assms by (auto simp: list_all_iff owners_all_def ranked_base_facts ListBasePerformanceRecordsByDate_def)
  then have "list_all (P \<circ> rk_NodeID) (ranking_records clk st d)"
    using list_all_map_eq [OF ranking_records_nodes(1)] by blast
  then show ?thesis using assms by (simp add: rebuildRankings_def Let_def owner_ops)
qed

lemma owners_artifacts [owner_ops]:
  assumes "owners_all P st" and "P n"
  shows "owners_all P (artifacts_records e clk n d st)"
  using assms
  by (auto simp: artifacts_records_def store_base_performance_def owner_ops day_summary_fields day_decision_fields
      computeBase_fields split: option.split)

lemma owned_change:
  assumes "change e st st'" and wf: "wf_store st" and own: "owned st"
  shows "owned st'"
proof -
  have own: "owners_all (known st) st" using own by (simp add: owned_def)
  have k: "known st (hp_NodeID p)" if "heartbeat_check e clk r st = Inr (p, node)" for clk r p node
    using heartbeat_check_Inr(2) [OF that] by (simp add: known_def)
  have ck: "known st (ck_NodeID ev)" if "checks_check e clk r st = Inr ev" for clk r ev
    using that by (rule checks_check_Inr) (simp add: known_def)
  have "owners_all (known st) st'"
    using assms(1)
  proof (cases rule: change.cases)
    case (Challenge n t)
    then show ?thesis using own by (simp add: owner_ops new_challenge_def)
  next
    case (Enroll clk r el)
    then show ?thesis using own by (simp add: owner_ops enroll_store_def)
  next
    case (Heartbeat clk r p node)
    then show ?thesis using own k [OF Heartbeat(2)] by (simp add: owner_ops heartbeat_store_def)
  next
    case (Check clk r ev)
    then show ?thesis using own ck [OF Check(2)] by (simp add: owner_ops)
  next
    case (Probe clk r ev)
    then show ?thesis using own probe_check_Inr [OF Probe(2)] by (simp add: owner_ops)
  next
    case (Voting clk r ev)
    then show ?thesis using own voting_key_check_Inr [OF Voting(2)] by (simp add: owner_ops)
  next
    case (Group clk r ev)
    then show ?thesis using own operator_group_check_Inr [OF Group(2)] by (simp add: owner_ops)
  next
    case (Infra clk r ev)
    then show ?thesis using own decentralization_check_Inr [OF Infra(2)] by (simp add: owner_ops)
  next
    case (Dom clk r ev)
    then show ?thesis using own domain_check_Inr [OF Dom(2)] by (simp add: owner_ops)
  next
    case (Plane clk r ev)
    then show ?thesis using own control_plane_check_Inr [OF Plane(2)] by (simp add: owner_ops)
  next
    case (Eligible d clk)
    have "list_all (known st \<circ> rk_NodeID) (ListRankingRecordsByDate st d)"
      using own by (auto simp: owners_all_def ListRankingRecordsByDate_def list_all_iff)
    then show ?thesis using own by (simp add: Eligible owner_ops)
  qed (use own in \<open>simp_all add: owner_ops sent_state_def sent_delivery_def\<close>)
  with known_change [OF assms(1) wf] show ?thesis by (simp add: owned_def)
qed

interpretation records_owned: store_invariant e owned for e :: "'w env"
  by unfold_locales (rule owned_change)

section \<open>Alerts\<close>

text \<open>An alert whose severity has a cooldown, in any reachable state.\<close>

lemma alert_codes_no_nul: "c \<in> set alert_codes \<Longrightarrow> no_nul c"
  by (auto simp: alert_codes_def no_nul_def portal_consts)

lemma deliveries_rebuild [simp]:
  "st_deliveries (rebuildRankings e clk d st) = st_deliveries st"
  "st_deliveries (rebuildRewardEligibility e clk d rks st) = st_deliveries st"
  "st_alertStates (rebuildRankings e clk d st) = st_alertStates st"
  "st_alertStates (rebuildRewardEligibility e clk d rks st) = st_alertStates st"
  by (simp_all add: rebuildRankings_def rebuildRewardEligibility_def rebuildRewardAllocations_def Let_def
      ReplaceRankingRecordsForDate_def ReplaceRewardEligibilityRecordsForDate_def
      ReplaceRewardAllocationRecordsForDate_def)

lemma deliveries_artifacts [simp]:
  "st_deliveries (artifacts_records e clk n d st) = st_deliveries st"
  "st_alertStates (artifacts_records e clk n d st) = st_alertStates st"
  by (simp_all add: artifacts_records_def store_base_performance_def SaveBasePerformanceRecord_def
      DeleteBasePerformanceRecord_def SaveQualifiedDecisionRecord_def SaveDailyQualificationSummary_def
      split: option.split)

definition same_alerts :: "store \<Rightarrow> store \<Rightarrow> bool" where
  "same_alerts st st' \<longleftrightarrow> st_deliveries st' = st_deliveries st \<and> st_alertStates st' = st_alertStates st"

lemma same_alerts_ops [simp]:
  "same_alerts st (SaveEnrollmentChallenge c st)" "same_alerts st (fst (SaveCheckEvent a st))"
  "same_alerts st (fst (SaveProbeEvent b st))" "same_alerts st (fst (SaveVotingKeyEvidence v st))"
  "same_alerts st (fst (SaveOperatorGroupEvidence g st))" "same_alerts st (fst (SaveDecentralizationEvidence i st))"
  "same_alerts st (fst (SaveDomainEvidence h st))" "same_alerts st (fst (SaveSharedControlPlaneEvidence k st))"
  "same_alerts st (AddTelemetryEvent te st)" "same_alerts st (enroll_store e clk el st)"
  "same_alerts st (heartbeat_store e p node st)"
  "same_alerts st (rebuildRewardEligibility e clk d rks st)"
  "same_alerts st (rebuildRankings e clk d st)"
  "same_alerts st (rebuildRankings e clk d (artifacts_records e clk n d st))"
  by (simp_all add: same_alerts_def enroll_store_def heartbeat_store_def SaveEnrollmentChallenge_def
      ConsumeEnrollmentChallenge_def SaveNode_def SaveHeartbeatEvent_def SaveCheckEvent_def SaveProbeEvent_def
      SaveVotingKeyEvidence_def SaveOperatorGroupEvidence_def SaveDecentralizationEvidence_def
      SaveDomainEvidence_def SaveSharedControlPlaneEvidence_def AddTelemetryEvent_def Let_def
      split: option.split)

lemma log_ok_same: "same_alerts st st' \<Longrightarrow> log_ok st n c \<Longrightarrow> log_ok st' n c"
  by (simp add: same_alerts_def log_ok_def sent_log_def GetAlertState_def)

lemma log_ok_change:
  assumes "change e st st'" and ok: "log_ok st n c" and c: "no_nul c"
  shows "log_ok st' n c"
  using assms(1)
proof (cases rule: change.cases)
  case (Sent m c' now o' rcpt)
  then show ?thesis using log_ok_sent [OF ok c alert_codes_no_nul] by simp
next
  case (Failed m dl oe)
  then show ?thesis using ok by (simp add: log_ok_def)
qed (rule log_ok_same [OF _ ok], simp)+

interpretation alerts_ok: store_invariant e "\<lambda>st. \<forall>c \<in> set alert_codes. \<forall>n. log_ok st n c" for e :: "'w env"
  by unfold_locales (blast intro: log_ok_change alert_codes_no_nul)

section \<open>Generations and sequence numbers\<close>

text \<open>
  The position of a node: its enrollment generation and the sequence number of the last heartbeat
  accepted in it. It only moves forward.
\<close>

definition position :: "store \<Rightarrow> string \<Rightarrow> int \<times> int" where
  "position st n =
     (case GetNode st n of None \<Rightarrow> (0, 0)
      | Some node \<Rightarrow> (nd_EnrollmentGeneration node, nd_LastHeartbeatSequence node))"

definition before :: "int \<times> int \<Rightarrow> int \<times> int \<Rightarrow> bool" where
  "before a b \<longleftrightarrow> fst a < fst b \<or> fst a = fst b \<and> snd a < snd b"

lemma before_trans: "before a b \<Longrightarrow> before b c \<Longrightarrow> before a c"
  by (auto simp: before_def)

lemma before_irrefl [simp]: "\<not> before a a"
  by (simp add: before_def)

lemma nodes_ops [simp]:
  "st_nodes (SaveEnrollmentChallenge c st) = st_nodes st" "st_nodes (AddNotificationDelivery dl st) = st_nodes st"
  "st_nodes (AddOperationalEvent oe st) = st_nodes st" "st_nodes (SaveAlertState al st) = st_nodes st"
  "st_nodes (artifacts_records e clk n d st) = st_nodes st"
  by (simp_all add: nodes_artifacts_records SaveEnrollmentChallenge_def AddNotificationDelivery_def
      AddOperationalEvent_def SaveAlertState_def)

lemma position_same: "st_nodes st' = st_nodes st \<Longrightarrow> position st' n = position st n"
  by (simp add: position_def GetNode_def)

lemma position_change:
  assumes "change e st st'" and wf: "wf_store st"
  shows "position st n = position st' n \<or> before (position st n) (position st' n)"
  using assms(1)
proof (cases rule: change.cases)
  case (Enroll clk r el)
  have "GetNode st (el_NodeID el) = Some (el_Node el)" "nd_NodeID (el_Node el) = el_NodeID el"
    using enroll_check_node [OF Enroll(2)] node_id [OF wf] by simp_all
  then show ?thesis
    by (auto simp: position_def before_def Enroll(1) enroll_store_def GetNode_def SaveNode_def map_get_put
        ConsumeEnrollmentChallenge_def enrolled_node_def Let_def split: option.split)
next
  case (Heartbeat clk r p node)
  have "GetNode st (hp_NodeID p) = Some node" "nd_NodeID node = hp_NodeID p"
    "nd_LastHeartbeatSequence node < hp_SequenceNumber p"
    using heartbeat_check_Inr [OF Heartbeat(2)] node_id [OF wf] by simp_all
  then show ?thesis
    by (auto simp: position_def before_def Heartbeat(1) heartbeat_store_def GetNode_def SaveNode_def map_get_put
        SaveHeartbeatEvent_def split: option.split)
qed (rule disjI1, rule position_same [symmetric], simp)+

lemma position_changes:
  assumes "changes e st st'" and "wf_store st"
  shows "position st n = position st' n \<or> before (position st n) (position st' n)"
  using assms(1)
proof (induction rule: rtranclp_induct)
  case (step b c)
  have "wf_store b" using step.hyps(1) assms(2) by (rule wf_changes)
  from position_change [OF step.hyps(2) this, of n] step.IH show ?case by (auto intro: before_trans)
qed simp

end
