(* ===== verification/Server_Properties.thy ===== *)
theory Server_Properties
  imports Portal_Invariants Examples
begin

text \<open>
  What the portal promises its clients, request by request and over whole runs: refused requests and
  reads change nothing, an accepted write is saved before it is answered, a heartbeat is accepted once
  and only with the signature of the enrolled key, and the invariants of the store.
\<close>

section \<open>Shapes of the handlers\<close>

text \<open>A handler that acts on what its guards let through: it refuses and changes nothing, or persists.\<close>

definition guarded :: "'w env \<Rightarrow> 'w server \<Rightarrow> 'w server \<times> response \<Rightarrow> bool" where
  "guarded e s res \<longleftrightarrow> fst res = s \<or> (\<exists>a t. rs_Status a = 200 \<and> res = persist_and e a t)"

lemma guarded_intros [intro]:
  "guarded e s (s, resp)" "rs_Status a = 200 \<Longrightarrow> guarded e s (persist_and e a t)"
  by (auto simp: guarded_def)

lemma persist_and_status: "rs_Status a = 200 \<Longrightarrow> rs_Status (snd (persist_and e a t)) \<in> {200, 500}"
  by (simp add: persist_and_def split: prod.split option.split)

lemma guarded_refused: "guarded e s res \<Longrightarrow> rs_Status (snd res) \<notin> {200, 500} \<Longrightarrow> fst res = s"
  using persist_and_status by (fastforce simp: guarded_def)

lemma guarded_accept:
  "rs_Status ans = 200 \<Longrightarrow> guarded e s (accept_evidence e save dup ts re ans s)"
  by (auto simp: accept_evidence_def split: prod.split bool.split)

lemma evidence_answer_ok [simp]: "rs_Status (evidence_answer clk k i n) = 200"
  by (simp add: evidence_answer_def)

lemma serve_route_guarded:
  assumes "rt \<noteq> Telemetry"
  shows "guarded e s (serve_route e clk rt r s)"
proof (cases rt)
  case Probe_Events
  show ?thesis
  proof (cases "probe_check e clk r (sv_store s)")
    case (Inr ev)
    obtain d where "datePart (pe_ObservedAt ev) = Some d" using probe_day [OF Inr] by blast
    with Inr show ?thesis
      by (simp add: serve_route_def Probe_Events handleProbeEvents_def guarded_accept)
  qed (auto simp: serve_route_def Probe_Events handleProbeEvents_def)
qed (use assms in \<open>auto simp: serve_route_def handleEnrollmentChallenge_def handleEnroll_def enroll_commit_def
      handleHeartbeat_def handleChecks_def handleVotingKeyEvidence_def handleDecentralizationEvidence_def
      handleDomainEvidence_def handleSharedControlPlaneEvidence_def handleOperatorGroupEvidence_def Let_def
      guarded_accept split: sum.split prod.split bool.split\<close>)

lemma Handler_guarded:
  assumes "route_of (rq_Path r) \<noteq> Some Telemetry"
  shows "guarded e s (Handler e clk r s)"
  using assms by (auto simp: Handler_def split: option.split intro: serve_route_guarded)

text \<open>The statuses of a refusal.\<close>

definition refusal :: "response \<Rightarrow> bool" where
  "refusal resp \<longleftrightarrow> rs_Status resp \<in> {400, 401, 404, 409}"

lemma refusal_error [simp]:
  "refusal (writeError st c err) \<longleftrightarrow> st \<in> {400, 401, 404, 409}" "refusal (auth_failure err)"
  using auth_failure_status [of err] by (auto simp: refusal_def)

lemma checks_result_refusal: "checks_result payload n i = Inl resp \<Longrightarrow> refusal resp"
  by (auto simp: checks_result_def split: option.splits if_splits)

lemma checks_result_refuses: "refuses refusal (checks_result payload n i)"
  using checks_result_refusal by (auto simp: refuses_def)

lemma lag_fields_refusal: "lag_fields payload ks = Inl resp \<Longrightarrow> refusal resp"
  by (induction ks) (auto split: sum.splits if_splits simp: map_sum_def)

lemma challenge_refuses: "refuses refusal (challenge_check r st)"
  unfolding challenge_check_def Let_def by (intro refuses_rules) (simp_all)

lemma enroll_refuses: "refuses refusal (enroll_check e clk r st)"
  unfolding enroll_check_def Let_def by (intro refuses_rules) (simp_all)

lemma heartbeat_refuses: "refuses refusal (heartbeat_check e clk r st)"
  unfolding heartbeat_check_def Let_def by (intro refuses_rules) (simp_all)

lemma checks_refuses: "refuses refusal (checks_check e clk r st)"
  unfolding checks_check_def Let_def by (intro refuses_rules checks_result_refuses) (simp_all)

lemma telemetry_refuses: "refuses refusal (telemetry_check e clk r st)"
  unfolding telemetry_check_def Let_def by (intro refuses_rules) (simp_all)

lemma voting_key_refuses: "refuses refusal (voting_key_check e clk r st)"
  unfolding voting_key_check_def Let_def by (intro refuses_rules) (simp_all)

lemma operator_group_refuses: "refuses refusal (operator_group_check e clk r st)"
  unfolding operator_group_check_def Let_def by (intro refuses_rules) (simp_all)

lemma decentralization_refuses: "refuses refusal (decentralization_check e clk r st)"
  unfolding decentralization_check_def Let_def by (intro refuses_rules) (simp_all)

lemma domain_refuses: "refuses refusal (domain_check e clk r st)"
  unfolding domain_check_def Let_def by (intro refuses_rules) (simp_all)

lemma control_plane_refuses: "refuses refusal (control_plane_check e clk r st)"
  unfolding control_plane_check_def Let_def by (intro refuses_rules) (simp_all)

lemma probe_refuses: "refuses refusal (probe_check e clk r st)"
  unfolding probe_check_def Let_def by (intro refuses_rules) (simp_all add: lag_fields_refusal del: lag_fields.simps)

lemmas challenge_refusal = refusesD [OF challenge_refuses]
lemmas enroll_refusal = refusesD [OF enroll_refuses]
lemmas heartbeat_refusal = refusesD [OF heartbeat_refuses]
lemmas checks_refusal = refusesD [OF checks_refuses]
lemmas telemetry_refusal = refusesD [OF telemetry_refuses]
lemmas voting_key_refusal = refusesD [OF voting_key_refuses]
lemmas operator_group_refusal = refusesD [OF operator_group_refuses]
lemmas decentralization_refusal = refusesD [OF decentralization_refuses]
lemmas domain_refusal = refusesD [OF domain_refuses]
lemmas control_plane_refusal = refusesD [OF control_plane_refuses]
lemmas probe_refusal = refusesD [OF probe_refuses]

lemmas check_refusal = challenge_refusal enroll_refusal heartbeat_refusal checks_refusal telemetry_refusal
  voting_key_refusal operator_group_refusal decentralization_refusal domain_refusal control_plane_refusal probe_refusal

lemma telemetry_loop_refusal:
  "telemetry_loop e clk n ts i flags s = (s', Some resp) \<Longrightarrow> rs_Status resp \<in> {400, 500}"
  by (induction e clk n ts i flags s rule: telemetry_loop.induct)
    (auto simp: Let_def split: if_splits prod.splits option.splits)

section \<open>An example portal\<close>

text \<open>Node \<open>a\<close> is enrolled with a key (32 bytes), in generation 1.\<close>

definition ex_key :: string where "ex_key = replicate 64 CHR ''0''"

definition ex_agent :: node where
  "ex_agent = (ex_node ''a'')\<lparr>nd_AgentPublicKey := ex_key, nd_ActiveAgentKeyFingerprint := ''f'',
     nd_EnrollmentGeneration := 1\<rparr>"

definition ex_portal :: "(recorder \<times> store option) server" where
  "ex_portal = \<lparr>sv_store = SaveNode ex_agent (New_Store [ex_node ''b'']),
     sv_world = (\<lparr>rc_Notifications = [], rc_Err = None\<rparr>, None)\<rparr>"

definition ex_post :: "string \<Rightarrow> (string \<times> json) list \<Rightarrow> request" where
  "ex_post path kvs = \<lparr>rq_Method = ''POST'', rq_Path = path, rq_Query = [], rq_Body = Document (JObj kvs)\<rparr>"

definition ex_beat :: "string \<Rightarrow> request" where
  "ex_beat k = ex_post ''/api/v1/agent/heartbeat''
     [(''node_id'', JStr ''a''), (''agent_key_fingerprint'', JStr ''f''),
      (''heartbeat_timestamp'', JStr ''2026-04-07T11:00:00Z''), (''sequence_number'', JNum k),
      (''enrollment_generation'', JNum ''1''), (''signature'', JStr ''00'')]"

lemma ex_portal_wf: "wf_store (sv_store ex_portal)"
  unfolding ex_portal_def by (simp add: wf_ops)

lemma ex_clk_ok: "clk_ok ex_clk"
  by (simp add: clk_ok_def ex_clk_def ex_now_def in_era_def second_def)

text \<open>In the example world every save succeeds.\<close>

lemma ex_saves [simp]: "snd (persist_and ex_env a t) = a"
  by (simp add: persist_and_def persist_def ex_env_def ex_outside_def)

lemma heartbeat_route [simp]: "route_of ''/api/v1/agent/heartbeat'' = Some Heartbeat"
  by code_simp

lemma ex_beat_path [simp]: "rq_Path (ex_beat k) = ''/api/v1/agent/heartbeat''"
  by (simp add: ex_beat_def ex_post_def)

lemma char_of_zero: "char_of (0 :: nat) = CHR 0x00"
  by code_simp

text \<open>Keys and signatures of the example: any hexadecimal text is a good signature.\<close>

lemma hex_decode_replicate:
  "hex_value c = Some v \<Longrightarrow> hex_decode (replicate (2 * n) c) = Inr (replicate n (char_of (16 * v + v)))"
  by (induction n) simp_all

lemma ex_key_decode: "hex_decode ex_key = Inr (replicate 32 CHR 0x00)"
  using hex_decode_replicate [of "CHR ''0''" 0 32] by (simp add: ex_key_def hex_value_def is_digit_def byte_def char_of_zero)

lemma ex_verify:
  "hex_decode k = Inr key \<Longrightarrow> length key = 32 \<Longrightarrow> hex_decode sg = Inr b \<Longrightarrow>
    VerifyHexPublicKeySignature (out_verify (env_out ex_env)) k sg d = None"
  by (simp add: VerifyHexPublicKeySignature_def ex_env_def ex_outside_def)

lemma ex_sig_decode: "hex_decode ''00'' = Inr [CHR 0x00]"
  using hex_decode_replicate [of "CHR ''0''" 0 1] by (simp add: hex_value_def is_digit_def byte_def numeral_2_eq_2 char_of_zero)

lemma fold_names [simp]:
  "fold_name ''node_id'' = ''node_id''" "fold_name ''agent_key_fingerprint'' = ''agent_key_fingerprint''"
  "fold_name ''heartbeat_timestamp'' = ''heartbeat_timestamp''" "fold_name ''sequence_number'' = ''sequence_number''"
  "fold_name ''enrollment_generation'' = ''enrollment_generation''" "fold_name ''signature'' = ''signature''"
  by code_simp+

definition ex_payload :: "int \<Rightarrow> heartbeat_payload" where
  "ex_payload n = zero_heartbeat\<lparr>hp_NodeID := ''a'', hp_AgentKeyFingerprint := ''f'',
     hp_HeartbeatTimestamp := ''2026-04-07T11:00:00Z'', hp_SequenceNumber := n, hp_EnrollmentGeneration := 1,
     hp_Signature := ''00''\<rparr>"

lemma set_member_simps:
  "set_member (''node_id'', JStr x) p = Inr (p\<lparr>hp_NodeID := x\<rparr>)"
  "set_member (''agent_key_fingerprint'', JStr x) p = Inr (p\<lparr>hp_AgentKeyFingerprint := x\<rparr>)"
  "set_member (''heartbeat_timestamp'', JStr x) p = Inr (p\<lparr>hp_HeartbeatTimestamp := x\<rparr>)"
  "parse_int64 k = Some n \<Longrightarrow> set_member (''sequence_number'', JNum k) p = Inr (p\<lparr>hp_SequenceNumber := n\<rparr>)"
  "parse_int64 k = Some n \<Longrightarrow> set_member (''enrollment_generation'', JNum k) p = Inr (p\<lparr>hp_EnrollmentGeneration := n\<rparr>)"
  "set_member (''signature'', JStr x) p = Inr (p\<lparr>hp_Signature := x\<rparr>)"
  by (simp_all add: set_member_def string_value_def int_value_def del: fold_name.simps)

lemma ex_beat_payload:
  assumes "parse_int64 k = Some n"
  shows "decode_heartbeat (rq_Body (ex_beat k)) = Inr (ex_payload n)"
proof -
  have "parse_int64 ''1'' = Some 1" by code_simp
  with assms show ?thesis
    by (simp add: ex_beat_def ex_post_def decode_heartbeat_def ex_payload_def set_member_simps)
qed

lemma ex_on_time: "validateTimestamp (env_cfg ex_env) ex_clk ''2026-04-07T11:00:00Z'' = None"
  by code_simp

lemma ex_beat_check:
  assumes "parse_int64 k = Some n" and "GetNode st ''a'' = Some ex_agent"
  shows "heartbeat_check ex_env ex_clk (ex_beat k) st =
    (if n \<le> 0 then Inl (fail 409 ''stale_sequence'' ''sequence number must be strictly increasing'')
     else Inr (ex_payload n, ex_agent))"
proof -
  have p: "hp_NodeID (ex_payload n) = ''a''" "hp_AgentKeyFingerprint (ex_payload n) = ''f''"
    "hp_HeartbeatTimestamp (ex_payload n) = ''2026-04-07T11:00:00Z''" "hp_SequenceNumber (ex_payload n) = n"
    "hp_EnrollmentGeneration (ex_payload n) = 1" "hp_Signature (ex_payload n) = ''00''"
    by (simp_all add: ex_payload_def)
  have a: "nd_AgentPublicKey ex_agent = ex_key" "ex_key \<noteq> []" "nd_ActiveAgentKeyFingerprint ex_agent = ''f''"
    "nd_EnrollmentGeneration ex_agent = 1" "nd_LastHeartbeatSequence ex_agent = 0"
    by (simp_all add: ex_agent_def ex_key_def ex_node_def zero_node_def)
  have m: "rq_Method (ex_beat k) = ''POST''" by (simp add: ex_beat_def ex_post_def)
  show ?thesis
    using ex_verify [OF ex_key_decode _ ex_sig_decode]
    by (simp add: heartbeat_check_def m ex_beat_payload [OF assms(1)] p a assms(2) ex_on_time)
qed

lemma ex_portal_agent: "GetNode (sv_store ex_portal) ''a'' = Some ex_agent"
  by (simp add: ex_portal_def GetNode_def SaveNode_def ex_agent_def ex_node_def)

lemma ex_seven: "parse_int64 ''7'' = Some 7" and ex_zero: "parse_int64 ''0'' = Some 0"
  by code_simp+

lemma ex_beat_ok: "rs_Status (snd (Handler ex_env ex_clk (ex_beat ''7'') ex_portal)) = 200"
  by (simp add: Handler_def serve_route_def handleHeartbeat_def ex_beat_check [OF ex_seven ex_portal_agent])

section \<open>Requests\<close>

text \<open>
  C9: a refused request changes nothing. When any route but telemetry answers anything but 200 or 500,
  the server is as before: no record, no file, no mail.
\<close>

theorem refused_unchanged:
  assumes "route_of (rq_Path r) \<noteq> Some Telemetry" and "rs_Status (snd (Handler e clk r s)) \<notin> {200, 500}"
  shows "fst (Handler e clk r s) = s"
  using guarded_refused [OF Handler_guarded [OF assms(1)] assms(2)] .

theorem refused_unchanged_witness:
  "fst (Handler ex_env ex_clk (ex_beat ''0'') ex_portal) = ex_portal"
proof -
  have "rs_Status (snd (Handler ex_env ex_clk (ex_beat ''0'') ex_portal)) = 409"
    by (simp add: Handler_def serve_route_def handleHeartbeat_def ex_beat_check [OF ex_zero ex_portal_agent])
  then show ?thesis using refused_unchanged [of "ex_beat ''0''" ex_env ex_clk ex_portal] by simp
qed

lemma check_method:
  assumes "rq_Method r \<noteq> ''POST''"
  shows "\<exists>x. challenge_check r st = Inl x" "\<exists>x. enroll_check e clk r st = Inl x"
    "\<exists>x. heartbeat_check e clk r st = Inl x" "\<exists>x. checks_check e clk r st = Inl x"
    "\<exists>x. telemetry_check e clk r st = Inl x" "\<exists>x. voting_key_check e clk r st = Inl x"
    "\<exists>x. operator_group_check e clk r st = Inl x" "\<exists>x. decentralization_check e clk r st = Inl x"
    "\<exists>x. domain_check e clk r st = Inl x" "\<exists>x. control_plane_check e clk r st = Inl x"
    "\<exists>x. probe_check e clk r st = Inl x"
  using assms by (simp_all add: challenge_check_def enroll_check_def heartbeat_check_def checks_check_def
      telemetry_check_def voting_key_check_def operator_group_check_def decentralization_check_def
      domain_check_def control_plane_check_def probe_check_def)

text \<open>
  Reading is free of effects. A request whose method is not POST leaves the server as it is, on
  every path.
\<close>

theorem reads_pure:
  assumes "rq_Method r \<noteq> ''POST''"
  shows "fst (Handler e clk r s) = s"
proof (cases "route_of (rq_Path r)")
  case (Some rt)
  show ?thesis
    using check_method(1) [OF assms, of "sv_store s"] check_method(2-11) [OF assms, of e clk "sv_store s"]
    by (cases rt) (auto simp: Handler_def Some serve_route_def handleEnrollmentChallenge_def handleEnroll_def
      handleHeartbeat_def handleChecks_def handleTelemetry_def handleProbeEvents_def handleVotingKeyEvidence_def
      handleDecentralizationEvidence_def handleDomainEvidence_def handleSharedControlPlaneEvidence_def
      handleOperatorGroupEvidence_def)
qed (simp add: Handler_def)

theorem reads_pure_witness:
  "fst (Handler ex_env ex_clk (ex_beat ''7''\<lparr>rq_Method := ''GET''\<rparr>) ex_portal) = ex_portal"
  by (rule reads_pure) simp

text \<open>
  C10: an accepted write is durable. When a POST is answered 200, the store as it now is has just been
  written to the state file without an error.
\<close>

theorem accepted_is_saved:
  assumes "rq_Method r = ''POST''" and "rs_Status (snd (Handler e clk r s)) = 200"
  shows "saved e (fst (Handler e clk r s))"
proof -
  have p: "rs_Status (snd (persist_and e a t)) = 200 \<Longrightarrow> saved e (fst (persist_and e a t))" for a t
    using persist_and_saved [of e a t] by (cases "persist_and e a t") auto
  have acc: "rs_Status (snd (accept_evidence e save dup ts re ans t)) = 200 \<Longrightarrow> rs_Status dup \<noteq> 200 \<Longrightarrow>
      saved e (fst (accept_evidence e save dup ts re ans t))" for save dup ts re ans t
    using p by (auto simp: accept_evidence_def split: prod.splits bool.splits)
  have bad: "refusal resp \<Longrightarrow> rs_Status resp \<noteq> 200" for resp by (auto simp: refusal_def)
  obtain rt where rt: "route_of (rq_Path r) = Some rt"
    using assms(2) by (cases "route_of (rq_Path r)") (simp_all add: Handler_def split: if_splits)
  have ok: "rs_Status (snd (serve_route e clk rt r s)) = 200" using assms(2) by (simp add: Handler_def rt)
  have "saved e (fst (serve_route e clk rt r s))"
    using ok assms(1)
    by (cases rt) (auto simp: serve_route_def handlePolicy_def handleEnrollmentChallenge_def handleEnroll_def
      enroll_commit_def handleHeartbeat_def handleChecks_def handleTelemetry_def handleProbeEvents_def
      handleVotingKeyEvidence_def handleDecentralizationEvidence_def handleDomainEvidence_def
      handleSharedControlPlaneEvidence_def handleOperatorGroupEvidence_def handleDailyProbeSummary_def
      handleRankingRead_def handleRewardEligibilityRead_def handleRewardAllocationRead_def
      handleAntiConcentrationEvidenceRead_def handlePublicNodeStatusRead_def handleOperatorNodeStatusRead_def
      read_day_def node_and_day_def Let_def
      dest!: check_refusal telemetry_loop_refusal bad intro!: p acc
      split: sum.splits prod.splits bool.splits option.splits if_splits)
  then show ?thesis by (simp add: Handler_def rt)
qed

theorem accepted_is_saved_witness:
  "saved ex_env (fst (Handler ex_env ex_clk (ex_beat ''7'') ex_portal))"
  by (rule accepted_is_saved [OF _ ex_beat_ok]) (simp add: ex_beat_def ex_post_def)

end
