(* ===== verification/Server_Runs.thy ===== *)
theory Server_Runs
  imports Server_Properties
begin

text \<open>
  Properties of whole runs of the portal: the invariants of the store in every reachable state, and the
  agent's protocol (enrollment by a challenge, signed heartbeats in sequence).
\<close>

section \<open>Invariants\<close>

text \<open>
  In every state the portal reaches from its configured nodes, whatever it is asked and whatever
  the clock says, the store is well formed (each record under its key), every record is of a
  configured node, and the configured nodes are the ones it started with.
\<close>

theorem reachable_store_ok:
  assumes "reach e s s'" and "sv_store s = New_Store nodes"
  shows "wf_store (sv_store s') \<and> owned (sv_store s')
    \<and> (\<forall>n. known (sv_store s') n \<longleftrightarrow> known (New_Store nodes) n)"
proof -
  have wf: "wf_store (sv_store s)" using assms(2) by (simp add: wf_ops)
  have own: "owned (sv_store s)" by (simp add: assms(2) owned_def owners_all_def New_Store_def)
  have ch: "changes e (sv_store s) (sv_store s')" using reach_changes [OF assms(1) wf] by simp
  have "known (sv_store s') = known (sv_store s)"
    using ch
  proof (induction rule: rtranclp_induct)
    case (step b c)
    from known_change [OF step.hyps(2) wf_changes [OF step.hyps(1) wf]] step.IH show ?case by simp
  qed simp
  then show ?thesis
    using well_formed.always [OF assms(1) wf wf] records_owned.always [OF assms(1) wf own] assms(2) by simp
qed

definition ex_start :: "(recorder \<times> store option) server" where
  "ex_start = ex_portal\<lparr>sv_store := New_Store [ex_agent, ex_node ''b'']\<rparr>"

lemma ex_run:
  "reach ex_env ex_start (evaluateHeartbeatAlerts ex_env ex_now (fst (Handler ex_env ex_clk (ex_beat ''7'') ex_start)))"
  using ex_clk_ok by (intro reach.intros) (simp_all add: clk_ok_def ex_clk_def)

lemma ex_start_store: "sv_store ex_start = New_Store [ex_agent, ex_node ''b'']"
  by (simp add: ex_start_def)

theorem reachable_store_ok_witness:
  "owned (sv_store (evaluateHeartbeatAlerts ex_env ex_now (fst (Handler ex_env ex_clk (ex_beat ''7'') ex_start))))"
  using reachable_store_ok [OF ex_run ex_start_store] by blast

text \<open>
  In every such state, the times at which an alert was sent to a node are at least its cooldown
  apart, one after the other.
\<close>

theorem reachable_alerts_spaced:
  assumes "reach e s s'" and "sv_store s = New_Store nodes" and "c \<in> set alert_codes"
  shows "spaced (cooldownForSeverity (severityForAlert c)) (sent_log (sv_store s') n c)"
proof -
  have wf: "wf_store (sv_store s)" using assms(2) by (simp add: wf_ops)
  have "\<forall>c \<in> set alert_codes. \<forall>n. log_ok (sv_store s) n c" by (simp add: assms(2) log_ok_New)
  from alerts_ok.always [OF assms(1) wf this] assms(3) show ?thesis by (simp add: log_ok_def)
qed

theorem reachable_alerts_spaced_witness:
  "spaced (15 * minute) (sent_log (sv_store (evaluateHeartbeatAlerts ex_env ex_now
     (fst (Handler ex_env ex_clk (ex_beat ''7'') ex_start)))) ''a'' alertHeartbeatFailed)"
proof -
  have "alertHeartbeatFailed \<in> set alert_codes" by (simp add: alert_codes_def)
  moreover have "cooldownForSeverity (severityForAlert alertHeartbeatFailed) = 15 * minute" by code_simp
  ultimately show ?thesis
    using reachable_alerts_spaced [OF ex_run ex_start_store, of alertHeartbeatFailed "''a''"] by simp
qed

section \<open>Heartbeats\<close>

lemma artifacts_keeps:
  "st_nodes (sv_store (updateQualificationArtifacts e clk n d s)) = st_nodes (sv_store s)"
  "st_heartbeatEvents (sv_store (updateQualificationArtifacts e clk n d s)) = st_heartbeatEvents (sv_store s)"
  "st_challenges (sv_store (updateQualificationArtifacts e clk n d s)) = st_challenges (sv_store s)"
proof -
  note a = alert_frame_keeps [OF artifacts_frame [of e clk d n s]]
  note r = ranking_frame_keeps [OF frame_rebuildRankings [of "artifacts_records e clk n d (sv_store s)" e clk d]]
  have "st_heartbeatEvents (artifacts_records e clk n d (sv_store s)) = st_heartbeatEvents (sv_store s)"
    "st_challenges (artifacts_records e clk n d (sv_store s)) = st_challenges (sv_store s)"
    by (simp_all add: artifacts_records_def store_base_performance_def SaveBasePerformanceRecord_def
      DeleteBasePerformanceRecord_def SaveQualifiedDecisionRecord_def SaveDailyQualificationSummary_def
      split: option.split)
  then show "st_nodes (sv_store (updateQualificationArtifacts e clk n d s)) = st_nodes (sv_store s)"
    "st_heartbeatEvents (sv_store (updateQualificationArtifacts e clk n d s)) = st_heartbeatEvents (sv_store s)"
    "st_challenges (sv_store (updateQualificationArtifacts e clk n d s)) = st_challenges (sv_store s)"
    by (simp_all only: a(1,2,4) r(1,2,4) nodes_ops)
qed

lemma on_day_keeps:
  "st_nodes (sv_store (on_day_of ts (updateQualificationArtifacts e clk n) t)) = st_nodes (sv_store t)"
  "st_heartbeatEvents (sv_store (on_day_of ts (updateQualificationArtifacts e clk n) t)) = st_heartbeatEvents (sv_store t)"
  "st_challenges (sv_store (on_day_of ts (updateQualificationArtifacts e clk n) t)) = st_challenges (sv_store t)"
  by (simp_all add: on_day_of_def artifacts_keeps split: option.split)

text \<open>What an accepted heartbeat passed and left behind.\<close>

lemma heartbeat_accepted:
  assumes "rq_Path r = ''/api/v1/agent/heartbeat''" and "rs_Status (snd (Handler e clk r s)) = 200"
  obtains p node where "heartbeat_check e clk r (sv_store s) = Inr (p, node)"
    "st_nodes (sv_store (fst (Handler e clk r s))) = st_nodes (heartbeat_store e p node (sv_store s))"
    "st_heartbeatEvents (sv_store (fst (Handler e clk r s))) =
       st_heartbeatEvents (heartbeat_store e p node (sv_store s))"
proof (cases "heartbeat_check e clk r (sv_store s)")
  case (Inl resp)
  then show thesis using assms heartbeat_refusal [OF Inl]
    by (auto simp: Handler_def serve_route_def handleHeartbeat_def refusal_def)
next
  case (Inr pn)
  obtain p node where pn: "pn = (p, node)" by (cases pn)
  show thesis
    by (rule that [OF Inr [unfolded pn]])
      (simp_all add: assms(1) Handler_def serve_route_def handleHeartbeat_def Inr pn on_day_keeps)
qed

text \<open>
  C11: a heartbeat is accepted only when it is signed with the key the node is enrolled with, names its
  fingerprint and generation, is on time, and carries a higher sequence number than the last one; it is
  then recorded as the node's last and at the end of the log.
\<close>

theorem heartbeat_authentic:
  assumes "rq_Path r = ''/api/v1/agent/heartbeat''" and "rs_Status (snd (Handler e clk r s)) = 200"
    and "0 \<le> cfg_AllowedClockSkewSeconds (env_cfg e)" "cfg_AllowedClockSkewSeconds (env_cfg e) \<le> 2 ^ 33"
  shows "\<exists>p node ts sig key. decode_heartbeat (rq_Body r) = Inr p
    \<and> GetNode (sv_store s) (hp_NodeID p) = Some node
    \<and> hex_decode (nd_AgentPublicKey node) = Inr key \<and> hex_decode (hp_Signature p) = Inr sig
    \<and> out_verify (env_out e) key (heartbeat_canonical p) sig
    \<and> hp_AgentKeyFingerprint p = nd_ActiveAgentKeyFingerprint node
    \<and> hp_EnrollmentGeneration p = nd_EnrollmentGeneration node
    \<and> nd_LastHeartbeatSequence node < hp_SequenceNumber p
    \<and> parse_rfc3339 (hp_HeartbeatTimestamp p) = Some ts
    \<and> \<bar>ts - clk At_Validate\<bar> \<le> cfg_AllowedClockSkewSeconds (env_cfg e) * second
    \<and> st_heartbeatEvents (sv_store (fst (Handler e clk r s))) = st_heartbeatEvents (sv_store s) @
        [\<lparr>hb_NodeID = hp_NodeID p, hb_HeartbeatTimestamp = hp_HeartbeatTimestamp p,
          hb_SequenceNumber = hp_SequenceNumber p\<rparr>]"
proof -
  from heartbeat_accepted [OF assms(1,2)] obtain p node where
    h: "heartbeat_check e clk r (sv_store s) = Inr (p, node)"
    and ev: "st_heartbeatEvents (sv_store (fst (Handler e clk r s))) =
       st_heartbeatEvents (heartbeat_store e p node (sv_store s))" by blast
  note c = heartbeat_check_Inr [OF h]
  obtain ts where ts: "parse_rfc3339 (hp_HeartbeatTimestamp p) = Some ts"
    using validateTimestamp_parses [OF c(6)] by blast
  obtain key sig where "hex_decode (nd_AgentPublicKey node) = Inr key" "hex_decode (hp_Signature p) = Inr sig"
    "out_verify (env_out e) key (heartbeat_canonical p) sig"
    using c(7) unfolding signature_ok_iff by blast
  then show ?thesis
    using c(1,2,4,5,8) ts validateTimestamp_window [OF c(6) ts assms(3,4)] ev
    by (simp add: heartbeat_store_def SaveHeartbeatEvent_def SaveNode_def)
qed

theorem heartbeat_authentic_witness:
  "let s' = fst (Handler ex_env ex_clk (ex_beat ''7'') ex_portal)
   in map hb_SequenceNumber (st_heartbeatEvents (sv_store s')) = [7]"
proof -
  have "0 \<le> cfg_AllowedClockSkewSeconds (env_cfg ex_env)"
    "cfg_AllowedClockSkewSeconds (env_cfg ex_env) \<le> 2 ^ 33" by code_simp+
  moreover have "decode_heartbeat (rq_Body (ex_beat ''7'')) = Inr (ex_payload 7)" "hp_SequenceNumber (ex_payload 7) = 7"
    by (simp_all add: ex_beat_payload [OF ex_seven] ex_payload_def)
  moreover have "st_heartbeatEvents (sv_store ex_portal) = []"
    by (simp add: ex_portal_def SaveNode_def New_Store_def)
  ultimately show ?thesis
    using heartbeat_authentic [OF ex_beat_path ex_beat_ok] by (auto simp: Let_def)
qed

text \<open>A heartbeat that is not ahead of the node's position is refused and changes nothing.\<close>

lemma heartbeat_behind:
  assumes "rq_Path r = ''/api/v1/agent/heartbeat''" and "decode_heartbeat (rq_Body r) = Inr q"
    and "\<not> before (position (sv_store s) (hp_NodeID q)) (hp_EnrollmentGeneration q, hp_SequenceNumber q)"
  shows "fst (Handler e clk r s) = s \<and> rs_Status (snd (Handler e clk r s)) \<in> {400, 401, 404, 409}"
proof (cases "heartbeat_check e clk r (sv_store s)")
  case (Inl resp)
  then show ?thesis using heartbeat_refusal [OF Inl]
    by (simp add: assms(1) Handler_def serve_route_def handleHeartbeat_def refusal_def)
next
  case (Inr pn)
  obtain p node where pn: "pn = (p, node)" by (cases pn)
  note c = heartbeat_check_Inr [OF Inr [unfolded pn]]
  have "p = q" using c(1) assms(2) by simp
  then have False using assms(3) c(2,5,8) by (simp add: position_def before_def)
  then show ?thesis ..
qed

text \<open>After an accepted heartbeat the node's position is the heartbeat's.\<close>

lemma heartbeat_position:
  assumes "wf_store (sv_store s)" and "rq_Path r = ''/api/v1/agent/heartbeat''"
    and "rs_Status (snd (Handler e clk r s)) = 200" and "decode_heartbeat (rq_Body r) = Inr q"
  shows "position (sv_store (fst (Handler e clk r s))) (hp_NodeID q) = (hp_EnrollmentGeneration q, hp_SequenceNumber q)"
proof -
  from heartbeat_accepted [OF assms(2,3)] obtain p node where
    h: "heartbeat_check e clk r (sv_store s) = Inr (p, node)"
    and nodes: "st_nodes (sv_store (fst (Handler e clk r s))) = st_nodes (heartbeat_store e p node (sv_store s))"
    by blast
  note c = heartbeat_check_Inr [OF h]
  have "p = q" using c(1) assms(4) by simp
  moreover have "nd_NodeID node = hp_NodeID p" by (rule node_id [OF assms(1) c(2)])
  moreover note c(5) [symmetric]
  ultimately show ?thesis
    unfolding position_same [OF nodes]
    by (simp add: position_def heartbeat_store_def GetNode_def SaveHeartbeatEvent_def SaveNode_def)
qed

text \<open>
  A heartbeat is accepted once. After a heartbeat was accepted, no request that carries the same
  payload is accepted again, in any state the portal reaches, through any other requests and
  enrollments; it is refused and changes nothing.
\<close>

theorem heartbeat_not_replayed:
  assumes "wf_store (sv_store s)" and "clk_ok clk"
    and "rq_Path r = ''/api/v1/agent/heartbeat''" and "rs_Status (snd (Handler e clk r s)) = 200"
    and "reach e (fst (Handler e clk r s)) s'"
    and "rq_Path r' = ''/api/v1/agent/heartbeat''"
    and "decode_heartbeat (rq_Body r') = decode_heartbeat (rq_Body r)"
  shows "fst (Handler e clk' r' s') = s' \<and> rs_Status (snd (Handler e clk' r' s')) \<in> {400, 401, 404, 409}"
proof -
  let ?s1 = "fst (Handler e clk r s)"
  from heartbeat_accepted [OF assms(3,4)] obtain p node where
    "heartbeat_check e clk r (sv_store s) = Inr (p, node)" by blast
  then have p: "decode_heartbeat (rq_Body r) = Inr p" by (rule heartbeat_check_Inr)
  have wf1: "wf_store (sv_store ?s1)" by (rule wf_changes [OF Handler_changes [OF assms(2)] assms(1)])
  have "changes e (sv_store ?s1) (sv_store s')" using reach_changes [OF assms(5) wf1] by blast
  from position_changes [OF this wf1, of "hp_NodeID p"]
  have "\<not> before (position (sv_store s') (hp_NodeID p)) (hp_EnrollmentGeneration p, hp_SequenceNumber p)"
    unfolding heartbeat_position [OF assms(1,3,4) p] by (auto dest: before_trans)
  then show ?thesis using p assms(6,7) by (intro heartbeat_behind) simp_all
qed

theorem heartbeat_not_replayed_witness:
  "fst (Handler ex_env ex_clk (ex_beat ''7'') (fst (Handler ex_env ex_clk (ex_beat ''7'') ex_portal))) =
     fst (Handler ex_env ex_clk (ex_beat ''7'') ex_portal)"
  using heartbeat_not_replayed [OF ex_portal_wf ex_clk_ok ex_beat_path ex_beat_ok reach.Start ex_beat_path refl] by blast

end
