(* ===== verification/Snapshot_Properties.thy ===== *)
theory Snapshot_Properties
  imports Snapshot Server_Runs
begin

text \<open>
  What saving and loading promise: every state the portal reaches can be loaded again and is the same
  store, a save is all or nothing even when the machine stops in the middle, and the configured nodes
  are clean.
\<close>

section \<open>Configured nodes\<close>

text \<open>The part of a node that comes from the configuration.\<close>

definition configured_part :: "node \<Rightarrow> node" where
  "configured_part node = restore_node zero_node node"

lemma restore_same: "configured_part n = configured_part seed \<Longrightarrow> restore_node n seed = n"
  by (cases n; cases seed) (simp add: configured_part_def restore_node_def)

definition configured :: "store \<Rightarrow> store \<Rightarrow> bool" where
  "configured st0 st \<longleftrightarrow>
     (\<forall>n. map_option configured_part (GetNode st n) = map_option configured_part (GetNode st0 n))"

lemma configured_change:
  assumes "change e st st'" and wf: "wf_store st" and "configured st0 st"
  shows "configured st0 st'"
proof -
  have "map_option configured_part (GetNode st' n) = map_option configured_part (GetNode st n)" for n
    using assms(1)
  proof (cases rule: change.cases)
    case (Enroll clk r el)
    have "GetNode st (el_NodeID el) = Some (el_Node el)" "nd_NodeID (el_Node el) = el_NodeID el"
      using enroll_check_node [OF Enroll(2)] node_id [OF wf] by simp_all
    then show ?thesis
      by (auto simp: Enroll(1) enroll_store_def GetNode_def SaveNode_def map_get_put configured_part_def
          restore_node_def ConsumeEnrollmentChallenge_def enrolled_node_def Let_def split: option.split)
  next
    case (Heartbeat clk r p node)
    have "GetNode st (hp_NodeID p) = Some node" "nd_NodeID node = hp_NodeID p"
      using heartbeat_check_Inr [OF Heartbeat(2)] node_id [OF wf] by simp_all
    then show ?thesis
      by (auto simp: Heartbeat(1) heartbeat_store_def GetNode_def SaveNode_def map_get_put configured_part_def
          restore_node_def SaveHeartbeatEvent_def)
  qed (simp_all add: GetNode_def)
  with assms(3) show ?thesis by (simp add: configured_def)
qed

interpretation still_configured: store_invariant e "configured st0" for e :: "'w env" and st0
  by unfold_locales (rule configured_change)

section \<open>The round trip\<close>

lemma snapshot_restores:
  assumes wf: "wf_store st" and own: "owned st" and cfg: "configured st0 st"
  shows "\<exists>st'. applySnapshot (snapshot_of st) st0 = Inr st' \<and> same_store st' st"
proof -
  let ?ns = "sort_slice (\<lambda>a b. nd_NodeID a < nd_NodeID b) (map_vals (st_nodes st))"
  have k: "keyed_map nd_NodeID (st_nodes st)" using wf by (simp add: wf_store_def)
  have d: "distinct (map nd_NodeID ?ns)" using keyed_map_distinct [OF k] by simp
  have part: "map_option configured_part (map_get (st_nodes st) n) = map_option configured_part (map_get (st_nodes st0) n)"
    for n using cfg by (simp add: configured_def GetNode_def)
  have in_ns: "n \<in> set ?ns \<longleftrightarrow> map_get (st_nodes st) (nd_NodeID n) = Some n" for n
    using keyed_map_vals [OF k] by simp
  have "\<forall>n \<in> set ?ns. map_get (st_nodes st0) (nd_NodeID n) \<noteq> None"
    using part in_ns by (metis option.map_disc_iff option.distinct(1))
  from restore_nodes_get [OF d this] obtain nodes where r: "restore_nodes ?ns (st_nodes st0) = Inr nodes"
    and get: "\<And>n. map_get nodes n = (case find (\<lambda>x. nd_NodeID x = n) ?ns of None \<Rightarrow> map_get (st_nodes st0) n
       | Some x \<Rightarrow> map_option (restore_node x) (map_get (st_nodes st0) n))" by blast
  have nodes: "map_get nodes = map_get (st_nodes st)"
  proof
    fix n
    show "map_get nodes n = map_get (st_nodes st) n"
    proof (cases "find (\<lambda>x. nd_NodeID x = n) ?ns")
      case None
      have "map_get (st_nodes st) n = None"
      proof (rule ccontr)
        assume "map_get (st_nodes st) n \<noteq> None"
        then obtain x where "map_get (st_nodes st) n = Some x" "nd_NodeID x = n"
          using keyed_map_get [OF k] by blast
        then have "x \<in> set ?ns" "nd_NodeID x = n" using in_ns by auto
        with None show False by (auto simp: find_None_iff)
      qed
      then show ?thesis using part [of n] by (simp add: get None)
    next
      case (Some x)
      then have "x \<in> set ?ns" "nd_NodeID x = n" by (blast dest: find_SomeD)+
      then have x: "map_get (st_nodes st) n = Some x" using in_ns by blast
      then obtain seed where "map_get (st_nodes st0) n = Some seed" "configured_part x = configured_part seed"
        using part [of n] by (cases "map_get (st_nodes st0) n") auto
      then show ?thesis by (simp add: get Some x restore_same)
    qed
  qed
  have seed: "has_key nodes = known st"
    by (simp add: fun_eq_iff has_key_iff known_def GetNode_def nodes)
  have own: "owners_all (has_key nodes) st" using own by (simp add: owned_def seed)
  have keys: "keyed_map ec_ChallengeID (st_challenges st)" "keyed_map ck_EventID (st_checkEvents st)"
    "keyed_map pe_ProbeID (st_probeEvents st)" "keyed_map og_EvidenceRef (st_operatorGroups st)"
    "keyed_map vk_EvidenceRef (st_votingKeyEvidence st)" "keyed_map dc_EvidenceRef (st_decentralization st)"
    "keyed_map dm_EvidenceRef (st_domainEvidence st)" "keyed_map cp_EvidenceRef (st_controlPlane st)"
    "keyed_map (\<lambda>r. telemetryKey (lt_NodeID r) (lt_WarningCode r)) (st_latestTelemetry st)"
    "keyed_map (\<lambda>r. alertKey (as_NodeID r) (as_AlertCode r) (as_Severity r)) (st_alertStates st)"
    "keyed_map (\<lambda>r. dailySummaryKey (ds_NodeID r) (ds_DateUTC r)) (st_dailySummaries st)"
    "keyed_map (\<lambda>r. qualifiedDecisionKey (qd_NodeID r) (qd_DateUTC r)) (st_qualifiedDecisions st)"
    "keyed_map (\<lambda>r. basePerformanceKey (bp_NodeID r) (bp_DateUTC r)) (st_basePerformance st)"
    "keyed_map (\<lambda>r. rankingRecordKey (rk_NodeID r) (rk_DateUTC r)) (st_rankingRecords st)"
    "keyed_map (\<lambda>r. rewardEligibilityKey (re_NodeID r) (re_DateUTC r)) (st_rewardEligibility st)"
    "keyed_map (\<lambda>r. rewardAllocationKey (ra_NodeID r) (ra_DateUTC r)) (st_rewardAllocations st)"
    using wf by (simp_all add: wf_store_def dated_map_def record_key_defs [abs_def])
  note maps = keys [THEN sorted_vals_back]
  show ?thesis
    using own by (simp add: apply_defs snapshot_defs r Let_def owners_all_def restore_simps same_store_def
        nodes maps)
qed

lemma save_succeeds:
  assumes "Save enc w path st d = (ds, None)"
  shows "path \<noteq> [] \<and> (\<exists>data. enc (snapshot_of st) = Inr data \<and>
    files_after d ds path = Some \<lparr>f_data = data, f_synced = True\<rparr>)"
  using assms by (auto simp: Save_def Let_def files_after_def split: if_splits sum.splits option.splits)

text \<open>
  Whatever the portal has been through, when it saves its store and is started again from the same
  configuration, it loads the same store: every map and log as it was, the heartbeat log up to its order.
  The codec must give back the value it wrote.
\<close>

theorem restart_restores:
  assumes "reach e s s'" and "sv_store s = New_Store seeds"
    and "Save enc w path (sv_store s') d = (ds, None)"
    and "\<And>data. enc (snapshot_of (sv_store s')) = Inr data \<Longrightarrow>
      dec data = Inr (snapshot_of (sv_store s'))"
  shows "\<exists>st. Load dec seeds path (ReadFile None (files_after d ds) path) = Inr st \<and>
    same_store st (sv_store s')"
proof -
  have wf: "wf_store (sv_store s)" using assms(2) by (simp add: wf_ops)
  have own: "owned (sv_store s)" by (simp add: assms(2) owned_def owners_all_def New_Store_def)
  have "configured (New_Store seeds) (sv_store s)" by (simp add: configured_def assms(2))
  then have "configured (New_Store seeds) (sv_store s')" by (rule still_configured.always [OF assms(1) wf])
  from snapshot_restores [OF well_formed.always [OF assms(1) wf wf] records_owned.always [OF assms(1) wf own] this]
  obtain st where "applySnapshot (snapshot_of (sv_store s')) (New_Store seeds) = Inr st" "same_store st (sv_store s')"
    by blast
  then show ?thesis using save_succeeds [OF assms(3)] assms(4) by (auto simp: Load_def ReadFile_def Let_def)
qed

definition ex_disk :: save_world where
  "ex_disk = \<lparr>sw_fault = (\<lambda>_. None), sw_short = 1, sw_removed = True, sw_tmp = ''state.tmp''\<rparr>"

theorem restart_restores_witness:
  "let st' = sv_store (evaluateHeartbeatAlerts ex_env ex_now (fst (Handler ex_env ex_clk (ex_beat ''7'') ex_start)))
   in \<exists>st. applySnapshot (snapshot_of st') (New_Store [ex_agent, ex_node ''b'']) = Inr st \<and> same_store st st'"
proof -
  let ?s = "evaluateHeartbeatAlerts ex_env ex_now (fst (Handler ex_env ex_clk (ex_beat ''7'') ex_start))"
  let ?ds = "fst (Save (\<lambda>_. Inr ''x'') ex_disk ''state.json'' (sv_store ?s) Map.empty)"
  have 1: "Save (\<lambda>_. Inr ''x'') ex_disk ''state.json'' (sv_store ?s) Map.empty = (?ds, None)"
    by (simp add: Save_def ex_disk_def Let_def)
  have "files_after Map.empty ?ds ''state.json'' = Some \<lparr>f_data = ''x'', f_synced = True\<rparr>"
    by (simp add: Save_def ex_disk_def Let_def files_after_def)
  then show ?thesis
    using restart_restores [OF ex_run ex_start_store 1, where dec = "\<lambda>_. Inr (snapshot_of (sv_store ?s))"]
    by (simp add: Load_def ReadFile_def Let_def)
qed

section \<open>A save is all or nothing\<close>

text \<open>
  What a crash may leave of a directory: its entries and the bytes of synced files stay, those of
  others may be anything.
\<close>

definition after_crash :: "files \<Rightarrow> files \<Rightarrow> bool" where
  "after_crash d d' \<longleftrightarrow>
     (\<forall>p. case d p of None \<Rightarrow> d' p = None | Some f \<Rightarrow> if f_synced f then d' p = Some f else d' p \<noteq> None)"

definition is_saved :: "(snapshot \<Rightarrow> goerr + string) \<Rightarrow> store \<Rightarrow> disk_file option \<Rightarrow> bool" where
  "is_saved enc st f \<longleftrightarrow>
     (\<exists>data. enc (snapshot_of st) = Inr data \<and> f = Some \<lparr>f_data = data, f_synced = True\<rparr>)"

text \<open>
  C16: a save replaces the state file or leaves it as it is. Stop the machine after any step of a save:
  the state file holds what it held before, or all the bytes of the new snapshot; the first when the
  save has failed, the second when it has succeeded. Files other than the temporary one are untouched.
\<close>

theorem save_atomic:
  assumes "sw_tmp w \<noteq> path" and "\<And>f. d path = Some f \<Longrightarrow> f_synced f"
    and "Save enc w path st d = (ds, err)" and "dk \<in> set (d # ds)" and "after_crash dk d'"
  shows "(d' path = d path \<or> err = None \<and> is_saved enc st (d' path))
    \<and> (\<forall>p. p \<noteq> path \<and> p \<noteq> sw_tmp w \<longrightarrow> dk p = d p)
    \<and> (if err = None then is_saved enc st (files_after d ds path) else files_after d ds path = d path)"
proof -
  have 1: "dk path = d path \<or> err = None \<and> is_saved enc st (dk path)"
    and 2: "\<forall>p. p \<noteq> path \<and> p \<noteq> sw_tmp w \<longrightarrow> dk p = d p"
    and 3: "if err = None then is_saved enc st (files_after d ds path) else files_after d ds path = d path"
    using assms(1,3,4)
    by (auto simp: Save_def Let_def cleanup_def files_after_def is_saved_def split: if_splits sum.splits option.splits)
  have "d' path = dk path"
    using assms(5) [unfolded after_crash_def, rule_format, of path] assms(2) 1
    by (auto simp: is_saved_def split: option.splits if_splits)
  with 1 2 3 show ?thesis by simp
qed

theorem save_atomic_witness:
  "let d = [''state.json'' \<mapsto> \<lparr>f_data = ''old'', f_synced = True\<rparr>];
       w = ex_disk\<lparr>sw_fault := (\<lambda>x. if x = Rename_Step then Some (Msg ''busy'') else None)\<rparr>
   in (fst (Save (\<lambda>_. Inr ''new'') w ''state.json'' ex_store d) ! 2) ''state.json'' = d ''state.json''"
proof -
  let ?d = "[''state.json'' \<mapsto> \<lparr>f_data = ''old'', f_synced = True\<rparr>]"
  let ?w = "ex_disk\<lparr>sw_fault := (\<lambda>x. if x = Rename_Step then Some (Msg ''busy'') else None)\<rparr>"
  let ?s = "Save (\<lambda>_. Inr ''new'') ?w ''state.json'' ex_store ?d"
  have s: "?s = (fst ?s, Some (Msg ''busy''))" by (simp add: Save_def ex_disk_def Let_def)
  have m: "fst ?s ! 2 \<in> set (?d # fst ?s)" by (simp add: Save_def ex_disk_def Let_def)
  have c: "after_crash (fst ?s ! 2) (fst ?s ! 2)"
    by (simp add: after_crash_def split: option.split)
  show ?thesis
    using save_atomic [OF _ _ s m c] by (simp add: ex_disk_def)
qed

section \<open>What a state file may hold\<close>

text \<open>The nodes a snapshot's records name.\<close>

definition snapshot_owners :: "snapshot \<Rightarrow> string list" where
  "snapshot_owners snap =
     map nd_NodeID (sn_Nodes snap) @ map ec_NodeID (sn_EnrollmentChallenges snap) @
     map ck_NodeID (sn_CheckEvents snap) @ map hb_NodeID (sn_HeartbeatEvents snap) @
     map te_NodeID (sn_TelemetryEvents snap) @ map pe_NodeID (sn_ProbeEvents snap) @
     map ds_NodeID (sn_DailySummaries snap) @ map qd_NodeID (sn_QualifiedDecisions snap) @
     map bp_NodeID (sn_BasePerformanceRecords snap) @ map rk_NodeID (sn_RankingRecords snap) @
     map re_NodeID (sn_RewardEligibility snap) @ map ra_NodeID (sn_RewardAllocations snap) @
     map og_NodeID (sn_OperatorGroupEvidence snap) @ map vk_NodeID (sn_VotingKeyEvidence snap) @
     map dc_NodeID (sn_DecentralizationEvidence snap) @ map dm_NodeID (sn_DomainEvidence snap) @
     map cp_NodeID (sn_SharedControlPlaneEvidence snap) @ map lt_NodeID (sn_LatestTelemetry snap) @
     map as_NodeID (sn_AlertStates snap) @ map dl_NodeID (sn_NotificationDeliveries snap) @
     map oe_NodeID (sn_OperationalEvents snap)"

lemma restore_nodes_configured:
  "restore_nodes ns m = Inr m' \<Longrightarrow>
    map_option configured_part (map_get m' k) = map_option configured_part (map_get m k)"
proof (induction ns arbitrary: m)
  case (Cons n ns)
  then show ?case
    by (auto simp: map_get_put configured_part_def restore_node_def split: option.splits if_splits)
qed simp

lemma restore_nodes_known:
  "isl (restore_nodes ns m) \<longleftrightarrow> \<not> list_all (\<lambda>n. has_key m (nd_NodeID n)) ns"
proof (induction ns arbitrary: m)
  case (Cons n ns)
  show ?case
  proof (cases "map_get m (nd_NodeID n)")
    case (Some sn)
    have "has_key (map_put (nd_NodeID n) x m) = has_key m" for x
      using Some by (auto simp: fun_eq_iff has_key_iff map_get_put)
    with Some Cons.IH [of "map_put (nd_NodeID n) (restore_node n sn) m"] show ?thesis
      by (simp add: has_key_iff [of m "nd_NodeID n"])
  qed (simp add: has_key_iff)
qed simp

lemma restore_loop_known: "restore_loop is_seed node put what rs m = Inr m' \<Longrightarrow> list_all (is_seed \<circ> node) rs"
  using restore_loop_unknown [of is_seed node rs put what m] by fastforce

lemma all_put_all: "list_all Q rs \<Longrightarrow> list_all Q (map_vals (put_all key rs []))"
  using map_vals_put_all [of key rs "[]"] by (auto simp: list_all_iff)

text \<open>
  A state file is taken whole or not at all. It is refused when it has a record of a node that is not
  configured; otherwise the loaded store's records are of configured nodes, and the nodes are the configured
  ones, with their group, display name and mail address from the configuration.
\<close>

theorem snapshot_taken_whole:
  "case applySnapshot snap s of
     Inl err \<Rightarrow> \<not> list_all (known s) (snapshot_owners snap)
   | Inr st \<Rightarrow> list_all (known s) (snapshot_owners snap) \<and> owned st \<and> configured s st"
proof (cases "restore_nodes (sn_Nodes snap) (st_nodes s)")
  case (Inl err)
  then have "\<not> list_all (\<lambda>n. known s (nd_NodeID n)) (sn_Nodes snap)"
    using restore_nodes_known [of "sn_Nodes snap" "st_nodes s"] by (simp add: has_key_iff known_def GetNode_def)
  with Inl show ?thesis by (simp add: apply_defs snapshot_owners_def list.pred_map o_def)
next
  case (Inr nodes)
  then have all: "list_all (\<lambda>n. known s (nd_NodeID n)) (sn_Nodes snap)"
    using restore_nodes_known [of "sn_Nodes snap" "st_nodes s"] by (simp add: has_key_iff known_def GetNode_def)
  note cfg = restore_nodes_configured [OF Inr]
  have "map_get nodes k = None \<longleftrightarrow> map_get (st_nodes s) k = None" for k
    using cfg [of k] by (metis option.map_disc_iff)
  then have seed: "has_key nodes = known s" by (simp add: fun_eq_iff has_key_iff known_def GetNode_def)
  have nodes: "known st = known s" "configured s st" if "st_nodes st = nodes" for st
    using cfg seed that by (simp_all add: configured_def known_def GetNode_def fun_eq_iff has_key_iff)
  show ?thesis
  proof (cases "list_all (known s) (snapshot_owners snap)")
    case True
    note each = True [unfolded snapshot_owners_def list_all_append list.pred_map]
    have "\<exists>st. applySnapshot snap s = Inr st \<and> st_nodes st = nodes \<and> owners_all (known s) st"
      using each by (simp add: apply_defs Inr Let_def seed restore_simps owners_all_def all_put_all)
    with True nodes show ?thesis by (auto simp: owned_def)
  next
    case False
    have "list_all (known s) (snapshot_owners snap)" if "applySnapshot snap s = Inr st" for st
      using that all unfolding apply_defs Inr Let_def seed and_then_simps snapshot_owners_def list.pred_map list_all_append o_def
      by (elim and_thenE) (simp add: restore_loop_known [unfolded o_def])
    with False show ?thesis by (auto split: sum.split)
  qed
qed

end
