(* ===== verification/Typed_Evidence.thy ===== *)
theory Typed_Evidence
  imports Server_Runs
begin

text \<open>
  The evidence a reachable store holds is well typed: times that have a day, review states and counters in
  their ranges. What is computed from it never meets a value it has no case for.
\<close>

section \<open>Well typed records\<close>

definition has_day :: "string \<Rightarrow> bool" where "has_day ts \<longleftrightarrow> datePart ts \<noteq> None"

definition review_states :: "string list" where "review_states = [''pending'', ''accepted'', ''rejected'']"

definition typed_group :: "operator_group_evidence \<Rightarrow> bool" where
  "typed_group og \<longleftrightarrow> has_day (og_ObservedAt og) \<and> og_ReviewState og \<in> set review_states"

definition typed_plane :: "shared_control_plane_evidence \<Rightarrow> bool" where
  "typed_plane cp \<longleftrightarrow> has_day (cp_ObservedAt cp) \<and> cp_ReviewState cp \<in> set review_states"

definition typed_place :: "decentralization_evidence \<Rightarrow> bool" where
  "typed_place dc \<longleftrightarrow> has_day (dc_ObservedAt dc) \<and> 0 < dc_ASN dc \<and> dc_CountryCode dc \<noteq> []"

definition typed_probe :: "probe_event \<Rightarrow> bool" where
  "typed_probe pe \<longleftrightarrow> has_day (pe_ObservedAt pe) \<and> 0 < pe_MeasurementWindowSeconds pe \<and>
     (pe_AvailabilityUp pe \<longrightarrow> pe_FinalizedLagBlocks pe \<noteq> None \<and> pe_ChainLagBlocks pe \<noteq> None)"

definition typed_store :: "store \<Rightarrow> bool" where
  "typed_store st \<longleftrightarrow>
     list_all typed_group (map_vals (st_operatorGroups st)) \<and> list_all typed_plane (map_vals (st_controlPlane st)) \<and>
     list_all typed_place (map_vals (st_decentralization st)) \<and> list_all typed_probe (map_vals (st_probeEvents st)) \<and>
     list_all (has_day \<circ> dm_ObservedAt) (map_vals (st_domainEvidence st)) \<and>
     list_all (has_day \<circ> vk_ObservedAt) (map_vals (st_votingKeyEvidence st)) \<and>
     list_all (has_day \<circ> ck_CheckedAt) (map_vals (st_checkEvents st)) \<and>
     list_all (has_day \<circ> hb_HeartbeatTimestamp) (st_heartbeatEvents st)"

text \<open>Changes that leave the evidence alone.\<close>

definition same_evidence :: "store \<Rightarrow> store \<Rightarrow> bool" where
  "same_evidence st st' \<longleftrightarrow>
     st_operatorGroups st' = st_operatorGroups st \<and> st_controlPlane st' = st_controlPlane st \<and>
     st_decentralization st' = st_decentralization st \<and> st_probeEvents st' = st_probeEvents st \<and>
     st_domainEvidence st' = st_domainEvidence st \<and> st_votingKeyEvidence st' = st_votingKeyEvidence st \<and>
     st_checkEvents st' = st_checkEvents st \<and> st_heartbeatEvents st' = st_heartbeatEvents st"

lemma typed_same: "same_evidence st st' \<Longrightarrow> typed_store st \<Longrightarrow> typed_store st'"
  by (simp add: same_evidence_def typed_store_def)

lemma evidence_rebuild:
  "ranking_frame st st' \<Longrightarrow> same_evidence st st'"
  unfolding same_evidence_def by (intro conjI) (erule ranking_frame_keeps)+

lemma same_evidence_ops [simp]:
  "same_evidence st (SaveEnrollmentChallenge c st)" "same_evidence st (AddTelemetryEvent te st)"
  "same_evidence st (enroll_store e clk el st)"
  "same_evidence st (AddOperationalEvent oe (AddNotificationDelivery dl st))"
  "same_evidence st (AddNotificationDelivery dl (SaveAlertState al st))"
  "same_evidence st (artifacts_records e clk n d st)"
  by (simp_all add: same_evidence_def enroll_store_def SaveEnrollmentChallenge_def ConsumeEnrollmentChallenge_def
      SaveNode_def AddTelemetryEvent_def AddOperationalEvent_def AddNotificationDelivery_def SaveAlertState_def
      artifacts_records_def store_base_performance_def SaveBasePerformanceRecord_def
      DeleteBasePerformanceRecord_def SaveQualifiedDecisionRecord_def SaveDailyQualificationSummary_def
      Let_def split: option.split)

lemma has_day_valid: "validateTimestamp cfg clk ts = None \<Longrightarrow> has_day ts"
  by (simp add: has_day_def valid_day)

lemma typed_defaults [simp]:
  "typed_group ev \<Longrightarrow> typed_group (og_default ev)" "typed_plane cp \<Longrightarrow> typed_plane (cp_default cp)"
  by (auto simp: typed_group_def typed_plane_def og_default_def cp_default_def review_states_def)

lemma typed_change:
  assumes "change e st st'" and "wf_store st" and typed: "typed_store st"
  shows "typed_store st'"
  using assms(1)
proof (cases rule: change.cases)
  case (Heartbeat clk r p node)
  then show ?thesis
    using typed has_day_valid [OF heartbeat_check_Inr(6) [OF Heartbeat(2)]]
    by (simp add: typed_store_def heartbeat_store_def SaveHeartbeatEvent_def SaveNode_def)
next
  case (Check clk r ev)
  have "has_day (ck_CheckedAt ev)" by (rule checks_check_Inr [OF Check(2)]) (rule has_day_valid)
  then show ?thesis using typed by (simp add: Check(1) typed_store_def SaveCheckEvent_def all_put)
next
  case (Probe clk r ev)
  have "typed_probe ev" using probe_check_Inr [OF Probe(2)] has_day_valid by (auto simp: typed_probe_def)
  then show ?thesis using typed by (simp add: Probe(1) typed_store_def SaveProbeEvent_def all_put)
next
  case (Voting clk r ev)
  have "has_day (vk_ObservedAt ev)" using voting_key_check_Inr [OF Voting(2)] has_day_valid by blast
  then show ?thesis using typed by (simp add: Voting(1) typed_store_def SaveVotingKeyEvidence_def all_put)
next
  case (Group clk r ev)
  have "typed_group ev"
    using operator_group_check_Inr [OF Group(2)] has_day_valid by (auto simp: typed_group_def review_states_def)
  then show ?thesis using typed by (simp add: Group(1) typed_store_def SaveOperatorGroupEvidence_def all_put)
next
  case (Infra clk r ev)
  have "typed_place ev" using decentralization_check_Inr [OF Infra(2)] has_day_valid by (auto simp: typed_place_def)
  then show ?thesis using typed by (simp add: Infra(1) typed_store_def SaveDecentralizationEvidence_def all_put)
next
  case (Dom clk r ev)
  have "has_day (dm_ObservedAt ev)" using domain_check_Inr [OF Dom(2)] has_day_valid by blast
  then show ?thesis using typed by (simp add: Dom(1) typed_store_def SaveDomainEvidence_def all_put)
next
  case (Plane clk r ev)
  have "typed_plane ev"
    using control_plane_check_Inr [OF Plane(2)] has_day_valid by (auto simp: typed_plane_def review_states_def)
  then show ?thesis using typed by (simp add: Plane(1) typed_store_def SaveSharedControlPlaneEvidence_def all_put)
next
  case (Day n d clk)
  have "typed_store (artifacts_records e clk n d st)" by (rule typed_same [OF _ typed]) simp
  then show ?thesis unfolding Day(1) by (rule typed_same [OF evidence_rebuild [OF frame_rebuildRankings]])
next
  case (Ranks d clk)
  show ?thesis unfolding Ranks(1) by (rule typed_same [OF evidence_rebuild [OF frame_rebuildRankings] typed])
next
  case (Eligible d clk)
  show ?thesis unfolding Eligible(1)
    by (rule typed_same [OF evidence_rebuild [OF frame_rebuildRewardEligibility] typed])
qed (auto intro: typed_same [OF _ typed])

interpretation evidence_typed: store_invariant e typed_store for e :: "'w env"
  by unfold_locales (rule typed_change)

text \<open>
  In every state the portal reaches from its configured nodes, the evidence is well typed. Each record's
  time has a day, so it counts for exactly one day; a review state is one of the three; a probe that was
  up has both lags and every probe a positive window; a place has a network number and a country.
\<close>

theorem reachable_evidence_typed:
  assumes "reach e s s'" and "sv_store s = New_Store nodes"
  shows "typed_store (sv_store s')"
proof -
  have "wf_store (sv_store s)" "typed_store (sv_store s)"
    unfolding assms(2) by (simp add: wf_ops) (simp add: typed_store_def New_Store_def)
  then show ?thesis by (rule evidence_typed.always [OF assms(1)])
qed

theorem reachable_evidence_typed_witness:
  "typed_store (sv_store (evaluateHeartbeatAlerts ex_env ex_now (fst (Handler ex_env ex_clk (ex_beat ''7'') ex_start))))"
  by (rule reachable_evidence_typed [OF ex_run ex_start_store])

end
