(* ===== verification/Restarts.thy ===== *)
theory Restarts
  imports Snapshot_Properties Typed_Evidence
begin

text \<open>
  The portal over many starts. It is started from its configured nodes and the state file, serves, saves,
  is stopped or crashes at any moment, and is started again: what it has then is what it saved last, which
  may be older than what it had. The invariants of one run hold for the whole of such a life.
\<close>

section \<open>A portal's life\<close>

text \<open>The store that a start loads, from the store in the state file if there is one.\<close>

definition reload :: "node list \<Rightarrow> store option \<Rightarrow> goerr + store" where
  "reload seeds kept =
     (case kept of None \<Rightarrow> Inr (New_Store seeds) | Some st \<Rightarrow> applySnapshot (snapshot_of st) (New_Store seeds))"

text \<open>
  A moment is the store in memory and the one in the state file. Saves fall between any two changes, and the
  rest of the configuration may be another one after each start.
\<close>

inductive life :: "node list \<Rightarrow> 'w env set \<Rightarrow> store \<times> store option \<Rightarrow> store \<times> store option \<Rightarrow> bool"
  for seeds es m where
  Begin: "life seeds es m m"
| Act: "life seeds es m (st, kept) \<Longrightarrow> e \<in> es \<Longrightarrow> change e st st' \<Longrightarrow> life seeds es m (st', kept)"
| Keep: "life seeds es m (st, kept) \<Longrightarrow> life seeds es m (st, Some st)"
| Restart: "life seeds es m (st, kept) \<Longrightarrow> reload seeds kept = Inr st' \<Longrightarrow> life seeds es m (st', kept)"

text \<open>Every run of requests and scans is part of a life.\<close>

lemma life_changes: "life seeds es m (st, kept) \<Longrightarrow> e \<in> es \<Longrightarrow> changes e st st' \<Longrightarrow> life seeds es m (st', kept)"
  by (rotate_tac 2, induction rule: rtranclp_induct) (auto intro: life.Act)

lemma life_reach:
  assumes "life seeds es m (sv_store s, kept)" and "e \<in> es" and "reach e s s'" and "wf_store (sv_store s)"
  shows "life seeds es m (sv_store s', kept)"
  using assms reach_changes [OF assms(3,4)] by (blast intro: life_changes)

section \<open>What a restart keeps\<close>

lemma restore_loop_Inr: "restore_loop is_seed node put what rs m = Inr m' \<Longrightarrow> m' = fold put rs m"
  using restore_loop_known [of is_seed node put what rs m m'] by (simp add: restore_loop_ok)

lemma restore_nodes_wf_map: "restore_nodes ns m = Inr m' \<Longrightarrow> wf_map m \<Longrightarrow> wf_map m'"
  by (induction ns arbitrary: m) (auto split: option.splits)

lemma wf_map_put_all [simp]: "wf_map m \<Longrightarrow> wf_map (put_all key vs m)"
  by (induction vs arbitrary: m) simp_all

definition maps_distinct :: "store \<Rightarrow> bool" where
  "maps_distinct s \<longleftrightarrow>
     wf_map (st_nodes s) \<and> wf_map (st_challenges s) \<and> wf_map (st_checkEvents s) \<and> wf_map (st_probeEvents s) \<and>
     wf_map (st_operatorGroups s) \<and> wf_map (st_votingKeyEvidence s) \<and> wf_map (st_decentralization s) \<and>
     wf_map (st_domainEvidence s) \<and> wf_map (st_controlPlane s) \<and> wf_map (st_latestTelemetry s) \<and>
     wf_map (st_alertStates s) \<and> wf_map (st_dailySummaries s) \<and> wf_map (st_qualifiedDecisions s) \<and>
     wf_map (st_basePerformance s) \<and> wf_map (st_rankingRecords s) \<and> wf_map (st_rewardEligibility s) \<and>
     wf_map (st_rewardAllocations s)"

lemma applySnapshot_distinct:
  assumes "applySnapshot snap s = Inr st" and "wf_map (st_nodes s)"
  shows "maps_distinct st"
  using assms unfolding apply_defs Let_def
  by (elim and_thenE)
    (auto simp: maps_distinct_def fold_into_map dest!: restore_loop_Inr intro: restore_nodes_wf_map)

lemma same_keyed:
  assumes "keyed_map key m" and "map_get m' = map_get m" and "wf_map m'"
  shows "keyed_map key m'"
proof -
  have "key v = k" if "(k, v) \<in> set m'" for k v
  proof -
    have "map_get m' k = Some v" using that assms(3) by (simp add: wf_map_def)
    then show ?thesis using assms(2) keyed_map_get [OF assms(1)] by simp
  qed
  then show ?thesis using assms(3) by (auto simp: keyed_map_def keyed_by_def)
qed

lemma same_dated:
  assumes "dated_map date key m" and "map_get m' = map_get m" and "wf_map m'"
  shows "dated_map date key m'"
proof -
  have k: "keyed_map key m" using assms(1) by (simp add: dated_map_def)
  note k' = same_keyed [OF this assms(2,3)]
  have "set (map_vals m') = set (map_vals m)"
    using keyed_map_vals [OF k] keyed_map_vals [OF k'] assms(2) by auto
  with assms(1) k' show ?thesis by (simp add: dated_map_def)
qed

lemma same_wf: "wf_store st \<Longrightarrow> same_store st' st \<Longrightarrow> maps_distinct st' \<Longrightarrow> wf_store st'"
  unfolding wf_store_def same_store_def maps_distinct_def
  by (elim conjE) (intro conjI; (rule same_keyed | rule same_dated), assumption+)

text \<open>The laws of a life: a store of one is well formed, owned, and of the configured nodes.\<close>

definition sound :: "node list \<Rightarrow> store \<Rightarrow> bool" where
  "sound seeds st \<longleftrightarrow> wf_store st \<and> owned st \<and> configured (New_Store seeds) st"

lemma sound_New [simp]: "sound seeds (New_Store seeds)"
  by (simp add: sound_def wf_ops configured_def owned_def) (simp add: owners_all_def New_Store_def)

lemma sound_change: "change e st st' \<Longrightarrow> sound seeds st \<Longrightarrow> sound seeds st'"
  unfolding sound_def using wf_change owned_change configured_change by blast

lemma sound_reload:
  assumes "\<And>st. kept = Some st \<Longrightarrow> sound seeds st"
  obtains st' where "reload seeds kept = Inr st'" "sound seeds st'"
    "\<forall>st. kept = Some st \<longrightarrow> same_store st' st"
proof (cases kept)
  case (Some st)
  then have s: "wf_store st" "owned st" "configured (New_Store seeds) st" using assms by (simp_all add: sound_def)
  from snapshot_restores [OF this] obtain st' where
    a: "applySnapshot (snapshot_of st) (New_Store seeds) = Inr st'" and same: "same_store st' st" by blast
  have "wf_map (st_nodes (New_Store seeds))"
    using sound_New [of seeds] unfolding sound_def wf_store_def keyed_map_def by blast
  note wf = same_wf [OF s(1) same applySnapshot_distinct [OF a this]]
  show thesis
    using snapshot_taken_whole [where snap = "snapshot_of st" and s = "New_Store seeds"] wf same that [of st'] Some
    by (simp add: a sound_def reload_def)
qed (simp add: that [of "New_Store seeds"] reload_def)

text \<open>A property of the store in memory and of the one that a start would load.\<close>

definition both :: "node list \<Rightarrow> (store \<Rightarrow> bool) \<Rightarrow> store \<times> store option \<Rightarrow> bool" where
  "both seeds P m \<longleftrightarrow> P (fst m) \<and> (case snd m of None \<Rightarrow> P (New_Store seeds) | Some st \<Rightarrow> P st)"

lemma both_conj: "both seeds (\<lambda>st. P st \<and> Q st) m \<longleftrightarrow> both seeds P m \<and> both seeds Q m"
  by (auto simp: both_def split: option.split)

lemma life_keeps:
  assumes "life seeds es m m'" and "both seeds P m"
    and "\<And>e st st'. e \<in> es \<Longrightarrow> change e st st' \<Longrightarrow> P st \<Longrightarrow> P st'"
    and "\<And>kept st'. both seeds P (st', kept) \<or> (case kept of None \<Rightarrow> P (New_Store seeds) | Some st \<Rightarrow> P st) \<Longrightarrow>
      reload seeds kept = Inr st' \<Longrightarrow> P st'"
  shows "both seeds P m'"
  using assms(1,2)
proof (induction rule: life.induct)
  case (Restart st kept st')
  then have "both seeds P (st, kept)" by simp
  then show ?case using assms(4) [OF _ Restart.hyps(2)] by (simp add: both_def)
qed (simp_all add: both_def assms(3))

lemma life_sound:
  assumes "life seeds es m m'" and "both seeds (sound seeds) m"
  shows "both seeds (sound seeds) m'"
proof (rule life_keeps [OF assms])
  fix kept st'
  assume "both seeds (sound seeds) (st', kept) \<or>
      (case kept of None \<Rightarrow> sound seeds (New_Store seeds) | Some st \<Rightarrow> sound seeds st)"
    and r: "reload seeds kept = Inr st'"
  then have "\<And>st. kept = Some st \<Longrightarrow> sound seeds st" by (auto simp: both_def)
  then obtain t where "reload seeds kept = Inr t" "sound seeds t" by (rule sound_reload)
  with r show "sound seeds st'" by simp
qed (rule sound_change)

text \<open>
  An invariant of one run lasts when the same content, loaded, has it too. The contract is that of
  \<open>store_invariant\<close> with this law.
\<close>

locale lasting =
  fixes es :: "'w env set" and P :: "store \<Rightarrow> bool"
  assumes on_change: "e \<in> es \<Longrightarrow> change e st st' \<Longrightarrow> wf_store st \<Longrightarrow> P st \<Longrightarrow> P st'"
    and on_load: "same_store st' st \<Longrightarrow> wf_store st \<Longrightarrow> wf_store st' \<Longrightarrow> P st \<Longrightarrow> P st'"

context lasting begin

lemma lasts:
  assumes "life seeds es m m'" and "both seeds (sound seeds) m" and "both seeds P m"
  shows "both seeds (\<lambda>st. sound seeds st \<and> P st) m'"
proof (rule life_keeps [OF assms(1)])
  show "both seeds (\<lambda>st. sound seeds st \<and> P st) m" using assms(2,3) by (simp add: both_conj)
next
  fix e st st'
  assume "e \<in> es" "change e st st'" "sound seeds st \<and> P st"
  then show "sound seeds st' \<and> P st'" using sound_change on_change [of e st st'] by (auto simp: sound_def)
next
  fix kept st'
  assume "both seeds (\<lambda>st. sound seeds st \<and> P st) (st', kept) \<or>
      (case kept of None \<Rightarrow> sound seeds (New_Store seeds) \<and> P (New_Store seeds) | Some st \<Rightarrow> sound seeds st \<and> P st)"
    and r: "reload seeds kept = Inr st'"
  then have k: "case kept of None \<Rightarrow> P (New_Store seeds) | Some st \<Rightarrow> sound seeds st \<and> P st"
    by (auto simp: both_def split: option.splits)
  then have "\<And>st. kept = Some st \<Longrightarrow> sound seeds st" by simp
  then obtain t where t: "reload seeds kept = Inr t" "sound seeds t" "\<forall>st. kept = Some st \<longrightarrow> same_store t st"
    by (rule sound_reload)
  have "P st'"
  proof (cases kept)
    case None
    with k r show ?thesis by (simp add: reload_def)
  next
    case (Some st)
    with k r t show ?thesis using on_load [of st' st] by (simp add: sound_def)
  qed
  with t(1,2) r show "sound seeds st' \<and> P st'" by simp
qed

end

section \<open>The invariants that last\<close>



lemma same_values:
  assumes "map_get m' = map_get m" and "keyed_map key m" and "keyed_map key m'"
  shows "list_all Q (map_vals m') = list_all Q (map_vals m)"
proof -
  have "set (map_vals m') = set (map_vals m)"
    using keyed_map_vals [OF assms(2)] keyed_map_vals [OF assms(3)] assms(1) by auto
  then show ?thesis by (simp add: list_all_iff)
qed

lemma same_evidence_values:
  assumes "same_store st' st" and "wf_store st" and "wf_store st'"
  shows "list_all Q1 (map_vals (st_operatorGroups st')) = list_all Q1 (map_vals (st_operatorGroups st))"
    and "list_all Q2 (map_vals (st_controlPlane st')) = list_all Q2 (map_vals (st_controlPlane st))"
    and "list_all Q3 (map_vals (st_decentralization st')) = list_all Q3 (map_vals (st_decentralization st))"
    and "list_all Q4 (map_vals (st_probeEvents st')) = list_all Q4 (map_vals (st_probeEvents st))"
    and "list_all Q5 (map_vals (st_domainEvidence st')) = list_all Q5 (map_vals (st_domainEvidence st))"
    and "list_all Q6 (map_vals (st_votingKeyEvidence st')) = list_all Q6 (map_vals (st_votingKeyEvidence st))"
    and "list_all Q7 (map_vals (st_checkEvents st')) = list_all Q7 (map_vals (st_checkEvents st))"
    and "set (st_heartbeatEvents st') = set (st_heartbeatEvents st)"
proof -
  note w = assms(1) [unfolded same_store_def] assms(2,3) [unfolded wf_store_def]
  show "list_all Q1 (map_vals (st_operatorGroups st')) = list_all Q1 (map_vals (st_operatorGroups st))"
    by (rule same_values [where key = og_EvidenceRef]) (simp_all add: w)
  show "list_all Q2 (map_vals (st_controlPlane st')) = list_all Q2 (map_vals (st_controlPlane st))"
    by (rule same_values [where key = cp_EvidenceRef]) (simp_all add: w)
  show "list_all Q3 (map_vals (st_decentralization st')) = list_all Q3 (map_vals (st_decentralization st))"
    by (rule same_values [where key = dc_EvidenceRef]) (simp_all add: w)
  show "list_all Q4 (map_vals (st_probeEvents st')) = list_all Q4 (map_vals (st_probeEvents st))"
    by (rule same_values [where key = pe_ProbeID]) (simp_all add: w)
  show "list_all Q5 (map_vals (st_domainEvidence st')) = list_all Q5 (map_vals (st_domainEvidence st))"
    by (rule same_values [where key = dm_EvidenceRef]) (simp_all add: w)
  show "list_all Q6 (map_vals (st_votingKeyEvidence st')) = list_all Q6 (map_vals (st_votingKeyEvidence st))"
    by (rule same_values [where key = vk_EvidenceRef]) (simp_all add: w)
  show "list_all Q7 (map_vals (st_checkEvents st')) = list_all Q7 (map_vals (st_checkEvents st))"
    by (rule same_values [where key = ck_EventID]) (simp_all add: w)
  have "mset (st_heartbeatEvents st') = mset (st_heartbeatEvents st)" using w(1) by simp
  then show "set (st_heartbeatEvents st') = set (st_heartbeatEvents st)" by (metis set_mset_mset)
qed

lemma same_typed:
  "same_store st' st \<Longrightarrow> wf_store st \<Longrightarrow> wf_store st' \<Longrightarrow> typed_store st \<Longrightarrow> typed_store st'"
  unfolding typed_store_def list_all_iff [of _ "st_heartbeatEvents _"] by (simp add: same_evidence_values)

interpretation types_last: lasting es typed_store for es :: "'w env set"
  by unfold_locales (rule evidence_typed.kept, assumption+, rule same_typed)


section \<open>Properties\<close>

lemma born [simp]: "both seeds (sound seeds) (New_Store seeds, None)"
  by (simp add: both_def)

text \<open>
  C17: however often the portal is started again, its store is sound: each record under its key and of a
  configured node, the nodes with their configured part. And a start is never refused: the state file that
  the portal wrote loads, and gives back what was saved last, map by map.
\<close>

theorem store_sound_for_life:
  assumes "life seeds es (New_Store seeds, None) (st, kept)"
  shows "wf_store st \<and> owned st \<and> configured (New_Store seeds) st
    \<and> (\<exists>st'. reload seeds kept = Inr st' \<and> (\<forall>k. kept = Some k \<longrightarrow> same_store st' k))"
proof -
  have b: "both seeds (sound seeds) (st, kept)" by (rule life_sound [OF assms born])
  then have "\<And>k. kept = Some k \<Longrightarrow> sound seeds k" by (simp add: both_def)
  then obtain st' where "reload seeds kept = Inr st'" "\<forall>k. kept = Some k \<longrightarrow> same_store st' k"
    by (rule sound_reload)
  with b show ?thesis by (auto simp: both_def sound_def)
qed

text \<open>
  C19: at any time of such a life the store can be saved and loaded from the files: when a save succeeds,
  the file it leaves loads to the same store, the heartbeat log up to its order.
\<close>

theorem save_then_start:
  assumes "life seeds es (New_Store seeds, None) (st, kept)" and "Save enc w path st d = (ds, None)"
    and "\<And>data. enc (snapshot_of st) = Inr data \<Longrightarrow> dec data = Inr (snapshot_of st)"
  shows "\<exists>st'. Load dec seeds path (ReadFile None (files_after d ds) path) = Inr st' \<and> same_store st' st"
proof -
  have "sound seeds st" using life_sound [OF assms(1) born] by (simp add: both_def)
  then obtain st' where "applySnapshot (snapshot_of st) (New_Store seeds) = Inr st'" "same_store st' st"
    using snapshot_restores unfolding sound_def by blast
  then show ?thesis using save_succeeds [OF assms(2)] assms(3) by (auto simp: Load_def ReadFile_def Let_def)
qed


text \<open>
  C21: in the whole of such a life, the evidence is well typed. Each record's time has a day, so it counts for
  exactly one day; a review state is one of the three; a probe that was up has both lags and every probe a
  positive window; a place has a network number and a country.
\<close>

theorem evidence_typed_for_life:
  assumes "life seeds es (New_Store seeds, None) (st, kept)"
  shows "typed_store st"
proof -
  have "both seeds typed_store (New_Store seeds, None)"
    by (simp add: both_def typed_store_def New_Store_def)
  from types_last.lasts [OF assms(1) born this] show ?thesis by (simp add: both_def)
qed


section \<open>An example\<close>

abbreviation ex_seeds :: "node list" where "ex_seeds \<equiv> [ex_agent, ex_node ''b'']"
abbreviation ex_beaten :: store where
  "ex_beaten \<equiv> sv_store (fst (Handler ex_env ex_clk (ex_beat ''7'') ex_start))"

text \<open>The portal takes a heartbeat, saves, crashes and is started again.\<close>

definition ex_again :: store where "ex_again = projr (reload ex_seeds (Some ex_beaten))"

lemma ex_life:
  "life ex_seeds {ex_env} (New_Store ex_seeds, None) (ex_beaten, Some ex_beaten)"
  "life ex_seeds {ex_env} (ex_beaten, Some ex_beaten) (ex_again, Some ex_beaten)"
proof -
  have "life ex_seeds {ex_env} (New_Store ex_seeds, None) (ex_beaten, None)"
    using life_changes [OF life.Begin _ Handler_changes [OF ex_clk_ok], of ex_env "{ex_env}" ex_seeds ex_start None]
    unfolding ex_start_store by simp
  then show a: "life ex_seeds {ex_env} (New_Store ex_seeds, None) (ex_beaten, Some ex_beaten)" by (rule life.Keep)
  have "both ex_seeds (sound ex_seeds) (ex_beaten, Some ex_beaten)" by (rule life_sound [OF a born])
  then have "\<And>k. Some ex_beaten = Some k \<Longrightarrow> sound ex_seeds k" by (simp add: both_def)
  then obtain st where st: "reload ex_seeds (Some ex_beaten) = Inr st" by (rule sound_reload)
  then have "reload ex_seeds (Some ex_beaten) = Inr ex_again" by (simp add: ex_again_def)
  with life.Begin show "life ex_seeds {ex_env} (ex_beaten, Some ex_beaten) (ex_again, Some ex_beaten)"
    by (rule life.Restart)
qed

lemma ex_life_trans:
  "life seeds es a b \<Longrightarrow> life seeds es b c \<Longrightarrow> life seeds es a c"
  by (rotate_tac 1, induction rule: life.induct) (auto intro: life.intros)

lemmas ex_whole_life = ex_life_trans [OF ex_life]

theorem store_sound_for_life_witness:
  "\<exists>st'. reload ex_seeds (Some ex_beaten) = Inr st' \<and> same_store st' ex_beaten"
  using store_sound_for_life [OF ex_whole_life] by blast

theorem save_then_start_witness:
  "\<exists>st'. applySnapshot (snapshot_of ex_again) (New_Store ex_seeds) = Inr st' \<and> same_store st' ex_again"
proof -
  let ?ds = "fst (Save (\<lambda>_. Inr ''x'') ex_disk ''state.json'' ex_again Map.empty)"
  have 1: "Save (\<lambda>_. Inr ''x'') ex_disk ''state.json'' ex_again Map.empty = (?ds, None)"
    by (simp add: Save_def ex_disk_def Let_def)
  have "files_after Map.empty ?ds ''state.json'' = Some \<lparr>f_data = ''x'', f_synced = True\<rparr>"
    by (simp add: Save_def ex_disk_def Let_def files_after_def)
  then show ?thesis
    using save_then_start [OF ex_whole_life 1, where dec = "\<lambda>_. Inr (snapshot_of ex_again)"]
    by (simp add: Load_def ReadFile_def Let_def)
qed


theorem evidence_typed_for_life_witness: "typed_store ex_again"
  by (rule evidence_typed_for_life [OF ex_whole_life])


end
