(* ===== verification/Mail_Session.thy ===== *)
theory Mail_Session
  imports Notifier Json
begin

text \<open>
  The mail notifier's session (\<^verbatim>\<open>SMTPNotifier.Send\<close> of \<^verbatim>\<open>portal/internal/notifier/smtp.go\<close>) as the commands it
  gives, one after another, until one fails. The mail server is a parameter: which extensions it offers
  and how it answers each command (its error text, if any).
\<close>

datatype smtp_step =
    Dial string int
  | Greet string
  | Extension string
  | Start_TLS string
  | Auth_Plain string string string
  | Mail_From string
  | Rcpt_To string
  | Data_Start
  | Data_Text string
  | Data_End
  | Quit

record smtp_peer =
  sp_offers :: "string \<Rightarrow> bool"
  sp_answer :: "smtp_step \<Rightarrow> string option"

definition step_error :: "smtp_peer \<Rightarrow> smtp_step \<Rightarrow> string option" where
  "step_error peer st =
     (case st of
        Extension name \<Rightarrow> if sp_offers peer name then None else Some (''smtp server does not support '' @ name)
      | _ \<Rightarrow> sp_answer peer st)"

text \<open>
  The commands given, up to the one that failed, and the error. When the text cannot be written, the writer
  is still closed.
\<close>

fun session :: "smtp_peer \<Rightarrow> smtp_step list \<Rightarrow> smtp_step list \<times> string option" where
  "session peer [] = ([], None)"
| "session peer (st # sts) =
     (case step_error peer st of
        Some err \<Rightarrow> (st # (case st of Data_Text t \<Rightarrow> [Data_End] | _ \<Rightarrow> []), Some err)
      | None \<Rightarrow> apfst ((#) st) (session peer sts))"

definition crlf :: string where "crlf = [CHR 0x0D, CHR 0x0A]"

definition mail_text :: "(string \<Rightarrow> string) \<Rightarrow> smtp_config \<Rightarrow> notification \<Rightarrow> string" where
  "mail_text upper c n =
     ''From: '' @ sm_From c @ crlf @ ''To: '' @ no_Recipient n @ crlf @ ''Subject: '' @ Subject upper n @ crlf
     @ ''MIME-Version: 1.0'' @ crlf @ ''Content-Type: text/plain; charset=UTF-8'' @ crlf @ crlf @ Body n"

definition mail_steps :: "(string \<Rightarrow> string) \<Rightarrow> smtp_config \<Rightarrow> notification \<Rightarrow> smtp_step list" where
  "mail_steps upper c n =
     [Dial (sm_Host c @ '':'' @ itoa (sm_Port c)) (if sm_Timeout c \<le> 0 then 10000000000 else sm_Timeout c),
      Greet (sm_Host c), Extension ''STARTTLS'', Start_TLS (sm_Host c), Extension ''AUTH'',
      Auth_Plain (sm_Username c) (sm_Password c) (sm_Host c), Mail_From (sm_From c), Rcpt_To (no_Recipient n),
      Data_Start, Data_Text (mail_text upper c n), Data_End, Quit]"

definition SMTP_Send ::
    "(string \<Rightarrow> string option) \<Rightarrow> (string \<Rightarrow> string) \<Rightarrow> smtp_peer \<Rightarrow> smtp_config \<Rightarrow> notification \<Rightarrow>
     smtp_step list \<times> string option" where
  "SMTP_Send parse_address upper peer c n =
     (case smtp_guards parse_address c n of
        Some err \<Rightarrow> ([], Some err)
      | None \<Rightarrow> session peer (mail_steps upper c n))"

section \<open>The other notifiers\<close>

text \<open>\<^verbatim>\<open>StdoutNotifier\<close> prints the notification as one line of JSON.\<close>

definition notification_json :: "notification \<Rightarrow> json" where
  "notification_json n =
     JObj [(''node_id'', JStr (no_NodeID n)), (''alert_code'', JStr (no_AlertCode n)),
       (''severity'', JStr (severity_str (no_Severity n))), (''channel'', JStr (no_Channel n)),
       (''recipient'', JStr (no_Recipient n)), (''occurred_at'', JStr (no_OccurredAt n)),
       (''message'', JStr (no_Message n))]"

definition Stdout_Send :: "('w \<Rightarrow> string \<Rightarrow> 'w \<times> string option) \<Rightarrow> 'w \<Rightarrow> notification \<Rightarrow> 'w \<times> string option" where
  "Stdout_Send print w n = print w (marshal (notification_json n) @ nl)"

section \<open>Properties\<close>

fun secret :: "smtp_step \<Rightarrow> bool" where
  "secret (Auth_Plain u p h) = True"
| "secret (Data_Text t) = True"
| "secret _ = False"

text \<open>A secret is given only after the commands before it, in the order of the program, have passed.\<close>

lemma session_passed:
  assumes "fst (session peer sts) = pre @ st # post" and "secret st"
  shows "(\<exists>rest. sts = pre @ st # rest) \<and> (\<forall>x \<in> set pre. step_error peer x = None)"
  using assms(1)
proof (induction sts arbitrary: pre)
  case (Cons s sts)
  then show ?case
    using assms(2) by (cases pre) (auto split: option.splits smtp_step.splits simp: append_eq_Cons_conv Cons_eq_append_conv)
qed simp

lemma session_result:
  "snd (session peer sts) = None \<longleftrightarrow> list_all (\<lambda>st. step_error peer st = None) sts"
  "snd (session peer sts) = None \<Longrightarrow> fst (session peer sts) = sts"
  by (induction sts) (auto split: option.splits)

lemma tls_first:
  assumes "mail_steps upper c n = pre @ st # post" and "secret st"
  shows "{Extension ''STARTTLS'', Start_TLS (sm_Host c)} \<subseteq> set pre"
  using assms by (auto simp: mail_steps_def Cons_eq_append_conv)

text \<open>
  C23: the mail notifier gives the password and the message only to a server that has offered and completed
  TLS for its host name, whatever the server answers; and it reports success exactly when the
  configuration passed and every command did. When a server takes the message and fails only the farewell,
  the send counts as failed though the mail was accepted.
\<close>

theorem mail_secret_after_tls:
  assumes "smtp_guards pa c n = None"
  shows "(fst (SMTP_Send pa upper peer c n) = pre @ st # post \<and> secret st \<longrightarrow>
      Start_TLS (sm_Host c) \<in> set pre \<and> sp_offers peer ''STARTTLS'' \<and> sp_answer peer (Start_TLS (sm_Host c)) = None)
    \<and> (snd (SMTP_Send pa upper peer c n) = None \<longleftrightarrow> list_all (\<lambda>st. step_error peer st = None) (mail_steps upper c n))
    \<and> (list_all (\<lambda>st. step_error peer st = None) (butlast (mail_steps upper c n)) \<and> sp_answer peer Quit = Some err \<longrightarrow>
        SMTP_Send pa upper peer c n = (mail_steps upper c n, Some err))"
proof -
  have send: "SMTP_Send pa upper peer c n = session peer (mail_steps upper c n)"
    using assms by (simp add: SMTP_Send_def)
  have "Start_TLS (sm_Host c) \<in> set pre \<and> sp_offers peer ''STARTTLS'' \<and> sp_answer peer (Start_TLS (sm_Host c)) = None"
    if st: "fst (session peer (mail_steps upper c n)) = pre @ st # post" "secret st"
  proof -
    note passed = session_passed [OF st]
    then have "{Extension ''STARTTLS'', Start_TLS (sm_Host c)} \<subseteq> set pre" using tls_first st(2) by blast
    then have "Start_TLS (sm_Host c) \<in> set pre" "step_error peer (Extension ''STARTTLS'') = None"
      "step_error peer (Start_TLS (sm_Host c)) = None" using passed by auto
    then show ?thesis by (simp add: step_error_def split: if_splits)
  qed
  moreover have "session peer (mail_steps upper c n) = (mail_steps upper c n, Some err)"
    if "list_all (\<lambda>st. step_error peer st = None) (butlast (mail_steps upper c n))" "sp_answer peer Quit = Some err"
    using that by (simp add: mail_steps_def step_error_def)
  ultimately show ?thesis unfolding send session_result(1) by blast
qed

definition ex_mail :: smtp_config where
  "ex_mail = \<lparr>sm_Host = ''mail'', sm_Port = 587, sm_Username = ''u'', sm_Password = ''p'', sm_From = ''f@x'', sm_Timeout = 0\<rparr>"

definition ex_note :: notification where
  "ex_note = \<lparr>no_NodeID = ''a'', no_AlertCode = ''heartbeat_failed'', no_Severity = Critical, no_Channel = ''email'',
     no_Recipient = ''ops@x'', no_OccurredAt = [], no_Message = []\<rparr>"

text \<open>A server that hangs up before it answers the farewell.\<close>

definition ex_peer :: smtp_peer where
  "ex_peer = \<lparr>sp_offers = (\<lambda>_. True), sp_answer = (\<lambda>st. if st = Quit then Some ''EOF'' else None)\<rparr>"

theorem mail_secret_after_tls_witness:
  "Data_End \<in> set (fst (SMTP_Send (\<lambda>_. None) id ex_peer ex_mail ex_note)) \<and>
   snd (SMTP_Send (\<lambda>_. None) id ex_peer ex_mail ex_note) = Some ''EOF''"
proof -
  have 1: "smtp_guards (\<lambda>_. None) ex_mail ex_note = None" by code_simp
  have 2: "list_all (\<lambda>st. step_error ex_peer st = None) (butlast (mail_steps id ex_mail ex_note)) \<and> sp_answer ex_peer Quit = Some ''EOF''"
    by (simp add: mail_steps_def step_error_def ex_peer_def)
  have "SMTP_Send (\<lambda>_. None) id ex_peer ex_mail ex_note = (mail_steps id ex_mail ex_note, Some ''EOF'')"
    using mail_secret_after_tls [OF 1, of id ex_peer "[]" Quit "[]" "''EOF''"] 2 by blast
  then show ?thesis by (simp add: mail_steps_def)
qed

end
