(* ===== verification/Startup.thy ===== *)
theory Startup
  imports Restarts Mail_Session
begin




section \<open>The server\<close>





section \<open>The command\<close>






section \<open>Properties\<close>











end
