(* ===== verification/Serving.thy ===== *)
theory Serving
  imports Startup
begin

text \<open>
  The running portal: \<^verbatim>\<open>ListenAndServe\<close> of \<^verbatim>\<open>portal/internal/server/server.go\<close> and \<^verbatim>\<open>runAlertLoop\<close> of
  \<^verbatim>\<open>portal/internal/server/alerts.go\<close>, as steps of its goroutines: the listener accepts requests and each
  is handled on its own, the alert loop scans at its ticks, and a signal cancels the context, after which
  the loop ends and the listener is shut down, in any order. The command's \<^verbatim>\<open>run\<close> returns when
  \<^verbatim>\<open>ListenAndServe\<close> does, and the process ends. The HTTP server is the one of the standard library: once
  \<^verbatim>\<open>Shutdown\<close> has been called, its \<^verbatim>\<open>ListenAndServe\<close> returns at once with \<^verbatim>\<open>ErrServerClosed\<close>, while
  \<^verbatim>\<open>Shutdown\<close> goes on waiting for open requests.
\<close>

datatype serve_event =
    Accept request
  | Answer nat clk
  | Tick instant
  | Loop_Ends
  | Cancel
  | Shutdown
  | Listen_Fails goerr
  | Exit







section \<open>What the goroutines do is a run of the portal\<close>









text \<open>A request is only forgotten by being answered, and every answer is one handled request.\<close>

definition answers :: "serve_event list \<Rightarrow> nat" where
  "answers evs = length [ev \<leftarrow> evs. case ev of Answer i clk \<Rightarrow> True | _ \<Rightarrow> False]"

definition accepts :: "serve_event list \<Rightarrow> nat" where
  "accepts evs = length [ev \<leftarrow> evs. case ev of Accept r \<Rightarrow> True | _ \<Rightarrow> False]"



lemma answers_simps [simp]: "answers [] = 0" "accepts [] = 0"
  by (simp_all add: answers_def accepts_def)






end
