(* ===== verification/Symbol_Client.thy ===== *)
theory Symbol_Client
  imports Go_Duration Policy
begin

text \<open>
  \<^verbatim>\<open>agent/internal/symbol/client.go\<close>: what the agent asks the node's API, and whether the node's voting
  key is about to expire.

  The answers are parameters (\<open>symbol_api\<close>): each is a transport error, or a status with the decoded body
  or the error of the decoder. A value decoded into \<^verbatim>\<open>any\<close> is a string, a float or something else; the
  branches for Go's integer types and \<^verbatim>\<open>json.Number\<close> have no value to take, since this decoder makes
  none. Errors that wrap another keep the text before it.
\<close>

section \<open>Answers\<close>

text \<open>\<^verbatim>\<open>getJSON\<close>: a transport error, or a status code with its line and the decoded body.\<close>

type_synonym 'r http_result = "goerr + (int \<times> string) \<times> (goerr + 'r)"

definition getJSON :: "string \<Rightarrow> 'r http_result \<Rightarrow> goerr + 'r" where
  "getJSON path result =
     (case result of
        Inl err \<Rightarrow> Inl err
      | Inr ((code, line), decoded) \<Rightarrow>
          if code < 200 \<or> 300 \<le> code then Inl (Msg (''symbol api '' @ path @ '' returned '' @ line))
          else decoded)"

datatype any_value = Any_String string | Any_Float float64 | Any_Other

record node_info =
  ni_PublicKey :: string
  ni_NodePublicKey :: string

record chain_properties =
  xp_VotingSetGrouping :: string
  xp_BlockGenerationTargetTime :: string

record network_properties =
  np_Chain :: chain_properties
  np_NetworkChain :: chain_properties

record voting_key =
  vy_PublicKey :: string
  vy_StartEpoch :: any_value
  vy_EndEpoch :: any_value

record symbol_api =
  sa_node_info :: "node_info http_result"
  sa_chain_info :: "string http_result"
  sa_properties :: "network_properties http_result"
  sa_account :: "string \<Rightarrow> voting_key list http_result"

section \<open>Numbers\<close>

definition parseIntString :: "string \<Rightarrow> goerr + int" where
  "parseIntString v =
     (let trimmed = trim_space v
      in if trimmed = [] then Inl (Msg ''empty value'')
         else (case parse_int64 trimmed of None \<Rightarrow> Inl (Field_Error trimmed ''invalid int64'') | Some n \<Rightarrow> Inr n))"

definition parseIntLike :: "any_value \<Rightarrow> goerr + int" where
  "parseIntLike v =
     (case v of
        Any_String s \<Rightarrow> parseIntString s
      | Any_Float f \<Rightarrow> Inr (int_of_float f)
      | Any_Other \<Rightarrow> Inl (Msg ''unsupported integer type''))"

definition currentVotingEpoch :: "int \<Rightarrow> int \<Rightarrow> int" where
  "currentVotingEpoch height grouping =
     (if height \<le> 0 \<or> grouping \<le> 0 then 0 else go_div (height - 1) grouping + 1)"

section \<open>The four questions\<close>

definition fetchNodePublicKey :: "symbol_api \<Rightarrow> goerr + string" where
  "fetchNodePublicKey api =
     and_then (getJSON ''/node/info'' (sa_node_info api)) (\<lambda>resp.
       let publicKey = (if trim_space (ni_PublicKey resp) = [] then trim_space (ni_NodePublicKey resp)
                        else trim_space (ni_PublicKey resp))
       in if publicKey = [] then Inl (Msg ''node info missing publicKey'') else Inr publicKey)"

definition fetchChainHeight :: "symbol_api \<Rightarrow> goerr + int" where
  "fetchChainHeight api =
     and_then (getJSON ''/chain/info'' (sa_chain_info api)) (\<lambda>height.
       case parseIntString height of Inl err \<Rightarrow> Inl (Msg ''invalid chain height'') | Inr n \<Rightarrow> Inr n)"

definition fetchEpochProperties :: "symbol_api \<Rightarrow> goerr + int \<times> duration" where
  "fetchEpochProperties api =
     and_then (getJSON ''/network/properties'' (sa_properties api)) (\<lambda>resp.
       let props = (if xp_VotingSetGrouping (np_Chain resp) = [] then np_NetworkChain resp else np_Chain resp)
       in (case parseIntString (xp_VotingSetGrouping props) of
            Inl err \<Rightarrow> Inl (Msg ''invalid votingSetGrouping'')
          | Inr grouping \<Rightarrow>
              if grouping \<le> 0 then Inl (Msg ''invalid votingSetGrouping'')
              else (case ParseDuration (trim_space (xp_BlockGenerationTargetTime props)) of
                None \<Rightarrow> Inl (Msg ''invalid blockGenerationTargetTime'')
              | Some blockTargetTime \<Rightarrow>
                  if blockTargetTime \<le> 0 then Inl (Msg ''invalid blockGenerationTargetTime'')
                  else Inr (grouping, blockTargetTime))))"

fun earliest_loop :: "int \<Rightarrow> int option \<Rightarrow> voting_key list \<Rightarrow> goerr + int option" where
  "earliest_loop currentEpoch earliest [] = Inr earliest"
| "earliest_loop currentEpoch earliest (key # keys) =
     (case parseIntLike (vy_StartEpoch key) of
        Inl err \<Rightarrow> Inl (Msg ''invalid voting startEpoch'')
      | Inr startEpoch \<Rightarrow>
          (case parseIntLike (vy_EndEpoch key) of
             Inl err \<Rightarrow> Inl (Msg ''invalid voting endEpoch'')
           | Inr endEpoch \<Rightarrow>
               earliest_loop currentEpoch
                 (if currentEpoch < startEpoch \<or> endEpoch < currentEpoch then earliest
                  else (case earliest of
                          None \<Rightarrow> Some endEpoch
                        | Some e \<Rightarrow> if endEpoch < e then Some endEpoch else earliest)) keys))"

definition fetchEarliestActiveVotingEndEpoch :: "symbol_api \<Rightarrow> string \<Rightarrow> int \<Rightarrow> goerr + int option" where
  "fetchEarliestActiveVotingEndEpoch api publicKey currentEpoch =
     and_then (getJSON (''/accounts/'' @ publicKey) (sa_account api publicKey))
       (earliest_loop currentEpoch None)"

section \<open>The risk\<close>

definition near_expiry :: "int \<Rightarrow> int \<Rightarrow> duration \<Rightarrow> duration \<Rightarrow> int \<Rightarrow> goerr + bool" where
  "near_expiry height grouping blockTargetTime riskWindow endEpoch =
     (let remaining = wrap64 (endEpoch - currentVotingEpoch height grouping);
          remainingEpochs = (if remaining < 0 then 0 else remaining);
          epochDuration = wrap64 (grouping * blockTargetTime)
      in if epochDuration \<le> 0 then Inl (Msg ''invalid epoch duration'')
         else Inr (wrap64 (remainingEpochs * epochDuration) < riskWindow))"

definition HasVotingKeyExpiryRisk :: "symbol_api \<Rightarrow> duration \<Rightarrow> goerr + bool" where
  "HasVotingKeyExpiryRisk api riskWindow =
     and_then (fetchNodePublicKey api) (\<lambda>publicKey.
     and_then (fetchChainHeight api) (\<lambda>height.
     and_then (fetchEpochProperties api) (\<lambda>(grouping, blockTargetTime).
     and_then (fetchEarliestActiveVotingEndEpoch api publicKey (currentVotingEpoch height grouping))
       (\<lambda>earliest.
          case earliest of
            None \<Rightarrow> Inr False
          | Some endEpoch \<Rightarrow> near_expiry height grouping blockTargetTime riskWindow endEpoch))))"

section \<open>The earliest end\<close>

text \<open>The end epochs of the keys that are valid now.\<close>

definition active_ends :: "(voting_key \<Rightarrow> int) \<Rightarrow> (voting_key \<Rightarrow> int) \<Rightarrow> int \<Rightarrow> voting_key list \<Rightarrow> int list" where
  "active_ends S E currentEpoch keys =
     map E (filter (\<lambda>k. S k \<le> currentEpoch \<and> currentEpoch \<le> E k) keys)"

definition epochs_read :: "(voting_key \<Rightarrow> int) \<Rightarrow> (voting_key \<Rightarrow> int) \<Rightarrow> voting_key list \<Rightarrow> bool" where
  "epochs_read S E keys \<longleftrightarrow>
     list_all (\<lambda>k. parseIntLike (vy_StartEpoch k) = Inr (S k) \<and> parseIntLike (vy_EndEpoch k) = Inr (E k)) keys"

lemma earliest_loop_least:
  assumes "epochs_read S E keys"
  shows "earliest_loop cur acc keys =
    Inr (case acc of
      None \<Rightarrow> if active_ends S E cur keys = [] then None else Some (Min (set (active_ends S E cur keys)))
    | Some e \<Rightarrow> Some (Min (insert e (set (active_ends S E cur keys)))))"
  using assms
proof (induction keys arbitrary: acc)
  case Nil
  then show ?case by (simp add: active_ends_def split: option.split)
next
  case (Cons k keys)
  have "epochs_read S E keys" using Cons.prems by (simp add: epochs_read_def)
  note IH = Cons.IH [OF this]
  have k: "parseIntLike (vy_StartEpoch k) = Inr (S k)" "parseIntLike (vy_EndEpoch k) = Inr (E k)"
    using Cons.prems by (simp_all add: epochs_read_def)
  let ?es = "set (active_ends S E cur keys)"
  have fin: "finite ?es" by simp
  show ?case
  proof (cases "S k \<le> cur \<and> cur \<le> E k")
    case False
    then have "active_ends S E cur (k # keys) = active_ends S E cur keys" by (auto simp: active_ends_def)
    with False show ?thesis by (cases acc) (auto simp: k IH)
  next
    case True
    then have ends: "active_ends S E cur (k # keys) = E k # active_ends S E cur keys" by (simp add: active_ends_def)
    have "Min (insert (E k) ?es) = (if ?es = {} then E k else min (E k) (Min ?es))" by (simp add: Min_insert)
    moreover have "Min (insert e (insert (E k) ?es)) = Min (insert (if E k < e then E k else e) ?es)" for e
      by (cases "?es = {}") (auto simp: Min_insert min_def)
    ultimately show ?thesis using True by (cases acc) (auto simp: k IH ends)
  qed
qed

end
