(* ===== verification/Agent_Base.thy ===== *)
theory Agent_Base
  imports Http Symbol_Client Snapshot
begin

text \<open>
  The parts of the agent its runtime is built from: the configuration
  (\<^verbatim>\<open>agent/internal/config/config.go\<close>), the keys (\<^verbatim>\<open>crypto/crypto.go\<close>), the state file
  (\<^verbatim>\<open>state/state.go\<close>), the heartbeat (\<^verbatim>\<open>heartbeat/heartbeat.go\<close>), the two portal clients
  (\<^verbatim>\<open>client/client.go\<close>, \<^verbatim>\<open>policy/policy.go\<close>).

  The machine the agent runs on has files, and a rest of any type \<open>'w\<close>; \<open>host\<close> collects the calls that act
  on the rest or read it, each returning it as it is after the call. Codecs, Ed25519 and SHA-256 are pure
  parameters.
\<close>

section \<open>Configuration\<close>

record agent_config =
  ac_NodeID :: string
  ac_PortalBaseURL :: string
  ac_AgentKeyPath :: string
  ac_AgentPublicKeyPath :: string
  ac_MonitoredEndpoint :: string
  ac_StatePath :: string
  ac_TempDir :: string
  ac_RequestTimeoutSeconds :: int
  ac_HeartbeatJitterSecondsMax :: int
  ac_AgentVersion :: string
  ac_EnrollmentGeneration :: int

definition agent_config_Validate :: "agent_config \<Rightarrow> goerr option" where
  "agent_config_Validate c =
     (if ac_NodeID c = [] then Some (Msg ''config: node_id is required'')
      else if ac_PortalBaseURL c = [] then Some (Msg ''config: portal_base_url is required'')
      else if ac_AgentKeyPath c = [] then Some (Msg ''config: agent_key_path is required'')
      else if ac_AgentPublicKeyPath c = [] then Some (Msg ''config: agent_public_key_path is required'')
      else if ac_MonitoredEndpoint c = [] then Some (Msg ''config: monitored_endpoint is required'')
      else if ac_StatePath c = [] then Some (Msg ''config: state_path is required'')
      else if ac_TempDir c = [] then Some (Msg ''config: temp_dir is required'')
      else if ac_RequestTimeoutSeconds c \<le> 0 then Some (Msg ''config: request_timeout_seconds must be > 0'')
      else if ac_HeartbeatJitterSecondsMax c < 0
      then Some (Msg ''config: heartbeat_jitter_seconds_max must be >= 0'')
      else if ac_AgentVersion c = [] then Some (Msg ''config: agent_version is required'')
      else if ac_EnrollmentGeneration c \<le> 0 then Some (Msg ''config: enrollment_generation must be > 0'')
      else None)"

definition agent_config_Load ::
    "(string \<Rightarrow> goerr + string) \<Rightarrow> (string \<Rightarrow> goerr + agent_config) \<Rightarrow> string \<Rightarrow> goerr + agent_config" where
  "agent_config_Load read_file yaml path =
     and_then (read_file path) (\<lambda>data.
     and_then (yaml data) (\<lambda>cfg.
     case agent_config_Validate cfg of Some err \<Rightarrow> Inl err | None \<Rightarrow> Inr cfg))"

section \<open>State\<close>

text \<open>A map of flags may be nil: it reads as empty, and is made before it is written to.\<close>

type_synonym flag_map = "(string, bool) gomap option"

record agent_state =
  gs_SequenceNumber :: int
  gs_LastPolicyVersion :: string
  gs_AgentKeyFingerprint :: string
  gs_ConsecutivePortalFailures :: int
  gs_ActiveWarnings :: flag_map
  gs_PendingWarnings :: flag_map

definition zero_state :: agent_state where
  "zero_state =
     \<lparr>gs_SequenceNumber = 0, gs_LastPolicyVersion = [], gs_AgentKeyFingerprint = [],
      gs_ConsecutivePortalFailures = 0, gs_ActiveWarnings = None, gs_PendingWarnings = None\<rparr>"

definition flag_set :: "flag_map \<Rightarrow> string \<Rightarrow> bool" where
  "flag_set m k = (case m of None \<Rightarrow> False | Some kvs \<Rightarrow> map_get kvs k = Some True)"

definition set_flag :: "string \<Rightarrow> flag_map \<Rightarrow> flag_map" where
  "set_flag k m = map_option (map_put k True) m"

definition delete_flag :: "string \<Rightarrow> flag_map \<Rightarrow> flag_map" where
  "delete_flag k m = map_option (map_remove k) m"

section \<open>The machine\<close>

text \<open>The agent's copy of the policy types (\<^verbatim>\<open>Response\<close> and its parts) has the portal's fields.\<close>

type_synonym agent_policy = policy_document

record url =
  ur_Scheme :: string
  ur_Host :: string
  ur_Port :: string

text \<open>
  The agent's machine: the bytes of its files, and the rest. Writing a file may fail before it is opened,
  or after some of the bytes were written over the old ones.
\<close>

record 'w machine =
  mc_files :: "string \<Rightarrow> string option"
  mc_world :: 'w

datatype write_outcome = Written | Not_Opened goerr | Cut nat goerr

record 'w host =
  ho_read_fault :: "'w \<Rightarrow> string \<Rightarrow> goerr option"
  ho_mkdir :: "'w \<Rightarrow> string \<Rightarrow> 'w \<times> goerr option"
  ho_write :: "'w \<Rightarrow> string \<Rightarrow> 'w \<times> write_outcome"
  ho_do :: "'w \<Rightarrow> string \<Rightarrow> string \<Rightarrow> json \<Rightarrow> 'w \<times> (goerr + int \<times> string)"
  ho_policy :: "'w \<Rightarrow> string \<Rightarrow> (string \<times> string) list \<Rightarrow> 'w \<times> agent_policy http_result"
  ho_symbol :: "'w \<Rightarrow> 'w \<times> symbol_api"
  ho_not_after :: "'w \<Rightarrow> string \<Rightarrow> string \<Rightarrow> 'w \<times> instant list option"
  ho_print :: "'w \<Rightarrow> (string \<times> json) list \<Rightarrow> 'w \<times> goerr option"
  ho_now :: "'w \<Rightarrow> 'w \<times> instant"
  ho_wait :: "'w \<Rightarrow> duration \<Rightarrow> 'w \<times> goerr option"
  ho_encode :: "agent_state \<Rightarrow> goerr + string"
  ho_decode :: "string \<Rightarrow> goerr + agent_state"
  ho_url :: "string \<Rightarrow> goerr + url"
  ho_sign :: "string \<Rightarrow> string \<Rightarrow> string"
  ho_sha256 :: "string \<Rightarrow> string"

text \<open>A call that acts on the rest of the machine leaves the files alone.\<close>

definition outside :: "('w \<Rightarrow> 'w \<times> 'a) \<Rightarrow> 'w machine \<Rightarrow> 'w machine \<times> 'a" where
  "outside f m = (case f (mc_world m) of (w, x) \<Rightarrow> (m\<lparr>mc_world := w\<rparr>, x))"

lemma outside_files [simp]: "mc_files (fst (outside f m)) = mc_files m"
  by (simp add: outside_def split: prod.split)

definition state_Load :: "'w host \<Rightarrow> string \<Rightarrow> 'w machine \<Rightarrow> goerr + agent_state" where
  "state_Load h path m =
     (case ho_read_fault h (mc_world m) path of
        Some err \<Rightarrow> Inl err
      | None \<Rightarrow> (case mc_files m path of None \<Rightarrow> Inr zero_state | Some data \<Rightarrow> ho_decode h data))"

definition WriteFile :: "'w host \<Rightarrow> string \<Rightarrow> string \<Rightarrow> 'w machine \<Rightarrow> 'w machine \<times> goerr option" where
  "WriteFile h path data m =
     (case outside (\<lambda>w. ho_write h w path) m of
        (m1, Written) \<Rightarrow> (m1\<lparr>mc_files := (mc_files m1)(path \<mapsto> data)\<rparr>, None)
      | (m1, Not_Opened err) \<Rightarrow> (m1, Some err)
      | (m1, Cut n err) \<Rightarrow> (m1\<lparr>mc_files := (mc_files m1)(path \<mapsto> take n data)\<rparr>, Some err))"

definition state_Save :: "'w host \<Rightarrow> string \<Rightarrow> agent_state \<Rightarrow> 'w machine \<Rightarrow> 'w machine \<times> goerr option" where
  "state_Save h path st m =
     (case outside (\<lambda>w. ho_mkdir h w path) m of
        (m1, Some err) \<Rightarrow> (m1, Some err)
      | (m1, None) \<Rightarrow>
          (case ho_encode h st of
             Inl err \<Rightarrow> (m1, Some err)
           | Inr data \<Rightarrow> WriteFile h path data m1))"

section \<open>Keys\<close>

text \<open>Reading a key: PEM and DER are parameters, and a parsed key may be of another kind.\<close>

datatype parsed_key = Ed25519_Key string | Other_Key

definition load_key ::
    "string \<Rightarrow> (string \<Rightarrow> goerr + string) \<Rightarrow> (string \<Rightarrow> string option) \<Rightarrow> (string \<Rightarrow> goerr + parsed_key) \<Rightarrow>
     string \<Rightarrow> goerr + string" where
  "load_key what read_file pem parse path =
     and_then (read_file path) (\<lambda>data.
       case pem data of
         None \<Rightarrow> Inl (Msg (what @ '' key: invalid pem''))
       | Some block \<Rightarrow>
           and_then (parse block) (\<lambda>k.
             case k of Ed25519_Key key \<Rightarrow> Inr key | Other_Key \<Rightarrow> Inl (Msg (what @ '' key: not ed25519''))))"

definition LoadPrivateKey ::
    "(string \<Rightarrow> goerr + string) \<Rightarrow> (string \<Rightarrow> string option) \<Rightarrow> (string \<Rightarrow> goerr + parsed_key) \<Rightarrow>
     string \<Rightarrow> goerr + string" where
  "LoadPrivateKey = load_key ''private''"

definition LoadPublicKey ::
    "(string \<Rightarrow> goerr + string) \<Rightarrow> (string \<Rightarrow> string option) \<Rightarrow> (string \<Rightarrow> goerr + parsed_key) \<Rightarrow>
     string \<Rightarrow> goerr + string" where
  "LoadPublicKey = load_key ''public''"

definition Fingerprint :: "'w host \<Rightarrow> string \<Rightarrow> string" where
  "Fingerprint h key = hex_encode (take 16 (ho_sha256 h key))"

definition Sign :: "'w host \<Rightarrow> string \<Rightarrow> string \<Rightarrow> string" where
  "Sign h privateKey data = hex_encode (ho_sign h privateKey data)"

text \<open>\<^verbatim>\<open>signMap\<close> of \<^verbatim>\<open>runtime/enrollment.go\<close>: Go prints a map with its keys sorted.\<close>

definition map_json :: "(string, json) gomap \<Rightarrow> json" where
  "map_json m = JObj (sort_slice (\<lambda>a b. fst a < fst b) m)"

definition signMap :: "'w host \<Rightarrow> string \<Rightarrow> (string, json) gomap \<Rightarrow> string" where
  "signMap h privateKey payload =
     Sign h privateKey (marshal (map_json (map_remove ''signature'' payload)))"

section \<open>Heartbeat\<close>

record payload =
  pl_NodeID :: string
  pl_AgentKeyFingerprint :: string
  pl_HeartbeatTimestamp :: string
  pl_SequenceNumber :: int
  pl_AgentVersion :: string
  pl_EnrollmentGeneration :: int
  pl_LocalObservationFlags :: "string list option"
  pl_Signature :: string

definition heartbeat_New :: "string \<Rightarrow> string \<Rightarrow> string \<Rightarrow> int \<Rightarrow> int \<Rightarrow> string list \<Rightarrow> instant \<Rightarrow> payload" where
  "heartbeat_New nodeID fp agentVersion enrollmentGeneration sequence flags now =
     \<lparr>pl_NodeID = nodeID, pl_AgentKeyFingerprint = fp, pl_HeartbeatTimestamp = format_rfc3339 now,
      pl_SequenceNumber = sequence, pl_AgentVersion = agentVersion,
      pl_EnrollmentGeneration = enrollmentGeneration, pl_LocalObservationFlags = Some flags,
      pl_Signature = []\<rparr>"

text \<open>The struct as JSON, in field order; an empty signature is omitted.\<close>

definition payload_json :: "payload \<Rightarrow> json" where
  "payload_json p =
     JObj
       ([(''node_id'', JStr (pl_NodeID p)),
         (''agent_key_fingerprint'', JStr (pl_AgentKeyFingerprint p)),
         (''heartbeat_timestamp'', JStr (pl_HeartbeatTimestamp p)),
         (''sequence_number'', JNum (itoa (pl_SequenceNumber p))),
         (''agent_version'', JStr (pl_AgentVersion p)),
         (''enrollment_generation'', JNum (itoa (pl_EnrollmentGeneration p))),
         (''local_observation_flags'',
           (case pl_LocalObservationFlags p of None \<Rightarrow> JNull | Some fs \<Rightarrow> JArr (map JStr fs)))] @
        (if pl_Signature p = [] then [] else [(''signature'', JStr (pl_Signature p))]))"

definition CanonicalBytes :: "payload \<Rightarrow> string" where
  "CanonicalBytes p = marshal (payload_json (p\<lparr>pl_Signature := []\<rparr>))"

section \<open>The portal's clients\<close>

definition trim_right_slash :: "string \<Rightarrow> string" where
  "trim_right_slash s = rev (dropWhile (\<lambda>c. c = CHR ''/'') (rev s))"

definition PostJSON :: "'w host \<Rightarrow> string \<Rightarrow> string \<Rightarrow> json \<Rightarrow> 'w machine \<Rightarrow> 'w machine \<times> goerr option" where
  "PostJSON h baseURL path payload w =
     (case outside (\<lambda>v. ho_do h v ''POST'' (trim_right_slash baseURL @ path) payload) w of
        (w', Inl err) \<Rightarrow> (w', Some err)
      | (w', Inr (code, line)) \<Rightarrow>
          (w', if code < 200 \<or> 300 \<le> code then Some (Msg (''post '' @ path @ '' failed: '' @ line)) else None))"

definition Fetch :: "'w host \<Rightarrow> string \<Rightarrow> string \<Rightarrow> string \<Rightarrow> 'w machine \<Rightarrow> 'w machine \<times> (goerr + agent_policy)" where
  "Fetch h baseURL nodeID fp w =
     (case outside (\<lambda>v. ho_policy h v (trim_right_slash baseURL @ ''/api/v1/agent/policy'')
             [(''node_id'', nodeID), (''agent_key_fingerprint'', fp)]) w of
        (w', Inl err) \<Rightarrow> (w', Inl err)
      | (w', Inr ((code, line), doc)) \<Rightarrow>
          (w', if code \<noteq> 200 then Inl (Msg (''policy fetch failed: '' @ line))
               else and_then doc (\<lambda>doc.
                 case agent_validate doc of Some err \<Rightarrow> Inl err | None \<Rightarrow> Inr doc)))"

end
