(* ===== verification/Host_Checks.thy ===== *)
theory Host_Checks
  imports Agent_Base "HOL-Library.Word"
begin

unbundle bit_operations_syntax

text \<open>
  The agent's checks of its machine: \<^verbatim>\<open>checks/hardware/hardware.go\<close>, \<^verbatim>\<open>checks/cpu/cpu.go\<close> and
  \<^verbatim>\<open>checks/disk/disk.go\<close>. What is measured (threads, \<^verbatim>\<open>/proc/meminfo\<close>, \<^verbatim>\<open>statfs\<close>, \<^verbatim>\<open>lsblk\<close>, the counts of
  the load tests) is a parameter; unsigned 64-bit values are words.
\<close>

section \<open>Hardware\<close>

type_synonym uint64 = "64 word"

record hardware_result =
  hr_CPUCheckPassed :: bool
  hr_RAMCheckPassed :: bool
  hr_StorageSizeCheckPassed :: bool
  hr_SSDCheckPassed :: bool
  hr_VisibleCPUThreads :: int
  hr_VisibleMemoryBytes :: uint64
  hr_VisibleStorageBytes :: uint64

definition bytesToGiB :: "uint64 \<Rightarrow> uint64" where
  "bytesToGiB v = v div (1024 * 1024 * 1024)"

text \<open>\<^verbatim>\<open>strconv.ParseUint(s, 10, 64)\<close> and \<^verbatim>\<open>strings.Fields\<close>.\<close>

definition parse_uint64 :: "string \<Rightarrow> uint64 option" where
  "parse_uint64 s =
     (if s = [] \<or> \<not> list_all is_digit s then None
      else if digits_val s < 2 ^ 64 then Some (word_of_int (digits_val s)) else None)"

definition at_space :: "string \<Rightarrow> bool" where
  "at_space s \<longleftrightarrow> find (\<lambda>p. p \<noteq> [] \<and> has_prefix s p) space_runes \<noteq> None"

fun word_of :: "string \<Rightarrow> string \<times> string" where
  "word_of [] = ([], [])"
| "word_of (c # cs) = (if at_space (c # cs) then ([], c # cs) else apfst ((#) c) (word_of cs))"

lemma word_of_rest: "snd (word_of s) = drop (length (fst (word_of s))) s"
  by (induction s) auto

lemma word_of_progress: "\<not> at_space s \<Longrightarrow> s \<noteq> [] \<Longrightarrow> length (snd (word_of s)) < length s"
  by (cases s) (auto simp: word_of_rest)

lemma strip_front_at: "\<not> at_space (strip_front space_runes s)"
  using strip_front_done [of space_runes s] by (simp add: at_space_def del: find_None_iff)

lemma strip_front_shorter: "length (strip_front ps s) \<le> length s"
  using strip_front_suffix [of s ps] by (metis length_append le_add2)

function fields :: "string \<Rightarrow> string list" where
  "fields s =
     (let t = strip_front space_runes s
      in if t = [] then [] else fst (word_of t) # fields (snd (word_of t)))"
  by pat_completeness auto
termination
proof (relation "measure length")
  fix s t assume t: "t = strip_front space_runes s" "t \<noteq> []"
  then have "length (snd (word_of t)) < length t" using word_of_progress strip_front_at by simp
  also have "length t \<le> length s" unfolding t(1) by (rule strip_front_shorter)
  finally show "(snd (word_of t), s) \<in> measure length" by simp
qed simp

declare fields.simps [simp del]

fun meminfo_total :: "string list \<Rightarrow> uint64 option" where
  "meminfo_total [] = None"
| "meminfo_total (line # lines) =
     (let fs = fields line
      in if has_prefix line ''MemTotal:'' \<and> 2 \<le> length fs \<and> parse_uint64 (fs ! 1) \<noteq> None
         then map_option (\<lambda>kb. kb * 1024) (parse_uint64 (fs ! 1))
         else meminfo_total lines)"

text \<open>
  \<^verbatim>\<open>visibleMemory\<close>: the system's name, \<^verbatim>\<open>/proc/meminfo\<close> and the output of \<^verbatim>\<open>sysctl\<close> are readings of the
  machine (\<open>None\<close> when they fail).
\<close>

definition visibleMemory :: "string \<Rightarrow> string option \<Rightarrow> string option \<Rightarrow> uint64" where
  "visibleMemory goos meminfo sysctl =
     (let linux = (if goos = ''linux''
             then (case meminfo of None \<Rightarrow> None | Some data \<Rightarrow> meminfo_total (split_on (CHR 0x0A) data)) else None);
          darwin = (if goos = ''darwin''
             then (case sysctl of None \<Rightarrow> None | Some out \<Rightarrow> parse_uint64 (trim_space out)) else None)
      in (case linux of Some v \<Rightarrow> v | None \<Rightarrow> (case darwin of Some v \<Rightarrow> v | None \<Rightarrow> 0)))"

text \<open>\<^verbatim>\<open>visibleStorage\<close>: blocks and block size of \<^verbatim>\<open>statfs\<close>; the product wraps.\<close>

definition visibleStorage :: "(uint64 \<times> int) option \<Rightarrow> uint64" where
  "visibleStorage statfs = (case statfs of None \<Rightarrow> 0 | Some (blocks, bsize) \<Rightarrow> blocks * word_of_int bsize)"

datatype block_device = Block_Device (dev_rota: bool) (dev_mount: string) (dev_children: "block_device list")

text \<open>\<^verbatim>\<open>matchMount\<close>: the device itself, then its children in order; \<open>None\<close> is no match.\<close>

fun matchMount :: "block_device \<Rightarrow> string \<Rightarrow> bool option"
  and match_children :: "block_device list \<Rightarrow> string \<Rightarrow> bool option" where
  "matchMount (Block_Device rota mount children) path =
     (if mount \<noteq> [] \<and> has_prefix path mount then Some rota else match_children children path)"
| "match_children [] path = None"
| "match_children (d # ds) path =
     (case matchMount d path of Some rota \<Rightarrow> Some rota | None \<Rightarrow> match_children ds path)"

text \<open>\<^verbatim>\<open>detectSSD\<close>: the absolute path and the decoded output of \<^verbatim>\<open>lsblk\<close>, each of which may fail.\<close>

definition detectSSD :: "string option \<Rightarrow> block_device list option \<Rightarrow> bool" where
  "detectSSD abs_path devices =
     (case abs_path of
        None \<Rightarrow> False
      | Some path \<Rightarrow>
          (case devices of
             None \<Rightarrow> False
           | Some ds \<Rightarrow> (case match_children ds path of Some rota \<Rightarrow> \<not> rota | None \<Rightarrow> False)))"

definition hardware_Run :: "int \<Rightarrow> uint64 \<Rightarrow> uint64 \<Rightarrow> bool \<Rightarrow> hardware_thresholds \<Rightarrow> hardware_result" where
  "hardware_Run threads memory storage ssd thresholds =
     \<lparr>hr_CPUCheckPassed = (hw_CPUCoresMin thresholds \<le> threads),
      hr_RAMCheckPassed = (word_of_int (hw_RAMGBMin thresholds) \<le> bytesToGiB memory),
      hr_StorageSizeCheckPassed = (word_of_int (hw_StorageGBMin thresholds) \<le> bytesToGiB storage),
      hr_SSDCheckPassed = (\<not> hw_SSDRequired thresholds \<or> ssd),
      hr_VisibleCPUThreads = threads, hr_VisibleMemoryBytes = memory, hr_VisibleStorageBytes = storage\<rparr>"

section \<open>The load tests\<close>

record cpu_result =
  cr_Passed :: bool
  cr_NormalizedScore :: float64

text \<open>The count of the measured interval is a reading of the machine.\<close>

definition cpu_Run :: "int \<Rightarrow> uint64 \<Rightarrow> cpu_profile \<Rightarrow> cpu_result" where
  "cpu_Run numCPU ops profile =
     (if min (cpu_WorkerCap profile) numCPU \<le> 0 then \<lparr>cr_Passed = False, cr_NormalizedScore = 0\<rparr>
      else
        let score = fdiv (float_of_int (uint ops)) (max (float_of_int (cpu_MeasuredSeconds profile)) 1)
        in \<lparr>cr_Passed = (af_Minimum (cpu_AcceptanceFloor profile) \<le> score), cr_NormalizedScore = score\<rparr>)"

text \<open>A worker: a linear congruential sequence chooses the next piece of work by the mix.\<close>

datatype work = Hash_Work | Integer_Work | Matrix_Work

definition cpu_step :: "cpu_profile \<Rightarrow> uint64 \<Rightarrow> uint64 \<times> work" where
  "cpu_step profile sq =
     (let next = sq * 6364136223846793005 + 1;
          choice = fdiv (float_of_int (uint (next mod 1000))) 1000;
          mix = cpu_WorkloadMix profile
      in (next,
          if choice < wm_Hashing mix then Hash_Work
          else if choice < fadd (wm_Hashing mix) (wm_Integer mix) then Integer_Work
          else Matrix_Work))"

definition doInteger :: "uint64 \<Rightarrow> uint64" where
  "doInteger v = fold (\<lambda>i x. (push_bit 7 x XOR drop_bit 3 x) + word_of_nat (i * i + 1)) [0..<64] v"

record disk_result =
  dr_Passed :: bool
  dr_MeasuredIOPS :: float64
  dr_MeasuredLatencyP95 :: float64

text \<open>
  \<open>ready\<close> tells whether the test file can be made with a size and opened; \<open>ops\<close> is the count of the
  measured interval.
\<close>

definition disk_size :: "disk_profile \<Rightarrow> int" where
  "disk_size profile = wrap64 (wrap64 (disk_BlockSizeBytes profile * disk_QueueDepth profile) * 256)"

definition disk_Run :: "(int \<Rightarrow> bool) \<Rightarrow> uint64 \<Rightarrow> disk_profile \<Rightarrow> disk_result" where
  "disk_Run ready ops profile =
     (if \<not> ready (disk_size profile)
      then \<lparr>dr_Passed = False, dr_MeasuredIOPS = 0, dr_MeasuredLatencyP95 = 0\<rparr>
      else
        let iops = fdiv (float_of_int (uint ops)) (float_of_int (max (disk_MeasuredSeconds profile) 1))
        in \<lparr>dr_Passed = (af_Minimum (disk_AcceptanceFloor profile) \<le> iops), dr_MeasuredIOPS = iops,
            dr_MeasuredLatencyP95 = 0\<rparr>)"

definition localCheckExecutionFailed :: "hardware_result \<Rightarrow> cpu_result \<Rightarrow> disk_result \<Rightarrow> bool" where
  "localCheckExecutionFailed hw cpuResult diskResult \<longleftrightarrow>
     hr_VisibleCPUThreads hw = 0 \<or> hr_VisibleMemoryBytes hw = 0 \<or> hr_VisibleStorageBytes hw = 0 \<or>
     (cr_NormalizedScore cpuResult = 0 \<and> \<not> cr_Passed cpuResult) \<or>
     (dr_MeasuredIOPS diskResult = 0 \<and> \<not> dr_Passed diskResult)"

section \<open>Properties\<close>

text \<open>A count of gibibytes is at least a threshold exactly when the bytes are.\<close>

lemma le_div_mult:
  assumes "(0::int) < d"
  shows "n \<le> u div d \<longleftrightarrow> n * d \<le> u"
proof
  assume "n \<le> u div d"
  then have "n * d \<le> u div d * d" using assms by (simp add: mult_right_mono)
  also have "\<dots> \<le> u" using assms by (metis div_mult_mod_eq le_add_same_cancel1 pos_mod_sign)
  finally show "n * d \<le> u" .
next
  assume "n * d \<le> u"
  from zdiv_mono1 [OF this assms] show "n \<le> u div d" using assms by simp
qed

lemma bytesToGiB_iff:
  assumes "0 \<le> n" and "n < 2 ^ 34"
  shows "word_of_int n \<le> bytesToGiB v \<longleftrightarrow> n * 2 ^ 30 \<le> uint v"
proof -
  have "uint (bytesToGiB v) = uint v div 2 ^ 30"
    by (simp add: bytesToGiB_def uint_div_distrib)
  moreover have "uint (word_of_int n :: uint64) = n"
    using assms by (simp add: uint_word_of_int take_bit_eq_mod)
  moreover note le_div_mult [of "2 ^ 30" n "uint v"]
  ultimately show ?thesis by (simp add: word_le_def)
qed

text \<open>
  A path matches the first mounted device in preorder whose mount point is a prefix of its text, so the
  root file system, listed first, hides the mounts below it.
\<close>

fun devices_of :: "block_device \<Rightarrow> block_device list" where
  "devices_of (Block_Device rota mount children) = Block_Device rota mount children # concat (map devices_of children)"

lemma match_first:
  "matchMount d path = map_option dev_rota (find (\<lambda>x. dev_mount x \<noteq> [] \<and> has_prefix path (dev_mount x)) (devices_of d))"
  "match_children ds path = map_option dev_rota
     (find (\<lambda>x. dev_mount x \<noteq> [] \<and> has_prefix path (dev_mount x)) (concat (map devices_of ds)))"
  by (induction d path and ds path rule: matchMount_match_children.induct)
    (auto simp: find_append split: option.split)

end
