(* ===== verification/Agent.thy ===== *)
theory Agent
  imports Host_Checks
begin

text \<open>
  The agent's runtime (\<^verbatim>\<open>agent/internal/runtime\<close>): enrollment, checks, telemetry and its warnings,
  heartbeats with retry, and the main loop.

  Every function takes the machine and returns it with the error, if any. Waiting ends early with the
  context's error when the agent is told to stop. The entries it logs are in \<open>Agent_Log\<close>.
\<close>

section \<open>Constants and the agent\<close>

definition warningPortalUnreachable :: string where "warningPortalUnreachable = ''portal_unreachable''"
definition warningLocalCheckExecFailed :: string where
  "warningLocalCheckExecFailed = ''local_check_execution_failed''"
definition warningVotingKeyExpiryRisk :: string where "warningVotingKeyExpiryRisk = ''voting_key_expiry_risk''"
definition warningCertificateExpiryRisk :: string where
  "warningCertificateExpiryRisk = ''certificate_expiry_risk''"
definition portalFailureThreshold :: int where "portalFailureThreshold = 3"
definition votingKeyRiskWindow :: duration where "votingKeyRiskWindow = 14 * 24 * hour"
definition certificateRiskWindow :: duration where "certificateRiskWindow = 14 * 24 * hour"
definition maxHeartbeatAttempts :: nat where "maxHeartbeatAttempts = 3"

record agent =
  ag_cfg :: agent_config
  ag_privateKey :: string
  ag_publicKey :: string
  ag_fingerprint :: string

definition NewAgent ::
    "'w host \<Rightarrow> (string \<Rightarrow> goerr + string) \<Rightarrow> (string \<Rightarrow> string option) \<Rightarrow> (string \<Rightarrow> goerr + parsed_key) \<Rightarrow>
     (string \<Rightarrow> goerr + parsed_key) \<Rightarrow> agent_config \<Rightarrow> goerr + agent" where
  "NewAgent h read_file pem pkcs8 pkix cfg =
     and_then (LoadPrivateKey read_file pem pkcs8 (ac_AgentKeyPath cfg)) (\<lambda>privateKey.
     and_then (LoadPublicKey read_file pem pkix (ac_AgentPublicKeyPath cfg)) (\<lambda>publicKey.
     Inr \<lparr>ag_cfg = cfg, ag_privateKey = privateKey, ag_publicKey = publicKey,
          ag_fingerprint = Fingerprint h publicKey\<rparr>))"

abbreviation ag_state :: "agent \<Rightarrow> string" where "ag_state a \<equiv> ac_StatePath (ag_cfg a)"
abbreviation ag_base :: "agent \<Rightarrow> string" where "ag_base a \<equiv> ac_PortalBaseURL (ag_cfg a)"
abbreviation ag_node :: "agent \<Rightarrow> string" where "ag_node a \<equiv> ac_NodeID (ag_cfg a)"

text \<open>A map is signed, gets its signature and is posted.\<close>

definition signed :: "'w host \<Rightarrow> agent \<Rightarrow> (string, json) gomap \<Rightarrow> (string, json) gomap" where
  "signed h a payload = map_put ''signature'' (JStr (signMap h (ag_privateKey a) payload)) payload"

definition post_signed :: "'w host \<Rightarrow> agent \<Rightarrow> string \<Rightarrow> (string, json) gomap \<Rightarrow> 'w machine \<Rightarrow> 'w machine \<times> goerr option" where
  "post_signed h a path payload w = PostJSON h (ag_base a) path (map_json (signed h a payload)) w"

section \<open>Enrollment\<close>

definition enroll_payload :: "agent \<Rightarrow> string \<Rightarrow> (string, json) gomap" where
  "enroll_payload a challengeID =
     [(''node_id'', JStr (ag_node a)), (''enrollment_challenge_id'', JStr challengeID),
      (''agent_public_key'', JStr (hex_encode (ag_publicKey a))),
      (''agent_version'', JStr (ac_AgentVersion (ag_cfg a)))]"

definition agent_Enroll :: "'w host \<Rightarrow> agent \<Rightarrow> string \<Rightarrow> 'w machine \<Rightarrow> 'w machine \<times> goerr option" where
  "agent_Enroll h a challengeID = post_signed h a ''/api/v1/agent/enroll'' (enroll_payload a challengeID)"

section \<open>Telemetry\<close>

definition telemetry_payload :: "agent \<Rightarrow> instant \<Rightarrow> string \<Rightarrow> string list \<Rightarrow> (string, json) gomap" where
  "telemetry_payload a now policyVersion warningFlags =
     [(''schema_version'', JStr ''1''), (''node_id'', JStr (ag_node a)),
      (''agent_key_fingerprint'', JStr (ag_fingerprint a)),
      (''telemetry_timestamp'', JStr (format_rfc3339 now)), (''policy_version'', JStr policyVersion),
      (''warning_flags'', JArr (map JStr warningFlags))]"

definition submitTelemetryWithPolicy ::
    "'w host \<Rightarrow> agent \<Rightarrow> string \<Rightarrow> string list \<Rightarrow> 'w machine \<Rightarrow> 'w machine \<times> goerr option" where
  "submitTelemetryWithPolicy h a policyVersion warningFlags w =
     (case outside (ho_now h) w of (w1, now) \<Rightarrow>
        (case post_signed h a ''/api/v1/agent/telemetry''
                (telemetry_payload a now policyVersion warningFlags) w1 of
           (w2, Some err) \<Rightarrow> (w2, Some err)
         | (w2, None) \<Rightarrow>
             outside (\<lambda>v. ho_print h v
               [(''policy_version'', JStr policyVersion), (''warning_flags'', JArr (map JStr warningFlags)),
                (''submitted'', JBool True)]) w2))"

definition SubmitTelemetry :: "'w host \<Rightarrow> agent \<Rightarrow> string list \<Rightarrow> 'w machine \<Rightarrow> 'w machine \<times> goerr option" where
  "SubmitTelemetry h a warningFlags w =
     (if warningFlags = [] then (w, Some (Msg ''missing warning flags''))
      else (case Fetch h (ag_base a) (ag_node a) (ag_fingerprint a) w of
        (w1, Inl err) \<Rightarrow> (w1, Some err)
      | (w1, Inr pol) \<Rightarrow> submitTelemetryWithPolicy h a (po_PolicyVersion pol) warningFlags w1))"

section \<open>Warnings\<close>

definition ensureWarningMaps :: "agent_state \<Rightarrow> agent_state" where
  "ensureWarningMaps st =
     st\<lparr>gs_ActiveWarnings := Some (case gs_ActiveWarnings st of None \<Rightarrow> [] | Some m \<Rightarrow> m),
        gs_PendingWarnings := Some (case gs_PendingWarnings st of None \<Rightarrow> [] | Some m \<Rightarrow> m)\<rparr>"

definition failure_recorded :: "agent_state \<Rightarrow> agent_state" where
  "failure_recorded st0 =
     (let st = (ensureWarningMaps st0)\<lparr>gs_ConsecutivePortalFailures := wrap64 (gs_ConsecutivePortalFailures st0 + 1)\<rparr>
      in if portalFailureThreshold \<le> gs_ConsecutivePortalFailures st
            \<and> \<not> flag_set (gs_ActiveWarnings st) warningPortalUnreachable
         then st\<lparr>gs_PendingWarnings := set_flag warningPortalUnreachable (gs_PendingWarnings st)\<rparr>
         else st)"

definition recordPortalFailure :: "'w host \<Rightarrow> agent \<Rightarrow> 'w machine \<Rightarrow> 'w machine \<times> goerr option" where
  "recordPortalFailure h a w =
     (case state_Load h (ag_state a) w of
        Inl err \<Rightarrow> (w, Some err)
      | Inr st \<Rightarrow> state_Save h (ag_state a) (failure_recorded st) w)"

definition activated :: "string \<Rightarrow> agent_state \<Rightarrow> agent_state" where
  "activated flag st = st\<lparr>gs_ActiveWarnings := set_flag flag (gs_ActiveWarnings st)\<rparr>"

definition made_pending :: "string \<Rightarrow> agent_state \<Rightarrow> agent_state" where
  "made_pending flag st = st\<lparr>gs_PendingWarnings := set_flag flag (gs_PendingWarnings st)\<rparr>"

definition recovered :: "agent_state \<Rightarrow> agent_state" where
  "recovered st =
     (activated warningPortalUnreachable st)\<lparr>gs_PendingWarnings :=
        delete_flag warningPortalUnreachable (gs_PendingWarnings st)\<rparr>"

definition handlePortalRecovery :: "'w host \<Rightarrow> agent \<Rightarrow> string \<Rightarrow> 'w machine \<Rightarrow> 'w machine \<times> goerr option" where
  "handlePortalRecovery h a policyVersion w =
     (case state_Load h (ag_state a) w of
        Inl err \<Rightarrow> (w, Some err)
      | Inr st0 \<Rightarrow>
          let st = (ensureWarningMaps st0)\<lparr>gs_ConsecutivePortalFailures := 0\<rparr>
          in if flag_set (gs_PendingWarnings st) warningPortalUnreachable
                \<and> \<not> flag_set (gs_ActiveWarnings st) warningPortalUnreachable
             then (case submitTelemetryWithPolicy h a policyVersion [warningPortalUnreachable] w of
               (w1, Some err) \<Rightarrow> (w1, Some err)
             | (w1, None) \<Rightarrow> state_Save h (ag_state a) (recovered st) w1)
             else state_Save h (ag_state a) st w)"

definition markWarning :: "'w host \<Rightarrow> agent \<Rightarrow> string \<Rightarrow> string \<Rightarrow> 'w machine \<Rightarrow> 'w machine \<times> goerr option" where
  "markWarning h a policyVersion warningFlag w =
     (case state_Load h (ag_state a) w of
        Inl err \<Rightarrow> (w, Some err)
      | Inr st0 \<Rightarrow>
          let st = ensureWarningMaps st0
          in if flag_set (gs_ActiveWarnings st) warningFlag \<or> flag_set (gs_PendingWarnings st) warningFlag
             then (w, None)
             else (case submitTelemetryWithPolicy h a policyVersion [warningFlag] w of
               (w1, Some err) \<Rightarrow> (fst (state_Save h (ag_state a) (made_pending warningFlag st) w1), Some err)
             | (w1, None) \<Rightarrow> state_Save h (ag_state a) (activated warningFlag st) w1))"

definition fetchLeafCertificateNotAfter :: "'w host \<Rightarrow> url \<Rightarrow> 'w machine \<Rightarrow> 'w machine \<times> instant option" where
  "fetchLeafCertificateNotAfter h endpoint w =
     (if ur_Host endpoint = [] then (w, None)
      else (case outside (\<lambda>v. ho_not_after h v (ur_Host endpoint)
              (if ur_Port endpoint = [] then ''443'' else ur_Port endpoint)) w of
        (w1, None) \<Rightarrow> (w1, None)
      | (w1, Some certs) \<Rightarrow> (w1, if certs = [] then None else Some (hd certs))))"

text \<open>Is the certificate of an endpoint about to expire? \<^verbatim>\<open>time.Until\<close> reads the clock.\<close>

definition certificate_near :: "'w host \<Rightarrow> url \<Rightarrow> 'w machine \<Rightarrow> 'w machine \<times> bool" where
  "certificate_near h endpoint w =
     (case fetchLeafCertificateNotAfter h endpoint w of
        (w1, None) \<Rightarrow> (w1, False)
      | (w1, Some notAfter) \<Rightarrow>
          (case outside (ho_now h) w1 of (w2, now) \<Rightarrow> (w2, time_sub notAfter now < certificateRiskWindow)))"

definition maybeEmitVotingKeyExpiryRisk :: "'w host \<Rightarrow> agent \<Rightarrow> string \<Rightarrow> 'w machine \<Rightarrow> 'w machine \<times> goerr option" where
  "maybeEmitVotingKeyExpiryRisk h a policyVersion w =
     (case outside (ho_symbol h) w of (w1, api) \<Rightarrow>
        (case HasVotingKeyExpiryRisk api votingKeyRiskWindow of
           Inl err \<Rightarrow> (w1, None)
         | Inr near \<Rightarrow>
             if \<not> near then (w1, None) else markWarning h a policyVersion warningVotingKeyExpiryRisk w1))"

definition maybeEmitCertificateExpiryRisk :: "'w host \<Rightarrow> agent \<Rightarrow> string \<Rightarrow> 'w machine \<Rightarrow> 'w machine \<times> goerr option" where
  "maybeEmitCertificateExpiryRisk h a policyVersion w =
     (let endpoint = trim_space (ac_MonitoredEndpoint (ag_cfg a))
      in if endpoint = [] then (w, None)
         else (case ho_url h endpoint of
           Inl err \<Rightarrow> (w, Some (Msg ''invalid monitored_endpoint''))
         | Inr parsed \<Rightarrow>
             if ur_Scheme parsed \<noteq> ''https'' then (w, None)
             else (case certificate_near h parsed w of
               (w1, near) \<Rightarrow>
                 if \<not> near then (w1, None) else markWarning h a policyVersion warningCertificateExpiryRisk w1)))"

definition runRecurringChecks :: "'w host \<Rightarrow> agent \<Rightarrow> string \<Rightarrow> 'w machine \<Rightarrow> 'w machine \<times> goerr option" where
  "runRecurringChecks h a policyVersion w =
     (case maybeEmitVotingKeyExpiryRisk h a policyVersion w of
        (w1, Some err) \<Rightarrow> (w1, Some err)
      | (w1, None) \<Rightarrow> maybeEmitCertificateExpiryRisk h a policyVersion w1)"

section \<open>Heartbeats\<close>

definition collectLocalObservationFlags :: "'w host \<Rightarrow> agent \<Rightarrow> 'w machine \<Rightarrow> 'w machine \<times> string list" where
  "collectLocalObservationFlags h a w =
     (case outside (ho_symbol h) w of (w1, api) \<Rightarrow>
        let key_flags = (case HasVotingKeyExpiryRisk api votingKeyRiskWindow of
               Inl err \<Rightarrow> [''local_api_unreachable'']
             | Inr near \<Rightarrow> if near then [warningVotingKeyExpiryRisk] else []);
            endpoint = trim_space (ac_MonitoredEndpoint (ag_cfg a));
            (w2, near) = (if endpoint = [] then (w1, False)
              else (case ho_url h endpoint of
                Inl err \<Rightarrow> (w1, False)
              | Inr parsed \<Rightarrow> if ur_Scheme parsed = ''https'' then certificate_near h parsed w1 else (w1, False)));
            cert_flags = (if near then [warningCertificateExpiryRisk] else []);
            portal_flags = (case state_Load h (ag_state a) w2 of
               Inl err \<Rightarrow> []
             | Inr st \<Rightarrow>
                 if flag_set (gs_PendingWarnings st) warningPortalUnreachable
                    \<or> flag_set (gs_ActiveWarnings st) warningPortalUnreachable
                 then [warningPortalUnreachable] else [])
        in (w2, key_flags @ cert_flags @ portal_flags))"

definition signed_heartbeat :: "'w host \<Rightarrow> agent \<Rightarrow> int \<Rightarrow> string list \<Rightarrow> instant \<Rightarrow> payload" where
  "signed_heartbeat h a sequence flags now =
     (let p = heartbeat_New (ag_node a) (ag_fingerprint a) (ac_AgentVersion (ag_cfg a))
                (ac_EnrollmentGeneration (ag_cfg a)) sequence flags now
      in p\<lparr>pl_Signature := Sign h (ag_privateKey a) (CanonicalBytes p)\<rparr>)"

definition sendHeartbeat :: "'w host \<Rightarrow> agent \<Rightarrow> 'w machine \<Rightarrow> 'w machine \<times> goerr option" where
  "sendHeartbeat h a w =
     (case state_Load h (ag_state a) w of
        Inl err \<Rightarrow> (w, Some err)
      | Inr st \<Rightarrow>
          if gs_AgentKeyFingerprint st \<noteq> [] \<and> gs_AgentKeyFingerprint st \<noteq> ag_fingerprint a
          then (w, Some (Msg ''state fingerprint mismatch''))
          else (case collectLocalObservationFlags h a w of (w1, flags) \<Rightarrow>
            (case outside (ho_now h) w1 of (w2, now) \<Rightarrow>
              let payload = signed_heartbeat h a (wrap64 (gs_SequenceNumber st + 1)) flags now
              in (case PostJSON h (ag_base a) ''/api/v1/agent/heartbeat'' (payload_json payload) w2 of
                    (w3, Some err) \<Rightarrow> (w3, Some err)
                  | (w3, None) \<Rightarrow>
                      state_Save h (ag_state a)
                        (st\<lparr>gs_SequenceNumber := wrap64 (gs_SequenceNumber st + 1),
                            gs_AgentKeyFingerprint := ag_fingerprint a\<rparr>) w3))))"

text \<open>The attempts that are left, with the pause before the next.\<close>

fun heartbeat_attempts :: "'w host \<Rightarrow> agent \<Rightarrow> nat \<Rightarrow> duration \<Rightarrow> 'w machine \<Rightarrow> 'w machine \<times> goerr option" where
  "heartbeat_attempts h a 0 backoff w = (w, None)"
| "heartbeat_attempts h a (Suc n) backoff w =
     (case sendHeartbeat h a w of
        (w1, None) \<Rightarrow> (w1, None)
      | (w1, Some err) \<Rightarrow>
          if n = 0 then (w1, Some err)
          else (case outside (\<lambda>v. ho_wait h v backoff) w1 of
            (w2, Some stopped) \<Rightarrow> (w2, Some stopped)
          | (w2, None) \<Rightarrow>
              heartbeat_attempts h a n (if backoff < 4 * second then backoff * 2 else backoff) w2))"

definition sendHeartbeatWithRetry :: "'w host \<Rightarrow> agent \<Rightarrow> 'w machine \<Rightarrow> 'w machine \<times> goerr option" where
  "sendHeartbeatWithRetry h a = heartbeat_attempts h a maxHeartbeatAttempts second"

section \<open>The main loop\<close>

definition run_start :: "'w host \<Rightarrow> agent \<Rightarrow> 'w machine \<Rightarrow> 'w machine \<times> (goerr + policy_document)" where
  "run_start h a w =
     (case Fetch h (ag_base a) (ag_node a) (ag_fingerprint a) w of
        (w1, Inl err) \<Rightarrow> (w1, Inl err)
      | (w1, Inr pol) \<Rightarrow>
          (case state_Load h (ag_state a) w1 of
             Inl err \<Rightarrow> (w1, Inl err)
           | Inr st \<Rightarrow>
               (case state_Save h (ag_state a)
                       (st\<lparr>gs_AgentKeyFingerprint := ag_fingerprint a,
                           gs_LastPolicyVersion := po_PolicyVersion pol\<rparr>) w1 of
                  (w2, Some err) \<Rightarrow> (w2, Inl err)
                | (w2, None) \<Rightarrow> (w2, Inr pol))))"

definition run_cycle :: "'w host \<Rightarrow> agent \<Rightarrow> string \<Rightarrow> 'w machine \<Rightarrow> 'w machine" where
  "run_cycle h a policyVersion w =
     (case sendHeartbeatWithRetry h a (fst (runRecurringChecks h a policyVersion w)) of
        (w1, Some err) \<Rightarrow> fst (recordPortalFailure h a w1)
      | (w1, None) \<Rightarrow> fst (handlePortalRecovery h a policyVersion w1))"

text \<open>
  The loop ends when the wait for the next tick is told to stop; \<open>None\<close> is a loop that goes on forever.
  The start is delayed by a random number of seconds, which is the wait's length here.
\<close>

partial_function (option) run_loop :: "'w host \<Rightarrow> agent \<Rightarrow> duration \<Rightarrow> string \<Rightarrow> 'w machine \<Rightarrow> 'w machine option" where
  "run_loop h a interval policyVersion w =
     (case outside (\<lambda>v. ho_wait h v interval) (run_cycle h a policyVersion w) of
        (w1, Some stopped) \<Rightarrow> Some w1
      | (w1, None) \<Rightarrow> run_loop h a interval policyVersion w1)"

definition agent_Run :: "'w host \<Rightarrow> agent \<Rightarrow> duration \<Rightarrow> 'w machine \<Rightarrow> ('w machine \<times> goerr option) option" where
  "agent_Run h a jitter w =
     (case run_start h a w of
        (w1, Inl err) \<Rightarrow> Some (w1, Some err)
      | (w1, Inr pol) \<Rightarrow>
          let w2 = (if 0 < jitter then fst (outside (\<lambda>v. ho_wait h v jitter) w1) else w1)
          in map_option (\<lambda>w'. (w', None))
               (run_loop h a (wrap64 (po_HeartbeatIntervalSeconds pol * second)) (po_PolicyVersion pol) w2))"

section \<open>Checks\<close>

text \<open>The measurements of a check run, each after some change of the machine.\<close>

record 'w meters =
  me_hardware :: "'w \<Rightarrow> 'w \<times> int \<times> uint64 \<times> uint64 \<times> bool"
  me_cpu :: "'w \<Rightarrow> 'w \<times> int \<times> uint64"
  me_disk :: "'w \<Rightarrow> 'w \<times> (int \<Rightarrow> bool) \<times> uint64"
  me_print_float :: "float64 \<Rightarrow> string"

definition checks_overall :: "hardware_result \<Rightarrow> cpu_result \<Rightarrow> disk_result \<Rightarrow> bool" where
  "checks_overall hw cpuResult diskResult \<longleftrightarrow>
     hr_CPUCheckPassed hw \<and> hr_RAMCheckPassed hw \<and> hr_StorageSizeCheckPassed hw \<and> hr_SSDCheckPassed hw \<and>
     cr_Passed cpuResult \<and> dr_Passed diskResult"

definition checks_payload ::
    "agent \<Rightarrow> (float64 \<Rightarrow> string) \<Rightarrow> string \<Rightarrow> string \<Rightarrow> policy_document \<Rightarrow> instant \<Rightarrow>
     hardware_result \<Rightarrow> cpu_result \<Rightarrow> disk_result \<Rightarrow> (string, json) gomap" where
  "checks_payload a print_float eventType eventID pol now hw cpuResult diskResult =
     [(''schema_version'', JStr ''1''), (''node_id'', JStr (ag_node a)),
      (''agent_key_fingerprint'', JStr (ag_fingerprint a)), (''event_type'', JStr eventType),
      (''event_id'', JStr eventID), (''policy_version'', JStr (po_PolicyVersion pol)),
      (''cpu_profile_id'', JStr (cpu_ID (po_CPUProfile pol))),
      (''disk_profile_id'', JStr (disk_ID (po_DiskProfile pol))),
      (''checked_at'', JStr (format_rfc3339 now)),
      (''cpu_check_passed'', JBool (hr_CPUCheckPassed hw)),
      (''disk_check_passed'', JBool (dr_Passed diskResult)),
      (''ram_check_passed'', JBool (hr_RAMCheckPassed hw)),
      (''storage_size_check_passed'', JBool (hr_StorageSizeCheckPassed hw)),
      (''ssd_check_passed'', JBool (hr_SSDCheckPassed hw)),
      (''cpu_load_test_passed'', JBool (cr_Passed cpuResult)),
      (''overall_passed'', JBool (checks_overall hw cpuResult diskResult)),
      (''agent_version'', JStr (ac_AgentVersion (ag_cfg a))),
      (''normalized_cpu_score'', JNum (print_float (cr_NormalizedScore cpuResult))),
      (''measured_iops'', JNum (print_float (dr_MeasuredIOPS diskResult))),
      (''measured_latency_p95'', JNum (print_float (dr_MeasuredLatencyP95 diskResult))),
      (''visible_cpu_threads'', JNum (itoa (hr_VisibleCPUThreads hw))),
      (''visible_memory_bytes'', JNum (itoa (uint (hr_VisibleMemoryBytes hw)))),
      (''visible_storage_bytes'', JNum (itoa (uint (hr_VisibleStorageBytes hw))))]"

definition RunChecks :: "'w host \<Rightarrow> 'w meters \<Rightarrow> agent \<Rightarrow> string \<Rightarrow> string \<Rightarrow> 'w machine \<Rightarrow> 'w machine \<times> goerr option" where
  "RunChecks h me a eventType eventID w =
     (if eventType \<notin> set [''registration'', ''voting_key_renewal'', ''recheck'']
      then (w, Some (Field_Error ''invalid event type: '' eventType))
      else (case Fetch h (ag_base a) (ag_node a) (ag_fingerprint a) w of
        (w1, Inl err) \<Rightarrow> (w1, Some err)
      | (w1, Inr pol) \<Rightarrow>
          (case outside (me_hardware me) w1 of (w2, threads, memory, storage, ssd) \<Rightarrow>
          (case outside (me_cpu me) w2 of (w3, numCPU, cpu_ops) \<Rightarrow>
          (case outside (me_disk me) w3 of (w4, ready, disk_ops) \<Rightarrow>
             let hw = hardware_Run threads memory storage ssd (po_HardwareThresholds pol);
                 cpuResult = cpu_Run numCPU cpu_ops (po_CPUProfile pol);
                 diskResult = disk_Run ready disk_ops (po_DiskProfile pol);
                 w5 = (if localCheckExecutionFailed hw cpuResult diskResult
                       then fst (markWarning h a (po_PolicyVersion pol) warningLocalCheckExecFailed w4) else w4)
             in (case outside (ho_now h) w5 of (w6, now) \<Rightarrow>
                (case post_signed h a ''/api/v1/agent/checks''
                        (checks_payload a (me_print_float me) eventType eventID pol now hw cpuResult diskResult) w6 of
                   (w7, Some err) \<Rightarrow> (w7, Some err)
                 | (w7, None) \<Rightarrow>
                     outside (\<lambda>v. ho_print h v
                       [(''event_id'', JStr eventID), (''policy_version'', JStr (po_PolicyVersion pol)),
                        (''cpu_check_passed'', JBool (hr_CPUCheckPassed hw)),
                        (''disk_check_passed'', JBool (dr_Passed diskResult)),
                        (''overall_passed'', JBool (checks_overall hw cpuResult diskResult)),
                        (''submitted'', JBool True)]) w7)))))))"

end
