(* ===== verification/Probe.thy ===== *)
theory Probe
  imports Agent_Base
begin

text \<open>
  The probe worker (\<^verbatim>\<open>probe/internal\<close>): its configuration, what it asks the nodes, the metrics it derives,
  and one cycle over its targets. The calls of the outside are collected in \<open>probe_host\<close>, each returning
  the outside after the call. Log lines are in \<open>Log_Lines\<close>.
\<close>

section \<open>Configuration (\<^verbatim>\<open>config/config.go\<close>)\<close>

record probe_target =
  tg_NodeID :: string
  tg_Endpoint :: string

record probe_config =
  prc_PortalBaseURL :: string
  prc_RegionID :: string
  prc_SourceEndpoint :: string
  prc_RequestTimeoutSeconds :: int
  prc_PollIntervalSeconds :: int
  prc_Targets :: "probe_target list"

fun targets_check :: "string list \<Rightarrow> probe_target list \<Rightarrow> goerr option" where
  "targets_check seen [] = None"
| "targets_check seen (t # ts) =
     (let nodeID = trim_space (tg_NodeID t); endpoint = trim_space (tg_Endpoint t)
      in if nodeID = [] then Some (Msg ''config: targets[].node_id is required'')
         else if endpoint = [] then Some (Msg ''config: targets[].endpoint is required'')
         else if nodeID \<in> set seen then Some (Msg ''config: duplicate targets[].node_id'')
         else targets_check (nodeID # seen) ts)"

definition probe_config_Validate :: "probe_config \<Rightarrow> goerr option" where
  "probe_config_Validate c =
     (if trim_space (prc_PortalBaseURL c) = [] then Some (Msg ''config: portal_base_url is required'')
      else if trim_space (prc_RegionID c) = [] then Some (Msg ''config: region_id is required'')
      else if trim_space (prc_SourceEndpoint c) = [] then Some (Msg ''config: source_endpoint is required'')
      else if prc_RequestTimeoutSeconds c \<le> 0 then Some (Msg ''config: request_timeout_seconds must be > 0'')
      else if prc_PollIntervalSeconds c \<le> 0 then Some (Msg ''config: poll_interval_seconds must be > 0'')
      else if prc_Targets c = [] then Some (Msg ''config: targets must not be empty'')
      else targets_check [] (prc_Targets c))"

definition probe_config_Load ::
    "(string \<Rightarrow> goerr + string) \<Rightarrow> (string \<Rightarrow> goerr + probe_config) \<Rightarrow> string \<Rightarrow> goerr + probe_config" where
  "probe_config_Load read_file yaml path =
     and_then (read_file path) (\<lambda>data.
     and_then (yaml data) (\<lambda>cfg.
     case probe_config_Validate cfg of Some err \<Rightarrow> Inl err | None \<Rightarrow> Inr cfg))"

section \<open>The nodes' API (\<^verbatim>\<open>symbol/client.go\<close>)\<close>

record chain_state =
  cs_Height :: int
  cs_FinalizedHeight :: int

record probe_metrics =
  pm_PeerHeight :: int
  pm_SourceHeight :: int
  pm_FinalizedLagBlocks :: int
  pm_ChainLagBlocks :: int

record health_status =
  hs_Node :: string
  hs_APINode :: string
  hs_DB :: string

record chain_info =
  ci_Height :: any_value
  ci_LatestFinalizedHeight :: any_value

record 'w probe_host =
  ph_now :: "'w \<Rightarrow> 'w \<times> instant"
  ph_health :: "'w \<Rightarrow> string \<Rightarrow> 'w \<times> health_status http_result"
  ph_chain :: "'w \<Rightarrow> string \<Rightarrow> 'w \<times> chain_info http_result"
  ph_submit :: "'w \<Rightarrow> string \<Rightarrow> json \<Rightarrow> 'w \<times> (goerr + int \<times> string)"
  ph_lower :: "string \<Rightarrow> string"
  ph_sha256 :: "string \<Rightarrow> string"

definition probe_getJSON :: "string \<Rightarrow> 'r http_result \<Rightarrow> goerr + 'r" where
  "probe_getJSON path result =
     (case result of
        Inl err \<Rightarrow> Inl err
      | Inr ((code, line), doc) \<Rightarrow>
          if code < 200 \<or> 300 \<le> code then Inl (Msg (''get '' @ path @ '' failed: '' @ line)) else doc)"

definition IsNodeAvailable :: "'w probe_host \<Rightarrow> string \<Rightarrow> 'w \<Rightarrow> 'w \<times> (goerr + bool)" where
  "IsNodeAvailable h endpoint w =
     (case ph_health h w (trim_right_slash endpoint @ ''/node/health'') of (w1, result) \<Rightarrow>
        (w1, and_then (probe_getJSON ''/node/health'' result) (\<lambda>resp.
          let api = to_lower (ph_lower h) (trim_space (hs_APINode resp));
              primary = (if api = [] then to_lower (ph_lower h) (trim_space (hs_Node resp)) else api)
          in if primary = [] then Inl (Msg ''node health missing status'') else Inr (primary = ''up''))))"

definition chain_state_of :: "chain_info \<Rightarrow> goerr + chain_state" where
  "chain_state_of resp =
     (case parseIntLike (ci_Height resp) of
        Inl err \<Rightarrow> Inl (Msg ''invalid chain height'')
      | Inr height \<Rightarrow>
          if height \<le> 0 then Inl (Msg ''invalid chain height'')
          else (case parseIntLike (ci_LatestFinalizedHeight resp) of
            Inl err \<Rightarrow> Inl (Msg ''invalid latest finalized height'')
          | Inr finalizedHeight \<Rightarrow>
              if finalizedHeight < 0 then Inl (Msg ''invalid latest finalized height'')
              else Inr \<lparr>cs_Height = height, cs_FinalizedHeight = finalizedHeight\<rparr>))"

definition FetchChainState :: "'w probe_host \<Rightarrow> string \<Rightarrow> 'w \<Rightarrow> 'w \<times> (goerr + chain_state)" where
  "FetchChainState h endpoint w =
     (case ph_chain h w (trim_right_slash endpoint @ ''/chain/info'') of (w1, result) \<Rightarrow>
        (w1, and_then (probe_getJSON ''/chain/info'' result) chain_state_of))"

definition FetchSourceHeight :: "'w probe_host \<Rightarrow> string \<Rightarrow> 'w \<Rightarrow> 'w \<times> (goerr + int)" where
  "FetchSourceHeight h endpoint w =
     (case FetchChainState h endpoint w of (w1, result) \<Rightarrow>
        (w1, and_then result (\<lambda>state. Inr (cs_Height state))))"

definition DeriveProbeMetrics :: "int \<Rightarrow> chain_state \<Rightarrow> goerr + probe_metrics" where
  "DeriveProbeMetrics sourceHeight state =
     (if sourceHeight \<le> 0 then Inl (Msg ''invalid source height'')
      else if cs_Height state \<le> 0 then Inl (Msg ''invalid peer height'')
      else if cs_FinalizedHeight state < 0 then Inl (Msg ''invalid finalized height'')
      else
        let finalizedLag = wrap64 (cs_Height state - cs_FinalizedHeight state);
            chainLag = wrap64 (sourceHeight - cs_Height state)
        in Inr \<lparr>pm_PeerHeight = cs_Height state, pm_SourceHeight = sourceHeight,
                pm_FinalizedLagBlocks = (if finalizedLag < 0 then 0 else finalizedLag),
                pm_ChainLagBlocks = (if chainLag < 0 then 0 else chainLag)\<rparr>)"

section \<open>The portal's client (\<^verbatim>\<open>portal/client.go\<close>)\<close>

definition SubmitProbeEvent :: "'w probe_host \<Rightarrow> string \<Rightarrow> (string, json) gomap \<Rightarrow> 'w \<Rightarrow> 'w \<times> goerr option" where
  "SubmitProbeEvent h baseURL payload w =
     (case ph_submit h w (trim_right_slash baseURL @ ''/api/v1/probes/events'') (map_json payload) of
        (w1, Inl err) \<Rightarrow> (w1, Some err)
      | (w1, Inr (code, line)) \<Rightarrow>
          (w1, if code < 200 \<or> 300 \<le> code then Some (Msg (''submit probe event failed: '' @ line)) else None))"

section \<open>The worker (\<^verbatim>\<open>worker/worker.go\<close>)\<close>

record probe_worker =
  wk_cfg :: probe_config
  wk_lastSuccessAt :: "instant option"
  wk_consecutiveFailures :: int

definition New_Worker :: "probe_config \<Rightarrow> probe_worker" where
  "New_Worker cfg = \<lparr>wk_cfg = cfg, wk_lastSuccessAt = None, wk_consecutiveFailures = 0\<rparr>"

definition probeID :: "(string \<Rightarrow> string) \<Rightarrow> string \<Rightarrow> string \<Rightarrow> string \<Rightarrow> instant \<Rightarrow> string" where
  "probeID sha256 regionID nodeID endpoint observedAt =
     ''probe-'' @ hex_encode (take 8 (sha256
       (regionID @ ''|'' @ nodeID @ ''|'' @ endpoint @ ''|'' @ format_rfc3339 observedAt)))"

definition probe_base :: "(string \<Rightarrow> string) \<Rightarrow> probe_config \<Rightarrow> probe_target \<Rightarrow> instant \<Rightarrow> (string, json) gomap" where
  "probe_base sha256 cfg target observedAt =
     [(''schema_version'', JStr ''1''),
      (''probe_id'', JStr (probeID sha256 (prc_RegionID cfg) (tg_NodeID target) (tg_Endpoint target) observedAt)),
      (''node_id'', JStr (tg_NodeID target)), (''region_id'', JStr (prc_RegionID cfg)),
      (''observed_at'', JStr (format_rfc3339 observedAt)), (''endpoint'', JStr (tg_Endpoint target)),
      (''measurement_window_seconds'', JNum (itoa (prc_PollIntervalSeconds cfg)))]"

definition down :: "string \<Rightarrow> (string, json) gomap" where
  "down code = [(''availability_up'', JBool False), (''error_code'', JStr code)]"

definition up :: "probe_metrics \<Rightarrow> (string, json) gomap" where
  "up m =
     [(''availability_up'', JBool True), (''finalized_lag_blocks'', JNum (itoa (pm_FinalizedLagBlocks m))),
      (''chain_lag_blocks'', JNum (itoa (pm_ChainLagBlocks m))),
      (''source_height'', JNum (itoa (pm_SourceHeight m))), (''peer_height'', JNum (itoa (pm_PeerHeight m)))]"

text \<open>What is observed of a target, as the fields it adds to the payload.\<close>

definition observe :: "'w probe_host \<Rightarrow> int \<Rightarrow> probe_target \<Rightarrow> 'w \<Rightarrow> 'w \<times> (string, json) gomap" where
  "observe h sourceHeight target w =
     (case IsNodeAvailable h (tg_Endpoint target) w of
        (w1, Inl err) \<Rightarrow> (w1, down ''health_request_failed'')
      | (w1, Inr available) \<Rightarrow>
          if \<not> available then (w1, [(''availability_up'', JBool False)])
          else (case FetchChainState h (tg_Endpoint target) w1 of
            (w2, Inl err) \<Rightarrow> (w2, down ''chain_request_failed'')
          | (w2, Inr state) \<Rightarrow>
              (w2, case DeriveProbeMetrics sourceHeight state of
                     Inl err \<Rightarrow> down ''lag_derivation_failed''
                   | Inr metrics \<Rightarrow> up metrics)))"

fun probe_targets :: "'w probe_host \<Rightarrow> probe_config \<Rightarrow> int \<Rightarrow> instant \<Rightarrow> probe_target list \<Rightarrow> 'w \<Rightarrow> 'w \<times> goerr option" where
  "probe_targets h cfg sourceHeight observedAt [] w = (w, None)"
| "probe_targets h cfg sourceHeight observedAt (target # targets) w =
     (case observe h sourceHeight target w of (w1, observed) \<Rightarrow>
        (case SubmitProbeEvent h (prc_PortalBaseURL cfg)
                (probe_base (ph_sha256 h) cfg target observedAt @ observed) w1 of
           (w2, Some err) \<Rightarrow> (w2, Some (Field_Error (''submit probe node_id='' @ tg_NodeID target) ''''))
         | (w2, None) \<Rightarrow> probe_targets h cfg sourceHeight observedAt targets w2))"

definition failCycle :: "probe_worker \<Rightarrow> probe_worker" where
  "failCycle wk = wk\<lparr>wk_consecutiveFailures := wrap64 (wk_consecutiveFailures wk + 1)\<rparr>"

definition RunOnce :: "'w probe_host \<Rightarrow> probe_worker \<Rightarrow> 'w \<Rightarrow> ('w \<times> probe_worker) \<times> goerr option" where
  "RunOnce h wk w =
     (case ph_now h w of (w1, now) \<Rightarrow>
        let observedAt = seconds_of now * second
        in (case FetchSourceHeight h (prc_SourceEndpoint (wk_cfg wk)) w1 of
          (w2, Inl err) \<Rightarrow> ((w2, failCycle wk), Some (Field_Error ''fetch source height'' ''''))
        | (w2, Inr sourceHeight) \<Rightarrow>
            (case probe_targets h (wk_cfg wk) sourceHeight observedAt (prc_Targets (wk_cfg wk)) w2 of
               (w3, Some err) \<Rightarrow> ((w3, failCycle wk), Some err)
             | (w3, None) \<Rightarrow>
                 ((w3, wk\<lparr>wk_lastSuccessAt := Some observedAt, wk_consecutiveFailures := 0\<rparr>), None))))"

end
