(* ===== verification/Commands.thy ===== *)
theory Commands
  imports Agent Probe
begin

text \<open>
  The agent's and the probe worker's commands (\<^verbatim>\<open>agent/cmd/program-agent/main.go\<close>,
  \<^verbatim>\<open>probe/cmd/probe-worker/main.go\<close>): their arguments, what each does and with what error it ends; the
  making of a key pair (\<^verbatim>\<open>agent/internal/crypto/crypto.go\<close>); and the worker's loop
  (\<^verbatim>\<open>probe/internal/worker/worker.go\<close>).
\<close>

section \<open>Arguments\<close>

text \<open>
  Go's \<^verbatim>\<open>flag\<close> package for flags that take a string: the values set, in order, and the arguments left. \<open>flag\<close> tells
  what setting a known flag makes of its value, or the error.
\<close>

fun parse_flags ::
    "(string \<Rightarrow> (string \<Rightarrow> goerr + string) option) \<Rightarrow> string list \<Rightarrow> goerr + (string \<times> string) list \<times> string list" where
  "parse_flags flag [] = Inr ([], [])"
| "parse_flags flag (s # args) =
     (if length s < 2 \<or> hd s \<noteq> CHR ''-'' then Inr ([], s # args)
      else if s = ''--'' then Inr ([], args)
      else
        let name = (if s ! 1 = CHR ''-'' then drop 2 s else drop 1 s);
            key = takeWhile (\<lambda>c. c \<noteq> CHR ''='') name; rest = dropWhile (\<lambda>c. c \<noteq> CHR ''='') name;
            assign = (\<lambda>check value more. and_then (check value) (\<lambda>v. and_then more (\<lambda>(sets, left). Inr ((key, v) # sets, left))))
        in if name = [] \<or> hd name \<in> {CHR ''-'', CHR ''=''} then Inl (Msg (''bad flag syntax: '' @ s))
           else (case flag key of
             None \<Rightarrow> Inl (Msg (if key \<in> {''help'', ''h''} then ''flag: help requested''
                              else ''flag provided but not defined: -'' @ key))
           | Some check \<Rightarrow>
               if rest \<noteq> [] then assign check (tl rest) (parse_flags flag args)
               else (case args of
                 [] \<Rightarrow> Inl (Msg (''flag needs an argument: -'' @ key))
               | value # args' \<Rightarrow> assign check value (parse_flags flag args'))))"

definition string_flags :: "string list \<Rightarrow> string \<Rightarrow> (string \<Rightarrow> goerr + string) option" where
  "string_flags names key = (if key \<in> set names then Some Inr else None)"

text \<open>The last value given to a flag, and all of them.\<close>

definition flag_value :: "(string \<times> string) list \<Rightarrow> string \<Rightarrow> string \<Rightarrow> string" where
  "flag_value sets key d = (case filter (\<lambda>kv. fst kv = key) sets of [] \<Rightarrow> d | kvs \<Rightarrow> snd (last kvs))"

definition warning_flag_set :: "string \<Rightarrow> goerr + string" where
  "warning_flag_set value =
     (if trim_space value = [] then Inl (Msg ''warning flag must not be empty'') else Inr (trim_space value))"

section \<open>A new key pair\<close>

text \<open>\<^verbatim>\<open>filepath.Clean\<close> and \<^verbatim>\<open>filepath.Join\<close>, with the parts of a path between its slashes.\<close>

fun parts :: "string \<Rightarrow> string list" where
  "parts [] = [[]]"
| "parts (c # cs) =
     (if c = CHR ''/'' then [] # parts cs
      else (case parts cs of [] \<Rightarrow> [[c]] | p # ps \<Rightarrow> (c # p) # ps))"

fun clean_parts :: "bool \<Rightarrow> string list \<Rightarrow> string list \<Rightarrow> string list" where
  "clean_parts rooted done [] = rev done"
| "clean_parts rooted done (p # ps) =
     (if p = [] \<or> p = ''.'' then clean_parts rooted done ps
      else if p = ''..'' then
        (case done of
           [] \<Rightarrow> clean_parts rooted (if rooted then [] else [p]) ps
         | d # ds \<Rightarrow> clean_parts rooted (if d = ''..'' then p # done else ds) ps)
      else clean_parts rooted (p # done) ps)"

fun with_slashes :: "string list \<Rightarrow> string" where
  "with_slashes [] = []"
| "with_slashes [p] = p"
| "with_slashes (p # ps) = p @ ''/'' @ with_slashes ps"

definition path_Clean :: "string \<Rightarrow> string" where
  "path_Clean path =
     (let rooted = has_prefix path ''/'';
          out = (if rooted then ''/'' else []) @ with_slashes (clean_parts rooted [] (parts path))
      in if out = [] then ''.'' else out)"

definition path_Join :: "string \<Rightarrow> string \<Rightarrow> string" where
  "path_Join dir name = path_Clean (if dir = [] then name else dir @ ''/'' @ name)"

text \<open>
  What the commands use of libraries: YAML, the random generator, PEM and DER, and the measurements. The
  writer of a PEM file adds the path to an error of writing, not to one of opening.
\<close>

record 'w agent_kit =
  kt_yaml :: "string \<Rightarrow> goerr + agent_config"
  kt_mkdir :: "'w \<Rightarrow> string \<Rightarrow> 'w \<times> goerr option"
  kt_generate :: "'w \<Rightarrow> 'w \<times> (goerr + string \<times> string)"
  kt_pkcs8 :: "string \<Rightarrow> goerr + string"
  kt_pkix :: "string \<Rightarrow> goerr + string"
  kt_pem :: "string \<Rightarrow> string \<Rightarrow> string"
  kt_unpem :: "string \<Rightarrow> string option"
  kt_parse_pkcs8 :: "string \<Rightarrow> goerr + parsed_key"
  kt_parse_pkix :: "string \<Rightarrow> goerr + parsed_key"
  kt_jitter :: duration
  kt_meters :: "'w meters"

definition writePEMFile ::
    "'w host \<Rightarrow> 'w agent_kit \<Rightarrow> string \<Rightarrow> string \<Rightarrow> string \<Rightarrow> 'w machine \<Rightarrow> 'w machine \<times> goerr option" where
  "writePEMFile h k path blockType der m =
     (case outside (\<lambda>w. ho_write h w path) m of
        (m1, Written) \<Rightarrow> (m1\<lparr>mc_files := (mc_files m1)(path \<mapsto> kt_pem k blockType der)\<rparr>, None)
      | (m1, Not_Opened err) \<Rightarrow> (m1, Some err)
      | (m1, Cut n err) \<Rightarrow>
          (m1\<lparr>mc_files := (mc_files m1)(path \<mapsto> take n (kt_pem k blockType der))\<rparr>, Some (Field_Error (''write '' @ path) [])))"

definition GenerateAndWriteKeyPair ::
    "'w host \<Rightarrow> 'w agent_kit \<Rightarrow> string \<Rightarrow> 'w machine \<Rightarrow> 'w machine \<times> (goerr + string \<times> string)" where
  "GenerateAndWriteKeyPair h k dir m =
     (if dir = [] then (m, Inl (Msg ''key output dir is required''))
      else case outside (\<lambda>w. kt_mkdir k w dir) m of
        (m1, Some err) \<Rightarrow> (m1, Inl err)
      | (m1, None) \<Rightarrow>
      (case outside (kt_generate k) m1 of
        (m2, Inl err) \<Rightarrow> (m2, Inl err)
      | (m2, Inr (publicKey, privateKey)) \<Rightarrow>
      (case (kt_pkcs8 k privateKey, kt_pkix k publicKey) of
        (Inl err, _) \<Rightarrow> (m2, Inl err)
      | (_, Inl err) \<Rightarrow> (m2, Inl err)
      | (Inr privateDER, Inr publicDER) \<Rightarrow>
          let privateKeyPath = path_Join dir ''agent_private_key.pem''; publicKeyPath = path_Join dir ''agent_public_key.pem''
          in (case writePEMFile h k privateKeyPath ''PRIVATE KEY'' privateDER m2 of
            (m3, Some err) \<Rightarrow> (m3, Inl err)
          | (m3, None) \<Rightarrow>
              (case writePEMFile h k publicKeyPath ''PUBLIC KEY'' publicDER m3 of
                (m4, Some err) \<Rightarrow> (m4, Inl err)
              | (m4, None) \<Rightarrow> (m4, Inr (privateKeyPath, publicKeyPath)))))))"

definition runGenKey :: "'w host \<Rightarrow> 'w agent_kit \<Rightarrow> string list \<Rightarrow> 'w machine \<Rightarrow> 'w machine \<times> goerr option" where
  "runGenKey h k args m =
     (case parse_flags (string_flags [''out-dir'']) args of
        Inl err \<Rightarrow> (m, Some err)
      | Inr (sets, left) \<Rightarrow>
          (case GenerateAndWriteKeyPair h k (flag_value sets ''out-dir'' ''./keys'') m of
             (m1, Inl err) \<Rightarrow> (m1, Some err)
           | (m1, Inr (privateKeyPath, publicKeyPath)) \<Rightarrow>
               outside (\<lambda>w. ho_print h w [(''private_key_path'', JStr privateKeyPath), (''public_key_path'', JStr publicKeyPath)]) m1))"

section \<open>The agent\<close>

definition os_read :: "'w host \<Rightarrow> 'w machine \<Rightarrow> string \<Rightarrow> goerr + string" where
  "os_read h m path =
     (case ho_read_fault h (mc_world m) path of
        Some err \<Rightarrow> Inl err
      | None \<Rightarrow> (case mc_files m path of
          None \<Rightarrow> Inl (Msg (''open '' @ path @ '': no such file or directory'')) | Some data \<Rightarrow> Inr data))"

text \<open>A command of the agent; \<open>None\<close> is a run that never ends.\<close>

definition run_command ::
    "'w host \<Rightarrow> 'w agent_kit \<Rightarrow> agent \<Rightarrow> string \<Rightarrow> string list \<Rightarrow> 'w machine \<Rightarrow> ('w machine \<times> goerr option) option" where
  "run_command h k a cmd args m =
     (let with = (\<lambda>flag act. Some (case parse_flags flag args of Inl err \<Rightarrow> (m, Some err) | Inr (sets, left) \<Rightarrow> act sets));
          usage = (\<lambda>msg. (m, Some (Msg msg)))
      in if cmd = ''run'' then agent_Run h a (kt_jitter k) m
         else if cmd = ''enroll'' then with (string_flags [''challenge-id'']) (\<lambda>sets.
           let challengeID = flag_value sets ''challenge-id'' []
           in if challengeID = [] then usage ''missing --challenge-id'' else agent_Enroll h a challengeID m)
         else if cmd = ''check'' then with (string_flags [''event-type'', ''event-id'']) (\<lambda>sets.
           let eventType = flag_value sets ''event-type'' []; eventID = flag_value sets ''event-id'' []
           in if eventType = [] \<or> eventID = [] then usage ''missing --event-type or --event-id''
              else RunChecks h (kt_meters k) a eventType eventID m)
         else if cmd = ''telemetry'' then
           with (\<lambda>key. if key = ''warning-flag'' then Some warning_flag_set else None) (\<lambda>sets.
             if sets = [] then usage ''missing --warning-flag'' else SubmitTelemetry h a (map snd sets) m)
         else Some (usage (''unknown command: '' @ cmd)))"

definition agent_main ::
    "'w host \<Rightarrow> 'w agent_kit \<Rightarrow> string list \<Rightarrow> 'w machine \<Rightarrow> ('w machine \<times> goerr option) option" where
  "agent_main h k args m =
     (case parse_flags (string_flags [''config'']) args of
        Inl err \<Rightarrow> Some (m, Some err)
      | Inr (sets, left) \<Rightarrow>
          let configPath = flag_value sets ''config'' []
          in if configPath = [] then Some (m, Some (Msg ''missing --config''))
             else (case left of
               [] \<Rightarrow> Some (m, Some (Msg ''missing command: run | enroll | check | telemetry | gen-key''))
             | cmd # cmd_args \<Rightarrow>
                 if cmd = ''gen-key'' then Some (runGenKey h k cmd_args m)
                 else (case agent_config_Load (os_read h m) (kt_yaml k) configPath of
                   Inl err \<Rightarrow> Some (m, Some err)
                 | Inr cfg \<Rightarrow>
                     (case NewAgent h (os_read h m) (kt_unpem k) (kt_parse_pkcs8 k) (kt_parse_pkix k) cfg of
                       Inl err \<Rightarrow> Some (m, Some err)
                     | Inr a \<Rightarrow> run_command h k a cmd cmd_args m))))"

section \<open>The probe worker\<close>

text \<open>
  The loop of the worker: a cycle, then a wait for the next tick or for the end, whose error it returns.
  \<open>wait\<close> is that wait; the loop goes on forever if it is never told to stop.
\<close>

partial_function (option) probe_Run ::
    "'w probe_host \<Rightarrow> ('w \<Rightarrow> duration \<Rightarrow> 'w \<times> goerr option) \<Rightarrow> probe_worker \<Rightarrow> 'w \<Rightarrow>
     (('w \<times> probe_worker) \<times> goerr option) option" where
  "probe_Run h wait wk w =
     (case RunOnce h wk w of ((w1, wk1), err) \<Rightarrow>
        (case wait w1 (wrap64 (prc_PollIntervalSeconds (wk_cfg wk1) * second)) of
           (w2, Some stopped) \<Rightarrow> Some ((w2, wk1), Some stopped)
         | (w2, None) \<Rightarrow> probe_Run h wait wk1 w2))"

definition context_canceled :: goerr where "context_canceled = Msg ''context canceled''"

definition probe_main ::
    "(string \<Rightarrow> goerr + string) \<Rightarrow> (string \<Rightarrow> goerr + probe_config) \<Rightarrow> 'w probe_host \<Rightarrow>
     ('w \<Rightarrow> duration \<Rightarrow> 'w \<times> goerr option) \<Rightarrow> string list \<Rightarrow> 'w \<Rightarrow> ('w \<times> goerr option) option" where
  "probe_main read_file yaml h wait args w =
     (case parse_flags (string_flags [''config'']) args of
        Inl err \<Rightarrow> Some (w, Some err)
      | Inr (sets, left) \<Rightarrow>
          let configPath = flag_value sets ''config'' []
          in if configPath = [] then Some (w, Some (Msg ''missing --config''))
             else (case left of
               [] \<Rightarrow> Some (w, Some (Msg ''missing command: run | run-once''))
             | cmd # cmd_args \<Rightarrow>
                 (case probe_config_Load read_file yaml configPath of
                   Inl err \<Rightarrow> Some (w, Some err)
                 | Inr cfg \<Rightarrow>
                     if cmd = ''run'' then
                       map_option (\<lambda>((w1, wk), err). (w1, if err = Some context_canceled then None else err))
                         (probe_Run h wait (New_Worker cfg) w)
                     else if cmd = ''run-once'' then
                       (case RunOnce h (New_Worker cfg) w of ((w1, wk), err) \<Rightarrow> Some (w1, err))
                     else Some (w, Some (Msg (''unknown command: '' @ cmd))))))"

end
