(* ===== verification/Wire.thy ===== *)
theory Wire
  imports Agent Probe Server_Runs
begin

text \<open>
  Between the programs: what a client sends is what the portal reads. A client prints a Go map with
  its keys sorted, or a struct in field order; the portal decodes the body it receives. The text a
  client signs is the text the portal checks the signature against.
\<close>

section \<open>Requests\<close>

definition posted :: "string \<Rightarrow> json \<Rightarrow> request" where
  "posted path doc = \<lparr>rq_Method = ''POST'', rq_Path = path, rq_Query = [], rq_Body = Document doc\<rparr>"

lemma posted_simps [simp]:
  "rq_Method (posted path doc) = ''POST''" "rq_Path (posted path doc) = path"
  "rq_Body (posted path doc) = Document doc"
  by (simp_all add: posted_def)

text \<open>A value that decoding and sorting of keys leave as it is: it holds no object.\<close>

definition leaf :: "json \<Rightarrow> bool" where
  "leaf v \<longleftrightarrow> any_of v = v \<and> normalize_json v = v"

lemma leaf_simps [simp]: "leaf (JStr s)" "leaf (JBool b)" "leaf (JNum l)" "leaf JNull" "leaf (JArr (map JStr ss))"
  by (simp_all add: leaf_def)

definition flat :: "(string, json) gomap \<Rightarrow> bool" where
  "flat m \<longleftrightarrow> wf_map m \<and> list_all (leaf \<circ> snd) m"

lemma flat_list: "distinct (map fst m) \<Longrightarrow> list_all (leaf \<circ> snd) m \<Longrightarrow> flat m"
  by (simp add: flat_def wf_map_def)

lemma flat_put: "flat m \<Longrightarrow> leaf v \<Longrightarrow> flat (map_put k v m)"
  using set_map_put [of k v m] by (auto simp: flat_def list_all_iff)

text \<open>Decoding a map that was printed gives the same map.\<close>

lemma put_pairs_distinct: "distinct (map fst kvs) \<Longrightarrow> put_pairs kvs = kvs"
proof -
  have "distinct (map fst (m @ kvs)) \<Longrightarrow> fold (\<lambda>(k, v). map_put k v) kvs m = m @ kvs" for m
  proof (induction kvs arbitrary: m)
    case (Cons kv kvs)
    have "\<not> has_key m (fst kv)" using Cons.prems by (auto simp: has_key_def)
    then have "map_put (fst kv) (snd kv) m = m @ [kv]" by (simp add: map_put_fresh)
    with Cons.IH [of "m @ [kv]"] Cons.prems show ?case by (simp add: case_prod_beta)
  qed simp
  from this [of "[]"] show "distinct (map fst kvs) \<Longrightarrow> put_pairs kvs = kvs" by (simp add: put_pairs_def)
qed

lemma decode_map_json:
  assumes "flat m"
  shows "decodeObject (Document (map_json m)) = Inr (sort_slice (\<lambda>a b. fst a < fst b) m)"
proof -
  let ?s = "sort_slice (\<lambda>a b. fst a < fst b) m"
  have d: "distinct (map fst ?s)" using assms by (simp add: flat_def wf_map_def)
  have "map (map_prod id any_of) ?s = ?s"
    using assms by (intro map_idI) (auto simp: flat_def list_all_iff leaf_def prod_eq_iff)
  then show ?thesis using d by (simp add: decodeObject_def map_json_def put_pairs_distinct)
qed

text \<open>The fields a handler reads are the fields that were sent.\<close>

lemma sent_get: "flat m \<Longrightarrow> map_get (sort_slice (\<lambda>a b. fst a < fst b) m) = map_get m"
  using map_get_sorted by (auto simp: flat_def wf_map_def)

lemma sent_fields:
  assumes "flat m"
  shows "stringField (sort_slice (\<lambda>a b. fst a < fst b) m) = stringField m"
    "boolField (sort_slice (\<lambda>a b. fst a < fst b) m) = boolField m"
    "intField (sort_slice (\<lambda>a b. fst a < fst b) m) = intField m"
    "arrayField (sort_slice (\<lambda>a b. fst a < fst b) m) = arrayField m"
    "optionalNonNegativeIntField (sort_slice (\<lambda>a b. fst a < fst b) m) = optionalNonNegativeIntField m"
  using sent_get [OF assms]
  by (simp_all add: fun_eq_iff stringField_def boolField_def intField_def arrayField_def optionalNonNegativeIntField_def)

section \<open>Signatures\<close>

lemma signed_part_perm: "mset m' = mset m \<Longrightarrow> mset (signed_part m') = mset (signed_part m)"
  by (simp add: signed_part_def)

text \<open>The text the portal checks is the text the agent signed.\<close>

lemma canonical_is_signed_text:
  assumes "flat m"
  shows "CanonicalJSONWithoutSignature (sort_slice (\<lambda>a b. fst a < fst b) (map_put ''signature'' v m))
    = marshal (map_json (map_remove ''signature'' m))"
proof -
  let ?m = "map_put ''signature'' v m"
  have wf: "wf_map ?m" using assms by (simp add: flat_def)
  have part: "signed_part ?m = signed_part m"
    by (induction m) (auto simp: signed_part_def)
  have leaves: "map (map_prod id normalize_json) (signed_part m) = signed_part m"
    using assms by (intro map_idI) (auto simp: signed_part_def flat_def list_all_iff leaf_def prod_eq_iff)
  have "CanonicalJSONWithoutSignature (sort_slice (\<lambda>a b. fst a < fst b) ?m) = CanonicalJSONWithoutSignature ?m"
    by (rule canonical_perm [OF wf]) simp
  also have "\<dots> = marshal (JObj (sort_slice (\<lambda>a b. fst a < fst b) (signed_part m)))"
    by (simp add: canonical_signed_part part leaves)
  also have "signed_part m = map_remove ''signature'' m" 
    by (auto simp: signed_part_def AList.delete_eq intro!: filter_cong)
  finally show ?thesis by (simp add: map_json_def)
qed

text \<open>The agent's key pair, as the portal's verifier sees it, and a node enrolled with it.\<close>

definition key_pair :: "'p env \<Rightarrow> 'w host \<Rightarrow> agent \<Rightarrow> bool" where
  "key_pair e h a \<longleftrightarrow> length (ag_publicKey a) = 32 \<and>
     (\<forall>d. ho_sign h (ag_privateKey a) d \<noteq> [] \<and>
       out_verify (env_out e) (ag_publicKey a) d (ho_sign h (ag_privateKey a) d))"

definition enrolled_as :: "agent \<Rightarrow> node \<Rightarrow> bool" where
  "enrolled_as a node \<longleftrightarrow> nd_AgentPublicKey node = hex_encode (ag_publicKey a) \<and>
     nd_ActiveAgentKeyFingerprint node = ag_fingerprint a"

lemma signature_verifies:
  "key_pair e h a \<Longrightarrow> VerifyHexPublicKeySignature (out_verify (env_out e)) (hex_encode (ag_publicKey a))
     (Sign h (ag_privateKey a) d) d = None"
  unfolding signature_ok_iff by (auto simp: key_pair_def Sign_def hex_decode_encode)

lemma hex_encode_ne: "s \<noteq> [] \<Longrightarrow> hex_encode s \<noteq> []"
  by (cases s) (simp_all add: hex_encode_def)

lemma key_ne: "key_pair e h a \<Longrightarrow> hex_encode (ag_publicKey a) \<noteq> []"
  by (rule hex_encode_ne) (auto simp: key_pair_def)

lemma signed_flat: "flat m \<Longrightarrow> flat (signed h a m)"
  by (simp add: signed_def flat_put)

lemma signed_get: "map_get (signed h a m) k =
    (if k = ''signature'' then Some (JStr (signMap h (ag_privateKey a) m)) else map_get m k)"
  by (simp add: signed_def map_get_put)

text \<open>A signed map of an enrolled agent is authorised.\<close>

lemma agent_authorized:
  assumes "key_pair e h a" and "enrolled_as a node" and "flat m"
    and "stringField m ''agent_key_fingerprint'' = ag_fingerprint a"
  shows "authorizeMapPayload e node (sort_slice (\<lambda>a b. fst a < fst b) (signed h a m)) = None"
proof -
  let ?p = "sort_slice (\<lambda>a b. fst a < fst b) (signed h a m)"
  have f: "stringField ?p k = stringField (signed h a m) k" for k by (simp add: sent_fields signed_flat assms(3))
  have fp: "stringField ?p ''agent_key_fingerprint'' = ag_fingerprint a"
    using assms(4) unfolding f by (simp add: stringField_def signed_get)
  have sg: "stringField ?p ''signature'' = signMap h (ag_privateKey a) m"
    unfolding f by (simp add: stringField_def signed_get)
  have "CanonicalJSONWithoutSignature ?p = marshal (map_json (map_remove ''signature'' m))"
    unfolding signed_def by (rule canonical_is_signed_text [OF assms(3)])
  then show ?thesis
    using assms(2) key_ne [OF assms(1)] signature_verifies [OF assms(1)]
    by (simp add: authorizeMapPayload_def fp sg enrolled_as_def signMap_def)
qed

section \<open>Time\<close>

text \<open>A stamp of the client's clock is on time when its second is within the portal's skew.\<close>

definition on_time :: "config \<Rightarrow> clk \<Rightarrow> instant \<Rightarrow> bool" where
  "on_time cfg clk now \<longleftrightarrow> in_era now \<and> 0 \<le> cfg_AllowedClockSkewSeconds cfg \<and>
     cfg_AllowedClockSkewSeconds cfg \<le> 2 ^ 33 \<and>
     \<bar>seconds_of now * second - clk At_Validate\<bar> \<le> cfg_AllowedClockSkewSeconds cfg * second"

lemma stamp_on_time:
  assumes "on_time cfg clk now"
  shows "validateTimestamp cfg clk (format_rfc3339 now) = None"
proof -
  let ?w = "cfg_AllowedClockSkewSeconds cfg * second"
  have "0 \<le> ?w" "?w \<le> 2 ^ 33 * second"
    using assms by (simp_all add: on_time_def second_def)
  then have "wrap64 ?w = ?w" "wrap64 (- ?w) = - ?w"
    by (intro wrap64_id; simp add: second_def)+
  then show ?thesis
    using assms by (auto simp: validateTimestamp_def parse_format on_time_def Let_def)
qed

section \<open>Heartbeats\<close>

text \<open>What the portal reads of an agent's heartbeat.\<close>

definition portal_payload :: "payload \<Rightarrow> heartbeat_payload" where
  "portal_payload p =
     \<lparr>hp_NodeID = pl_NodeID p, hp_AgentKeyFingerprint = pl_AgentKeyFingerprint p,
      hp_HeartbeatTimestamp = pl_HeartbeatTimestamp p, hp_SequenceNumber = pl_SequenceNumber p,
      hp_AgentVersion = pl_AgentVersion p, hp_EnrollmentGeneration = pl_EnrollmentGeneration p,
      hp_LocalObservationFlags = pl_LocalObservationFlags p, hp_Signature = pl_Signature p\<rparr>"

definition int64 :: "int \<Rightarrow> bool" where "int64 n \<longleftrightarrow> - (2 ^ 63) \<le> n \<and> n < 2 ^ 63"

lemma parse_itoa: "int64 n \<Longrightarrow> parse_int64 (itoa n) = Some n"
  by (simp add: int64_def parse_int64_itoa)

lemma fold_names_heartbeat [simp]:
  "fold_name ''agent_version'' = ''agent_version''"
  "fold_name ''local_observation_flags'' = ''local_observation_flags''"
  by code_simp+

lemma string_values_map [simp]: "string_values (map JStr ss) = Inr ss"
  by (induction ss) (simp_all add: string_value_def)

lemma set_member_flags:
  "set_member (''agent_version'', JStr x) p = Inr (p\<lparr>hp_AgentVersion := x\<rparr>)"
  "set_member (''local_observation_flags'', JArr (map JStr fs)) p = Inr (p\<lparr>hp_LocalObservationFlags := Some fs\<rparr>)"
  "set_member (''local_observation_flags'', JNull) p = Inr (p\<lparr>hp_LocalObservationFlags := None\<rparr>)"
  by (simp_all add: set_member_def string_value_def strings_value_def del: fold_name.simps)

lemma decode_payload:
  assumes "int64 (pl_SequenceNumber p)" and "int64 (pl_EnrollmentGeneration p)"
  shows "decode_heartbeat (Document (payload_json p)) = Inr (portal_payload p)"
  by (cases "pl_LocalObservationFlags p"; cases "pl_Signature p = []")
    (simp_all add: decode_heartbeat_def payload_json_def set_member_simps set_member_flags
      parse_itoa [OF assms(1)] parse_itoa [OF assms(2)] portal_payload_def zero_heartbeat_def)

lemma canonical_payload: "heartbeat_canonical (portal_payload p) = CanonicalBytes p"
  by (simp add: heartbeat_canonical_def heartbeat_json_def CanonicalBytes_def payload_json_def portal_payload_def)

text \<open>The guards on a heartbeat of an enrolled agent: only its place in the sequence is left to decide.\<close>

lemma agent_heartbeat_check:
  assumes "key_pair e h a" and "GetNode st (ag_node a) = Some node" and "enrolled_as a node"
    and "nd_EnrollmentGeneration node = ac_EnrollmentGeneration (ag_cfg a)"
    and "int64 n" "int64 (ac_EnrollmentGeneration (ag_cfg a))" and "on_time (env_cfg e) clk now"
  shows "heartbeat_check e clk (posted path (payload_json (signed_heartbeat h a n flags now))) st =
    (if n \<le> nd_LastHeartbeatSequence node
     then Inl (fail 409 ''stale_sequence'' ''sequence number must be strictly increasing'')
     else Inr (portal_payload (signed_heartbeat h a n flags now), node))"
proof -
  let ?p = "signed_heartbeat h a n flags now"
  have p: "pl_NodeID ?p = ag_node a" "pl_AgentKeyFingerprint ?p = ag_fingerprint a" "pl_SequenceNumber ?p = n"
    "pl_EnrollmentGeneration ?p = ac_EnrollmentGeneration (ag_cfg a)"
    "pl_HeartbeatTimestamp ?p = format_rfc3339 now"
    "pl_Signature ?p = Sign h (ag_privateKey a) (CanonicalBytes ?p)"
    by (simp_all add: signed_heartbeat_def heartbeat_New_def Let_def CanonicalBytes_def)
  have d: "decode_heartbeat (Document (payload_json ?p)) = Inr (portal_payload ?p)"
    by (rule decode_payload) (simp_all only: p assms(5,6))
  have k: "nd_AgentPublicKey node = hex_encode (ag_publicKey a)" "nd_ActiveAgentKeyFingerprint node = ag_fingerprint a"
    using assms(3) by (simp_all add: enrolled_as_def)
  have f: "hp_NodeID (portal_payload ?p) = ag_node a" "hp_AgentKeyFingerprint (portal_payload ?p) = ag_fingerprint a"
    "hp_EnrollmentGeneration (portal_payload ?p) = ac_EnrollmentGeneration (ag_cfg a)"
    "hp_HeartbeatTimestamp (portal_payload ?p) = format_rfc3339 now" "hp_SequenceNumber (portal_payload ?p) = n"
    "hp_Signature (portal_payload ?p) = Sign h (ag_privateKey a) (CanonicalBytes ?p)"
    unfolding portal_payload_def by (simp_all add: p)
  show ?thesis
    using key_ne [OF assms(1)] signature_verifies [OF assms(1), of "CanonicalBytes ?p"] stamp_on_time [OF assms(7)]
    by (simp add: heartbeat_check_def d f k assms(2,4) canonical_payload)
qed

end
