(* ===== verification/Client_Properties.thy ===== *)
theory Client_Properties
  imports Wire
begin

text \<open>
  Properties of what the clients measure: the agent's voting key risk and hardware checks, and what the
  probe worker observes of a node and the portal makes of it.
\<close>

section \<open>The voting key risk\<close>

lemma current_epoch_nonneg: "0 \<le> currentVotingEpoch height grouping"
proof (cases "height \<le> 0 \<or> grouping \<le> 0")
  case False
  then have "0 \<le> go_div (height - 1) grouping"
    by (cases "height = 1") (simp_all add: go_div_def sgn_if pos_imp_zdiv_nonneg_iff)
  then show ?thesis by (simp add: currentVotingEpoch_def)
qed (simp add: currentVotingEpoch_def)

lemma epoch_properties_positive:
  "fetchEpochProperties api = Inr (grouping, target) \<Longrightarrow> 0 < grouping \<and> 0 < target"
  by (auto simp: fetchEpochProperties_def Let_def and_then_def split: sum.splits option.splits if_splits)

text \<open>
  C34: the agent sees a voting key risk exactly when some voting key that is valid in the current epoch
  ends within the window, counted in whole epochs, as long as the spans fit 64 bits of nanoseconds. They
  need not: with epochs of 12 hours a key that is valid for another 292 years is reported as about to
  expire.
\<close>

theorem voting_key_risk_exact:
  assumes "fetchNodePublicKey api = Inr pk" and "fetchChainHeight api = Inr height"
    and "fetchEpochProperties api = Inr (grouping, target)"
    and "getJSON (''/accounts/'' @ pk) (sa_account api pk) = Inr keys" and "epochs_read S E keys"
    and "cur = currentVotingEpoch height grouping"
    and "\<forall>ep \<in> set (active_ends S E cur keys). (ep - cur) * (grouping * target) < 2 ^ 63 \<and> ep < 2 ^ 63"
    and "grouping * target < 2 ^ 63"
  shows "HasVotingKeyExpiryRisk api window =
      Inr (\<exists>ep \<in> set (active_ends S E cur keys). (ep - cur) * (grouping * target) < window)
    \<and> near_expiry 1 1440 (30 * second) votingKeyRiskWindow 213505 = Inr True"
proof
  let ?ends = "set (active_ends S E cur keys)" and ?d = "grouping * target"
  have risk: "HasVotingKeyExpiryRisk api window =
      (if ?ends = {} then Inr False else near_expiry height grouping target window (Min ?ends))"
    using assms(4) by (simp add: HasVotingKeyExpiryRisk_def assms(1-3) assms(6) [symmetric]
        fetchEarliestActiveVotingEndEpoch_def earliest_loop_least [OF assms(5)])
  have d: "0 < ?d" using epoch_properties_positive [OF assms(3)] by simp
  show "HasVotingKeyExpiryRisk api window = Inr (\<exists>ep \<in> ?ends. (ep - cur) * ?d < window)"
  proof (cases "?ends = {}")
    case True
    then show ?thesis unfolding risk by simp
  next
    case False
    let ?m = "Min ?ends"
    have m: "?m \<in> ?ends" using False by (simp add: Min_in)
    then have "cur \<le> ?m" by (auto simp: active_ends_def)
    have b: "0 \<le> ?m - cur" "?m - cur < 2 ^ 63" "(?m - cur) * ?d < 2 ^ 63"
      using \<open>cur \<le> ?m\<close> m assms(7) current_epoch_nonneg [of height grouping] by (auto simp: assms(6))
    have p: "0 \<le> (?m - cur) * ?d" using b(1) d by simp
    have w: "wrap64 ((?m - cur) * ?d) = (?m - cur) * ?d"
      by (rule wrap64_id) (rule order_trans [OF _ p], simp, rule b(3))
    have "near_expiry height grouping target window ?m = Inr ((?m - cur) * ?d < window)"
      using b(1,2) d assms(8) by (simp add: near_expiry_def Let_def assms(6) [symmetric] wrap64_id w)
    moreover have "(?m - cur) * ?d < window \<longleftrightarrow> (\<exists>ep \<in> ?ends. (ep - cur) * ?d < window)"
    proof
      assume "\<exists>ep \<in> ?ends. (ep - cur) * ?d < window"
      then obtain ep where ep: "ep \<in> ?ends" "(ep - cur) * ?d < window" by blast
      have "(?m - cur) * ?d \<le> (ep - cur) * ?d"
        using d ep(1) by (intro mult_right_mono) simp_all
      with ep(2) show "(?m - cur) * ?d < window" by simp
    qed (use m in blast)
    ultimately show ?thesis using False unfolding risk by simp
  qed
  show "near_expiry 1 1440 (30 * second) votingKeyRiskWindow 213505 = Inr True"
    by code_simp
qed

text \<open>A node whose only key ends in epoch 3, asked in epoch 2.\<close>

definition ex_ok :: "'r \<Rightarrow> 'r http_result" where "ex_ok doc = Inr ((200, ''200 OK''), Inr doc)"

definition ex_voting_api :: symbol_api where
  "ex_voting_api =
     \<lparr>sa_node_info = ex_ok \<lparr>ni_PublicKey = ''pk'', ni_NodePublicKey = []\<rparr>, sa_chain_info = ex_ok ''1441'',
      sa_properties = ex_ok \<lparr>np_Chain = \<lparr>xp_VotingSetGrouping = ''1440'', xp_BlockGenerationTargetTime = ''30s''\<rparr>,
        np_NetworkChain = \<lparr>xp_VotingSetGrouping = [], xp_BlockGenerationTargetTime = []\<rparr>\<rparr>,
      sa_account = (\<lambda>_. ex_ok [\<lparr>vy_PublicKey = ''k'', vy_StartEpoch = Any_Float 1, vy_EndEpoch = Any_Float 3\<rparr>])\<rparr>"

theorem voting_key_risk_exact_witness: "HasVotingKeyExpiryRisk ex_voting_api votingKeyRiskWindow = Inr True"
proof -
  let ?keys = "[\<lparr>vy_PublicKey = ''k'', vy_StartEpoch = Any_Float 1, vy_EndEpoch = Any_Float 3\<rparr>]"
  have 1: "fetchNodePublicKey ex_voting_api = Inr ''pk''" "fetchChainHeight ex_voting_api = Inr 1441"
    "fetchEpochProperties ex_voting_api = Inr (1440, 30 * second)"
    "getJSON (''/accounts/'' @ ''pk'') (sa_account ex_voting_api ''pk'') = Inr ?keys"
    by code_simp+
  have 2: "epochs_read (\<lambda>_. 1) (\<lambda>_. 3) ?keys" by (simp add: epochs_read_def parseIntLike_def int_of_float_def)
  have 3: "2 = currentVotingEpoch 1441 1440" by code_simp
  have 4: "active_ends (\<lambda>_. 1) (\<lambda>_. 3) 2 ?keys = [3]" by (simp add: active_ends_def)
  have 5: "\<forall>ep \<in> set (active_ends (\<lambda>_. 1) (\<lambda>_. 3) 2 ?keys). (ep - 2) * (1440 * (30 * second)) < 2 ^ 63 \<and> ep < 2 ^ 63"
    "1440 * (30 * second) < 2 ^ 63" by (simp_all add: 4 second_def)
  have 6: "\<exists>ep \<in> {3}. (ep - 2) * (1440 * (30 * second)) < votingKeyRiskWindow" by code_simp
  from voting_key_risk_exact [OF 1 2 3 5, of votingKeyRiskWindow] 6 show ?thesis by (simp add: 4)
qed

section \<open>The machine\<close>



section \<open>Probes\<close>

lemma parse_int64_range: "parse_int64 s = Some n \<Longrightarrow> int64 n"
  by (auto simp: parse_int64_def int64_def Let_def split: if_splits)

lemma int_like_int64: "parseIntLike v = Inr n \<Longrightarrow> int64 n"
  by (auto simp: parseIntLike_def parseIntString_def Let_def int_of_float_def int64_def split: any_value.splits if_splits option.splits
      dest!: parse_int64_range)

text \<open>The chain state of a node that is up, if it can be read.\<close>

definition measured :: "'w probe_host \<Rightarrow> probe_target \<Rightarrow> 'w \<Rightarrow> chain_state option" where
  "measured h target w =
     (case IsNodeAvailable h (tg_Endpoint target) w of
        (w1, Inr available) \<Rightarrow>
          if \<not> available then None
          else (case snd (FetchChainState h (tg_Endpoint target) w1) of Inl err \<Rightarrow> None | Inr state \<Rightarrow> Some state)
      | (w1, Inl err) \<Rightarrow> None)"

definition lags :: "int \<Rightarrow> chain_state \<Rightarrow> probe_metrics" where
  "lags sourceHeight state =
     \<lparr>pm_PeerHeight = cs_Height state, pm_SourceHeight = sourceHeight,
      pm_FinalizedLagBlocks = max 0 (cs_Height state - cs_FinalizedHeight state),
      pm_ChainLagBlocks = max 0 (sourceHeight - cs_Height state)\<rparr>"

lemma chain_state_range:
  assumes "chain_state_of resp = Inr state"
  shows "0 < cs_Height state" "0 \<le> cs_FinalizedHeight state" "int64 (cs_Height state)" "int64 (cs_FinalizedHeight state)"
  using assms int_like_int64 by (auto simp: chain_state_of_def split: sum.splits if_splits)

lemma metrics_exact:
  assumes "chain_state_of resp = Inr state" and "0 < sourceHeight" and "int64 sourceHeight"
  shows "DeriveProbeMetrics sourceHeight state = Inr (lags sourceHeight state)"
proof -
  note r = chain_state_range [OF assms(1)]
  have "wrap64 (cs_Height state - cs_FinalizedHeight state) = cs_Height state - cs_FinalizedHeight state"
    "wrap64 (sourceHeight - cs_Height state) = sourceHeight - cs_Height state"
    using r assms(2,3) by (auto intro!: wrap64_id simp: int64_def)
  with r(1,2) assms(2) show ?thesis by (auto simp: DeriveProbeMetrics_def lags_def Let_def)
qed

lemma observe_measured:
  assumes "observe h sourceHeight target w = (w1, obs)" and "0 < sourceHeight" and "int64 sourceHeight"
  shows "case measured h target w of
      Some state \<Rightarrow> obs = up (lags sourceHeight state) \<and> (\<exists>resp. chain_state_of resp = Inr state)
    | None \<Rightarrow> obs = [(''availability_up'', JBool False)] \<or> (\<exists>code. obs = down code)"
proof -
  obtain w2 r where 1: "IsNodeAvailable h (tg_Endpoint target) w = (w2, r)" by fastforce
  obtain w3 q where 2: "FetchChainState h (tg_Endpoint target) w2 = (w3, q)" by fastforce
  have q: "\<exists>resp. chain_state_of resp = Inr state" if "q = Inr state" for state
    using 2 that by (auto simp: FetchChainState_def and_then_def split: prod.splits sum.splits)
  show ?thesis
  proof (cases "r = Inr True")
    case False
    then show ?thesis
      using assms(1) by (cases r) (auto simp: measured_def observe_def 1 split: if_splits)
  next
    case True
    show ?thesis
    proof (cases q)
      case (Inl err)
      then show ?thesis using assms(1) True by (auto simp: measured_def observe_def 1 2)
    next
      case (Inr state)
      obtain resp where resp: "chain_state_of resp = Inr state" using q [OF Inr] by blast
      then show ?thesis
        using assms(1) True metrics_exact [OF resp assms(2,3)] by (auto simp: measured_def observe_def 1 2 Inr)
    qed
  qed
qed

lemma int64_lags:
  assumes "chain_state_of resp = Inr state" and "0 < sourceHeight" and "int64 sourceHeight"
  shows "int64 (pm_FinalizedLagBlocks (lags sourceHeight state))" "int64 (pm_ChainLagBlocks (lags sourceHeight state))"
  using chain_state_range [OF assms(1)] assms(2,3) by (auto simp: lags_def int64_def)

text \<open>A payload with what every probe has, and what it adds, at the portal's guards.\<close>

lemma lag_fields_cong:
  "optionalNonNegativeIntField p = optionalNonNegativeIntField m \<Longrightarrow> lag_fields p ks = lag_fields m ks"
  by (induction ks) (auto split: sum.split)

abbreviation counters :: "string list" where
  "counters \<equiv> [''finalized_lag_blocks'', ''chain_lag_blocks'', ''source_height'', ''peer_height'', ''http_status'']"

lemma probe_passes:
  assumes "flat (probe_base sha cfg target t @ obs)"
    and "GetNode st (tg_NodeID target) \<noteq> None" and "tg_NodeID target \<noteq> []" and "tg_Endpoint target \<noteq> []"
    and "prc_RegionID cfg \<noteq> []" and "0 < prc_PollIntervalSeconds cfg" and "int64 (prc_PollIntervalSeconds cfg)"
    and "on_time (env_cfg e) clk t"
    and "boolField (probe_base sha cfg target t @ obs) ''availability_up'' = Some av"
    and "lag_fields (probe_base sha cfg target t @ obs) counters = Inr ls"
    and "av \<longrightarrow> ls ! 0 \<noteq> None \<and> ls ! 1 \<noteq> None \<and> ls ! 2 \<noteq> None \<and> ls ! 3 \<noteq> None"
  shows "\<exists>ev. probe_check e clk (posted path (map_json (probe_base sha cfg target t @ obs))) st = Inr ev
    \<and> pe_NodeID ev = tg_NodeID target \<and> pe_ObservedAt ev = format_rfc3339 t \<and> pe_AvailabilityUp ev = av
    \<and> pe_FinalizedLagBlocks ev = ls ! 0 \<and> pe_ChainLagBlocks ev = ls ! 1
    \<and> pe_SourceHeight ev = ls ! 2 \<and> pe_PeerHeight ev = ls ! 3"
proof -
  let ?m = "probe_base sha cfg target t @ obs"
  define p where "p = sort_slice (\<lambda>a b. fst a < fst b) ?m"
  have d: "decodeObject (rq_Body (posted path (map_json ?m))) = Inr p"
    unfolding p_def posted_simps by (rule decode_map_json [OF assms(1)])
  note sent = sent_fields [OF assms(1), folded p_def]
  have base: "stringField p ''schema_version'' = ''1''"
    "stringField p ''probe_id'' = probeID sha (prc_RegionID cfg) (tg_NodeID target) (tg_Endpoint target) t"
    "stringField p ''node_id'' = tg_NodeID target" "stringField p ''region_id'' = prc_RegionID cfg"
    "stringField p ''observed_at'' = format_rfc3339 t" "stringField p ''endpoint'' = tg_Endpoint target"
    "intField p ''measurement_window_seconds'' = Some (prc_PollIntervalSeconds cfg)"
    unfolding sent by (simp_all add: probe_base_def stringField_def intField_def parse_itoa [OF assms(7)])
  have ne: "probeID sha (prc_RegionID cfg) (tg_NodeID target) (tg_Endpoint target) t \<noteq> []" "format_rfc3339 t \<noteq> []"
    by (simp_all add: probeID_def format_rfc3339_def)
  have up: "boolField p ''availability_up'' = Some av" using assms(9) by (simp add: sent)
  have ls: "lag_fields p counters = Inr ls" unfolding lag_fields_cong [OF sent(5)] by (rule assms(10))
  have "probe_check e clk (posted path (map_json ?m)) st = Inr (probe_event_of p av (prc_PollIntervalSeconds cfg) ls)"
    using d base ne assms(2-6,11) stamp_on_time [OF assms(8)] up ls
    by (auto simp: probe_check_def simp del: lag_fields.simps)
  then show ?thesis by (simp add: probe_event_of_def base)
qed

text \<open>
  C39: what the probe worker observes is what the portal records. For a configured node and a clock within
  the skew the portal's guards let the worker's payload through; the event is up exactly when the node
  was up and its chain state could be read, and then carries the heights and the exact lags (never
  negative, with no overflow for any answer of the nodes); otherwise it is down with no counters.
\<close>

theorem probe_reports_truly:
  assumes "observe h sourceHeight target w = (w1, obs)" and "0 < sourceHeight" and "int64 sourceHeight"
    and "GetNode st (tg_NodeID target) \<noteq> None" and "tg_NodeID target \<noteq> []" and "tg_Endpoint target \<noteq> []"
    and "prc_RegionID cfg \<noteq> []" and "0 < prc_PollIntervalSeconds cfg" and "int64 (prc_PollIntervalSeconds cfg)"
    and "on_time (env_cfg e) clk t"
  shows "\<exists>ev. probe_check e clk (posted path (map_json (probe_base sha cfg target t @ obs))) st = Inr ev
    \<and> pe_NodeID ev = tg_NodeID target \<and> pe_ObservedAt ev = format_rfc3339 t
    \<and> (case measured h target w of
         None \<Rightarrow> \<not> pe_AvailabilityUp ev \<and> pe_FinalizedLagBlocks ev = None \<and> pe_ChainLagBlocks ev = None
       | Some state \<Rightarrow> pe_AvailabilityUp ev
           \<and> pe_FinalizedLagBlocks ev = Some (max 0 (cs_Height state - cs_FinalizedHeight state))
           \<and> pe_ChainLagBlocks ev = Some (max 0 (sourceHeight - cs_Height state))
           \<and> pe_PeerHeight ev = Some (cs_Height state) \<and> pe_SourceHeight ev = Some sourceHeight)"
proof -
  note om = observe_measured [OF assms(1-3)]
  have flat: "flat (probe_base sha cfg target t @ obs)"
    using om by (auto intro!: flat_list simp: probe_base_def up_def down_def split: option.splits)
  note pass = probe_passes [where path = path, OF flat assms(4-10)]
  show ?thesis
  proof (cases "measured h target w")
    case None
    have "boolField (probe_base sha cfg target t @ obs) ''availability_up'' = Some False"
      "lag_fields (probe_base sha cfg target t @ obs) counters = Inr [None, None, None, None, None]"
      using om unfolding None by (auto simp: probe_base_def down_def boolField_def optionalNonNegativeIntField_def)
    from pass [OF this] show ?thesis by (auto simp: None)
  next
    case (Some state)
    obtain resp where resp: "chain_state_of resp = Inr state" using om Some by auto
    have obs: "obs = up (lags sourceHeight state)" using om Some by simp
    have nn: "0 \<le> pm_FinalizedLagBlocks (lags sourceHeight state)" "0 \<le> pm_ChainLagBlocks (lags sourceHeight state)"
      by (simp_all add: lags_def)
    note parse = int64_lags [OF resp assms(2,3), THEN parse_itoa] parse_itoa [OF assms(3)]
      parse_itoa [OF chain_state_range(3) [OF resp]]
    have "boolField (probe_base sha cfg target t @ obs) ''availability_up'' = Some True"
      "lag_fields (probe_base sha cfg target t @ obs) counters
        = Inr [Some (max 0 (cs_Height state - cs_FinalizedHeight state)), Some (max 0 (sourceHeight - cs_Height state)),
            Some sourceHeight, Some (cs_Height state), None]"
      using parse nn chain_state_range(1) [OF resp] assms(2)
      by (auto simp: obs probe_base_def up_def boolField_def optionalNonNegativeIntField_def lags_def)
    from pass [OF this] show ?thesis by (auto simp: Some)
  qed
qed

text \<open>A worker's outside in which every node is up, at height 100 with 98 finalized, and the portal knows none.\<close>

definition ex_probes :: "unit probe_host" where
  "ex_probes =
     \<lparr>ph_now = (\<lambda>w. (w, ex_now)),
      ph_health = (\<lambda>w url. (w, ex_ok \<lparr>hs_Node = ''up'', hs_APINode = ''up'', hs_DB = ''up''\<rparr>)),
      ph_chain = (\<lambda>w url. (w, ex_ok \<lparr>ci_Height = Any_String ''100'', ci_LatestFinalizedHeight = Any_String ''98''\<rparr>)),
      ph_submit = (\<lambda>w url doc. (w, Inr (404, ''404 Not Found''))), ph_lower = id, ph_sha256 = id\<rparr>"

definition ex_target :: "string \<Rightarrow> probe_target" where
  "ex_target n = \<lparr>tg_NodeID = n, tg_Endpoint = ''http://node''\<rparr>"

definition ex_probe_config :: probe_config where
  "ex_probe_config =
     \<lparr>prc_PortalBaseURL = ''http://portal'', prc_RegionID = ''eu'', prc_SourceEndpoint = ''http://source'',
      prc_RequestTimeoutSeconds = 5, prc_PollIntervalSeconds = 60, prc_Targets = [ex_target '' a'', ex_target ''b'']\<rparr>"

theorem probe_reports_truly_witness:
  "\<exists>ev. probe_check ex_env ex_clk (posted [] (map_json (probe_base id ex_probe_config (ex_target ''a'') ex_now @
       snd (observe ex_probes 105 (ex_target ''a'') ())))) (sv_store ex_portal) = Inr ev
     \<and> pe_FinalizedLagBlocks ev = Some 2 \<and> pe_ChainLagBlocks ev = Some 5"
proof -
  have m: "measured ex_probes (ex_target ''a'') () = Some \<lparr>cs_Height = 100, cs_FinalizedHeight = 98\<rparr>"
    by code_simp
  obtain w1 obs where o: "observe ex_probes 105 (ex_target ''a'') () = (w1, obs)"
    by (cases "observe ex_probes 105 (ex_target ''a'') ()")
  have c: "GetNode (sv_store ex_portal) (tg_NodeID (ex_target ''a'')) \<noteq> None" "tg_NodeID (ex_target ''a'') \<noteq> []"
    "tg_Endpoint (ex_target ''a'') \<noteq> []" "prc_RegionID ex_probe_config \<noteq> []" "0 < prc_PollIntervalSeconds ex_probe_config"
    "int64 (prc_PollIntervalSeconds ex_probe_config)"
    by (simp_all add: ex_target_def ex_portal_agent ex_probe_config_def int64_def)
  have n: "(0 :: int) < 105" "int64 105" by (simp_all add: int64_def)
  have t: "on_time (env_cfg ex_env) ex_clk ex_now" by code_simp
  from probe_reports_truly [OF o n c t, of "[]" id] show ?thesis by (auto simp: m o)
qed

lemma probe_targets_append:
  "probe_targets h cfg sh t (ts @ us) w =
    (case probe_targets h cfg sh t ts w of
       (w1, Some err) \<Rightarrow> (w1, Some err) | (w1, None) \<Rightarrow> probe_targets h cfg sh t us w1)"
  by (induction ts arbitrary: w) (auto split: prod.split option.split)

text \<open>
  C40: a cycle of the worker ends at the first target whose report the portal refuses: the targets after it
  are not looked at, and the cycle counts as failed. The configuration is checked with blanks around node
  ids ignored but used as written, so a node id with a blank passes the check, names no node for the
  portal, and hides every target after it in every cycle.
\<close>

theorem refused_target_hides_rest:
  assumes "FetchSourceHeight h (prc_SourceEndpoint (wk_cfg wk)) (fst (ph_now h w)) = (w1, Inr height)"
    and "prc_Targets (wk_cfg wk) = ts @ us"
    and "probe_targets h (wk_cfg wk) height (seconds_of (snd (ph_now h w)) * second) ts w1 = (w2, Some err)"
  shows "RunOnce h wk w = ((w2, failCycle wk), Some err)
    \<and> probe_config_Validate ex_probe_config = None
    \<and> probe_check e clk (posted path (map_json (probe_base sha ex_probe_config (ex_target '' a'') t))) (sv_store ex_portal)
      = Inl (fail 404 ''unknown_node_id'' ''unknown node'')"
proof (intro conjI)
  show "RunOnce h wk w = ((w2, failCycle wk), Some err)"
    using assms by (simp add: RunOnce_def case_prod_beta probe_targets_append)
  show "probe_config_Validate ex_probe_config = None" by code_simp
  have flat: "flat (probe_base sha ex_probe_config (ex_target '' a'') t)"
    by (rule flat_list) (simp_all add: probe_base_def)
  have "GetNode (sv_store ex_portal) '' a'' = None" by code_simp
  then show "probe_check e clk (posted path (map_json (probe_base sha ex_probe_config (ex_target '' a'') t))) (sv_store ex_portal)
      = Inl (fail 404 ''unknown_node_id'' ''unknown node'')"
    by (simp add: probe_check_def decode_map_json [OF flat] sent_fields [OF flat])
      (simp add: stringField_def probe_base_def ex_target_def ex_probe_config_def probeID_def format_rfc3339_def)
qed

theorem refused_target_hides_rest_witness:
  "snd (fst (RunOnce ex_probes (New_Worker ex_probe_config) ())) = failCycle (New_Worker ex_probe_config)"
proof -
  let ?wk = "New_Worker ex_probe_config"
  have 1: "FetchSourceHeight ex_probes (prc_SourceEndpoint (wk_cfg ?wk)) (fst (ph_now ex_probes ())) = ((), Inr 100)"
    by code_simp
  have 2: "prc_Targets (wk_cfg ?wk) = [ex_target '' a''] @ [ex_target ''b'']"
    by (simp add: New_Worker_def ex_probe_config_def)
  obtain w2 err where 3: "probe_targets ex_probes (wk_cfg ?wk) 100 (seconds_of (snd (ph_now ex_probes ())) * second)
      [ex_target '' a''] () = (w2, Some err)"
    by (simp add: SubmitProbeEvent_def ex_probes_def split: prod.split)
  note refused_target_hides_rest [OF 1 2 3, THEN conjunct1]
  then show ?thesis by simp
qed

end
