(* ===== verification/Agent_Runs.thy ===== *)
theory Agent_Runs
  imports Agent
begin

text \<open>
  Runs of the agent. \<open>state_step\<close> lists what the agent may write back of the state it read; a property
  of the machine that the calls to the outside and these writes keep holds throughout every run
  (\<open>agent_calls\<close>, \<open>agent_keeps\<close>); \<open>agent_quiet\<close> is the weaker contract for the time between two
  heartbeats, and \<open>agent_beats\<close> adds what each heartbeat brings about. The last section is the main loop,
  as the iteration of its body.
\<close>

section \<open>What the agent saves\<close>

definition own_flags :: "string list" where
  "own_flags = [warningVotingKeyExpiryRisk, warningCertificateExpiryRisk, warningLocalCheckExecFailed]"

definition is_active :: "agent_state \<Rightarrow> string \<Rightarrow> bool" where
  "is_active st flag \<longleftrightarrow> flag_set (gs_ActiveWarnings st) flag"

definition is_pending :: "agent_state \<Rightarrow> string \<Rightarrow> bool" where
  "is_pending st flag \<longleftrightarrow> flag_set (gs_PendingWarnings st) flag"

definition portal_up :: "agent_state \<Rightarrow> agent_state" where
  "portal_up st = (ensureWarningMaps st)\<lparr>gs_ConsecutivePortalFailures := 0\<rparr>"

definition beaten :: "agent \<Rightarrow> agent_state \<Rightarrow> agent_state" where
  "beaten a st = st\<lparr>gs_SequenceNumber := wrap64 (gs_SequenceNumber st + 1),
     gs_AgentKeyFingerprint := ag_fingerprint a\<rparr>"

inductive state_step :: "agent \<Rightarrow> agent_state \<Rightarrow> agent_state \<Rightarrow> bool" for a st where
  Policy_Read: "state_step a st (st\<lparr>gs_AgentKeyFingerprint := ag_fingerprint a, gs_LastPolicyVersion := v\<rparr>)"
| Portal_Failed: "state_step a st (failure_recorded st)"
| Portal_Up: "\<not> (is_pending st warningPortalUnreachable \<and> \<not> is_active st warningPortalUnreachable) \<Longrightarrow>
    state_step a st (portal_up st)"
| Recovered: "is_pending st warningPortalUnreachable \<Longrightarrow> \<not> is_active st warningPortalUnreachable \<Longrightarrow>
    state_step a st (recovered (portal_up st))"
| Warned: "flag \<in> set own_flags \<Longrightarrow> \<not> is_active st flag \<Longrightarrow> \<not> is_pending st flag \<Longrightarrow>
    state_step a st (activated flag (ensureWarningMaps st))"
| Not_Sent: "flag \<in> set own_flags \<Longrightarrow> \<not> is_active st flag \<Longrightarrow> \<not> is_pending st flag \<Longrightarrow>
    state_step a st (made_pending flag (ensureWarningMaps st))"

lemma ensured [simp]:
  "flag_set (gs_ActiveWarnings (ensureWarningMaps st)) k = is_active st k"
  "flag_set (gs_PendingWarnings (ensureWarningMaps st)) k = is_pending st k"
  "is_active (ensureWarningMaps st) k = is_active st k"
  "is_pending (ensureWarningMaps st) k = is_pending st k"
  "gs_SequenceNumber (ensureWarningMaps st) = gs_SequenceNumber st"
  "gs_LastPolicyVersion (ensureWarningMaps st) = gs_LastPolicyVersion st"
  "gs_AgentKeyFingerprint (ensureWarningMaps st) = gs_AgentKeyFingerprint st"
  "gs_ConsecutivePortalFailures (ensureWarningMaps st) = gs_ConsecutivePortalFailures st"
  by (auto simp: ensureWarningMaps_def flag_set_def is_active_def is_pending_def split: option.split)

lemma recovery_of:
  "state_Load h (ag_state a) m = Inr st \<Longrightarrow> handlePortalRecovery h a pv m =
    (if is_pending st warningPortalUnreachable \<and> \<not> is_active st warningPortalUnreachable
     then (case submitTelemetryWithPolicy h a pv [warningPortalUnreachable] m of
        (m1, Some err) \<Rightarrow> (m1, Some err)
      | (m1, None) \<Rightarrow> state_Save h (ag_state a) (recovered (portal_up st)) m1)
     else state_Save h (ag_state a) (portal_up st) m)"
  by (simp add: handlePortalRecovery_def portal_up_def Let_def split: prod.split option.split)

lemma mark_of:
  "state_Load h (ag_state a) m = Inr st \<Longrightarrow> markWarning h a pv flag m =
    (if is_active st flag \<or> is_pending st flag then (m, None)
     else (case submitTelemetryWithPolicy h a pv [flag] m of
        (m1, Some err) \<Rightarrow> (fst (state_Save h (ag_state a) (made_pending flag (ensureWarningMaps st)) m1), Some err)
      | (m1, None) \<Rightarrow> state_Save h (ag_state a) (activated flag (ensureWarningMaps st)) m1))"
  by (simp add: markWarning_def Let_def split: prod.split option.split)

lemma step_sequence: "state_step a st st' \<Longrightarrow> gs_SequenceNumber st' = gs_SequenceNumber st"
  by (induction rule: state_step.induct)
    (simp_all add: failure_recorded_def recovered_def activated_def made_pending_def portal_up_def Let_def)

section \<open>Calls to the outside\<close>

inductive_set effects :: "'w host \<Rightarrow> agent \<Rightarrow> ('w \<Rightarrow> 'w) set" for h a where
  post: "(\<lambda>w. fst (ho_do h w ''POST'' (trim_right_slash (ag_base a) @ path) doc)) \<in> effects h a"
| policy: "(\<lambda>w. fst (ho_policy h w u q)) \<in> effects h a"
| symbol: "(\<lambda>w. fst (ho_symbol h w)) \<in> effects h a"
| not_after: "(\<lambda>w. fst (ho_not_after h w host port)) \<in> effects h a"
| print: "(\<lambda>w. fst (ho_print h w msg)) \<in> effects h a"
| now: "(\<lambda>w. fst (ho_now h w)) \<in> effects h a"
| wait: "(\<lambda>w. fst (ho_wait h w d)) \<in> effects h a"

text \<open>The calls that do not go to the portal.\<close>

inductive_set own_effects :: "'w host \<Rightarrow> ('w \<Rightarrow> 'w) set" for h where
  symbol: "(\<lambda>w. fst (ho_symbol h w)) \<in> own_effects h"
| not_after: "(\<lambda>w. fst (ho_not_after h w host port)) \<in> own_effects h"
| print: "(\<lambda>w. fst (ho_print h w msg)) \<in> own_effects h"
| now: "(\<lambda>w. fst (ho_now h w)) \<in> own_effects h"
| wait: "(\<lambda>w. fst (ho_wait h w d)) \<in> own_effects h"

lemma own_effects_sub: "own_effects h \<subseteq> effects h a"
  by (auto elim!: own_effects.cases intro: effects.intros)

lemmas pair_splits = prod.splits option.splits sum.splits if_splits

lemma outside_world: "mc_world (fst (outside f m)) = fst (f (mc_world m))" "snd (outside f m) = snd (f (mc_world m))"
  by (simp_all add: outside_def split: prod.split)

lemma outside_machine: "outside f m = (m', x) \<Longrightarrow> m' = m\<lparr>mc_world := fst (f (mc_world m))\<rparr>"
  by (auto simp: outside_def split: prod.splits)

section \<open>The state file\<close>

text \<open>The state a file holds, and what a codec must keep of it: an empty map may come back as nil.\<close>

definition file_state :: "'w host \<Rightarrow> string \<Rightarrow> 'w machine \<Rightarrow> goerr + agent_state" where
  "file_state h path m = (case mc_files m path of None \<Rightarrow> Inr zero_state | Some data \<Rightarrow> ho_decode h data)"

definition same_state :: "agent_state \<Rightarrow> agent_state \<Rightarrow> bool" where
  "same_state a b \<longleftrightarrow> gs_SequenceNumber a = gs_SequenceNumber b \<and>
     gs_LastPolicyVersion a = gs_LastPolicyVersion b \<and> gs_AgentKeyFingerprint a = gs_AgentKeyFingerprint b \<and>
     gs_ConsecutivePortalFailures a = gs_ConsecutivePortalFailures b \<and>
     (\<forall>k. flag_set (gs_ActiveWarnings a) k = flag_set (gs_ActiveWarnings b) k) \<and>
     (\<forall>k. flag_set (gs_PendingWarnings a) k = flag_set (gs_PendingWarnings b) k)"

definition codec_ok :: "'w host \<Rightarrow> bool" where
  "codec_ok h \<longleftrightarrow> (\<forall>st data. ho_encode h st = Inr data \<longrightarrow> (\<exists>st'. ho_decode h data = Inr st' \<and> same_state st' st))"

definition uncut :: "'w host \<Rightarrow> bool" where
  "uncut h \<longleftrightarrow> (\<forall>w path n err. snd (ho_write h w path) \<noteq> Cut n err)"

lemma Load_file: "state_Load h path m = Inr st \<Longrightarrow> file_state h path m = Inr st"
  by (auto simp: state_Load_def file_state_def split: option.splits)

lemma outside_file [simp]: "file_state h path (fst (outside f m)) = file_state h path m"
  by (simp add: file_state_def)

text \<open>A save that reports no error leaves the state in the file; one that reports an error leaves the file.\<close>

lemma Save_file:
  assumes "codec_ok h" and "uncut h" and "state_Save h path st m = (m', err)"
  shows "case err of None \<Rightarrow> \<exists>st'. file_state h path m' = Inr st' \<and> same_state st' st
    | Some _ \<Rightarrow> mc_files m' = mc_files m"
proof -
  obtain m1 x where 1: "outside (\<lambda>w. ho_mkdir h w path) m = (m1, x)" by fastforce
  then have f1: "mc_files m1 = mc_files m" using outside_files [of "\<lambda>w. ho_mkdir h w path" m] by simp
  show ?thesis
  proof (cases "x = None \<and> \<not> isl (ho_encode h st)")
    case False
    then show ?thesis using assms(3) f1 by (auto simp: state_Save_def 1 split: option.splits sum.splits)
  next
    case True
    then obtain data where data: "ho_encode h st = Inr data" by (cases "ho_encode h st") auto
    obtain m2 out where 2: "outside (\<lambda>w. ho_write h w path) m1 = (m2, out)" by fastforce
    then have f2: "mc_files m2 = mc_files m"
      using outside_files [of "\<lambda>w. ho_write h w path" m1] f1 by simp
    have "out = snd (ho_write h (mc_world m1) path)" using outside_world(2) [of "\<lambda>w. ho_write h w path" m1] 2 by simp
    then have uncut: "\<forall>n e. out \<noteq> Cut n e" using assms(2) by (simp add: uncut_def)
    obtain st' where "ho_decode h data = Inr st'" "same_state st' st"
      using assms(1) data by (auto simp: codec_ok_def)
    with uncut show ?thesis
      using assms(3) f2 True by (cases out) (auto simp: state_Save_def WriteFile_def 1 2 data file_state_def)
  qed
qed

section \<open>Steps of the agent\<close>

text \<open>
  What the reports, the agent's own calls and the saves keep, every step between two heartbeats keeps.
\<close>

locale agent_quiet =
  fixes h :: "'w host" and a :: agent and holds :: "'w machine \<Rightarrow> bool"
  assumes own: "g \<in> own_effects h \<Longrightarrow> holds m \<Longrightarrow> holds (m\<lparr>mc_world := g (mc_world m)\<rparr>)"
    and report: "holds m \<Longrightarrow> holds (fst (submitTelemetryWithPolicy h a pv flags m))"
    and keeps_save: "holds m0 \<Longrightarrow> state_Load h (ag_state a) m0 = Inr st0 \<Longrightarrow> state_step a st0 st \<Longrightarrow> holds m \<Longrightarrow>
      holds (fst (state_Save h (ag_state a) st m))"

context agent_quiet begin

lemma telemetry: "submitTelemetryWithPolicy h a pv flags m = (m', err) \<Longrightarrow> holds m \<Longrightarrow> holds m'"
  using report by (metis fst_conv)

lemma outside_now: "outside (ho_now h) m = (m', x) \<Longrightarrow> holds m \<Longrightarrow> holds m'"
  by (drule outside_machine) (simp add: own [OF own_effects.now])

lemma outside_wait: "outside (\<lambda>v. ho_wait h v d) m = (m', x) \<Longrightarrow> holds m \<Longrightarrow> holds m'"
  by (drule outside_machine) (simp add: own [OF own_effects.wait])

lemma outside_print: "outside (\<lambda>v. ho_print h v msg) m = (m', x) \<Longrightarrow> holds m \<Longrightarrow> holds m'"
  by (drule outside_machine) (simp add: own [OF own_effects.print])

lemma outside_symbol: "outside (ho_symbol h) m = (m', x) \<Longrightarrow> holds m \<Longrightarrow> holds m'"
  by (drule outside_machine) (simp add: own [OF own_effects.symbol])

lemma outside_not_after: "outside (\<lambda>v. ho_not_after h v host port) m = (m', x) \<Longrightarrow> holds m \<Longrightarrow> holds m'"
  by (drule outside_machine) (simp add: own [OF own_effects.not_after])

lemma save_step:
  "state_Save h (ag_state a) st m = (m', err) \<Longrightarrow> state_Load h (ag_state a) m0 = Inr st0 \<Longrightarrow>
    state_step a st0 st \<Longrightarrow> holds m0 \<Longrightarrow> holds m \<Longrightarrow> holds m'"
  using keeps_save by (metis fst_conv)

lemma failure: "recordPortalFailure h a m = (m', err) \<Longrightarrow> holds m \<Longrightarrow> holds m'"
  by (auto simp: recordPortalFailure_def split: pair_splits intro: save_step state_step.Portal_Failed)

lemma mark:
  assumes "markWarning h a pv flag m = (m', err)" and "holds m" and "flag \<in> set own_flags"
  shows "holds m'"
proof (cases "state_Load h (ag_state a) m")
  case (Inl x)
  then show ?thesis using assms(1,2) by (simp add: markWarning_def)
next
  case (Inr st)
  obtain m1 x where 1: "submitTelemetryWithPolicy h a pv [flag] m = (m1, x)" by fastforce
  have m1: "holds m1" by (rule telemetry [OF 1 assms(2)])
  show ?thesis
  proof (cases "is_active st flag \<or> is_pending st flag")
    case False
    then have "holds (fst (state_Save h (ag_state a) (made_pending flag (ensureWarningMaps st)) m1))"
      "holds (fst (state_Save h (ag_state a) (activated flag (ensureWarningMaps st)) m1))"
      using keeps_save [OF assms(2) Inr _ m1] assms(3) by (simp_all add: state_step.Warned state_step.Not_Sent)
    then show ?thesis
      using assms(1) False by (auto simp: mark_of [OF Inr] 1 split: option.splits)
  qed (use assms(1,2) Inr in \<open>auto simp: mark_of\<close>)
qed

lemma recovery:
  assumes "handlePortalRecovery h a pv m = (m', err)" and "holds m"
  shows "holds m'"
proof (cases "state_Load h (ag_state a) m")
  case (Inl x)
  then show ?thesis using assms by (simp add: handlePortalRecovery_def)
next
  case (Inr st)
  let ?pu = "warningPortalUnreachable"
  obtain m1 x where 1: "submitTelemetryWithPolicy h a pv [?pu] m = (m1, x)" by fastforce
  have m1: "holds m1" by (rule telemetry [OF 1 assms(2)])
  show ?thesis
  proof (cases "is_pending st ?pu \<and> \<not> is_active st ?pu")
    case True
    then have "holds (fst (state_Save h (ag_state a) (recovered (portal_up st)) m1))"
      using keeps_save [OF assms(2) Inr _ m1] by (simp add: state_step.Recovered)
    then show ?thesis
      using assms(1) True m1 by (auto simp: recovery_of [OF Inr] 1 split: option.splits)
  next
    case False
    then have "holds (fst (state_Save h (ag_state a) (portal_up st) m))"
      using keeps_save [OF assms(2) Inr _ assms(2)] state_step.Portal_Up by blast
    then show ?thesis
      using assms(1) False by (auto simp: recovery_of [OF Inr])
  qed
qed

lemma certificate: "certificate_near h u m = (m', b) \<Longrightarrow> holds m \<Longrightarrow> holds m'"
  by (auto simp: certificate_near_def fetchLeafCertificateNotAfter_def split: pair_splits
      dest: outside_now outside_not_after)

lemma recurring:
  assumes "runRecurringChecks h a pv m = (m', err)" and "holds m"
  shows "holds m'"
proof -
  note own = own_flags_def
  have v: "holds x'" if "maybeEmitVotingKeyExpiryRisk h a pv x = (x', r)" "holds x" for x x' r
    using that by (auto simp: maybeEmitVotingKeyExpiryRisk_def split: pair_splits
        dest: outside_symbol dest!: mark simp: own)
  have c: "holds x'" if "maybeEmitCertificateExpiryRisk h a pv x = (x', r)" "holds x" for x x' r
    using that by (auto simp: maybeEmitCertificateExpiryRisk_def Let_def split: pair_splits
        dest: certificate dest!: mark simp: own)
  show ?thesis
    using assms by (auto simp: runRecurringChecks_def split: pair_splits dest: v c)
qed

lemma collect: "collectLocalObservationFlags h a m = (m', flags) \<Longrightarrow> holds m \<Longrightarrow> holds m'"
  by (auto simp: collectLocalObservationFlags_def Let_def split: pair_splits
      dest: outside_symbol certificate)

end

text \<open>
  What every call to the outside and the saves keep, every step of the agent but the heartbeat keeps: the
  reports are calls, too.
\<close>

locale agent_calls =
  fixes h :: "'w host" and a :: agent and holds :: "'w machine \<Rightarrow> bool"
  assumes call: "g \<in> effects h a \<Longrightarrow> holds m \<Longrightarrow> holds (m\<lparr>mc_world := g (mc_world m)\<rparr>)"
    and save: "holds m0 \<Longrightarrow> state_Load h (ag_state a) m0 = Inr st0 \<Longrightarrow> state_step a st0 st \<Longrightarrow> holds m \<Longrightarrow>
      holds (fst (state_Save h (ag_state a) st m))"

context agent_calls begin

lemma Post:
  assumes "PostJSON h (ag_base a) path doc m = (m', err)" and "holds m"
  shows "holds m'"
proof -
  obtain m1 x where 1: "outside (\<lambda>v. ho_do h v ''POST'' (trim_right_slash (ag_base a) @ path) doc) m = (m1, x)"
    by fastforce
  then have "holds m1" using assms(2) by (auto dest: outside_machine simp: call [OF effects.post])
  then show ?thesis using assms(1) 1 by (auto simp: PostJSON_def split: pair_splits)
qed

lemma outside_call: "outside f m = (m', x) \<Longrightarrow> (\<lambda>w. fst (f w)) \<in> effects h a \<Longrightarrow> holds m \<Longrightarrow> holds m'"
  by (drule outside_machine) (drule call, assumption, simp)

lemma Reported:
  assumes "submitTelemetryWithPolicy h a pv flags m = (m', err)" and "holds m"
  shows "holds m'"
  using assms by (auto simp: submitTelemetryWithPolicy_def post_signed_def split: pair_splits
      dest!: outside_call intro: effects.intros dest: Post)

end

sublocale agent_calls \<subseteq> agent_quiet
proof
  show "holds (m\<lparr>mc_world := g (mc_world m)\<rparr>)" if "g \<in> own_effects h" "holds m" for g m
    using call [OF subsetD [OF own_effects_sub]] that .
  show "holds (fst (submitTelemetryWithPolicy h a pv flags m))" if "holds m" for pv flags m
    using Reported [OF prod.collapse [symmetric] that] .
qed (rule save)

context agent_calls begin

lemma is_quiet: "agent_quiet h a holds"
  by unfold_locales

lemma outside_policy: "outside (\<lambda>v. ho_policy h v u q) m = (m', x) \<Longrightarrow> holds m \<Longrightarrow> holds m'"
  by (drule outside_machine) (simp add: call [OF effects.policy])

lemma fetch: "Fetch h (ag_base a) n fp m = (m', r) \<Longrightarrow> holds m \<Longrightarrow> holds m'"
  by (auto simp: Fetch_def split: pair_splits dest: outside_policy)

lemma start:
  assumes "run_start h a m = (m', r)" and "holds m"
  shows "holds m'"
proof -
  obtain m1 p where 1: "Fetch h (ag_base a) (ag_node a) (ag_fingerprint a) m = (m1, p)" by fastforce
  have m1: "holds m1" by (rule fetch [OF 1 assms(2)])
  show ?thesis
  proof (cases "isl p \<or> isl (state_Load h (ag_state a) m1)")
    case True
    then show ?thesis using assms(1) m1 by (auto simp: run_start_def 1 split: sum.splits)
  next
    case False
    then obtain pol st where p: "p = Inr pol" and st: "state_Load h (ag_state a) m1 = Inr st"
      by (cases p; cases "state_Load h (ag_state a) m1") auto
    obtain m2 err where 2: "state_Save h (ag_state a) (st\<lparr>gs_AgentKeyFingerprint := ag_fingerprint a,
        gs_LastPolicyVersion := po_PolicyVersion pol\<rparr>) m1 = (m2, err)" by fastforce
    have "holds m2" by (rule save_step [OF 2 st state_step.Policy_Read m1 m1])
    then show ?thesis using assms(1) by (auto simp: run_start_def 1 p st 2 split: option.splits)
  qed
qed

text \<open>A heartbeat, up to its save.\<close>

lemma heartbeat_until_saved:
  assumes "sendHeartbeat h a m = (m', err)" and "holds m"
  shows "holds m' \<or> (\<exists>st m3. state_Load h (ag_state a) m = Inr st \<and> holds m3 \<and>
    state_Save h (ag_state a) (beaten a st) m3 = (m', err))"
proof (cases "state_Load h (ag_state a) m")
  case (Inl x)
  then show ?thesis using assms by (auto simp: sendHeartbeat_def)
next
  case (Inr st)
  obtain m1 flags where 1: "collectLocalObservationFlags h a m = (m1, flags)" by fastforce
  obtain m2 t where 2: "outside (ho_now h) m1 = (m2, t)" by fastforce
  let ?p = "payload_json (signed_heartbeat h a (wrap64 (gs_SequenceNumber st + 1)) flags t)"
  obtain m3 x where 3: "PostJSON h (ag_base a) ''/api/v1/agent/heartbeat'' ?p m2 = (m3, x)" by fastforce
  have "holds m3" using Post [OF 3] outside_now [OF 2] collect [OF 1 assms(2)] by blast
  then show ?thesis
    using assms 1 2 3 Inr
    by (auto simp: sendHeartbeat_def Let_def beaten_def split: if_splits option.splits)
qed

end

text \<open>With the heartbeat kept too, whole runs are.\<close>

locale agent_keeps = agent_calls +
  assumes beat: "holds m \<Longrightarrow> holds (fst (sendHeartbeat h a m))"

section \<open>Cycles\<close>

text \<open>One turn of the loop, and the machine after some of them.\<close>

definition loop_turn :: "'w host \<Rightarrow> agent \<Rightarrow> duration \<Rightarrow> string \<Rightarrow> 'w machine \<Rightarrow> 'w machine \<times> goerr option" where
  "loop_turn h a interval pv m = outside (\<lambda>v. ho_wait h v interval) (run_cycle h a pv m)"

definition turns :: "'w host \<Rightarrow> agent \<Rightarrow> duration \<Rightarrow> string \<Rightarrow> nat \<Rightarrow> 'w machine \<Rightarrow> 'w machine" where
  "turns h a interval pv n = (fst \<circ> loop_turn h a interval pv) ^^ n"

context agent_keeps begin

lemma heartbeat: "sendHeartbeat h a m = (m', err) \<Longrightarrow> holds m \<Longrightarrow> holds m'"
  using beat by (metis fst_conv)

lemma attempts: "heartbeat_attempts h a n backoff m = (m', err) \<Longrightarrow> holds m \<Longrightarrow> holds m'"
proof (induction n arbitrary: backoff m)
  case (Suc n)
  obtain m1 x where 1: "sendHeartbeat h a m = (m1, x)" by fastforce
  obtain m2 y where 2: "outside (\<lambda>v. ho_wait h v backoff) m1 = (m2, y)" by fastforce
  have "holds m1" "holds m2" using heartbeat [OF 1 Suc.prems(2)] outside_wait [OF 2] by blast+
  then show ?case
    using Suc.prems(1) Suc.IH by (auto simp: 1 2 split: if_splits option.splits)
qed simp

lemma cycle:
  assumes "holds m"
  shows "holds (run_cycle h a pv m)"
proof -
  obtain m1 x where 1: "runRecurringChecks h a pv m = (m1, x)" by fastforce
  obtain m2 y where 2: "sendHeartbeatWithRetry h a m1 = (m2, y)" by fastforce
  obtain m3 z where 3: "recordPortalFailure h a m2 = (m3, z)" by fastforce
  obtain m4 v where 4: "handlePortalRecovery h a pv m2 = (m4, v)" by fastforce
  have "holds m2"
    using recurring [OF 1 assms] attempts [OF 2 [unfolded sendHeartbeatWithRetry_def]] by blast
  with failure [OF 3] recovery [OF 4] show ?thesis
    by (auto simp: run_cycle_def 1 2 3 4 split: option.split)
qed

lemma turn: "holds m \<Longrightarrow> holds (fst (loop_turn h a interval pv m))"
  using outside_wait cycle unfolding loop_turn_def by (metis prod.collapse)

end

text \<open>
  Runs in which every heartbeat succeeds: \<open>holds k\<close> is the situation after \<open>k\<close> heartbeats, which all else the
  loop does leaves alone. Up to \<open>most\<close> turns of the loop are then as many heartbeats.
\<close>

locale agent_beats =
  fixes h :: "'w host" and a :: agent and holds :: "nat \<Rightarrow> 'w machine \<Rightarrow> bool" and most :: nat
  assumes between: "agent_quiet h a (holds k)"
    and next_beat: "k < most \<Longrightarrow> holds k m \<Longrightarrow> sendHeartbeat h a m = (m', err) \<Longrightarrow> err = None \<and> holds (Suc k) m'"

sublocale agent_beats \<subseteq> quiet: agent_quiet h a "holds k" for k
  by (rule between)

context agent_beats begin

lemma one_turn:
  assumes "k < most" and "holds k m"
  shows "holds (Suc k) (fst (loop_turn h a interval pv m))"
proof -
  obtain m1 x where 1: "runRecurringChecks h a pv m = (m1, x)" by fastforce
  have m1: "holds k m1" by (rule quiet.recurring [OF 1 assms(2)])
  obtain m2 err where 2: "sendHeartbeat h a m1 = (m2, err)" by fastforce
  have m2: "err = None" "holds (Suc k) m2" using next_beat [OF assms(1) m1 2] by simp_all
  obtain m3 z where 3: "handlePortalRecovery h a pv m2 = (m3, z)" by fastforce
  have m3: "holds (Suc k) m3" by (rule quiet.recovery [OF 3 m2(2)])
  obtain m4 v where 4: "outside (\<lambda>v. ho_wait h v interval) m3 = (m4, v)" by fastforce
  have "holds (Suc k) m4" by (rule quiet.outside_wait [OF 4 m3])
  then show ?thesis
    using m2(1) by (simp add: loop_turn_def run_cycle_def 1 2 3 4 sendHeartbeatWithRetry_def maxHeartbeatAttempts_def
        numeral_3_eq_3)
qed

lemma all_turns: "k \<le> most \<Longrightarrow> holds 0 m \<Longrightarrow> holds k (turns h a interval pv k m)"
  by (induction k) (simp_all add: turns_def one_turn [simplified])

end

text \<open>What the agent's commands do to its machine, one after another.\<close>

inductive agent_run :: "'w host \<Rightarrow> agent \<Rightarrow> 'w machine \<Rightarrow> 'w machine \<Rightarrow> bool" for h a m where
  Begin: "agent_run h a m m"
| Turn: "agent_run h a m m' \<Longrightarrow> agent_run h a m (fst (loop_turn h a interval pv m'))"
| Restart: "agent_run h a m m' \<Longrightarrow> agent_run h a m (fst (run_start h a m'))"
| Submit: "agent_run h a m m' \<Longrightarrow> agent_run h a m (fst (SubmitTelemetry h a flags m'))"
| Enroll: "agent_run h a m m' \<Longrightarrow> agent_run h a m (fst (agent_Enroll h a challenge m'))"

context agent_keeps begin

lemma submit: "holds m \<Longrightarrow> holds (fst (SubmitTelemetry h a flags m))"
  using fetch telemetry by (auto simp: SubmitTelemetry_def split: prod.split sum.split) (metis prod.collapse)

lemma enroll: "holds m \<Longrightarrow> holds (fst (agent_Enroll h a challenge m))"
  using Post unfolding agent_Enroll_def post_signed_def by (metis prod.collapse)

lemma restart: "holds m \<Longrightarrow> holds (fst (run_start h a m))"
  using start by (metis prod.collapse)

lemma run: "agent_run h a m m' \<Longrightarrow> holds m \<Longrightarrow> holds m'"
  by (induction rule: agent_run.induct) (simp_all add: turn submit enroll restart)

end

section \<open>The main loop\<close>

text \<open>The wait after turn \<open>n\<close> is the first that is told to stop.\<close>

definition stops_after :: "'w host \<Rightarrow> agent \<Rightarrow> duration \<Rightarrow> string \<Rightarrow> 'w machine \<Rightarrow> nat \<Rightarrow> bool" where
  "stops_after h a interval pv m n \<longleftrightarrow>
     (\<forall>k < n. snd (loop_turn h a interval pv (turns h a interval pv k m)) = None) \<and>
     snd (loop_turn h a interval pv (turns h a interval pv n m)) \<noteq> None"

lemma turns_simps [simp]:
  "turns h a i pv 0 m = m" "turns h a i pv (Suc n) m = turns h a i pv n (fst (loop_turn h a i pv m))"
  by (simp_all add: turns_def funpow_swap1)

lemma stops_after_0: "snd (loop_turn h a i pv m) \<noteq> None \<Longrightarrow> stops_after h a i pv m n \<longleftrightarrow> n = 0"
  by (cases n) (auto simp: stops_after_def)

lemma stops_after_Suc:
  assumes "snd (loop_turn h a i pv m) = None"
  shows "stops_after h a i pv m n \<longleftrightarrow>
    (\<exists>k. n = Suc k \<and> stops_after h a i pv (fst (loop_turn h a i pv m)) k)"
  using assms by (cases n) (auto simp: stops_after_def All_less_Suc2)

lemma run_loop_turn:
  "run_loop h a i pv m = (if snd (loop_turn h a i pv m) = None then run_loop h a i pv (fst (loop_turn h a i pv m))
     else Some (fst (loop_turn h a i pv m)))"
  by (subst run_loop.simps) (simp add: loop_turn_def split: prod.split option.split)

lemma run_loop_stops:
  "stops_after h a i pv m n \<Longrightarrow> run_loop h a i pv m = Some (turns h a i pv (Suc n) m)"
proof (induction n arbitrary: m)
  case 0
  then show ?case by (subst run_loop_turn) (auto simp: stops_after_def)
next
  case (Suc n)
  then have "snd (loop_turn h a i pv m) = None" by (auto simp: stops_after_def)
  with Suc show ?case by (subst run_loop_turn) (auto simp: stops_after_Suc)
qed

lemma run_loop_returned:
  assumes "run_loop h a i pv m = Some m'"
  shows "\<exists>n. stops_after h a i pv m n"
proof (rule run_loop.raw_induct [OF _ assms])
  fix rec :: "'a host \<Rightarrow> agent \<Rightarrow> int \<Rightarrow> string \<Rightarrow> 'a machine \<Rightarrow> 'a machine option"
    and h :: "'a host" and a i pv m m'
  assume IH: "\<And>h a i pv m m'. rec h a i pv m = Some m' \<Longrightarrow> \<exists>n. stops_after h a i pv m n"
    and step: "(case outside (\<lambda>v. ho_wait h v i) (run_cycle h a pv m) of
        (w1, None) \<Rightarrow> rec h a i pv w1 | (w1, Some stopped) \<Rightarrow> Some w1) = Some m'"
  show "\<exists>n. stops_after h a i pv m n"
  proof (cases "snd (loop_turn h a i pv m)")
    case None
    then have "rec h a i pv (fst (loop_turn h a i pv m)) = Some m'"
      using step by (simp add: loop_turn_def split: prod.splits)
    from IH [OF this] show ?thesis using None by (auto simp: stops_after_Suc)
  next
    case (Some x)
    then show ?thesis by (auto simp: stops_after_0)
  qed
qed

end
