(* ===== verification/Portal_Link.thy ===== *)
theory Portal_Link
  imports Wire Agent_Runs
begin

text \<open>
  The agent and the portal together. \<open>portal_link\<close> is the contract of a machine whose requests reach a
  portal: a posted request is served by the portal's handler, possibly after other clients were, or is lost
  on the way; an answer, if it arrives, carries the portal's status; nothing else the agent calls is a
  request of its own. Whatever the agent does is then a run of the portal. \<open>linked\<close> is the composition of
  the two programs, which meets the contract.
\<close>

lemma reach_trans: "reach e b c \<Longrightarrow> reach e a b \<Longrightarrow> reach e a c"
  by (induction rule: reach.induct) (auto intro: reach.intros)

section \<open>The contract\<close>

definition served :: "'p env \<Rightarrow> string \<Rightarrow> json \<Rightarrow> 'p server \<Rightarrow> 'p server \<Rightarrow> goerr + int \<times> string \<Rightarrow> bool" where
  "served e path doc s s' answer \<longleftrightarrow>
     (\<exists>clk s1. clk_ok clk \<and> reach e s s1 \<and> s' = fst (Handler e clk (posted path doc) s1) \<and>
        (\<forall>code line. answer = Inr (code, line) \<longrightarrow> code = rs_Status (snd (Handler e clk (posted path doc) s1)))) \<or>
     reach e s s' \<and> isl answer"

locale portal_link =
  fixes e :: "'p env" and h :: "'w host" and a :: agent and portal :: "'w \<Rightarrow> 'p server"
  assumes post: "served e path doc (portal w)
      (portal (fst (ho_do h w ''POST'' (trim_right_slash (ag_base a) @ path) doc)))
      (snd (ho_do h w ''POST'' (trim_right_slash (ag_base a) @ path) doc))"
    and mkdir: "reach e (portal w) (portal (fst (ho_mkdir h w path)))"
    and write_file: "reach e (portal w) (portal (fst (ho_write h w path)))"
    and policy: "reach e (portal w) (portal (fst (ho_policy h w u q)))"
    and symbol: "reach e (portal w) (portal (fst (ho_symbol h w)))"
    and not_after: "reach e (portal w) (portal (fst (ho_not_after h w host port)))"
    and print: "reach e (portal w) (portal (fst (ho_print h w msg)))"
    and now: "reach e (portal w) (portal (fst (ho_now h w)))"
    and wait: "reach e (portal w) (portal (fst (ho_wait h w d)))"

lemma served_reach: "served e path doc s s' answer \<Longrightarrow> reach e s s'"
  by (auto simp: served_def intro: reach_trans reach.Request)

text \<open>The portal in a state reached from \<open>s\<close>.\<close>

definition portal_at :: "'p env \<Rightarrow> ('w \<Rightarrow> 'p server) \<Rightarrow> 'p server \<Rightarrow> 'w machine \<Rightarrow> bool" where
  "portal_at e portal s m \<longleftrightarrow> reach e s (portal (mc_world m))"

context portal_link begin

lemma effect_reach: "g \<in> effects h a \<Longrightarrow> reach e (portal w) (portal (g w))"
  by (induction rule: effects.induct)
    (auto intro: served_reach [OF post] policy symbol not_after print now wait)

lemma outside_reach:
  assumes "outside f m = (m', x)" and "\<And>w. reach e (portal w) (portal (fst (f w)))" and "portal_at e portal s m"
  shows "portal_at e portal s m'"
  using assms(3) assms(2) [of "mc_world m"] outside_world(1) [of f m] assms(1)
  by (auto simp: portal_at_def intro: reach_trans)

lemma Save_reach:
  assumes "portal_at e portal s m"
  shows "portal_at e portal s (fst (state_Save h path st m))"
proof -
  obtain m1 x where 1: "outside (\<lambda>w. ho_mkdir h w path) m = (m1, x)" by fastforce
  obtain m2 y where 2: "outside (\<lambda>w. ho_write h w path) m1 = (m2, y)" by fastforce
  have m1: "portal_at e portal s m1" by (rule outside_reach [OF 1 mkdir assms])
  have m2: "portal_at e portal s m2" by (rule outside_reach [OF 2 write_file m1])
  have [simp]: "portal_at e portal s (m2\<lparr>mc_files := f\<rparr>) = portal_at e portal s m2" for f
    by (simp add: portal_at_def)
  show ?thesis
    using m1 m2
    by (cases x; cases "ho_encode h st"; cases y) (simp_all add: state_Save_def WriteFile_def 1 2)
qed

end

sublocale portal_link \<subseteq> calls: agent_calls h a "portal_at e portal s" for s
proof
  fix g m
  assume "g \<in> effects h a" "portal_at e portal s m"
  then show "portal_at e portal s (m\<lparr>mc_world := g (mc_world m)\<rparr>)"
    using effect_reach by (auto simp: portal_at_def intro: reach_trans)
qed (simp add: Save_reach)

sublocale portal_link \<subseteq> agent_keeps h a "portal_at e portal s" for s
proof
  fix m
  assume m: "portal_at e portal s m"
  obtain m' err where 1: "sendHeartbeat h a m = (m', err)" by fastforce
  from calls.heartbeat_until_saved [OF 1 m] show "portal_at e portal s (fst (sendHeartbeat h a m))"
    by (elim disjE exE conjE) (use Save_reach 1 in \<open>metis fst_conv\<close>)+
qed

context portal_link begin

lemma run_at: "agent_run h a m m' \<Longrightarrow> portal_at e portal s m \<Longrightarrow> portal_at e portal s m'"
  by (rule run)

lemma heartbeat_reach: "sendHeartbeat h a m = (m', err) \<Longrightarrow> reach e (portal (mc_world m)) (portal (mc_world m'))"
  using heartbeat [of m m' err "portal (mc_world m)"] by (simp add: portal_at_def reach.Start)

lemma run_reach: "agent_run h a m m' \<Longrightarrow> reach e (portal (mc_world m)) (portal (mc_world m'))"
  using run_at [of m m' "portal (mc_world m)"] by (simp add: portal_at_def reach.Start)

end

section \<open>The composition\<close>

text \<open>
  The agent on a host \<open>h\<close> whose network leads to a portal: a request under the base URL is served by
  the portal, and the host says whether the answer gets through; the policy is read from the portal too.
  The portal's clock shows a time its formats cover.
\<close>

definition era_clock :: "clk \<Rightarrow> clk" where
  "era_clock clk = (\<lambda>x. if in_era (clk x) then clk x else 0)"

lemma era_clock_ok [simp]: "clk_ok (era_clock clk)"
  by (simp add: clk_ok_def era_clock_def in_era_def second_def)

lemma era_clock_id: "clk_ok clk \<Longrightarrow> era_clock clk = clk"
  by (auto simp: era_clock_def clk_ok_def)

definition beside :: "('w \<Rightarrow> 'w \<times> 'a) \<Rightarrow> 'p server \<times> 'w \<Rightarrow> ('p server \<times> 'w) \<times> 'a" where
  "beside f sw = (case f (snd sw) of (w, x) \<Rightarrow> ((fst sw, w), x))"

definition serve_post ::
    "'p env \<Rightarrow> clk \<Rightarrow> string \<Rightarrow> 'w host \<Rightarrow> 'p server \<times> 'w \<Rightarrow> string \<Rightarrow> string \<Rightarrow> json \<Rightarrow>
     ('p server \<times> 'w) \<times> (goerr + int \<times> string)" where
  "serve_post e clk base h sw verb url doc =
     (if verb = ''POST'' \<and> has_prefix url base
      then (case Handler e (era_clock clk) (posted (drop (length base) url) doc) (fst sw) of (s, resp) \<Rightarrow>
        (case ho_do h (snd sw) verb url doc of
           (w, Inl err) \<Rightarrow> ((s, w), Inl err)
         | (w, Inr (code, line)) \<Rightarrow> ((s, w), Inr (rs_Status resp, line))))
      else beside (\<lambda>w. ho_do h w verb url doc) sw)"

definition serve_policy ::
    "'p env \<Rightarrow> clk \<Rightarrow> string \<Rightarrow> 'w host \<Rightarrow> 'p server \<times> 'w \<Rightarrow> string \<Rightarrow> (string \<times> string) list \<Rightarrow>
     ('p server \<times> 'w) \<times> policy_document http_result" where
  "serve_policy e clk base h sw url query =
     (case Handler e (era_clock clk)
         \<lparr>rq_Method = ''GET'', rq_Path = drop (length base) url, rq_Query = query, rq_Body = Undecodable []\<rparr> (fst sw) of
        (s, resp) \<Rightarrow> (case ho_policy h (snd sw) url query of
           (w, Inl err) \<Rightarrow> ((s, w), Inl err)
         | (w, Inr ((code, line), doc)) \<Rightarrow>
             ((s, w), Inr ((rs_Status resp, line),
                case rs_Body resp of Policy_Body p \<Rightarrow> Inr p | _ \<Rightarrow> Inl (Msg ''decode policy'')))))"

definition linked :: "'p env \<Rightarrow> clk \<Rightarrow> string \<Rightarrow> 'w host \<Rightarrow> ('p server \<times> 'w) host" where
  "linked e clk base h =
     \<lparr>ho_read_fault = (\<lambda>sw. ho_read_fault h (snd sw)),
      ho_mkdir = (\<lambda>sw path. beside (\<lambda>w. ho_mkdir h w path) sw),
      ho_write = (\<lambda>sw path. beside (\<lambda>w. ho_write h w path) sw),
      ho_do = serve_post e clk base h, ho_policy = serve_policy e clk base h,
      ho_symbol = beside (ho_symbol h),
      ho_not_after = (\<lambda>sw server port. beside (\<lambda>w. ho_not_after h w server port) sw),
      ho_print = (\<lambda>sw msg. beside (\<lambda>w. ho_print h w msg) sw), ho_now = beside (ho_now h),
      ho_wait = (\<lambda>sw d. beside (\<lambda>w. ho_wait h w d) sw),
      ho_encode = ho_encode h, ho_decode = ho_decode h, ho_url = ho_url h, ho_sign = ho_sign h,
      ho_sha256 = ho_sha256 h\<rparr>"

lemma beside_server [simp]: "fst (fst (beside f sw)) = fst sw" "snd (beside f sw) = snd (f (snd sw))"
  "snd (fst (beside f sw)) = fst (f (snd sw))"
  by (simp_all add: beside_def split: prod.split)

lemma has_prefix_append [simp]: "has_prefix (base @ path) base"
  by (simp add: has_prefix_def)

interpretation linked: portal_link e "linked e clk (trim_right_slash (ag_base a)) h" a fst
  for e :: "'p env" and clk and h :: "'w host" and a
proof
  fix path doc and w :: "'p server \<times> 'w"
  let ?b = "trim_right_slash (ag_base a)"
  let ?r = "Handler e (era_clock clk) (posted path doc) (fst w)"
  have "fst (fst (ho_do (linked e clk ?b h) w ''POST'' (?b @ path) doc)) = fst ?r"
    "\<forall>code line. snd (ho_do (linked e clk ?b h) w ''POST'' (?b @ path) doc) = Inr (code, line) \<longrightarrow>
       code = rs_Status (snd ?r)"
    by (auto simp: linked_def serve_post_def split: prod.splits sum.splits)
  then show "served e path doc (fst w)
      (fst (fst (ho_do (linked e clk ?b h) w ''POST'' (?b @ path) doc)))
      (snd (ho_do (linked e clk ?b h) w ''POST'' (?b @ path) doc))"
    unfolding served_def using era_clock_ok [of clk] reach.Start [of e "fst w"] by blast
next
  fix w :: "'p server \<times> 'w" and u q
  let ?b = "trim_right_slash (ag_base a)"
  let ?r = "\<lparr>rq_Method = ''GET'', rq_Path = drop (length ?b) u, rq_Query = q, rq_Body = Undecodable []\<rparr>"
  have "fst (fst (ho_policy (linked e clk ?b h) w u q)) = fst (Handler e (era_clock clk) ?r (fst w))"
    by (auto simp: linked_def serve_policy_def split: prod.splits sum.splits)
  then show "reach e (fst w) (fst (fst (ho_policy (linked e clk ?b h) w u q)))"
    using reach.Request [OF reach.Start era_clock_ok, of e "fst w" clk ?r] by simp
qed (simp_all add: linked_def reach.Start)

end
