(* ===== verification/Enroll_Runs.thy ===== *)
theory Enroll_Runs
  imports Server_Runs
begin

text \<open>
  Enrollment as a protocol: a challenge is issued, one request may use it, and the key of that request
  becomes the key of the node. Then the interleavings the handlers do not exclude.
\<close>

section \<open>Preliminaries\<close>

text \<open>A stamp is not blank.\<close>

lemma fixed_hd_digit: "0 < w \<Longrightarrow> is_digit (hd (fixed w n @ s))"
proof -
  assume "0 < w"
  then have ne: "fixed w n \<noteq> []" using length_fixed [of w n] by (cases "fixed w n") auto
  have "list_all is_digit (fixed w n)" by simp
  with ne show ?thesis by (cases "fixed w n") auto
qed

lemma digit_plain: "is_digit c \<Longrightarrow> plain_byte c"
  by (auto simp: is_digit_def plain_byte_def)

lemma stamp_not_blank:
  assumes "in_era t"
  shows "trim_space (format_rfc3339 t) \<noteq> []"
proof -
  obtain y m d where c: "civil (day_of t) = (y, m, d)" by (cases "civil (day_of t)") auto
  have "trim_space (format_rfc3339 t) = format_rfc3339 t"
    by (rule trim_space_plain)
      (simp_all add: format_rfc3339_def format_day_fixed(1) [OF assms c] plain_byte_def [of "CHR ''Z''"]
        digit_plain fixed_hd_digit)
  then show ?thesis by simp
qed

lemma enroll_route [simp]: "route_of ''/api/v1/agent/enroll'' = Some Enroll"
  by code_simp

text \<open>A challenge that was used.\<close>

definition used :: "store \<Rightarrow> string \<Rightarrow> bool" where
  "used st i =
     (case GetEnrollmentChallenge st i of None \<Rightarrow> False | Some c \<Rightarrow> trim_space (ec_UsedAt c) \<noteq> [])"

lemma used_refused: "enroll_check e clk r st = Inr el \<Longrightarrow> \<not> used st (el_ChallengeID el)"
  by (drule enroll_check_passed) (auto simp: used_def)

lemma used_same: "st_challenges st' = st_challenges st \<Longrightarrow> used st' i = used st i"
  by (simp add: used_def GetEnrollmentChallenge_def)

lemma used_enroll_store:
  assumes "GetEnrollmentChallenge st (el_ChallengeID el) \<noteq> None" and "in_era (clk At_Enroll_Used)"
  shows "used (enroll_store e clk el st) i \<longleftrightarrow> i = el_ChallengeID el \<or> used st i"
  using assms stamp_not_blank [OF assms(2)]
  by (auto simp: used_def enroll_store_def ConsumeEnrollmentChallenge_def GetEnrollmentChallenge_def SaveNode_def
      Let_def map_get_put split: option.splits)

section \<open>Acceptance\<close>

lemma enroll_accepted:
  assumes "rq_Path r = ''/api/v1/agent/enroll''" and "rs_Status (snd (Handler e clk r s)) = 200"
  obtains el where "enroll_check e clk r (sv_store s) = Inr el"
    "sv_store (fst (Handler e clk r s)) = enroll_store e clk el (sv_store s)"
proof (cases "enroll_check e clk r (sv_store s)")
  case (Inl resp)
  then show thesis using assms enroll_refusal [OF Inl]
    by (auto simp: Handler_def serve_route_def handleEnroll_def refusal_def)
next
  case (Inr el)
  show thesis
    by (rule that [OF Inr])
      (simp add: assms(1) Handler_def serve_route_def handleEnroll_def enroll_commit_def Inr)
qed

text \<open>
  C12: what an accepted enrollment proves and does. The request names a challenge that was issued for
  its node, has not been used and has not expired, and is signed with the key it presents; afterwards
  the node has that key and its fingerprint, the next generation and no heartbeat yet, keeps the rest,
  and no other node has changed.
\<close>

theorem enrollment_authentic:
  assumes "wf_store (sv_store s)" and "rq_Path r = ''/api/v1/agent/enroll''"
    and "rs_Status (snd (Handler e clk r s)) = 200"
  shows "\<exists>payload challenge expires node fp key sig.
      decodeObject (rq_Body r) = Inr payload
    \<and> GetEnrollmentChallenge (sv_store s) (stringField payload ''enrollment_challenge_id'') = Some challenge
    \<and> ec_NodeID challenge = stringField payload ''node_id'' \<and> trim_space (ec_UsedAt challenge) = []
    \<and> parse_rfc3339 (ec_ExpiresAt challenge) = Some expires \<and> clk At_Enroll_Check < expires
    \<and> hex_decode (stringField payload ''agent_public_key'') = Inr key \<and> length key = 32
    \<and> fp = hex_encode (take 16 (out_sha256 (env_out e) key))
    \<and> hex_decode (stringField payload ''signature'') = Inr sig
    \<and> out_verify (env_out e) key (CanonicalJSONWithoutSignature payload) sig
    \<and> GetNode (sv_store s) (stringField payload ''node_id'') = Some node
    \<and> (let s' = sv_store (fst (Handler e clk r s)); registered = nd_ValidatedRegistrationAt node
       in GetNode s' (stringField payload ''node_id'') =
           Some (node\<lparr>nd_AgentPublicKey := stringField payload ''agent_public_key'',
             nd_ActiveAgentKeyFingerprint := fp,
             nd_EnrollmentGeneration := nd_EnrollmentGeneration node + 1,
             nd_LastHeartbeatSequence := 0, nd_LastPolicyVersion := po_PolicyVersion (env_policy e),
             nd_ValidatedRegistrationAt :=
               (if trim_space registered = [] then format_rfc3339 (clk At_Enroll_Registered) else registered)\<rparr>)
        \<and> (\<forall>m. m \<noteq> stringField payload ''node_id'' \<longrightarrow> GetNode s' m = GetNode (sv_store s) m))"
proof -
  from enroll_accepted [OF assms(2,3)] obtain el where
    c: "enroll_check e clk r (sv_store s) = Inr el"
    and st: "sv_store (fst (Handler e clk r s)) = enroll_store e clk el (sv_store s)" by blast
  from enroll_check_passed [OF c] obtain payload challenge expires where p:
    "decodeObject (rq_Body r) = Inr payload" "el_NodeID el = stringField payload ''node_id''"
    "el_ChallengeID el = stringField payload ''enrollment_challenge_id''"
    "el_PublicKey el = stringField payload ''agent_public_key''"
    "GetNode (sv_store s) (el_NodeID el) = Some (el_Node el)"
    "GetEnrollmentChallenge (sv_store s) (el_ChallengeID el) = Some challenge"
    "ec_NodeID challenge = el_NodeID el" "trim_space (ec_UsedAt challenge) = []"
    "parse_rfc3339 (ec_ExpiresAt challenge) = Some expires" "clk At_Enroll_Check < expires"
    "FingerprintFromHexPublicKey (out_sha256 (env_out e)) (el_PublicKey el) = Inr (el_Fingerprint el)"
    "VerifyHexPublicKeySignature (out_verify (env_out e)) (el_PublicKey el)
        (stringField payload ''signature'') (CanonicalJSONWithoutSignature payload) = None"
    by blast
  from p(12) obtain key sig where k: "hex_decode (el_PublicKey el) = Inr key" "length key = 32"
    "hex_decode (stringField payload ''signature'') = Inr sig"
    "out_verify (env_out e) key (CanonicalJSONWithoutSignature payload) sig"
    unfolding signature_ok_iff by blast
  have fp: "el_Fingerprint el = hex_encode (take 16 (out_sha256 (env_out e) key))"
    using p(11) k(1,2) by (simp add: FingerprintFromHexPublicKey_def)
  have id: "nd_NodeID (el_Node el) = el_NodeID el" by (rule node_id [OF assms(1) p(5)])
  have get: "GetNode (enroll_store e clk el (sv_store s)) m =
      (if m = el_NodeID el then Some (enrolled_node (po_PolicyVersion (env_policy e)) (clk At_Enroll_Registered) el)
       else GetNode (sv_store s) m)" for m
    by (simp add: enroll_store_def ConsumeEnrollmentChallenge_def GetNode_def SaveNode_def map_get_put id Let_def
        split: option.split)
  show ?thesis
    by (rule exI [of _ payload], rule exI [of _ challenge], rule exI [of _ expires], rule exI [of _ "el_Node el"],
        rule exI [of _ "el_Fingerprint el"], rule exI [of _ key], rule exI [of _ sig])
      (use p k fp in \<open>simp add: st get Let_def enrolled_node_def\<close>)
qed

section \<open>A challenge is used once\<close>

text \<open>A series of requests, each with its clock.\<close>

definition serve_all :: "'w env \<Rightarrow> (clk \<times> request) list \<Rightarrow> 'w server \<Rightarrow> 'w server" where
  "serve_all e steps s = fold (\<lambda>(clk, r) s. fst (Handler e clk r s)) steps s"

text \<open>An id that ends like those of the challenges issued at an instant.\<close>

definition issued_at :: "instant \<Rightarrow> string \<Rightarrow> bool" where
  "issued_at t i \<longleftrightarrow> has_prefix (rev i) (rev (''-'' @ itoa t))"

lemma new_challenge_issued: "issued_at t (ec_ChallengeID (new_challenge cfg t n))"
  by (simp add: issued_at_def new_challenge_def has_prefix_iff)

lemma challenges_accept:
  assumes "st_challenges (fst (save (sv_store s))) = st_challenges (sv_store s)"
    and "\<And>d t. st_challenges (sv_store (re d t)) = st_challenges (sv_store t)"
  shows "st_challenges (sv_store (fst (accept_evidence e save dup ts re ans s))) = st_challenges (sv_store s)"
  using assms by (auto simp: accept_evidence_def on_day_of_def split: prod.split bool.split option.split)

lemma challenges_refresh:
  "st_challenges (sv_store (refresh_node e clk n d s)) = st_challenges (sv_store s)"
  "st_challenges (sv_store (refresh_rankings e clk d s)) = st_challenges (sv_store s)"
  "st_challenges (sv_store (refresh_eligibility e clk d s)) = st_challenges (sv_store s)"
  by (simp_all add: refresh_node_def refresh_rankings_def refresh_eligibility_def artifacts_keeps
      ranking_frame_keeps(2) [OF frame_rebuildRankings] ranking_frame_keeps(2) [OF frame_rebuildRewardEligibility])

lemma challenges_save [simp]:
  "st_challenges (fst (SaveCheckEvent a s)) = st_challenges s" "st_challenges (fst (SaveProbeEvent b s)) = st_challenges s"
  "st_challenges (fst (SaveVotingKeyEvidence c s)) = st_challenges s"
  "st_challenges (fst (SaveOperatorGroupEvidence f s)) = st_challenges s"
  "st_challenges (fst (SaveDecentralizationEvidence g s)) = st_challenges s"
  "st_challenges (fst (SaveDomainEvidence h s)) = st_challenges s"
  "st_challenges (fst (SaveSharedControlPlaneEvidence i s)) = st_challenges s"
  "st_challenges (AddTelemetryEvent j s) = st_challenges s"
  "st_challenges (heartbeat_store e p node s) = st_challenges s"
  by (simp_all add: SaveCheckEvent_def SaveProbeEvent_def SaveVotingKeyEvidence_def heartbeat_store_def
      SaveOperatorGroupEvidence_def SaveDecentralizationEvidence_def SaveHeartbeatEvent_def SaveNode_def
      SaveDomainEvidence_def SaveSharedControlPlaneEvidence_def AddTelemetryEvent_def Let_def)

lemma challenges_telemetry:
  "st_challenges (sv_store (fst (telemetry_loop e clk n ts i flags s))) = st_challenges (sv_store s)"
proof (induction e clk n ts i flags s rule: telemetry_loop.induct)
  case (2 e clk n ts i raw flags s)
  let ?c = "warning_code raw"
  let ?s1 = "on_store (AddTelemetryEvent \<lparr>te_NodeID = n, te_TelemetryTimestamp = ts, te_WarningCode = ?c\<rparr>) s"
  obtain s2 err where n: "maybeNotifyAlert e n ?c ts (clk (At_Flag i)) ?s1 = (s2, err)"
    by (cases "maybeNotifyAlert e n ?c ts (clk (At_Flag i)) ?s1") auto
  have "st_challenges (sv_store s2) = st_challenges (sv_store s)"
    using alert_frame_keeps(2) [OF alert_frame_notify [of ?s1 e n ?c ts "clk (At_Flag i)"]] by (simp add: n)
  then show ?case using 2 n by (auto simp: Let_def split: option.split)
qed simp

lemma challenges_results:
  "SaveCheckEvent a st = (st', b) \<Longrightarrow> st_challenges st' = st_challenges st"
  "telemetry_loop e clk n ts i flags s = (s', x) \<Longrightarrow> st_challenges (sv_store s') = st_challenges (sv_store s)"
  using challenges_save(1) [of a st] challenges_telemetry [of e clk n ts i flags s] by simp_all

lemma used_kept:
  assumes "used (sv_store s) i" and "clk_ok clk" and "\<not> issued_at (clk At_Challenge) i"
  shows "used (sv_store (fst (Handler e clk r s))) i"
proof (cases "route_of (rq_Path r)")
  case (Some rt)
  have same: "st_challenges (sv_store (fst (serve_route e clk rt r s))) = st_challenges (sv_store s)"
    if "rt \<noteq> Challenges" "rt \<noteq> Enroll"
    using that
    by (cases rt) (auto simp: serve_route_def handleHeartbeat_def handleChecks_def handleTelemetry_def
        handleProbeEvents_def handleVotingKeyEvidence_def handleDecentralizationEvidence_def
        handleDomainEvidence_def handleSharedControlPlaneEvidence_def handleOperatorGroupEvidence_def
        on_day_keeps(3) challenges_accept challenges_refresh Let_def
        dest: challenges_results split: sum.split prod.split bool.split option.split)
  consider "rt = Challenges" | "rt = Enroll" | "rt \<noteq> Challenges" "rt \<noteq> Enroll" by blast
  then have "used (sv_store (fst (serve_route e clk rt r s))) i"
  proof cases
    case 1
    have "i \<noteq> ec_ChallengeID (new_challenge cfg (clk At_Challenge) n)" for cfg n
      using assms(3) new_challenge_issued by metis
    then show ?thesis using assms(1)
      by (auto simp: 1 serve_route_def handleEnrollmentChallenge_def Let_def used_def GetEnrollmentChallenge_def
          SaveEnrollmentChallenge_def map_get_put split: sum.split)
  next
    case 2
    show ?thesis
    proof (cases "enroll_check e clk r (sv_store s)")
      case (Inr el)
      have "used (enroll_store e clk el (sv_store s)) i"
        using enroll_check_passed [OF Inr] assms(1,2) by (subst used_enroll_store) (auto simp: clk_ok_def)
      then show ?thesis by (simp add: 2 serve_route_def handleEnroll_def Inr enroll_commit_def)
    qed (simp add: 2 serve_route_def handleEnroll_def assms(1))
  next
    case 3
    with assms(1) show ?thesis by (simp add: used_same [OF same])
  qed
  then show ?thesis by (simp add: Handler_def Some)
qed (simp add: Handler_def assms(1))

lemma used_serve_all:
  "used (sv_store s) i \<Longrightarrow> \<forall>(c, q) \<in> set steps. clk_ok c \<and> \<not> issued_at (c At_Challenge) i \<Longrightarrow>
    used (sv_store (serve_all e steps s)) i"
proof (induction steps arbitrary: s)
  case (Cons step steps)
  then show ?case by (auto simp: serve_all_def used_kept split: prod.splits)
qed (simp add: serve_all_def)

text \<open>
  C13: a challenge is used once. After an enrollment was accepted, no enrollment with the same challenge
  is accepted, after any further requests, as long as no challenge is issued under the same id (ids are
  made from the node id and the clock in nanoseconds).
\<close>

theorem challenge_single_use:
  assumes "rq_Path r = ''/api/v1/agent/enroll''" and "clk_ok clk" and "rs_Status (snd (Handler e clk r s)) = 200"
    and "decodeObject (rq_Body r) = Inr payload" and "i = stringField payload ''enrollment_challenge_id''"
    and "\<forall>(c, q) \<in> set steps. clk_ok c \<and> \<not> issued_at (c At_Challenge) i"
    and "rq_Path r' = ''/api/v1/agent/enroll''"
    and "decodeObject (rq_Body r') = Inr payload'" and "stringField payload' ''enrollment_challenge_id'' = i"
  shows "let s' = serve_all e steps (fst (Handler e clk r s))
    in fst (Handler e clk' r' s') = s' \<and> rs_Status (snd (Handler e clk' r' s')) \<in> {400, 401, 404, 409}"
proof -
  from enroll_accepted [OF assms(1,3)] obtain el where
    c: "enroll_check e clk r (sv_store s) = Inr el"
    and st: "sv_store (fst (Handler e clk r s)) = enroll_store e clk el (sv_store s)" by blast
  have "used (sv_store (fst (Handler e clk r s))) i"
    unfolding st using enroll_check_passed [OF c] assms(2,4,5) by (subst used_enroll_store) (auto simp: clk_ok_def)
  then have u: "used (sv_store (serve_all e steps (fst (Handler e clk r s)))) i"
    by (rule used_serve_all [OF _ assms(6)])
  show ?thesis
  proof (cases "enroll_check e clk' r' (sv_store (serve_all e steps (fst (Handler e clk r s))))")
    case (Inl resp)
    then show ?thesis using enroll_refusal [OF Inl]
      by (simp add: Let_def assms(7) Handler_def serve_route_def handleEnroll_def refusal_def)
  next
    case (Inr el')
    have "el_ChallengeID el' = i" using enroll_check_passed [OF Inr] assms(8,9) by auto
    with used_refused [OF Inr] u show ?thesis by simp
  qed
qed

section \<open>Enrollment succeeds\<close>

lemma challenge_route [simp]: "route_of ''/api/v1/agent/enrollment-challenges'' = Some Challenges"
  by code_simp

lemma telemetry_route [simp]: "route_of ''/api/v1/agent/telemetry'' = Some Telemetry"
  by code_simp

lemma telemetry_handler: "rq_Path r = ''/api/v1/agent/telemetry'' \<Longrightarrow> Handler e clk r s = handleTelemetry e clk r s"
  by (simp add: Handler_def serve_route_def)

lemma enroll_check_ok:
  assumes "rq_Method r = ''POST''" and "decodeObject (rq_Body r) = Inr p"
    and "stringField p ''node_id'' = n" "n \<noteq> []" "GetNode st n = Some node"
    and "stringField p ''enrollment_challenge_id'' = i" "i \<noteq> []" "GetEnrollmentChallenge st i = Some ch"
    and "ec_NodeID ch = n" "ec_UsedAt ch = []" "parse_rfc3339 (ec_ExpiresAt ch) = Some expires"
    and "clk At_Enroll_Check < expires"
    and "stringField p ''agent_public_key'' = pk" "hex_decode pk = Inr key" "length key = 32"
    and "stringField p ''signature'' \<noteq> []"
    and "VerifyHexPublicKeySignature (out_verify (env_out e)) pk (stringField p ''signature'')
          (CanonicalJSONWithoutSignature p) = None"
  obtains el where "enroll_check e clk r st = Inr el" "el_NodeID el = n" "el_ChallengeID el = i"
    "el_PublicKey el = pk" "el_Node el = node"
proof -
  have "FingerprintFromHexPublicKey (out_sha256 (env_out e)) pk
      = Inr (hex_encode (take 16 (out_sha256 (env_out e) key)))" "pk \<noteq> []"
    using assms(14,15) by (auto simp: FingerprintFromHexPublicKey_def)
  with assms that show thesis by (simp add: enroll_check_def Let_def)
qed

text \<open>
  Enrollment succeeds. When a challenge was issued for a node, a request that names it, presents a
  32 byte key and a signature under that key, and comes before the challenge expires (its time to live,
  counted to the whole second below) is answered 200 and gives the node that key, as long as the state
  can be saved.
\<close>

theorem enrollment_completes:
  assumes "rq_Path r0 = ''/api/v1/agent/enrollment-challenges''" and "rs_Status (snd (Handler e c0 r0 s)) = 200"
    and "decodeObject (rq_Body r0) = Inr p0" and "n = stringField p0 ''node_id''"
    and "t = c0 At_Challenge + cfg_EnrollmentChallengeTTL (env_cfg e)" and "in_era t"
    and "\<And>w st. snd (out_save (env_out e) w st) = None"
    and "rq_Method r = ''POST''" "rq_Path r = ''/api/v1/agent/enroll''" and "decodeObject (rq_Body r) = Inr p"
    and "stringField p ''node_id'' = n"
    and "stringField p ''enrollment_challenge_id'' = n @ ''-'' @ itoa (c0 At_Challenge)"
    and "hex_decode (stringField p ''agent_public_key'') = Inr key" "length key = 32"
    and "stringField p ''signature'' \<noteq> []" "hex_decode (stringField p ''signature'') = Inr sig"
    and "out_verify (env_out e) key (CanonicalJSONWithoutSignature p) sig"
    and "clk At_Enroll_Check < seconds_of t * second" and "wf_store (sv_store s)"
  shows "let res = Handler e clk r (fst (Handler e c0 r0 s))
    in rs_Status (snd res) = 200 \<and> map_option nd_AgentPublicKey (GetNode (sv_store (fst res)) n) =
         Some (stringField p ''agent_public_key'')"
proof -
  let ?ch = "new_challenge (env_cfg e) (c0 At_Challenge) n"
  obtain m where m: "challenge_check r0 (sv_store s) = Inr m"
    using assms(1,2) challenge_refusal [of r0 "sv_store s"]
    by (cases "challenge_check r0 (sv_store s)")
      (auto simp: Handler_def serve_route_def handleEnrollmentChallenge_def refusal_def)
  then have n: "m = n" "n \<noteq> []" "GetNode (sv_store s) n \<noteq> None"
    using assms(3,4) by (auto simp: challenge_check_def Let_def split: if_splits)
  define s1 where "s1 = fst (Handler e c0 r0 s)"
  have s1: "sv_store s1 = SaveEnrollmentChallenge ?ch (sv_store s)"
    by (simp add: s1_def assms(1) Handler_def serve_route_def handleEnrollmentChallenge_def m n(1) Let_def)
  have ch: "GetEnrollmentChallenge (sv_store s1) (n @ ''-'' @ itoa (c0 At_Challenge)) = Some ?ch"
    by (simp add: s1 GetEnrollmentChallenge_def SaveEnrollmentChallenge_def new_challenge_def)
  obtain node where node: "GetNode (sv_store s) n = Some node" using n(3) by blast
  then have node1: "GetNode (sv_store s1) n = Some node"
    by (simp add: s1 GetNode_def SaveEnrollmentChallenge_def)
  have expires: "parse_rfc3339 (ec_ExpiresAt ?ch) = Some (seconds_of t * second)"
    using parse_format [OF assms(6)] by (simp add: new_challenge_def assms(5))
  have ver: "VerifyHexPublicKeySignature (out_verify (env_out e)) (stringField p ''agent_public_key'')
      (stringField p ''signature'') (CanonicalJSONWithoutSignature p) = None"
    unfolding signature_ok_iff using assms(13-17) by blast
  have f: "ec_NodeID ?ch = n" "ec_UsedAt ?ch = []" "n @ ''-'' @ itoa (c0 At_Challenge) \<noteq> []"
    by (simp_all add: new_challenge_def)
  obtain el where el: "enroll_check e clk r (sv_store s1) = Inr el" "el_NodeID el = n" "el_Node el = node"
      "el_PublicKey el = stringField p ''agent_public_key''"
    using enroll_check_ok [where clk = clk, OF assms(8,10,11) n(2) node1 assms(12) f(3) ch f(1,2) expires assms(18) refl
      assms(13,14,15) ver] by blast
  have id: "nd_NodeID node = n" by (rule node_id [OF assms(19) node])
  have handle: "Handler e clk r s1 = handleEnroll e clk r s1" by (simp add: assms(9) Handler_def serve_route_def)
  have st: "sv_store (fst (Handler e clk r s1)) = enroll_store e clk el (sv_store s1)"
    by (simp add: handle handleEnroll_def el(1) enroll_commit_def)
  have "rs_Status (snd (Handler e clk r s1)) = 200"
    using assms(7) [of "sv_world s1" "enroll_store e clk el (sv_store s1)"]
    by (auto simp: handle handleEnroll_def el(1) enroll_commit_def persist_and_def persist_def split: prod.split)
  moreover have "map_option nd_AgentPublicKey (GetNode (enroll_store e clk el (sv_store s1)) n) =
      Some (stringField p ''agent_public_key'')"
    using el id by (simp add: enroll_store_def ConsumeEnrollmentChallenge_def GetNode_def SaveNode_def map_get_put
        enrolled_node_def Let_def split: option.split)
  ultimately show ?thesis by (simp add: Let_def st s1_def [symmetric])
qed

section \<open>An example run\<close>

text \<open>Node \<open>b\<close> asks for a challenge and enrolls with it.\<close>

definition ex_ask :: request where
  "ex_ask = ex_post ''/api/v1/agent/enrollment-challenges'' [(''node_id'', JStr ''b'')]"

definition ex_issued :: string where "ex_issued = ''b-'' @ itoa ex_now"

definition ex_enroll :: "string \<Rightarrow> request" where
  "ex_enroll key = ex_post ''/api/v1/agent/enroll''
     [(''node_id'', JStr ''b''), (''enrollment_challenge_id'', JStr ex_issued),
      (''agent_public_key'', JStr key), (''signature'', JStr ''00'')]"

definition ex_asked :: "(recorder \<times> store option) server" where
  "ex_asked = fst (Handler ex_env ex_clk ex_ask ex_portal)"

definition ex_later :: clk where "ex_later = (\<lambda>_. ex_now + minute)"

lemma ex_paths [simp]:
  "rq_Path ex_ask = ''/api/v1/agent/enrollment-challenges''" "rq_Path (ex_enroll k) = ''/api/v1/agent/enroll''"
  by (simp_all add: ex_ask_def ex_enroll_def ex_post_def)

lemma ex_ask_ok: "rs_Status (snd (Handler ex_env ex_clk ex_ask ex_portal)) = 200"
proof -
  have "challenge_check ex_ask (sv_store ex_portal) = Inr ''b''" by code_simp
  then show ?thesis by (simp add: Handler_def serve_route_def handleEnrollmentChallenge_def Let_def)
qed

lemma ex_later_ok: "clk_ok ex_later"
  by (simp add: clk_ok_def ex_later_def ex_now_def in_era_def duration_defs)

theorem enrollment_completes_witness:
  "map_option nd_AgentPublicKey
     (GetNode (sv_store (fst (Handler ex_env ex_later (ex_enroll ex_key) ex_asked))) ''b'') = Some ex_key"
proof -
  define p where "p = put_pairs [(''node_id'', JStr ''b''), (''enrollment_challenge_id'', JStr ex_issued),
      (''agent_public_key'', JStr ex_key), (''signature'', JStr ''00'')]"
  have sig: "out_verify (env_out ex_env) k (CanonicalJSONWithoutSignature p) sg" for k sg
    by (simp add: ex_env_def ex_outside_def)
  have save: "snd (out_save (env_out ex_env) w st) = None" for w st
    by (simp add: ex_env_def ex_outside_def)
  have body: "decodeObject (rq_Body (ex_enroll ex_key)) = Inr p"
    by (simp add: p_def ex_enroll_def ex_post_def decodeObject_def)
  have fields: "stringField p ''node_id'' = ''b''" "stringField p ''enrollment_challenge_id'' = ''b'' @ ''-'' @ itoa (ex_clk At_Challenge)"
    "stringField p ''agent_public_key'' = ex_key" "stringField p ''signature'' = ''00''"
    by (simp_all add: p_def put_pairs_def stringField_def map_get_put ex_issued_def ex_clk_def)
  note key = ex_key_decode ex_sig_decode
  have time: "ex_later At_Enroll_Check
      < seconds_of (ex_clk At_Challenge + cfg_EnrollmentChallengeTTL (env_cfg ex_env)) * second" by code_simp
  have era: "in_era (ex_clk At_Challenge + cfg_EnrollmentChallengeTTL (env_cfg ex_env))" by code_simp
  have ask: "decodeObject (rq_Body ex_ask) = Inr [(''node_id'', JStr ''b'')]" by code_simp
  have askn: "''b'' = stringField [(''node_id'', JStr ''b'')] ''node_id''" by (simp add: stringField_def)
  have post: "rq_Method (ex_enroll ex_key) = ''POST''" by (simp add: ex_enroll_def ex_post_def)
  have "stringField p ''signature'' \<noteq> []" by (simp add: fields)
  from enrollment_completes [where e = ex_env and ?c0.0 = ex_clk and ?r0.0 = ex_ask and s = ex_portal
      and clk = ex_later and r = "ex_enroll ex_key" and p = p and n = "''b''" and key = "replicate 32 CHR 0x00"
      and sig = "[CHR 0x00]", OF ex_paths(1) ex_ask_ok ask askn refl era save post ex_paths(2) body fields(1,2)
      key(1) [folded fields(3)] _ this key(2) [folded fields(4)] sig time ex_portal_wf]
  show ?thesis by (simp add: Let_def fields(3) ex_asked_def)
qed

lemma ex_enroll_body:
  "decodeObject (rq_Body (ex_enroll k)) = Inr (put_pairs [(''node_id'', JStr ''b''),
     (''enrollment_challenge_id'', JStr ex_issued), (''agent_public_key'', JStr k), (''signature'', JStr ''00'')])"
  by (simp add: ex_enroll_def ex_post_def decodeObject_def)

lemma ex_enroll_ok:
  assumes "hex_decode k = Inr key" and "length key = 32"
  shows "\<exists>el. enroll_check ex_env ex_later (ex_enroll k) (sv_store ex_asked) = Inr el"
proof -
  let ?ch = "new_challenge ex_config ex_now ''b''"
  define p where "p = put_pairs [(''node_id'', JStr ''b''), (''enrollment_challenge_id'', JStr ex_issued),
     (''agent_public_key'', JStr k), (''signature'', JStr ''00'')]"
  have st: "sv_store ex_asked = SaveEnrollmentChallenge ?ch (sv_store ex_portal)"
  proof -
    have "challenge_check ex_ask (sv_store ex_portal) = Inr ''b''" by code_simp
    then show ?thesis
      by (simp add: ex_asked_def Handler_def serve_route_def handleEnrollmentChallenge_def Let_def ex_clk_def ex_env_def)
  qed
  have node: "GetNode (sv_store ex_asked) ''b'' = Some (ex_node ''b'')"
    by (simp add: st GetNode_def SaveEnrollmentChallenge_def ex_portal_def SaveNode_def ex_agent_def ex_node_def
        New_Store_def map_get_put)
  have ch: "GetEnrollmentChallenge (sv_store ex_asked) ex_issued = Some ?ch"
    by (simp add: st GetEnrollmentChallenge_def SaveEnrollmentChallenge_def new_challenge_def ex_issued_def)
  have f: "ec_NodeID ?ch = ''b''" "ec_UsedAt ?ch = []" "ex_issued \<noteq> []"
    by (simp_all add: new_challenge_def ex_issued_def)
  have exp: "parse_rfc3339 (ec_ExpiresAt ?ch) = Some (ex_now + 10 * minute)" by code_simp
  have late: "ex_later At_Enroll_Check < ex_now + 10 * minute" by (simp add: ex_later_def duration_defs)
  have fields: "stringField p ''node_id'' = ''b''" "stringField p ''enrollment_challenge_id'' = ex_issued"
    "stringField p ''agent_public_key'' = k" "stringField p ''signature'' = ''00''"
    by (simp_all add: p_def put_pairs_def stringField_def map_get_put)
  have sig: "stringField p ''signature'' \<noteq> []" "VerifyHexPublicKeySignature (out_verify (env_out ex_env)) k
      (stringField p ''signature'') (CanonicalJSONWithoutSignature p) = None"
    using ex_verify [OF assms ex_sig_decode] by (simp_all add: fields(4))
  have post: "rq_Method (ex_enroll k) = ''POST''" by (simp add: ex_enroll_def ex_post_def)
  show ?thesis
    using enroll_check_ok [where clk = ex_later, OF post ex_enroll_body [of k, folded p_def] fields(1) _ node fields(2) f(3) ch f(1,2) exp
      late fields(3) assms sig] by blast
qed

lemma ex_ones_decode: "hex_decode (replicate 64 CHR ''1'') = Inr (replicate 32 CHR 0x11)"
proof -
  have "char_of (17 :: nat) = CHR 0x11" by code_simp
  then show ?thesis
    using hex_decode_replicate [of "CHR ''1''" 1 32] by (simp add: hex_value_def is_digit_def byte_def)
qed

lemma ex_enroll_200: "rs_Status (snd (Handler ex_env ex_later (ex_enroll ex_key) ex_asked)) = 200"
  using ex_enroll_ok [OF ex_key_decode] by (auto simp: Handler_def serve_route_def handleEnroll_def enroll_commit_def)

lemma ex_asked_wf: "wf_store (sv_store ex_asked)"
  unfolding ex_asked_def by (rule wf_changes [OF Handler_changes [OF ex_clk_ok] ex_portal_wf])

lemma ex_enroll_fields:
  assumes "enroll_check ex_env c (ex_enroll k) st = Inr el"
  shows "el_NodeID el = ''b''" "el_ChallengeID el = ex_issued" "el_PublicKey el = k"
  using enroll_check_passed [OF assms]
  by (auto simp: ex_enroll_def ex_post_def decodeObject_def put_pairs_def stringField_def map_get_put)

theorem enrollment_authentic_witness:
  "\<exists>node. GetNode (sv_store ex_asked) ''b'' = Some node \<and>
     map_option nd_EnrollmentGeneration
       (GetNode (sv_store (fst (Handler ex_env ex_later (ex_enroll ex_key) ex_asked))) ''b'') =
     Some (nd_EnrollmentGeneration node + 1)"
proof -
  have "map_sum id (\<lambda>p. stringField p ''node_id'') (decodeObject (rq_Body (ex_enroll ex_key))) = Inr ''b''"
    by (simp add: ex_enroll_body put_pairs_def stringField_def map_get_put)
  with enrollment_authentic [OF ex_asked_wf ex_paths(2) ex_enroll_200] show ?thesis
    by (auto simp: Let_def)
qed

theorem challenge_single_use_witness:
  "let s' = serve_all ex_env [(ex_later, ex_beat ''9'')] (fst (Handler ex_env ex_later (ex_enroll ex_key) ex_asked))
   in fst (Handler ex_env ex_later (ex_enroll (replicate 64 CHR ''1'')) s') = s'"
proof -
  note d = ex_enroll_body
  have i: "stringField (put_pairs [(''node_id'', JStr ''b''), (''enrollment_challenge_id'', JStr ex_issued),
      (''agent_public_key'', JStr k), (''signature'', JStr ''00'')]) ''enrollment_challenge_id'' = ex_issued" for k
    by (simp add: put_pairs_def stringField_def map_get_put)
  have "\<not> issued_at (ex_later At_Challenge) ex_issued" by code_simp
  then have steps: "\<forall>(c, q) \<in> set [(ex_later, ex_beat ''9'')]. clk_ok c \<and> \<not> issued_at (c At_Challenge) ex_issued"
    using ex_later_ok by simp
  show ?thesis
    using challenge_single_use [OF ex_paths(2) ex_later_ok ex_enroll_200 d i [symmetric] steps ex_paths(2) d i]
    by (simp add: Let_def)
qed

section \<open>Interleavings\<close>

text \<open>
  The store is locked for the length of one operation, so that another handler may run between the
  guards of a handler and its effects. A guard then speaks of a state that is gone.
\<close>

text \<open>
  C14: two enrollments with the same challenge can both succeed. When both passed their guards before
  either took effect, the second is not refused: the node ends with its key, in the generation it gave
  to the first, and the holder of the first key, who was answered 200, is locked out.
\<close>

theorem enrollment_race:
  assumes "wf_store (sv_store s)"
    and "enroll_check e c r (sv_store s) = Inr el" and "enroll_check e c' r' (sv_store s) = Inr el'"
    and "el_ChallengeID el' = el_ChallengeID el" and "\<And>w st. snd (out_save (env_out e) w st) = None"
  shows "let first = enroll_commit e c el s; second = enroll_commit e c' el' (fst first); n = el_NodeID el
    in rs_Status (snd first) = 200 \<and> rs_Status (snd second) = 200
     \<and> position (sv_store (fst second)) n = position (sv_store (fst first)) n
     \<and> map_option nd_AgentPublicKey (GetNode (sv_store (fst second)) n) = Some (el_PublicKey el')"
proof -
  from enroll_check_passed [OF assms(2)] enroll_check_passed [OF assms(3)] assms(4)
  have n: "el_NodeID el' = el_NodeID el" "GetNode (sv_store s) (el_NodeID el) = Some (el_Node el)"
    "el_Node el' = el_Node el" by auto
  have id: "nd_NodeID (el_Node el) = el_NodeID el" by (rule node_id [OF assms(1) n(2)])
  have ok: "rs_Status (snd (enroll_commit e c el s)) = 200" for c el s
    using assms(5) [of "sv_world s" "enroll_store e c el (sv_store s)"]
    by (auto simp: enroll_commit_def persist_and_def persist_def split: prod.split)
  have st: "sv_store (fst (enroll_commit e c el s)) = enroll_store e c el (sv_store s)" for c el s
    by (simp add: enroll_commit_def)
  have get: "GetNode (enroll_store e c x t) m =
      (if m = nd_NodeID (el_Node x) then Some (enrolled_node (po_PolicyVersion (env_policy e)) (c At_Enroll_Registered) x)
       else GetNode t m)" for m c x t
    by (simp add: enroll_store_def ConsumeEnrollmentChallenge_def GetNode_def SaveNode_def map_get_put Let_def
        split: option.split)
  show ?thesis by (simp add: Let_def ok st get n(3) id position_def enrolled_node_def)
qed

theorem enrollment_race_witness:
  "\<exists>el el'. rs_Status (snd (enroll_commit ex_env ex_later el ex_asked)) = 200
     \<and> rs_Status (snd (enroll_commit ex_env ex_later el' (fst (enroll_commit ex_env ex_later el ex_asked)))) = 200
     \<and> el_PublicKey el = ex_key \<and> el_PublicKey el' = replicate 64 CHR ''1''"
proof -
  obtain el where el: "enroll_check ex_env ex_later (ex_enroll ex_key) (sv_store ex_asked) = Inr el"
    using ex_enroll_ok [OF ex_key_decode] by auto
  obtain el' where
    el': "enroll_check ex_env ex_later (ex_enroll (replicate 64 CHR ''1'')) (sv_store ex_asked) = Inr el'"
    using ex_enroll_ok [OF ex_ones_decode] by auto
  have "el_ChallengeID el' = el_ChallengeID el" by (simp only: ex_enroll_fields [OF el] ex_enroll_fields [OF el'])
  moreover have "snd (out_save (env_out ex_env) w st) = None" for w st by (simp add: ex_env_def ex_outside_def)
  ultimately show ?thesis
    using enrollment_race [OF ex_asked_wf el el'] ex_enroll_fields(3) [OF el] ex_enroll_fields(3) [OF el']
    by (auto simp: Let_def)
qed

text \<open>
  A heartbeat can undo an enrollment. When an enrollment takes effect between the guards of a
  heartbeat of the same node and its effects, the heartbeat writes the node back as it had read it: the
  old key and the old generation are restored while the challenge is spent.
\<close>

theorem heartbeat_undoes_enrollment:
  assumes "wf_store st" and "heartbeat_check e c r st = Inr (p, node)" and "enroll_check e c' r' st = Inr el"
    and "el_NodeID el = hp_NodeID p" and "in_era (c' At_Enroll_Used)"
  shows "let st' = heartbeat_store e p node (enroll_store e c' el st)
    in map_option nd_AgentPublicKey (GetNode st' (hp_NodeID p)) = map_option nd_AgentPublicKey (GetNode st (hp_NodeID p))
     \<and> fst (position st' (hp_NodeID p)) = fst (position st (hp_NodeID p))
     \<and> used st' (el_ChallengeID el)"
proof -
  note h = heartbeat_check_Inr [OF assms(2)]
  have id: "nd_NodeID node = hp_NodeID p" by (rule node_id [OF assms(1) h(2)])
  have "used (enroll_store e c' el st) (el_ChallengeID el)"
    using enroll_check_passed [OF assms(3)] by (subst used_enroll_store [where clk = c', OF _ assms(5)]) auto
  then have "used (heartbeat_store e p node (enroll_store e c' el st)) (el_ChallengeID el)"
    by (rule used_same [THEN iffD2, rotated]) simp
  then show ?thesis using h(2)
    by (simp add: Let_def id heartbeat_store_def GetNode_def SaveHeartbeatEvent_def SaveNode_def position_def)
qed

definition ex_race :: store where
  "ex_race = SaveEnrollmentChallenge (new_challenge ex_config ex_now ''a'') (sv_store ex_portal)"

definition ex_rekey :: request where
  "ex_rekey = ex_post ''/api/v1/agent/enroll''
     [(''node_id'', JStr ''a''), (''enrollment_challenge_id'', JStr (''a-'' @ itoa ex_now)),
      (''agent_public_key'', JStr (replicate 64 CHR ''1'')), (''signature'', JStr ''00'')]"

lemma ex_rekey_ok: "\<exists>el. enroll_check ex_env ex_later ex_rekey ex_race = Inr el"
proof -
  let ?ch = "new_challenge ex_config ex_now ''a''" and ?i = "''a-'' @ itoa ex_now"
  define p where "p = put_pairs [(''node_id'', JStr ''a''), (''enrollment_challenge_id'', JStr ?i),
     (''agent_public_key'', JStr (replicate 64 CHR ''1'')), (''signature'', JStr ''00'')]"
  have a: "GetNode ex_race ''a'' = Some ex_agent"
    using ex_portal_agent by (simp add: ex_race_def GetNode_def SaveEnrollmentChallenge_def)
  have ch: "GetEnrollmentChallenge ex_race ?i = Some ?ch"
    by (simp add: ex_race_def GetEnrollmentChallenge_def SaveEnrollmentChallenge_def new_challenge_def)
  have f: "ec_NodeID ?ch = ''a''" "ec_UsedAt ?ch = []" "?i \<noteq> []" by (simp_all add: new_challenge_def)
  have exp: "parse_rfc3339 (ec_ExpiresAt ?ch) = Some (ex_now + 10 * minute)" by code_simp
  have late: "ex_later At_Enroll_Check < ex_now + 10 * minute" by (simp add: ex_later_def duration_defs)
  have fields: "stringField p ''node_id'' = ''a''" "stringField p ''enrollment_challenge_id'' = ?i"
    "stringField p ''agent_public_key'' = replicate 64 CHR ''1''" "stringField p ''signature'' = ''00''"
    by (simp_all add: p_def put_pairs_def stringField_def map_get_put)
  have sig: "stringField p ''signature'' \<noteq> []" "VerifyHexPublicKeySignature (out_verify (env_out ex_env))
      (replicate 64 CHR ''1'') (stringField p ''signature'') (CanonicalJSONWithoutSignature p) = None"
    using ex_verify [OF ex_ones_decode _ ex_sig_decode] by (simp_all add: fields(4))
  have post: "rq_Method ex_rekey = ''POST''" "decodeObject (rq_Body ex_rekey) = Inr p"
    by (simp_all add: ex_rekey_def ex_post_def p_def decodeObject_def)
  show ?thesis
    using enroll_check_ok [where clk = ex_later, OF post fields(1) _ a fields(2) f(3) ch f(1,2) exp late fields(3) ex_ones_decode _ sig]
    by auto
qed

theorem heartbeat_undoes_enrollment_witness:
  "\<exists>p node el. el_PublicKey el = replicate 64 CHR ''1'' \<and>
     map_option nd_AgentPublicKey
       (GetNode (heartbeat_store ex_env p node (enroll_store ex_env ex_later el ex_race)) ''a'') = Some ex_key"
proof -
  have a: "GetNode ex_race ''a'' = Some ex_agent"
    using ex_portal_agent by (simp add: ex_race_def GetNode_def SaveEnrollmentChallenge_def)
  have h: "heartbeat_check ex_env ex_clk (ex_beat ''7'') ex_race = Inr (ex_payload 7, ex_agent)"
    by (simp add: ex_beat_check [OF ex_seven a])
  obtain el where el: "enroll_check ex_env ex_later ex_rekey ex_race = Inr el" using ex_rekey_ok by blast
  have wf: "wf_store ex_race" unfolding ex_race_def by (intro wf_ops ex_portal_wf)
  have f: "el_NodeID el = ''a''" "el_PublicKey el = replicate 64 CHR ''1''"
    using enroll_check_passed [OF el]
    by (auto simp: ex_rekey_def ex_post_def decodeObject_def put_pairs_def stringField_def map_get_put)
  have n: "hp_NodeID (ex_payload 7) = ''a''" by (simp add: ex_payload_def)
  have era: "in_era (ex_later At_Enroll_Used)" using ex_later_ok by (simp add: clk_ok_def)
  have "map_option nd_AgentPublicKey (GetNode ex_race ''a'') = Some ex_key" by (simp add: a ex_agent_def)
  with heartbeat_undoes_enrollment [OF wf h el _ era] f n show ?thesis by (auto simp: Let_def)
qed

text \<open>
  A telemetry request that is refused may have had effects. When an unknown warning code follows a
  known one, the answer is 400, yet the event of the known one is in the log, unsaved.
\<close>

theorem telemetry_partial:
  assumes "rq_Path r = ''/api/v1/agent/telemetry''" and "rq_Method r = ''POST''"
    and "telemetry_check e clk r (sv_store s) = Inr (n, ts, good # bad # flags)"
    and "isSupportedWarningCode (warning_code good)" and "\<not> isSupportedWarningCode (warning_code bad)"
    and "snd (maybeNotifyAlert e n (warning_code good) ts (clk (At_Flag 0)) (on_store (AddTelemetryEvent
           \<lparr>te_NodeID = n, te_TelemetryTimestamp = ts, te_WarningCode = warning_code good\<rparr>) s)) = None"
  shows "rs_Status (snd (Handler e clk r s)) = 400
    \<and> st_telemetryEvents (sv_store (fst (Handler e clk r s))) = st_telemetryEvents (sv_store s) @
        [\<lparr>te_NodeID = n, te_TelemetryTimestamp = ts, te_WarningCode = warning_code good\<rparr>]"
proof -
  let ?s1 = "on_store (AddTelemetryEvent
    \<lparr>te_NodeID = n, te_TelemetryTimestamp = ts, te_WarningCode = warning_code good\<rparr>) s"
  obtain s2 where s2: "maybeNotifyAlert e n (warning_code good) ts (clk (At_Flag 0)) ?s1 = (s2, None)"
    using assms(6) by (cases "maybeNotifyAlert e n (warning_code good) ts (clk (At_Flag 0)) ?s1") simp
  have "st_telemetryEvents (sv_store s2) = st_telemetryEvents (sv_store ?s1)"
    using alert_frame_keeps(5) [OF alert_frame_notify [of ?s1 e n "warning_code good" ts "clk (At_Flag 0)"]]
    by (simp add: s2)
  moreover have "Handler e clk r s = handleTelemetry e clk r s" by (rule telemetry_handler [OF assms(1)])
  ultimately show ?thesis
    by (simp add: handleTelemetry_def assms(2,3,4,5) s2 Let_def AddTelemetryEvent_def)
qed

definition ex_warn :: request where
  "ex_warn = ex_post ''/api/v1/agent/telemetry''
     [(''node_id'', JStr ''a''), (''agent_key_fingerprint'', JStr ''f''), (''signature'', JStr ''00''),
      (''policy_version'', JStr ''v1''), (''telemetry_timestamp'', JStr ''2026-04-07T11:00:00Z''),
      (''warning_flags'', JArr [JStr ''portal_unreachable'', JStr ''no_such_code''])]"

theorem telemetry_partial_witness:
  "rs_Status (snd (Handler ex_env ex_clk ex_warn ex_portal)) = 400 \<and>
   length (st_telemetryEvents (sv_store (fst (Handler ex_env ex_clk ex_warn ex_portal)))) = 1"
proof -
  have "rq_Path ex_warn = ''/api/v1/agent/telemetry''" "rq_Method ex_warn = ''POST''"
    by (simp_all add: ex_warn_def ex_post_def)
  moreover have "telemetry_check ex_env ex_clk ex_warn (sv_store ex_portal) =
      Inr (''a'', ''2026-04-07T11:00:00Z'', [JStr ''portal_unreachable'', JStr ''no_such_code''])" by code_simp
  moreover have "isSupportedWarningCode (warning_code (JStr ''portal_unreachable''))"
    "\<not> isSupportedWarningCode (warning_code (JStr ''no_such_code''))" by code_simp+
  moreover have "snd (maybeNotifyAlert ex_env ''a'' (warning_code (JStr ''portal_unreachable''))
      ''2026-04-07T11:00:00Z'' (ex_clk (At_Flag 0)) (on_store (AddTelemetryEvent
        \<lparr>te_NodeID = ''a'', te_TelemetryTimestamp = ''2026-04-07T11:00:00Z'',
         te_WarningCode = warning_code (JStr ''portal_unreachable'')\<rparr>) ex_portal)) = None" by code_simp
  moreover have "st_telemetryEvents (sv_store ex_portal) = []" by code_simp
  ultimately show ?thesis using telemetry_partial [of ex_warn ex_env ex_clk ex_portal] by simp
qed

end
