(* ===== verification/Delivery.thy ===== *)
theory Delivery
  imports Portal_Link Enroll_Runs
begin

text \<open>
  The agent linked to a portal, when nothing is lost: its heartbeats, reports and enrollment go through.
\<close>

abbreviation link :: "'p env \<Rightarrow> clk \<Rightarrow> agent \<Rightarrow> 'w host \<Rightarrow> ('p server \<times> 'w) host" where
  "link e clk a h \<equiv> linked e clk (trim_right_slash (ag_base a)) h"

text \<open>A portal that can always save, a network that loses nothing, files that can be written.\<close>

definition steady :: "'p env \<Rightarrow> bool" where
  "steady e \<longleftrightarrow> (\<forall>w st. snd (out_save (env_out e) w st) = None)"

definition no_loss :: "'w host \<Rightarrow> bool" where
  "no_loss h \<longleftrightarrow> (\<forall>w verb url doc. \<not> isl (snd (ho_do h w verb url doc)))"

definition writable :: "'w host \<Rightarrow> bool" where
  "writable h \<longleftrightarrow> (\<forall>w path. snd (ho_mkdir h w path) = None \<and> snd (ho_write h w path) = Written) \<and>
     (\<forall>st. \<not> isl (ho_encode h st))"

lemma linked_simps [simp]:
  "ho_now (linked e clk b h) = beside (ho_now h)" "ho_symbol (linked e clk b h) = beside (ho_symbol h)"
  "ho_print (linked e clk b h) = (\<lambda>sw msg. beside (\<lambda>w. ho_print h w msg) sw)"
  "ho_not_after (linked e clk b h) = (\<lambda>sw server port. beside (\<lambda>w. ho_not_after h w server port) sw)"
  "ho_mkdir (linked e clk b h) = (\<lambda>sw path. beside (\<lambda>w. ho_mkdir h w path) sw)"
  "ho_write (linked e clk b h) = (\<lambda>sw path. beside (\<lambda>w. ho_write h w path) sw)"
  "ho_sign (linked e clk b h) = ho_sign h" "ho_url (linked e clk b h) = ho_url h"
  "ho_encode (linked e clk b h) = ho_encode h" "ho_decode (linked e clk b h) = ho_decode h"
  "ho_do (linked e clk b h) = serve_post e clk b h"
  by (simp_all add: linked_def)

lemma key_pair_linked [simp]: "key_pair e (linked e' clk b h) a = key_pair e h a"
  by (simp add: key_pair_def)

lemma codec_linked [simp]: "codec_ok (linked e clk b h) = codec_ok h" "uncut h \<Longrightarrow> uncut (linked e clk b h)"
  by (simp_all add: codec_ok_def uncut_def)

lemma saves_200: "steady e \<Longrightarrow> snd (persist_and e answer s) = answer"
  by (auto simp: steady_def persist_and_def persist_def split: prod.split option.split) (metis option.distinct(1) snd_conv)

text \<open>What a post does to the portal and to the agent's machine.\<close>

lemma linked_post:
  assumes "PostJSON (link e clk a h) (ag_base a) path doc m = (m', err)"
  shows "fst (mc_world m') = fst (Handler e (era_clock clk) (posted path doc) (fst (mc_world m)))"
    "mc_files m' = mc_files m"
    "rs_Status (snd (Handler e (era_clock clk) (posted path doc) (fst (mc_world m)))) = 200 \<Longrightarrow> no_loss h \<Longrightarrow> err = None"
proof -
  obtain s resp where 1: "Handler e (era_clock clk) (posted path doc) (fst (mc_world m)) = (s, resp)" by fastforce
  obtain w net where 2: "ho_do h (snd (mc_world m)) ''POST'' (trim_right_slash (ag_base a) @ path) doc = (w, net)"
    by fastforce
  have loss: "no_loss h \<Longrightarrow> \<not> isl net" using 2 unfolding no_loss_def by (metis snd_conv)
  have post: "outside (\<lambda>v. serve_post e clk (trim_right_slash (ag_base a)) h v ''POST'' (trim_right_slash (ag_base a) @ path) doc) m
      = (m\<lparr>mc_world := (s, w)\<rparr>, case net of Inl err \<Rightarrow> Inl err | Inr (code, line) \<Rightarrow> Inr (rs_Status resp, line))"
    by (simp add: outside_def serve_post_def 1 2 split: sum.split prod.split)
  show "fst (mc_world m') = fst (Handler e (era_clock clk) (posted path doc) (fst (mc_world m)))"
    "mc_files m' = mc_files m"
    "rs_Status (snd (Handler e (era_clock clk) (posted path doc) (fst (mc_world m)))) = 200 \<Longrightarrow> no_loss h \<Longrightarrow> err = None"
    using assms loss by (auto simp: PostJSON_def post 1 split: sum.splits prod.splits)
qed

lemma linked_collect:
  assumes "collectLocalObservationFlags (link e clk a h) a m = (m', flags)"
  shows "fst (mc_world m') = fst (mc_world m) \<and> mc_files m' = mc_files m"
proof -
  have c: "fst (mc_world x') = fst (mc_world x) \<and> mc_files x' = mc_files x"
    if "certificate_near (link e clk a h) u x = (x', b)" for u x x' b
    using that by (auto simp: certificate_near_def fetchLeafCertificateNotAfter_def split: pair_splits
        dest!: outside_machine)
  show ?thesis
    using assms by (auto simp: collectLocalObservationFlags_def Let_def split: pair_splits
        dest!: outside_machine c)
qed

section \<open>Heartbeats\<close>

lemma heartbeat_served:
  assumes "rq_Path r = ''/api/v1/agent/heartbeat''" and "heartbeat_check e clk r (sv_store s) = Inr (p, node)"
    and "steady e"
  shows "rs_Status (snd (Handler e clk r s)) = 200"
  using assms by (simp add: Handler_def serve_route_def handleHeartbeat_def saves_200)

lemma Save_server: "state_Save (link e clk a h) path st m = (m', err) \<Longrightarrow> fst (mc_world m') = fst (mc_world m)"
  by (auto simp: state_Save_def WriteFile_def split: pair_splits write_outcome.splits dest!: outside_machine)

lemma Save_writes: "writable h \<Longrightarrow> snd (state_Save h path st m) = None"
  by (auto simp: writable_def state_Save_def WriteFile_def outside_def split: pair_splits write_outcome.splits)
    (metis isl_def option.distinct(1) prod.sel(2) write_outcome.distinct)+

lemma writable_linked: "writable h \<Longrightarrow> writable (linked e clk b h)"
  by (simp add: writable_def)

text \<open>A heartbeat of an enrolled agent, on any network: it reaches the portal, and then the file is written.\<close>

lemma heartbeat_at_portal:
  assumes "key_pair e h a" and "steady e"
    and "wf_store (sv_store (fst (mc_world m)))"
    and "GetNode (sv_store (fst (mc_world m))) (ag_node a) = Some node" and "enrolled_as a node"
    and "nd_EnrollmentGeneration node = ac_EnrollmentGeneration (ag_cfg a)"
    and "int64 (ac_EnrollmentGeneration (ag_cfg a))"
    and "\<And>w. on_time (env_cfg e) (era_clock clk) (snd (ho_now h w))"
    and "state_Load (link e clk a h) (ag_state a) m = Inr st"
    and "gs_AgentKeyFingerprint st \<in> {[], ag_fingerprint a}"
    and "n = wrap64 (gs_SequenceNumber st + 1)" and "nd_LastHeartbeatSequence node < n"
    and "sendHeartbeat (link e clk a h) a m = (m', err)"
  obtains m3 x w node' where "position (sv_store (fst (mc_world m3))) (ag_node a) = (ac_EnrollmentGeneration (ag_cfg a), n)"
    "st_heartbeatEvents (sv_store (fst (mc_world m3))) = st_heartbeatEvents (sv_store (fst (mc_world m))) @
       [\<lparr>hb_NodeID = ag_node a, hb_HeartbeatTimestamp = format_rfc3339 (snd (ho_now h w)), hb_SequenceNumber = n\<rparr>]"
    "GetNode (sv_store (fst (mc_world m3))) (ag_node a) = Some node'" "enrolled_as a node'"
    "nd_EnrollmentGeneration node' = nd_EnrollmentGeneration node" "nd_LastHeartbeatSequence node' = n"
    "mc_files m3 = mc_files m" "no_loss h \<Longrightarrow> x = None"
    "(m', err) = (case x of Some y \<Rightarrow> (m3, Some y) | None \<Rightarrow> state_Save (link e clk a h) (ag_state a)
        (st\<lparr>gs_SequenceNumber := n, gs_AgentKeyFingerprint := ag_fingerprint a\<rparr>) m3)"
proof -
  let ?h = "link e clk a h"
  obtain m1 flags where 1: "collectLocalObservationFlags ?h a m = (m1, flags)" by fastforce
  obtain m2 t where 2: "outside (ho_now ?h) m1 = (m2, t)" by fastforce
  define p where "p = signed_heartbeat ?h a n flags t"
  define r where "r = posted ''/api/v1/agent/heartbeat'' (payload_json p)"
  obtain m3 x where 3: "PostJSON ?h (ag_base a) ''/api/v1/agent/heartbeat'' (payload_json p) m2 = (m3, x)"
    by fastforce
  let ?s = "fst (mc_world m)"
  have t: "t = snd (ho_now h (snd (mc_world m1)))" and s2: "fst (mc_world m2) = ?s" "mc_files m2 = mc_files m"
    using outside_world [of "ho_now ?h" m1] outside_files [of "ho_now ?h" m1] linked_collect [OF 1]
    by (simp_all add: 2 del: linked_simps(1)) simp_all
  have n: "int64 n" by (simp add: assms(11) int64_def wrap64_def)
  have "on_time (env_cfg e) (era_clock clk) t" unfolding t by (rule assms(8))
  from agent_heartbeat_check [where h = ?h and clk = "era_clock clk" and flags = flags, OF _ assms(4-6) n assms(7) this]
  have check: "heartbeat_check e (era_clock clk) r (sv_store ?s) = Inr (portal_payload p, node)"
    using assms(1,12) by (simp add: r_def p_def)
  have path: "rq_Path r = ''/api/v1/agent/heartbeat''" by (simp add: r_def)
  have ok: "rs_Status (snd (Handler e (era_clock clk) r ?s)) = 200"
    by (rule heartbeat_served [OF path check assms(2)])
  note post = linked_post [OF 3, unfolded s2, folded r_def]
  have d: "decode_heartbeat (rq_Body r) = Inr (portal_payload p)" using check by (rule heartbeat_check_Inr)
  have q: "hp_NodeID (portal_payload p) = ag_node a" "hp_SequenceNumber (portal_payload p) = n"
    "hp_EnrollmentGeneration (portal_payload p) = ac_EnrollmentGeneration (ag_cfg a)"
    "hp_HeartbeatTimestamp (portal_payload p) = format_rfc3339 t"
    by (simp_all add: portal_payload_def p_def signed_heartbeat_def heartbeat_New_def Let_def)
  have pos: "position (sv_store (fst (mc_world m3))) (ag_node a) = (ac_EnrollmentGeneration (ag_cfg a), n)"
    using heartbeat_position [OF assms(3) path ok d] unfolding post(1) q .
  obtain p' node' where c': "heartbeat_check e (era_clock clk) r (sv_store ?s) = Inr (p', node')"
    and nd: "st_nodes (sv_store (fst (Handler e (era_clock clk) r ?s))) =
       st_nodes (heartbeat_store e p' node' (sv_store ?s))"
    and ev: "st_heartbeatEvents (sv_store (fst (Handler e (era_clock clk) r ?s))) =
       st_heartbeatEvents (heartbeat_store e p' node' (sv_store ?s))"
    by (rule heartbeat_accepted [OF path ok])
  have same: "p' = portal_payload p" "node' = node" using c' check by simp_all
  have log: "st_heartbeatEvents (sv_store (fst (mc_world m3))) = st_heartbeatEvents (sv_store ?s) @
      [\<lparr>hb_NodeID = ag_node a, hb_HeartbeatTimestamp = format_rfc3339 (snd (ho_now h (snd (mc_world m1)))),
        hb_SequenceNumber = n\<rparr>]"
    using q t by (simp add: post(1) ev same heartbeat_store_def SaveHeartbeatEvent_def SaveNode_def)
  define node2 where "node2 = node\<lparr>nd_LastHeartbeatSequence := n, nd_LastHeartbeatTimestamp := format_rfc3339 t,
    nd_LastPolicyVersion := po_PolicyVersion (env_policy e)\<rparr>"
  have id: "nd_NodeID node = ag_node a"
    using assms(3,4) by (auto simp: wf_store_def GetNode_def dest: keyed_map_get)
  have get: "GetNode (sv_store (fst (mc_world m3))) (ag_node a) = Some node2"
    using q id by (simp add: post(1) GetNode_def nd same heartbeat_store_def SaveHeartbeatEvent_def SaveNode_def
        map_get_put node2_def)
  have node2: "enrolled_as a node2" "nd_EnrollmentGeneration node2 = nd_EnrollmentGeneration node"
    "nd_LastHeartbeatSequence node2 = n" using assms(5) by (simp_all add: enrolled_as_def node2_def)
  have res: "(m', err) = (case x of Some y \<Rightarrow> (m3, Some y) | None \<Rightarrow> state_Save ?h (ag_state a)
        (st\<lparr>gs_SequenceNumber := n, gs_AgentKeyFingerprint := ag_fingerprint a\<rparr>) m3)"
    using assms(10,13) 1 2 3
    by (cases x) (auto simp: sendHeartbeat_def assms(9) Let_def p_def assms(11) split: if_splits)
  show thesis by (rule that [OF pos log get node2 post(2) _ res]) (rule post(3) [OF ok])
qed

text \<open>
  C24: a heartbeat of an enrolled agent arrives. With the agent's clock within the portal's skew and its
  sequence number not behind, the heartbeat is accepted: it ends the portal's log and becomes the node's
  position. The agent's file then holds the number it sent if no error was reported, and the old one
  otherwise; there is no error when the network loses nothing and the file can be written.
\<close>

theorem heartbeat_delivered:
  assumes "key_pair e h a" and "steady e" and "codec_ok h" and "uncut h"
    and "wf_store (sv_store (fst (mc_world m)))"
    and "GetNode (sv_store (fst (mc_world m))) (ag_node a) = Some node" and "enrolled_as a node"
    and "nd_EnrollmentGeneration node = ac_EnrollmentGeneration (ag_cfg a)"
    and "int64 (ac_EnrollmentGeneration (ag_cfg a))"
    and "\<And>w. on_time (env_cfg e) (era_clock clk) (snd (ho_now h w))"
    and "state_Load (link e clk a h) (ag_state a) m = Inr st"
    and "gs_AgentKeyFingerprint st \<in> {[], ag_fingerprint a}"
    and "n = wrap64 (gs_SequenceNumber st + 1)" and "nd_LastHeartbeatSequence node < n"
    and "sendHeartbeat (link e clk a h) a m = (m', err)"
  shows "position (sv_store (fst (mc_world m'))) (ag_node a) = (ac_EnrollmentGeneration (ag_cfg a), n)
    \<and> hb_SequenceNumber (last (st_heartbeatEvents (sv_store (fst (mc_world m'))))) = n
    \<and> (\<exists>st'. file_state (link e clk a h) (ag_state a) m' = Inr st'
        \<and> gs_SequenceNumber st' = (if err = None then n else gs_SequenceNumber st))
    \<and> (no_loss h \<longrightarrow> writable h \<longrightarrow> err = None)"
proof -
  let ?h = "link e clk a h"
  let ?st = "st\<lparr>gs_SequenceNumber := n, gs_AgentKeyFingerprint := ag_fingerprint a\<rparr>"
  obtain m3 x w where m3: "position (sv_store (fst (mc_world m3))) (ag_node a) = (ac_EnrollmentGeneration (ag_cfg a), n)"
    "st_heartbeatEvents (sv_store (fst (mc_world m3))) = st_heartbeatEvents (sv_store (fst (mc_world m))) @
       [\<lparr>hb_NodeID = ag_node a, hb_HeartbeatTimestamp = format_rfc3339 (snd (ho_now h w)), hb_SequenceNumber = n\<rparr>]"
    "mc_files m3 = mc_files m" "no_loss h \<Longrightarrow> x = None"
    and m': "(m', err) = (case x of Some y \<Rightarrow> (m3, Some y) | None \<Rightarrow> state_Save ?h (ag_state a) ?st m3)"
    using heartbeat_at_portal [OF assms(1,2,5-15)] by blast
  have held: "file_state ?h (ag_state a) m = Inr st" by (rule Load_file [OF assms(11)])
  show ?thesis
  proof (cases x)
    case (Some y)
    then show ?thesis using m3 m' held by (auto simp: file_state_def)
  next
    case None
    then have sv: "state_Save ?h (ag_state a) ?st m3 = (m', err)" using m' by simp
    have c: "codec_ok ?h" "uncut ?h" using assms(3,4) by simp_all
    have "err = None" if "writable h"
      using Save_writes [OF writable_linked [OF that]] sv by (metis snd_conv)
    moreover have "\<exists>st'. file_state ?h (ag_state a) m' = Inr st'
        \<and> gs_SequenceNumber st' = (if err = None then n else gs_SequenceNumber st)"
      using Save_file [OF c sv] held m3(3) by (auto simp: same_state_def file_state_def split: option.splits)
    ultimately show ?thesis using m3(1,2) Save_server [OF sv] by simp
  qed
qed

section \<open>Enrollment\<close>

lemma enroll_payload_flat: "flat (enroll_payload a c)"
  by (rule flat_list) (simp_all add: enroll_payload_def)

lemma decode_signed:
  "flat m \<Longrightarrow> decodeObject (Document (map_json (signed h a m))) = Inr (sort_slice (\<lambda>a b. fst a < fst b) (signed h a m))"
  by (intro decode_map_json signed_flat)

lemma enroll_read:
  assumes "key_pair e h a" and "out_sha256 (env_out e) = ho_sha256 h" and "ag_fingerprint a = Fingerprint h (ag_publicKey a)"
    and "GetNode st (ag_node a) = Some node" and "ag_node a \<noteq> []"
    and "GetEnrollmentChallenge st c = Some ch" and "c \<noteq> []"
    and "ec_NodeID ch = ag_node a" "ec_UsedAt ch = []" "parse_rfc3339 (ec_ExpiresAt ch) = Some expires"
    and "clk At_Enroll_Check < expires"
  obtains el where "enroll_check e clk (posted path (map_json (signed h a (enroll_payload a c)))) st = Inr el"
    "el_NodeID el = ag_node a" "el_PublicKey el = hex_encode (ag_publicKey a)" "el_Node el = node"
    "el_Fingerprint el = ag_fingerprint a"
proof -
  define p where "p = sort_slice (\<lambda>a b. fst a < fst b) (signed h a (enroll_payload a c))"
  define r where "r = posted path (map_json (signed h a (enroll_payload a c)))"
  have d: "decodeObject (rq_Body r) = Inr p"
    unfolding r_def p_def posted_simps by (rule decode_signed [OF enroll_payload_flat])
  have post_method: "rq_Method r = ''POST''" by (simp add: r_def)
  have f: "stringField p k = stringField (signed h a (enroll_payload a c)) k" for k
    by (simp add: p_def sent_fields signed_flat enroll_payload_flat)
  have sg: "stringField p ''signature'' = signMap h (ag_privateKey a) (enroll_payload a c)"
    unfolding f by (simp add: stringField_def signed_get)
  have g: "stringField p ''node_id'' = ag_node a" "stringField p ''enrollment_challenge_id'' = c"
    "stringField p ''agent_public_key'' = hex_encode (ag_publicKey a)"
    unfolding f by (simp_all add: stringField_def signed_get enroll_payload_def)
  have signed_text: "CanonicalJSONWithoutSignature p = marshal (map_json (map_remove ''signature'' (enroll_payload a c)))"
    unfolding p_def signed_def by (rule canonical_is_signed_text [OF enroll_payload_flat])
  have ver: "VerifyHexPublicKeySignature (out_verify (env_out e)) (hex_encode (ag_publicKey a))
      (stringField p ''signature'') (CanonicalJSONWithoutSignature p) = None"
    unfolding signed_text sg signMap_def using signature_verifies [OF assms(1)] by simp
  have sg_ne: "stringField p ''signature'' \<noteq> []"
    unfolding sg signMap_def Sign_def by (rule hex_encode_ne) (use assms(1) in \<open>simp add: key_pair_def\<close>)
  have len: "length (ag_publicKey a) = 32" using assms(1) by (simp add: key_pair_def)
  obtain el where el: "enroll_check e clk r st = Inr el" "el_NodeID el = ag_node a"
      "el_PublicKey el = hex_encode (ag_publicKey a)" "el_Node el = node"
    using enroll_check_ok [where clk = clk, OF post_method d g(1) assms(5,4) g(2) assms(7,6,8-11) g(3) hex_decode_encode len sg_ne ver]
    by blast
  moreover have "el_Fingerprint el = ag_fingerprint a"
    using enroll_check_passed [OF el(1)] len
    by (auto simp: el(3) FingerprintFromHexPublicKey_def hex_decode_encode assms(2,3) Fingerprint_def)
  ultimately show thesis using that unfolding r_def by blast
qed

text \<open>
  C27: an agent enrolls. With an unused challenge of its node that has not expired, \<^verbatim>\<open>Enroll\<close> on a network
  that loses nothing reports no error, and the portal then has the agent's key and fingerprint for the
  node, in the next generation with no heartbeat yet.
\<close>

theorem agent_enrolls:
  assumes "key_pair e h a" and "steady e" and "no_loss h" and "out_sha256 (env_out e) = ho_sha256 h"
    and "ag_fingerprint a = Fingerprint h (ag_publicKey a)"
    and "wf_store (sv_store (fst (mc_world m)))"
    and "GetNode (sv_store (fst (mc_world m))) (ag_node a) = Some node" and "ag_node a \<noteq> []"
    and "GetEnrollmentChallenge (sv_store (fst (mc_world m))) c = Some ch" and "c \<noteq> []"
    and "ec_NodeID ch = ag_node a" "ec_UsedAt ch = []" "parse_rfc3339 (ec_ExpiresAt ch) = Some expires"
    and "era_clock clk At_Enroll_Check < expires"
    and "agent_Enroll (link e clk a h) a c m = (m', err)"
  shows "err = None \<and> (\<exists>node'. GetNode (sv_store (fst (mc_world m'))) (ag_node a) = Some node'
    \<and> enrolled_as a node' \<and> nd_EnrollmentGeneration node' = nd_EnrollmentGeneration node + 1
    \<and> nd_LastHeartbeatSequence node' = 0)"
proof -
  let ?h = "link e clk a h" let ?s = "fst (mc_world m)"
  let ?r = "posted ''/api/v1/agent/enroll'' (map_json (signed ?h a (enroll_payload a c)))"
  have h: "key_pair e ?h a" "out_sha256 (env_out e) = ho_sha256 ?h" "ag_fingerprint a = Fingerprint ?h (ag_publicKey a)"
    using assms(1,4,5) by (simp, simp_all add: Fingerprint_def linked_def)
  obtain el where el: "enroll_check e (era_clock clk) ?r (sv_store ?s) = Inr el" "el_NodeID el = ag_node a"
      "el_PublicKey el = hex_encode (ag_publicKey a)" "el_Node el = node" "el_Fingerprint el = ag_fingerprint a"
    by (rule enroll_read [where clk = "era_clock clk", OF h assms(7-14)])
  have id: "nd_NodeID node = ag_node a" by (rule node_id [OF assms(6,7)])
  have handle: "Handler e (era_clock clk) ?r ?s = enroll_commit e (era_clock clk) el ?s"
    by (simp add: Handler_def serve_route_def handleEnroll_def el(1))
  have ok: "rs_Status (snd (Handler e (era_clock clk) ?r ?s)) = 200"
    by (simp add: handle enroll_commit_def saves_200 [OF assms(2)])
  note post = linked_post [OF assms(15) [unfolded agent_Enroll_def post_signed_def]]
  have "sv_store (fst (mc_world m')) = enroll_store e (era_clock clk) el (sv_store ?s)"
    by (simp add: post(1) handle enroll_commit_def)
  then show ?thesis
    using post(3) [OF ok assms(3)] id el
    by (simp add: enroll_store_def ConsumeEnrollmentChallenge_def GetNode_def SaveNode_def map_get_put
        enrolled_node_def enrolled_as_def Let_def split: option.split)
qed

section \<open>Reports\<close>

lemma telemetry_payload_flat: "flat (telemetry_payload a now pv flags)"
  by (rule flat_list) (simp_all add: telemetry_payload_def)

lemma checks_payload_flat: "flat (checks_payload a pf ty i pol now hw cpu disk)"
  by (rule flat_list) (simp_all add: checks_payload_def)

text \<open>What the portal reads of a signed report is what the agent put in it, and it is authorised.\<close>

lemma signed_report:
  assumes "key_pair e h a" and "enrolled_as a node" and "flat m"
    and "map_get m ''agent_key_fingerprint'' = Some (JStr (ag_fingerprint a))"
    and "map_get m ''signature'' = None"
  obtains p where "decodeObject (rq_Body (posted path (map_json (signed h a m)))) = Inr p"
    "authorizeMapPayload e node p = None"
    "\<forall>k. k \<noteq> ''signature'' \<longrightarrow> stringField p k = stringField m k \<and> boolField p k = boolField m k
      \<and> arrayField p k = arrayField m k"
proof (rule that [of "sort_slice (\<lambda>a b. fst a < fst b) (signed h a m)"])
  show "decodeObject (rq_Body (posted path (map_json (signed h a m)))) =
      Inr (sort_slice (\<lambda>a b. fst a < fst b) (signed h a m))"
    by (simp add: decode_signed assms(3))
  show "authorizeMapPayload e node (sort_slice (\<lambda>a b. fst a < fst b) (signed h a m)) = None"
    using assms(4) by (intro agent_authorized assms(1-3)) (simp add: stringField_def)
qed (simp_all add: sent_fields signed_flat assms(3) stringField_def boolField_def arrayField_def signed_get)

lemma telemetry_read:
  assumes "key_pair e h a" and "GetNode st (ag_node a) = Some node" and "enrolled_as a node"
    and "on_time (env_cfg e) clk now" and "flags \<noteq> []"
  shows "telemetry_check e clk (posted path (map_json (signed h a (telemetry_payload a now pv flags)))) st =
      (if pv \<noteq> po_PolicyVersion (env_policy e)
       then Inl (fail 409 ''policy_version_mismatch'' ''policy version mismatch'')
       else Inr (ag_node a, format_rfc3339 now, map JStr flags))"
proof -
  let ?t = "telemetry_payload a now pv flags"
  have keys: "map_get ?t ''agent_key_fingerprint'' = Some (JStr (ag_fingerprint a))" "map_get ?t ''signature'' = None"
    by (simp_all add: telemetry_payload_def)
  obtain p where d: "decodeObject (rq_Body (posted path (map_json (signed h a ?t)))) = Inr p"
    and auth: "authorizeMapPayload e node p = None"
    and s: "\<forall>k. k \<noteq> ''signature'' \<longrightarrow> stringField p k = stringField ?t k \<and> boolField p k = boolField ?t k
      \<and> arrayField p k = arrayField ?t k"
    by (rule signed_report [where path = path, OF assms(1,3) telemetry_payload_flat keys])
  have fields: "stringField p ''node_id'' = ag_node a" "stringField p ''policy_version'' = pv"
    "stringField p ''telemetry_timestamp'' = format_rfc3339 now"
    "arrayField p ''warning_flags'' = Some (map JStr flags)"
    by (simp_all add: s) (simp_all add: stringField_def arrayField_def telemetry_payload_def)
  show ?thesis
    using d auth assms(2,5) stamp_on_time [OF assms(4)] by (simp add: telemetry_check_def fields)
qed

lemma checks_read:
  assumes "key_pair e h a" and "GetNode st (ag_node a) = Some node" and "enrolled_as a node"
    and "on_time (env_cfg e) clk now" and "i \<noteq> []"
    and "ty \<in> {''registration'', ''voting_key_renewal'', ''recheck''}"
  shows "checks_check e clk (posted path (map_json (signed h a (checks_payload a pf ty i pol now hw cpu disk)))) st =
      (if po_PolicyVersion pol \<noteq> po_PolicyVersion (env_policy e)
       then Inl (fail 409 ''policy_version_mismatch'' ''policy version mismatch'')
       else if cpu_ID (po_CPUProfile pol) \<noteq> cpu_ID (po_CPUProfile (env_policy e))
       then Inl (fail 409 ''cpu_profile_mismatch'' ''cpu profile mismatch'')
       else if disk_ID (po_DiskProfile pol) \<noteq> disk_ID (po_DiskProfile (env_policy e))
       then Inl (fail 409 ''disk_profile_mismatch'' ''disk profile mismatch'')
       else Inr \<lparr>ck_EventID = i, ck_NodeID = ag_node a, ck_OverallPassed = checks_overall hw cpu disk,
           ck_CheckedAt = format_rfc3339 now\<rparr>)"
proof -
  let ?c = "checks_payload a pf ty i pol now hw cpu disk"
  have keys: "map_get ?c ''agent_key_fingerprint'' = Some (JStr (ag_fingerprint a))" "map_get ?c ''signature'' = None"
    by (simp_all add: checks_payload_def)
  obtain p where d: "decodeObject (rq_Body (posted path (map_json (signed h a ?c)))) = Inr p"
    and auth: "authorizeMapPayload e node p = None"
    and s: "\<forall>k. k \<noteq> ''signature'' \<longrightarrow> stringField p k = stringField ?c k \<and> boolField p k = boolField ?c k
      \<and> arrayField p k = arrayField ?c k"
    by (rule signed_report [where path = path, OF assms(1,3) checks_payload_flat keys])
  have fields: "stringField p ''node_id'' = ag_node a" "stringField p ''event_id'' = i"
    "stringField p ''event_type'' = ty" "stringField p ''policy_version'' = po_PolicyVersion pol"
    "stringField p ''schema_version'' = ''1''" "stringField p ''cpu_profile_id'' = cpu_ID (po_CPUProfile pol)"
    "stringField p ''disk_profile_id'' = disk_ID (po_DiskProfile pol)"
    "stringField p ''checked_at'' = format_rfc3339 now"
    by (simp_all add: s) (simp_all add: stringField_def checks_payload_def)
  have bools: "boolField p ''cpu_check_passed'' = Some (hr_CPUCheckPassed hw)"
    "boolField p ''disk_check_passed'' = Some (dr_Passed disk)"
    "boolField p ''ram_check_passed'' = Some (hr_RAMCheckPassed hw)"
    "boolField p ''storage_size_check_passed'' = Some (hr_StorageSizeCheckPassed hw)"
    "boolField p ''ssd_check_passed'' = Some (hr_SSDCheckPassed hw)"
    "boolField p ''cpu_load_test_passed'' = Some (cr_Passed cpu)"
    "boolField p ''overall_passed'' = Some (checks_overall hw cpu disk)"
    by (simp_all add: s) (simp_all add: boolField_def checks_payload_def)
  have result: "checks_result p (ag_node a) i = Inr \<lparr>ck_EventID = i, ck_NodeID = ag_node a,
      ck_OverallPassed = checks_overall hw cpu disk, ck_CheckedAt = format_rfc3339 now\<rparr>"
    by (auto simp: checks_result_def check_bool_keys_def bools fields checks_overall_def)
  show ?thesis
    using d auth assms(2,5,6) stamp_on_time [OF assms(4)] result
    by (auto simp: checks_check_def fields)
qed

text \<open>
  C28: the portal reads what the agent reports. A signed warning report of an enrolled agent passes every
  guard with its flags, and a signed check report passes every guard as the event with its id, its
  overall result and its time, when both come from the portal's policy; with another policy version both
  are refused with 409.
\<close>

theorem reports_accepted:
  assumes "key_pair e h a" and "GetNode st (ag_node a) = Some node" and "enrolled_as a node"
    and "on_time (env_cfg e) clk now" and "flags \<noteq> []" and "i \<noteq> []"
    and "ty \<in> {''registration'', ''voting_key_renewal'', ''recheck''}"
  shows "telemetry_check e clk (posted path (map_json (signed h a (telemetry_payload a now pv flags)))) st =
      (if pv \<noteq> po_PolicyVersion (env_policy e)
       then Inl (fail 409 ''policy_version_mismatch'' ''policy version mismatch'')
       else Inr (ag_node a, format_rfc3339 now, map JStr flags))
    \<and> checks_check e clk (posted path (map_json (signed h a (checks_payload a pf ty i pol now hw cpu disk)))) st =
      (if po_PolicyVersion pol \<noteq> po_PolicyVersion (env_policy e)
       then Inl (fail 409 ''policy_version_mismatch'' ''policy version mismatch'')
       else if cpu_ID (po_CPUProfile pol) \<noteq> cpu_ID (po_CPUProfile (env_policy e))
       then Inl (fail 409 ''cpu_profile_mismatch'' ''cpu profile mismatch'')
       else if disk_ID (po_DiskProfile pol) \<noteq> disk_ID (po_DiskProfile (env_policy e))
       then Inl (fail 409 ''disk_profile_mismatch'' ''disk profile mismatch'')
       else Inr \<lparr>ck_EventID = i, ck_NodeID = ag_node a, ck_OverallPassed = checks_overall hw cpu disk,
           ck_CheckedAt = format_rfc3339 now\<rparr>)"
  using telemetry_read [OF assms(1-5)] checks_read [OF assms(1-4,6,7)] by blast

end
