(* ===== verification/Agent_Properties.thy ===== *)
theory Agent_Properties
  imports Agent_Runs
begin

text \<open>
  Properties of the agent alone: when its main loop ends, and its warnings as a state machine.
\<close>

section \<open>The main loop\<close>


section \<open>Warnings\<close>

text \<open>
  The specification: each warning is quiet, pending (decided but not delivered) or active (delivered),
  and consecutive failures to reach the portal are counted.
\<close>

datatype warning = Quiet | Pending | Active

record warnings =
  ws_status :: "string \<Rightarrow> warning"
  ws_failures :: int

datatype warning_event = Portal_Down | Portal_Answers | Delivered string | Undelivered string

fun warn :: "warning_event \<Rightarrow> warnings \<Rightarrow> warnings" where
  "warn Portal_Down ws =
     (let n = wrap64 (ws_failures ws + 1)
      in if 3 \<le> n \<and> ws_status ws warningPortalUnreachable \<noteq> Active
         then ws\<lparr>ws_failures := n, ws_status := (ws_status ws)(warningPortalUnreachable := Pending)\<rparr>
         else ws\<lparr>ws_failures := n\<rparr>)"
| "warn Portal_Answers ws =
     ws\<lparr>ws_failures := 0, ws_status :=
       (if ws_status ws warningPortalUnreachable = Pending
        then (ws_status ws)(warningPortalUnreachable := Active) else ws_status ws)\<rparr>"
| "warn (Delivered flag) ws =
     (if ws_status ws flag = Quiet then ws\<lparr>ws_status := (ws_status ws)(flag := Active)\<rparr> else ws)"
| "warn (Undelivered flag) ws =
     (if ws_status ws flag = Quiet then ws\<lparr>ws_status := (ws_status ws)(flag := Pending)\<rparr> else ws)"

text \<open>The abstraction of a saved state.\<close>

definition warnings_of :: "agent_state \<Rightarrow> warnings" where
  "warnings_of st =
     \<lparr>ws_status = (\<lambda>flag. if is_active st flag then Active else if is_pending st flag then Pending else Quiet),
      ws_failures = gs_ConsecutivePortalFailures st\<rparr>"

lemma warnings_same: "same_state st' st \<Longrightarrow> warnings_of st' = warnings_of st"
  by (simp add: warnings_of_def same_state_def is_active_def is_pending_def fun_eq_iff)

lemma flag_set_changes:
  "flag_set (set_flag k m) k' = (if k = k' then m \<noteq> None else flag_set m k')"
  "flag_set (delete_flag k m) k' = (k \<noteq> k' \<and> flag_set m k')"
  by (auto simp: flag_set_def set_flag_def delete_flag_def map_get_put map_get_remove split: option.split)

lemma ensured_maps [simp]:
  "gs_ActiveWarnings (ensureWarningMaps st) \<noteq> None" "gs_PendingWarnings (ensureWarningMaps st) \<noteq> None"
  by (simp_all add: ensureWarningMaps_def)

lemma flags_of [simp]:
  "is_active (portal_up st) k = is_active st k" "is_pending (portal_up st) k = is_pending st k"
  "is_active (activated flag (ensureWarningMaps st)) k \<longleftrightarrow> k = flag \<or> is_active st k"
  "is_pending (activated flag (ensureWarningMaps st)) k = is_pending st k"
  "is_active (made_pending flag (ensureWarningMaps st)) k = is_active st k"
  "is_pending (made_pending flag (ensureWarningMaps st)) k \<longleftrightarrow> k = flag \<or> is_pending st k"
  "is_active (recovered (portal_up st)) k \<longleftrightarrow> k = warningPortalUnreachable \<or> is_active st k"
  "is_pending (recovered (portal_up st)) k \<longleftrightarrow> k \<noteq> warningPortalUnreachable \<and> is_pending st k"
  by (auto simp: is_active_def is_pending_def portal_up_def activated_def made_pending_def recovered_def
      flag_set_changes)

lemma failures_of [simp]:
  "gs_ConsecutivePortalFailures (portal_up st) = 0"
  "gs_ConsecutivePortalFailures (recovered (portal_up st)) = 0"
  "gs_ConsecutivePortalFailures (activated flag (ensureWarningMaps st)) = gs_ConsecutivePortalFailures st"
  "gs_ConsecutivePortalFailures (made_pending flag (ensureWarningMaps st)) = gs_ConsecutivePortalFailures st"
  by (simp_all add: portal_up_def activated_def made_pending_def recovered_def)

lemma warnings_simps:
  "warnings_of (failure_recorded st) = warn Portal_Down (warnings_of st)"
  "\<not> is_active st flag \<Longrightarrow> \<not> is_pending st flag \<Longrightarrow>
     warnings_of (activated flag (ensureWarningMaps st)) = warn (Delivered flag) (warnings_of st)"
  "\<not> is_active st flag \<Longrightarrow> \<not> is_pending st flag \<Longrightarrow>
     warnings_of (made_pending flag (ensureWarningMaps st)) = warn (Undelivered flag) (warnings_of st)"
  "is_pending st warningPortalUnreachable \<Longrightarrow> \<not> is_active st warningPortalUnreachable \<Longrightarrow>
     warnings_of (recovered (portal_up st)) = warn Portal_Answers (warnings_of st)"
  "\<not> (is_pending st warningPortalUnreachable \<and> \<not> is_active st warningPortalUnreachable) \<Longrightarrow>
     warnings_of (portal_up st) = warn Portal_Answers (warnings_of st)"
proof -
  show "warnings_of (failure_recorded st) = warn Portal_Down (warnings_of st)"
    by (auto simp: warnings_of_def failure_recorded_def Let_def portalFailureThreshold_def fun_eq_iff
        is_active_def is_pending_def flag_set_changes)
qed (auto simp: warnings_of_def fun_eq_iff)

text \<open>The warnings the state file holds.\<close>

definition warnings_file :: "'w host \<Rightarrow> agent \<Rightarrow> 'w machine \<Rightarrow> warnings option" where
  "warnings_file h a m =
     (case file_state h (ag_state a) m of Inl err \<Rightarrow> None | Inr st \<Rightarrow> Some (warnings_of st))"

lemma telemetry_files: "mc_files (fst (submitTelemetryWithPolicy h a pv flags m)) = mc_files m"
  by (auto simp: submitTelemetryWithPolicy_def post_signed_def PostJSON_def split: pair_splits
      dest!: outside_machine)

lemma same_files: "mc_files m' = mc_files m \<Longrightarrow> warnings_file h a m' = warnings_file h a m"
  by (simp add: warnings_file_def file_state_def)

lemma saved_warnings:
  assumes "codec_ok h" and "uncut h" and "state_Save h (ag_state a) st m = (m', err)"
  shows "warnings_file h a m' = (if err = None then Some (warnings_of st) else warnings_file h a m)"
  using Save_file [OF assms] warnings_same
  by (auto simp: warnings_file_def file_state_def split: option.splits sum.splits)

text \<open>
  C33: each operation on the state file is a step of that specification. A failed portal, a portal that
  answers and a warning that is raised move the warnings the file holds as \<open>warn\<close> does when the
  operation reports no error; when it reports one, the file is as it was, but for a raised warning that
  could not be delivered, which may be pending.
\<close>

theorem warnings_refined:
  assumes "codec_ok h" and "uncut h" and "state_Load h (ag_state a) m = Inr st"
  shows "(case recordPortalFailure h a m of (m', err) \<Rightarrow>
        warnings_file h a m' = Some ((if err = None then warn Portal_Down else id) (warnings_of st))) \<and>
    (case handlePortalRecovery h a pv m of (m', err) \<Rightarrow>
        warnings_file h a m' = Some ((if err = None then warn Portal_Answers else id) (warnings_of st))) \<and>
    (case markWarning h a pv flag m of (m', err) \<Rightarrow>
        (if err = None then warnings_file h a m' = Some (warn (Delivered flag) (warnings_of st))
         else warnings_file h a m' \<in> {Some (warnings_of st), Some (warn (Undelivered flag) (warnings_of st))}))"
proof -
  have now: "warnings_file h a m = Some (warnings_of st)"
    using Load_file [OF assms(3)] by (simp add: warnings_file_def)
  have sent: "warnings_file h a m1 = Some (warnings_of st)"
    if "submitTelemetryWithPolicy h a pv flags m = (m1, x)" for m1 x flags
    using telemetry_files [of h a pv flags m] same_files [of m1 m h a] that now by simp
  note saved = saved_warnings [OF assms(1,2)]
  have "case recordPortalFailure h a m of (m', err) \<Rightarrow>
      warnings_file h a m' = Some ((if err = None then warn Portal_Down else id) (warnings_of st))"
    using now by (auto simp: recordPortalFailure_def assms(3) warnings_simps(1) simp del: warn.simps dest!: saved)
  moreover have "case handlePortalRecovery h a pv m of (m', err) \<Rightarrow>
      warnings_file h a m' = Some ((if err = None then warn Portal_Answers else id) (warnings_of st))"
  proof -
    obtain m1 x where 1: "submitTelemetryWithPolicy h a pv [warningPortalUnreachable] m = (m1, x)" by fastforce
    obtain m2 y where 2: "state_Save h (ag_state a) (recovered (portal_up st)) m1 = (m2, y)" by fastforce
    obtain m3 z where 3: "state_Save h (ag_state a) (portal_up st) m = (m3, z)" by fastforce
    show ?thesis
      using now sent [OF 1] saved [OF 2] saved [OF 3] warnings_simps(4,5) [of st]
      by (auto simp: recovery_of [OF assms(3)] 1 2 3 simp del: warn.simps split: option.splits)
  qed
  moreover have "case markWarning h a pv flag m of (m', err) \<Rightarrow>
      (if err = None then warnings_file h a m' = Some (warn (Delivered flag) (warnings_of st))
       else warnings_file h a m' \<in> {Some (warnings_of st), Some (warn (Undelivered flag) (warnings_of st))})"
  proof (cases "is_active st flag \<or> is_pending st flag")
    case True
    then have "warn (Delivered flag) (warnings_of st) = warnings_of st" by (auto simp: warnings_of_def)
    with True now show ?thesis by (auto simp: mark_of [OF assms(3)])
  next
    case False
    obtain m1 x where 1: "submitTelemetryWithPolicy h a pv [flag] m = (m1, x)" by fastforce
    obtain m2 y where 2: "state_Save h (ag_state a) (made_pending flag (ensureWarningMaps st)) m1 = (m2, y)"
      by fastforce
    obtain m3 z where 3: "state_Save h (ag_state a) (activated flag (ensureWarningMaps st)) m1 = (m3, z)"
      by fastforce
    show ?thesis
      using False sent [OF 1] saved [OF 2] saved [OF 3] warnings_simps(2,3) [of st flag]
      by (auto simp: mark_of [OF assms(3)] 1 2 3 simp del: warn.simps split: option.splits)
  qed
  ultimately show ?thesis by blast
qed

section \<open>Warnings over whole runs\<close>

text \<open>A machine whose state files are written whole and can be read back.\<close>

locale state_files =
  fixes h :: "'w host" and a :: agent
  assumes codec: "codec_ok h" and whole: "uncut h"

text \<open>A run moves the warnings of the file by steps of the specification.\<close>

definition evolved :: "'w host \<Rightarrow> agent \<Rightarrow> warnings \<Rightarrow> 'w machine \<Rightarrow> bool" where
  "evolved h a ws m \<longleftrightarrow> (\<exists>evs. warnings_file h a m = Some (fold warn evs ws))"

lemma step_warns:
  "state_step a st st' \<Longrightarrow> \<exists>evs. warnings_of st' = fold warn evs (warnings_of st)"
proof (induction rule: state_step.induct)
  case (Policy_Read v)
  have "warnings_of (st\<lparr>gs_AgentKeyFingerprint := ag_fingerprint a, gs_LastPolicyVersion := v\<rparr>) = fold warn [] (warnings_of st)"
    by (simp add: warnings_of_def is_active_def is_pending_def fun_eq_iff)
  then show ?case by blast
qed (metis warnings_simps fold_simps)+

lemma evolved_step: "evolved h a ws m \<Longrightarrow> warnings_file h a m = Some (warnings_of st) \<Longrightarrow>
    warnings_of st' = fold warn evs (warnings_of st) \<Longrightarrow> \<exists>evs. warnings_of st' = fold warn evs ws"
  by (auto simp: evolved_def) (metis fold_append o_apply)

context state_files begin

lemma evolves_saved:
  assumes "evolved h a ws m0" and "state_Load h (ag_state a) m0 = Inr st0"
    and "\<exists>evs. warnings_of st = fold warn evs (warnings_of st0)" and "evolved h a ws m"
  shows "evolved h a ws (fst (state_Save h (ag_state a) st m))"
proof -
  obtain m' err where 1: "state_Save h (ag_state a) st m = (m', err)" by fastforce
  have "warnings_file h a m0 = Some (warnings_of st0)"
    using Load_file [OF assms(2)] by (simp add: warnings_file_def)
  then obtain evs where "warnings_of st = fold warn evs ws" using evolved_step assms(1,3) by blast
  then show ?thesis
    using saved_warnings [OF codec whole 1] assms(4) by (auto simp: 1 evolved_def)
qed

end

sublocale state_files \<subseteq> calls: agent_calls h a "evolved h a ws" for ws
proof
  fix g m
  assume "g \<in> effects h a" "evolved h a ws m"
  then show "evolved h a ws (m\<lparr>mc_world := g (mc_world m)\<rparr>)"
    by (simp add: evolved_def same_files [of "m\<lparr>mc_world := g (mc_world m)\<rparr>" m])
qed (blast intro: evolves_saved step_warns)

lemma beaten_warns: "warnings_of (beaten a st) = fold warn [] (warnings_of st)"
  by (simp add: beaten_def warnings_of_def is_active_def is_pending_def fun_eq_iff)

sublocale state_files \<subseteq> agent_keeps h a "evolved h a ws" for ws
proof
  fix m
  assume m: "evolved h a ws m"
  obtain m' err where 1: "sendHeartbeat h a m = (m', err)" by fastforce
  from calls.heartbeat_until_saved [OF 1 m]
  show "evolved h a ws (fst (sendHeartbeat h a m))"
  proof (elim disjE exE conjE)
    fix st m3
    assume "state_Load h (ag_state a) m = Inr st" "evolved h a ws m3"
      "state_Save h (ag_state a) (beaten a st) m3 = (m', err)"
    with evolves_saved [OF m, of st "beaten a st" m3] show ?thesis
      using beaten_warns by (metis 1 fst_conv)
  qed (simp add: 1)
qed

text \<open>A warning that is active stays active, and one of the agent's own that is pending stays pending.\<close>

lemma warn_settled:
  "w = Active \<or> w = Pending \<and> flag \<noteq> warningPortalUnreachable \<Longrightarrow> ws_status ws flag = w \<Longrightarrow>
    ws_status (fold warn evs ws) flag = w"
proof (induction evs arbitrary: ws)
  case (Cons ev evs)
  then have "ws_status (warn ev ws) flag = w" by (cases ev) (auto simp: Let_def)
  with Cons show ?case by simp
qed simp

context state_files begin

lemma run_evolves: "agent_run h a m m' \<Longrightarrow> evolved h a ws m \<Longrightarrow> evolved h a ws m'"
  by (rule run)

end

text \<open>
  A warning of the agent's own (voting key, certificate, local check) that could not be delivered is
  never sent again: once the state file has it pending, it stays pending through every run of the agent
  and its restarts, and raising it anew touches nothing, so the portal is not told. Likewise a warning
  that was delivered once stays active for ever and is not reported again.
\<close>

theorem pending_never_resent:
  assumes "codec_ok h" and "uncut h" and "file_state h (ag_state a) m = Inr st"
    and "ws_status (warnings_of st) flag = w" and "w \<noteq> Quiet" and "flag \<in> set own_flags" and "agent_run h a m m'"
  shows "(\<exists>st'. file_state h (ag_state a) m' = Inr st' \<and> ws_status (warnings_of st') flag = w) \<and>
    fst (markWarning h a pv flag m') = m'"
proof -
  have own: "flag \<noteq> warningPortalUnreachable"
    using assms(6) by (auto simp: own_flags_def warningPortalUnreachable_def warningVotingKeyExpiryRisk_def
        warningCertificateExpiryRisk_def warningLocalCheckExecFailed_def)
  have files: "state_files h" using assms(1,2) by unfold_locales
  have "evolved h a (warnings_of st) m"
    using assms(3) by (auto simp: evolved_def warnings_file_def intro: exI [of _ "[]"])
  from state_files.run_evolves [OF files assms(7) this]
  obtain st' evs where st': "file_state h (ag_state a) m' = Inr st'" and ev: "warnings_of st' = fold warn evs (warnings_of st)"
    by (auto simp: evolved_def warnings_file_def split: sum.splits)
  have w: "ws_status (warnings_of st') flag = w"
    unfolding ev by (rule warn_settled [OF _ assms(4)]) (use own assms(5) in \<open>cases w; simp\<close>)
  have "fst (markWarning h a pv flag m') = m'"
  proof (cases "state_Load h (ag_state a) m'")
    case (Inr x)
    then have "x = st'" using Load_file st' by fastforce
    then show ?thesis using w assms(5) by (auto simp: mark_of [OF Inr] warnings_of_def split: if_splits)
  qed (simp add: markWarning_def)
  with st' w show ?thesis by blast
qed

end
