(* ===== verification/Link_Properties.thy ===== *)
theory Link_Properties
  imports Delivery Agent_Properties
begin

text \<open>
  Properties of the agent and the portal together: what a run of the agent does to the portal, a heartbeat
  on its way from one state file to the other, and what happens when an answer is lost.
\<close>

section \<open>Runs\<close>


section \<open>A portal that is ahead\<close>

text \<open>The agent's file is at sequence number \<open>n\<close>, and the portal is at or past the next one.\<close>

definition left_behind :: "'w host \<Rightarrow> agent \<Rightarrow> int \<Rightarrow> 'w machine \<Rightarrow> bool" where
  "left_behind h a n m \<longleftrightarrow> (\<exists>st. file_state h (ag_state a) m = Inr st \<and> gs_SequenceNumber st = n)"

lemma left_behind_saved:
  assumes "codec_ok h" and "uncut h" and "left_behind h a n m"
    and "gs_SequenceNumber st = n \<or> snd (state_Save h (ag_state a) st m) \<noteq> None"
  shows "left_behind h a n (fst (state_Save h (ag_state a) st m))"
proof -
  obtain m' err where 1: "state_Save h (ag_state a) st m = (m', err)" by fastforce
  show ?thesis
    using Save_file [OF assms(1,2) 1] assms(3,4)
    by (auto simp: 1 left_behind_def same_state_def file_state_def split: option.splits)
qed

lemma left_behind_calls:
  assumes "codec_ok h" and "uncut h"
  shows "agent_calls h a (left_behind h a n)"
proof
  fix m0 st0 st m
  assume "left_behind h a n m0" "state_Load h (ag_state a) m0 = Inr st0"
    and step: "state_step a st0 st" and m: "left_behind h a n m"
  then have "gs_SequenceNumber st = n"
    using step_sequence [OF step] Load_file by (fastforce simp: left_behind_def)
  then show "left_behind h a n (fst (state_Save h (ag_state a) st m))"
    using left_behind_saved [OF assms m] by blast
qed (simp add: left_behind_def file_state_def)

definition ahead :: "agent \<Rightarrow> int \<Rightarrow> 'p server \<Rightarrow> bool" where
  "ahead a n s \<longleftrightarrow> wf_store (sv_store s) \<and>
     \<not> before (position (sv_store s) (ag_node a)) (ac_EnrollmentGeneration (ag_cfg a), wrap64 (n + 1))"

lemma ahead_reach:
  assumes "ahead a n s" and "reach e s s'"
  shows "ahead a n s'"
proof -
  have wf: "wf_store (sv_store s)" using assms(1) by (simp add: ahead_def)
  note r = reach_changes [OF assms(2) wf]
  from position_changes [OF conjunct1 [OF r] wf, of "ag_node a"] show ?thesis
    using assms(1) r by (auto simp: ahead_def dest: before_trans)
qed

lemma wrap64_int64 [simp]: "int64 (wrap64 n)"
  by (simp add: int64_def wrap64_def)

context portal_link begin

lemma heartbeat_post_refused:
  assumes "PostJSON h (ag_base a) ''/api/v1/agent/heartbeat''
      (payload_json (signed_heartbeat h a (wrap64 (n + 1)) flags t)) m = (m', x)"
    and "ahead a n (portal (mc_world m))" and "int64 (ac_EnrollmentGeneration (ag_cfg a))"
  shows "x \<noteq> None"
proof -
  let ?p = "signed_heartbeat h a (wrap64 (n + 1)) flags t"
  let ?r = "posted ''/api/v1/agent/heartbeat'' (payload_json ?p)"
  have p: "pl_NodeID ?p = ag_node a" "pl_SequenceNumber ?p = wrap64 (n + 1)"
    "pl_EnrollmentGeneration ?p = ac_EnrollmentGeneration (ag_cfg a)"
    by (simp_all add: signed_heartbeat_def heartbeat_New_def Let_def)
  have q: "hp_NodeID (portal_payload ?p) = ag_node a" "hp_SequenceNumber (portal_payload ?p) = wrap64 (n + 1)"
    "hp_EnrollmentGeneration (portal_payload ?p) = ac_EnrollmentGeneration (ag_cfg a)"
    unfolding portal_payload_def by (simp_all add: p)
  have d: "decode_heartbeat (rq_Body ?r) = Inr (portal_payload ?p)"
    unfolding posted_simps by (rule decode_payload) (simp_all only: p wrap64_int64 assms(3))
  have refused: "rs_Status (snd (Handler e clk ?r s1)) \<in> {400, 401, 404, 409}"
    if "reach e (portal (mc_world m)) s1" for clk s1
    using heartbeat_behind [of ?r "portal_payload ?p" s1 e clk] d ahead_reach [OF assms(2) that] q
    by (simp add: ahead_def)
  obtain m1 y where 1: "outside (\<lambda>v. ho_do h v ''POST'' (trim_right_slash (ag_base a) @ ''/api/v1/agent/heartbeat'')
      (payload_json ?p)) m = (m1, y)" by fastforce
  have y: "y = snd (ho_do h (mc_world m) ''POST'' (trim_right_slash (ag_base a) @ ''/api/v1/agent/heartbeat'') (payload_json ?p))"
    using 1 by (auto simp: outside_def split: prod.splits)
  from post [of "''/api/v1/agent/heartbeat''" "payload_json ?p" "mc_world m"]
  have "isl y \<or> (\<exists>code line. y = Inr (code, line) \<and> code \<in> {400, 401, 404, 409})"
    unfolding y [symmetric] served_def using refused by (cases y) fastforce+
  then show ?thesis using assms(1) by (auto simp: PostJSON_def 1 split: sum.splits prod.splits)
qed

text \<open>An agent that is behind stays behind: its heartbeats fail, and nothing else moves its sequence number.\<close>

definition stuck :: "int \<Rightarrow> 'w machine \<Rightarrow> bool" where
  "stuck n m \<longleftrightarrow> left_behind h a n m \<and> ahead a n (portal (mc_world m))"

lemma stuck_calls:
  assumes "codec_ok h" and "uncut h"
  shows "agent_calls h a (stuck n)"
proof
  fix g m
  assume g: "g \<in> effects h a" and m: "stuck n m"
  show "stuck n (m\<lparr>mc_world := g (mc_world m)\<rparr>)"
    using agent_calls.call [OF left_behind_calls [OF assms] g, of n m] m
      ahead_reach [OF _ effect_reach [OF g, of "mc_world m"]] by (simp add: stuck_def)
next
  fix m0 st0 st m
  assume m0: "stuck n m0" and st0: "state_Load h (ag_state a) m0 = Inr st0" and step: "state_step a st0 st" and m: "stuck n m"
  have "reach e (portal (mc_world m)) (portal (mc_world (fst (state_Save h (ag_state a) st m))))"
    using Save_reach [of "portal (mc_world m)" m] by (simp add: portal_at_def reach.Start)
  then show "stuck n (fst (state_Save h (ag_state a) st m))"
    using agent_calls.save [OF left_behind_calls [OF assms] _ st0 step, of n m] m0 m ahead_reach
    by (auto simp: stuck_def)
qed

lemma stuck_heartbeat:
  assumes "codec_ok h" and "uncut h" and "int64 (ac_EnrollmentGeneration (ag_cfg a))"
    and "stuck n m" and "sendHeartbeat h a m = (m', err)"
  shows "stuck n m' \<and> err \<noteq> None"
proof (cases "state_Load h (ag_state a) m")
  case (Inl x)
  then show ?thesis using assms(4,5) by (auto simp: sendHeartbeat_def)
next
  case (Inr st)
  note calls = stuck_calls [OF assms(1,2), of n]
  note quiet = agent_calls.is_quiet [OF calls]
  have n: "gs_SequenceNumber st = n"
    using Load_file [OF Inr] assms(4) by (auto simp: stuck_def left_behind_def)
  obtain m1 flags where 1: "collectLocalObservationFlags h a m = (m1, flags)" by fastforce
  obtain m2 t where 2: "outside (ho_now h) m1 = (m2, t)" by fastforce
  let ?p = "payload_json (signed_heartbeat h a (wrap64 (n + 1)) flags t)"
  obtain m3 x where 3: "PostJSON h (ag_base a) ''/api/v1/agent/heartbeat'' ?p m2 = (m3, x)" by fastforce
  have m2: "stuck n m2"
    by (rule agent_quiet.outside_now [OF quiet 2 agent_quiet.collect [OF quiet 1 assms(4)]])
  have "stuck n m3" by (rule agent_calls.Post [OF calls 3 m2])
  moreover have "x \<noteq> None"
    using heartbeat_post_refused [OF 3 _ assms(3)] m2 by (simp add: stuck_def)
  ultimately show ?thesis
    using assms(4,5) 1 2 3 Inr n by (auto simp: sendHeartbeat_def Let_def split: if_splits)
qed

lemma stuck_keeps:
  assumes "codec_ok h" and "uncut h" and "int64 (ac_EnrollmentGeneration (ag_cfg a))"
  shows "agent_keeps h a (stuck n)"
proof (rule agent_keeps.intro [OF stuck_calls [OF assms(1,2)]], rule agent_keeps_axioms.intro)
  fix m
  assume m: "stuck n m"
  obtain m' err where 1: "sendHeartbeat h a m = (m', err)" by fastforce
  show "stuck n (fst (sendHeartbeat h a m))" using stuck_heartbeat [OF assms m 1] by (simp add: 1)
qed

lemma stuck_attempts:
  assumes "codec_ok h" and "uncut h" and "int64 (ac_EnrollmentGeneration (ag_cfg a))" and "stuck n m"
  shows "snd (heartbeat_attempts h a (Suc k) backoff m) \<noteq> None"
  using assms(4)
proof (induction k arbitrary: backoff m)
  case 0
  obtain m1 x where 1: "sendHeartbeat h a m = (m1, x)" by fastforce
  then show ?case using stuck_heartbeat [OF assms(1-3) 0 1] by auto
next
  case (Suc k)
  obtain m1 x where 1: "sendHeartbeat h a m = (m1, x)" by fastforce
  obtain m2 y where 2: "outside (\<lambda>v. ho_wait h v backoff) m1 = (m2, y)" by fastforce
  have m1: "stuck n m1" "x \<noteq> None" using stuck_heartbeat [OF assms(1-3) Suc.prems 1] by auto
  have "stuck n m2" by (rule agent_quiet.outside_wait [OF agent_calls.is_quiet [OF stuck_calls [OF assms(1,2)]] 2 m1(1)])
  then show ?case using Suc.IH m1(2) by (cases y) (auto simp: 1 2 simp del: heartbeat_attempts.simps(2)
    simp: heartbeat_attempts.simps(2) [of h a "Suc k"])
qed

end

text \<open>
  C31: an agent that misses one answer never gets through again. When a heartbeat was accepted by the
  portal (the node's position is the heartbeat's) but the agent saw an error, because the answer was lost
  or because its state file could not be written, then after any further run of the agent, restarts and
  enrollments included, the file still has the old sequence number and every heartbeat, with all its
  retries, fails.
\<close>

theorem lost_answer_locks_out:
  assumes "portal_link e h a portal" and "codec_ok h" and "uncut h"
    and "wf_store (sv_store (portal (mc_world m)))"
    and "file_state h (ag_state a) m = Inr st" and "int64 (ac_EnrollmentGeneration (ag_cfg a))"
    and "sendHeartbeat h a m = (m1, Some err)"
    and "position (sv_store (portal (mc_world m1))) (ag_node a) =
      (ac_EnrollmentGeneration (ag_cfg a), wrap64 (gs_SequenceNumber st + 1))"
    and "agent_run h a m1 m2"
  shows "(\<exists>st'. file_state h (ag_state a) m2 = Inr st' \<and> gs_SequenceNumber st' = gs_SequenceNumber st) \<and>
    snd (sendHeartbeatWithRetry h a m2) \<noteq> None"
proof -
  let ?n = "gs_SequenceNumber st"
  note keeps = portal_link.stuck_keeps [OF assms(1-3,6), of ?n]
  have m: "left_behind h a ?n m" using assms(5) by (simp add: left_behind_def)
  have "left_behind h a ?n m1"
    using agent_calls.heartbeat_until_saved [OF left_behind_calls [OF assms(2,3)] assms(7) m]
      left_behind_saved [OF assms(2,3)] by (metis fst_conv option.distinct(1) snd_conv)
  moreover have "reach e (portal (mc_world m)) (portal (mc_world m1))"
    by (rule portal_link.heartbeat_reach [OF assms(1,7)])
  then have "ahead a ?n (portal (mc_world m1))"
    using reach_changes [OF _ assms(4)] assms(8) by (auto simp: ahead_def)
  ultimately have "portal_link.stuck h a portal ?n m1" by (simp add: portal_link.stuck_def [OF assms(1)])
  then have m2: "portal_link.stuck h a portal ?n m2" by (rule agent_keeps.run [OF keeps assms(9)])
  then have "left_behind h a ?n m2" by (simp add: portal_link.stuck_def [OF assms(1)])
  moreover have "snd (sendHeartbeatWithRetry h a m2) \<noteq> None"
    using portal_link.stuck_attempts [OF assms(1-3,6) m2, of 2 second]
    by (simp add: sendHeartbeatWithRetry_def maxHeartbeatAttempts_def numeral_eq_Suc)
  ultimately show ?thesis by (auto simp: left_behind_def)
qed

end
