(* ===== verification/Agent_Examples.thy ===== *)
theory Agent_Examples
  imports Link_Properties "HOL-Library.Countable"
begin

text \<open>
  A machine for the witnesses of the agent's properties: a state file in a unary code, a clock that stands
  at 2026-04-07T11:00:00Z, a node API that does not answer, and a network that loses an answer when the
  world says so, and not the next one.
\<close>

definition ex_encode :: "agent_state \<Rightarrow> goerr + string" where
  "ex_encode st = Inr (replicate (to_nat (gs_SequenceNumber st, gs_LastPolicyVersion st, gs_AgentKeyFingerprint st,
     gs_ConsecutivePortalFailures st, gs_ActiveWarnings st, gs_PendingWarnings st)) CHR ''1'')"

definition ex_decode :: "string \<Rightarrow> goerr + agent_state" where
  "ex_decode data = (case from_nat (length data) of (n, v, fp, fails, active, pending) \<Rightarrow>
     Inr \<lparr>gs_SequenceNumber = n, gs_LastPolicyVersion = v, gs_AgentKeyFingerprint = fp,
          gs_ConsecutivePortalFailures = fails, gs_ActiveWarnings = active, gs_PendingWarnings = pending\<rparr>)"

lemma ex_decode_encode: "ex_encode st = Inr data \<Longrightarrow> ex_decode data = Inr st"
  by (auto simp: ex_encode_def ex_decode_def)

definition ex_api :: symbol_api where
  "ex_api = \<lparr>sa_node_info = Inl (Msg []), sa_chain_info = Inl (Msg []), sa_properties = Inl (Msg []),
     sa_account = (\<lambda>_. Inl (Msg []))\<rparr>"

text \<open>The world is true when the next answer gets lost; \<open>stop\<close> says whether waits are told to stop.\<close>

definition ex_host :: "bool host" where
  "ex_host =
     \<lparr>ho_read_fault = (\<lambda>w path. None), ho_mkdir = (\<lambda>w path. (w, None)), ho_write = (\<lambda>w path. (w, Written)),
      ho_do = (\<lambda>w verb url doc. (False, if w then Inl (Msg ''timeout'') else Inr (200, ''200 OK''))),
      ho_policy = (\<lambda>w url q. (w, Inr ((200, ''200 OK''), Inl (Msg [])))),
      ho_symbol = (\<lambda>w. (w, ex_api)), ho_not_after = (\<lambda>w server port. (w, None)),
      ho_print = (\<lambda>w msg. (w, None)), ho_now = (\<lambda>w. (w, ex_now)), ho_wait = (\<lambda>w d. (w, None)),
      ho_encode = ex_encode, ho_decode = ex_decode, ho_url = (\<lambda>_. Inl (Msg ''bad url'')),
      ho_sign = (\<lambda>k d. ''sig''), ho_sha256 = id\<rparr>"

definition ex_reliable :: "bool host" where
  "ex_reliable = ex_host\<lparr>ho_do := (\<lambda>w verb url doc. (w, Inr (200, ''200 OK'')))\<rparr>"

lemma ex_host_simps [simp]:
  "codec_ok ex_host" "uncut ex_host" "codec_ok ex_reliable" "uncut ex_reliable"
  by (auto simp: codec_ok_def uncut_def ex_host_def ex_reliable_def same_state_def dest: ex_decode_encode)

lemma ex_steady [simp]: "steady ex_env" "no_loss ex_reliable" "writable ex_reliable"
  by (simp_all add: steady_def no_loss_def writable_def ex_host_def ex_reliable_def ex_env_def ex_outside_def ex_encode_def)

definition ex_cfg :: "string \<Rightarrow> agent_config" where
  "ex_cfg n =
     \<lparr>ac_NodeID = n, ac_PortalBaseURL = ''http://portal/'', ac_AgentKeyPath = ''key'',
      ac_AgentPublicKeyPath = ''key.pub'', ac_MonitoredEndpoint = ''http://node'', ac_StatePath = ''state'',
      ac_TempDir = ''tmp'', ac_RequestTimeoutSeconds = 5, ac_HeartbeatJitterSecondsMax = 0,
      ac_AgentVersion = ''0.1.0'', ac_EnrollmentGeneration = 1\<rparr>"

definition ex_ag :: "string \<Rightarrow> string \<Rightarrow> agent" where
  "ex_ag n fp = \<lparr>ag_cfg = ex_cfg n, ag_privateKey = ''secret'', ag_publicKey = replicate 32 CHR 0x00,
     ag_fingerprint = fp\<rparr>"

lemma ex_ag_simps [simp]:
  "ag_node (ex_ag n fp) = n" "ag_fingerprint (ex_ag n fp) = fp" "ag_state (ex_ag n fp) = ''state''"
  "ag_publicKey (ex_ag n fp) = replicate 32 CHR 0x00" "ac_EnrollmentGeneration (ag_cfg (ex_ag n fp)) = 1"
  by (simp_all add: ex_ag_def ex_cfg_def)

lemma ex_public: "hex_encode (replicate 32 CHR 0x00) = ex_key"
  by code_simp

lemma ex_key_pair [simp]: "key_pair ex_env ex_host (ex_ag n fp)" "key_pair ex_env ex_reliable (ex_ag n fp)"
  by (simp_all add: key_pair_def ex_env_def ex_outside_def ex_host_def ex_reliable_def)

lemma ex_enrolled: "enrolled_as (ex_ag n ''f'') ex_agent"
  by (simp add: enrolled_as_def ex_public ex_agent_def)

lemma ex_era [simp]: "era_clock ex_clk = ex_clk"
  by (rule era_clock_id [OF ex_clk_ok])

lemma ex_now_on_time: "on_time (env_cfg ex_env) ex_clk ex_now"
  by code_simp

text \<open>The agent of node \<open>a\<close>, on a machine without a state file, linked to the example portal.\<close>

definition ex_machine :: "bool \<Rightarrow> ((recorder \<times> store option) server \<times> bool) machine" where
  "ex_machine lossy = \<lparr>mc_files = (\<lambda>_. None), mc_world = (ex_portal, lossy)\<rparr>"

abbreviation ex_a :: agent where "ex_a \<equiv> ex_ag ''a'' ''f''"

lemma ex_load: "state_Load (link ex_env ex_clk a ex_reliable) path (ex_machine l) = Inr zero_state"
  "file_state (link ex_env ex_clk a ex_host) path (ex_machine l) = Inr zero_state"
  by (simp_all add: state_Load_def file_state_def ex_machine_def linked_def ex_reliable_def ex_host_def)

theorem heartbeat_delivered_witness:
  "position (sv_store (fst (mc_world (fst (sendHeartbeat (link ex_env ex_clk ex_a ex_reliable) ex_a (ex_machine False))))))
     ''a'' = (1, 1)"
proof -
  let ?h = "link ex_env ex_clk ex_a ex_reliable"
  obtain m' err where 1: "sendHeartbeat ?h ex_a (ex_machine False) = (m', err)" by fastforce
  have node: "GetNode (sv_store (fst (mc_world (ex_machine False)))) (ag_node ex_a) = Some ex_agent"
    by (simp add: ex_machine_def ex_portal_agent)
  have gen: "nd_EnrollmentGeneration ex_agent = ac_EnrollmentGeneration (ag_cfg ex_a)"
    "int64 (ac_EnrollmentGeneration (ag_cfg ex_a))" "nd_LastHeartbeatSequence ex_agent < 1"
    by (simp_all add: ex_agent_def ex_node_def zero_node_def int64_def)
  have now: "on_time (env_cfg ex_env) (era_clock ex_clk) (snd (ho_now ex_reliable w))" for w
    using ex_now_on_time by (simp add: ex_reliable_def ex_host_def)
  have st: "gs_AgentKeyFingerprint zero_state \<in> {[], ag_fingerprint ex_a}" "1 = wrap64 (gs_SequenceNumber zero_state + 1)"
    by (simp_all add: zero_state_def wrap64_def)
  have wf: "wf_store (sv_store (fst (mc_world (ex_machine False))))" by (simp add: ex_machine_def ex_portal_wf)
  from heartbeat_delivered [OF ex_key_pair(2) ex_steady(1) ex_host_simps(3,4) wf node ex_enrolled gen(1,2) now ex_load(1) st gen(3) 1]
  show ?thesis by (simp add: 1)
qed


text \<open>The first answer is lost.\<close>

lemma ex_silent: "\<exists>err. HasVotingKeyExpiryRisk ex_api window = Inl err"
  by (simp add: HasVotingKeyExpiryRisk_def ex_api_def fetchNodePublicKey_def getJSON_def)

lemma ex_host_calls:
  "ho_symbol ex_host w = (w, ex_api)" "ho_url ex_host u = Inl (Msg ''bad url'')" "ho_now ex_host w = (w, ex_now)"
  "ho_do ex_host w verb url doc = (False, if w then Inl (Msg ''timeout'') else Inr (200, ''200 OK''))"
  "ho_mkdir ex_host w path = (w, None)" "ho_write ex_host w path = (w, Written)" "ho_encode ex_host = ex_encode"
  by (simp_all add: ex_host_def)

lemma ex_answer_lost: "snd (sendHeartbeat (link ex_env ex_clk ex_a ex_host) ex_a (ex_machine True)) = Some (Msg ''timeout'')"
proof -
  let ?h = "link ex_env ex_clk ex_a ex_host" let ?m = "ex_machine True"
  have l: "state_Load ?h path ?m = Inr zero_state" for path
    by (simp add: state_Load_def linked_def ex_host_def ex_machine_def)
  obtain err where err: "HasVotingKeyExpiryRisk ex_api votingKeyRiskWindow = Inl err" using ex_silent by blast
  have still: "outside (ho_symbol ?h) ?m = (?m, ex_api)" "outside (ho_now ?h) ?m = (?m, ex_now)"
    by (simp_all add: outside_def beside_def ex_machine_def ex_host_calls)
  have c: "\<exists>flags. collectLocalObservationFlags ?h ex_a ?m = (?m, flags)"
    by (auto simp: collectLocalObservationFlags_def still l err Let_def ex_host_calls simp del: linked_simps(2))
  have post: "snd (PostJSON ?h b path doc ?m) = Some (Msg ''timeout'')" for b path doc
    by (auto simp: PostJSON_def outside_def ex_machine_def serve_post_def ex_host_calls beside_def
        split: prod.splits)
  obtain flags where flags: "collectLocalObservationFlags ?h ex_a ?m = (?m, flags)" using c by blast
  obtain m3 where m3: "PostJSON ?h (ag_base ex_a) ''/api/v1/agent/heartbeat'' (payload_json (signed_heartbeat ?h ex_a
      (wrap64 (gs_SequenceNumber zero_state + 1)) flags ex_now)) ?m = (m3, Some (Msg ''timeout''))"
    using post by (metis prod.collapse)
  have "gs_AgentKeyFingerprint zero_state = []" by (simp add: zero_state_def)
  then show ?thesis
    by (simp add: sendHeartbeat_def l still flags m3 Let_def del: linked_simps(1))
qed

lemma ex_lost:
  obtains m1 where "sendHeartbeat (link ex_env ex_clk ex_a ex_host) ex_a (ex_machine True) = (m1, Some (Msg ''timeout''))"
    "position (sv_store (fst (mc_world m1))) ''a'' = (1, 1)"
proof -
  let ?h = "link ex_env ex_clk ex_a ex_host"
  obtain m' err where 1: "sendHeartbeat ?h ex_a (ex_machine True) = (m', err)" by fastforce
  have node: "GetNode (sv_store (fst (mc_world (ex_machine True)))) (ag_node ex_a) = Some ex_agent"
    by (simp add: ex_machine_def ex_portal_agent)
  have gen: "nd_EnrollmentGeneration ex_agent = ac_EnrollmentGeneration (ag_cfg ex_a)"
    "int64 (ac_EnrollmentGeneration (ag_cfg ex_a))" "nd_LastHeartbeatSequence ex_agent < 1"
    by (simp_all add: ex_agent_def ex_node_def zero_node_def int64_def)
  have now: "on_time (env_cfg ex_env) (era_clock ex_clk) (snd (ho_now ex_host w))" for w
    using ex_now_on_time by (simp add: ex_host_def)
  have st: "gs_AgentKeyFingerprint zero_state \<in> {[], ag_fingerprint ex_a}" "1 = wrap64 (gs_SequenceNumber zero_state + 1)"
    by (simp_all add: zero_state_def wrap64_def)
  have wf: "wf_store (sv_store (fst (mc_world (ex_machine True))))" by (simp add: ex_machine_def ex_portal_wf)
  have load: "state_Load ?h (ag_state ex_a) (ex_machine True) = Inr zero_state"
    by (simp add: state_Load_def linked_def ex_host_def ex_machine_def)
  obtain m3 x where m3: "position (sv_store (fst (mc_world m3))) (ag_node ex_a) = (ac_EnrollmentGeneration (ag_cfg ex_a), 1)"
    and res: "(m', err) = (case x of Some y \<Rightarrow> (m3, Some y) | None \<Rightarrow> state_Save ?h (ag_state ex_a)
        (zero_state\<lparr>gs_SequenceNumber := 1, gs_AgentKeyFingerprint := ag_fingerprint ex_a\<rparr>) m3)"
    using heartbeat_at_portal [OF ex_key_pair(1) ex_steady(1) wf node ex_enrolled gen(1,2) now load st gen(3) 1] by blast
  have "fst (mc_world m') = fst (mc_world m3)"
    using res Save_server [of ex_env ex_clk ex_a ex_host] by (cases x) (auto dest: sym)
  with m3 show thesis using that 1 ex_answer_lost by simp
qed

theorem lost_answer_locks_out_witness:
  "\<exists>m1. position (sv_store (fst (mc_world m1))) ''a'' = (1, 1) \<and>
     snd (sendHeartbeatWithRetry (link ex_env ex_clk ex_a ex_host) ex_a m1) \<noteq> None"
proof -
  let ?h = "link ex_env ex_clk ex_a ex_host"
  obtain m1 where m1: "sendHeartbeat ?h ex_a (ex_machine True) = (m1, Some (Msg ''timeout''))"
    "position (sv_store (fst (mc_world m1))) ''a'' = (1, 1)" by (rule ex_lost)
  have wf: "wf_store (sv_store (fst (mc_world (ex_machine True))))" by (simp add: ex_machine_def ex_portal_wf)
  have c: "codec_ok ?h" "uncut ?h" by simp_all
  have gen: "int64 (ac_EnrollmentGeneration (ag_cfg ex_a))" by (simp add: int64_def)
  have pos: "position (sv_store (fst (mc_world m1))) (ag_node ex_a) =
      (ac_EnrollmentGeneration (ag_cfg ex_a), wrap64 (gs_SequenceNumber zero_state + 1))"
    using m1(2) by (simp add: zero_state_def wrap64_def)
  from lost_answer_locks_out [OF linked.portal_link_axioms c wf ex_load(2) gen m1(1) pos agent_run.Begin] m1(2)
  show ?thesis by blast
qed

text \<open>The agent of node \<open>b\<close>, which has asked for a challenge, enrolls.\<close>

abbreviation ex_b :: agent where "ex_b \<equiv> ex_ag ''b'' (Fingerprint ex_reliable (replicate 32 CHR 0x00))"

theorem agent_enrolls_witness:
  "snd (agent_Enroll (link ex_env ex_later ex_b ex_reliable) ex_b ex_issued
     \<lparr>mc_files = (\<lambda>_. None), mc_world = (ex_asked, False)\<rparr>) = None"
proof -
  let ?m = "\<lparr>mc_files = (\<lambda>_. None), mc_world = (ex_asked, False)\<rparr> :: ((recorder \<times> store option) server \<times> bool) machine"
  let ?ch = "new_challenge (env_cfg ex_env) ex_now ''b''"
  obtain m' err where 1: "agent_Enroll (link ex_env ex_later ex_b ex_reliable) ex_b ex_issued ?m = (m', err)" by fastforce
  have sha: "out_sha256 (env_out ex_env) = ho_sha256 ex_reliable"
    by (simp add: ex_env_def ex_outside_def ex_reliable_def ex_host_def)
  have fp: "ag_fingerprint ex_b = Fingerprint ex_reliable (ag_publicKey ex_b)" by simp
  have wf: "wf_store (sv_store (fst (mc_world ?m)))" by (simp add: ex_asked_wf)
  have st: "sv_store ex_asked = SaveEnrollmentChallenge ?ch (sv_store ex_portal)"
  proof -
    have "challenge_check ex_ask (sv_store ex_portal) = Inr ''b''" by code_simp
    then show ?thesis
      by (simp add: ex_asked_def Handler_def serve_route_def handleEnrollmentChallenge_def Let_def ex_clk_def)
  qed
  have node: "GetNode (sv_store (fst (mc_world ?m))) (ag_node ex_b) = Some (ex_node ''b'')"
    by (simp add: st GetNode_def SaveEnrollmentChallenge_def ex_portal_def SaveNode_def New_Store_def ex_node_def
        ex_agent_def)
  have ch: "GetEnrollmentChallenge (sv_store (fst (mc_world ?m))) ex_issued = Some ?ch"
    by (simp add: st GetEnrollmentChallenge_def SaveEnrollmentChallenge_def new_challenge_def ex_issued_def)
  have chf: "ec_NodeID ?ch = ag_node ex_b" "ec_UsedAt ?ch = []" by (simp_all add: new_challenge_def)
  have exp: "parse_rfc3339 (ec_ExpiresAt ?ch) = Some (ex_now + 10 * minute)" by code_simp
  have time: "era_clock ex_later At_Enroll_Check < ex_now + 10 * minute"
    unfolding era_clock_id [OF ex_later_ok] by (simp add: ex_later_def duration_defs)
  have ne: "ag_node ex_b \<noteq> []" "ex_issued \<noteq> []" by (simp_all add: ex_issued_def)
  from agent_enrolls [OF ex_key_pair(2) ex_steady(1,2) sha fp wf node ne(1) ch ne(2) chf exp time 1]
  show ?thesis by (simp add: 1)
qed

theorem reports_accepted_witness:
  "telemetry_check ex_env ex_clk (posted [] (map_json (signed ex_host ex_a
     (telemetry_payload ex_a ex_now ''v1'' [''portal_unreachable''])))) (sv_store ex_portal) =
   Inr (''a'', format_rfc3339 ex_now, [JStr ''portal_unreachable''])"
proof -
  have node: "GetNode (sv_store ex_portal) (ag_node ex_a) = Some ex_agent" by (simp add: ex_portal_agent)
  have v: "po_PolicyVersion (env_policy ex_env) = ''v1''" by (simp add: ex_env_def ex_policy_def)
  from reports_accepted [OF ex_key_pair(1) node ex_enrolled ex_now_on_time,
      of "[''portal_unreachable'']" "''id''" "''recheck''" "[]" "''v1''"] v
  show ?thesis by simp
qed

section \<open>Warnings\<close>

definition ex_alone :: "bool machine" where "ex_alone = \<lparr>mc_files = (\<lambda>_. None), mc_world = False\<rparr>"

theorem warnings_refined_witness:
  "warnings_file ex_host ex_a (fst (recordPortalFailure ex_host ex_a ex_alone)) = Some (warn Portal_Down (warnings_of zero_state))"
proof -
  have 1: "state_Load ex_host (ag_state ex_a) ex_alone = Inr zero_state"
    by (simp add: state_Load_def ex_alone_def ex_host_def)
  have "snd (recordPortalFailure ex_host ex_a ex_alone) = None"
    by (simp add: recordPortalFailure_def 1 [simplified] state_Save_def WriteFile_def outside_def ex_host_calls ex_encode_def)
  then show ?thesis
    using warnings_refined [OF ex_host_simps(1,2) 1, of undefined undefined] by (auto simp: case_prod_beta)
qed

text \<open>A file in which the certificate warning is pending.\<close>

definition ex_pending :: agent_state where
  "ex_pending = zero_state\<lparr>gs_PendingWarnings := Some [(warningCertificateExpiryRisk, True)]\<rparr>"

definition ex_stale :: "bool machine" where
  "ex_stale = \<lparr>mc_files = (\<lambda>_. case ex_encode ex_pending of Inr data \<Rightarrow> Some data | Inl _ \<Rightarrow> None), mc_world = False\<rparr>"

theorem pending_never_resent_witness:
  "fst (markWarning ex_host ex_a ''v1'' warningCertificateExpiryRisk (fst (loop_turn ex_host ex_a second ''v1'' ex_stale)))
     = fst (loop_turn ex_host ex_a second ''v1'' ex_stale)"
proof -
  have f: "file_state ex_host (ag_state ex_a) ex_stale = Inr ex_pending"
    using ex_decode_encode by (simp add: file_state_def ex_stale_def ex_host_def ex_encode_def)
  have s: "ws_status (warnings_of ex_pending) warningCertificateExpiryRisk = Pending"
    by (simp add: warnings_of_def is_active_def is_pending_def flag_set_def ex_pending_def zero_state_def)
  have "Pending \<noteq> Quiet" "warningCertificateExpiryRisk \<in> set own_flags" by (simp_all add: own_flags_def)
  from pending_never_resent [OF ex_host_simps(1,2) f s this agent_run.Turn [OF agent_run.Begin]]
  show ?thesis by blast
qed

end
