(* ===== verification/Command_Properties.thy ===== *)
theory Command_Properties
  imports Commands Client_Properties Agent_Examples
begin

text \<open>
  The commands: a generated key pair is one the agent can load, what a failed generation leaves, and how
  the probe worker's loop counts and ends.
\<close>

section \<open>Paths\<close>

lemma parts_not_Nil [simp]: "parts xs \<noteq> []"
  by (induction xs) (auto split: list.split)

lemma parts_append: "parts (xs @ CHR ''/'' # ys) = parts xs @ parts ys"
proof (induction xs)
  case (Cons c cs)
  then show ?case by (cases "parts cs") auto
qed simp

definition plain_name :: "string \<Rightarrow> bool" where
  "plain_name name \<longleftrightarrow> name \<notin> {[], ''.'', ''..''} \<and> CHR ''/'' \<notin> set name"

lemma parts_plain: "CHR ''/'' \<notin> set name \<Longrightarrow> parts name = [name]"
  by (induction name) auto

lemma clean_parts_append:
  "plain_name name \<Longrightarrow> clean_parts rooted done (ps @ [name]) = clean_parts rooted done ps @ [name]"
  by (induction rooted "done" ps rule: clean_parts.induct) (auto simp: plain_name_def split: list.split)

lemma with_slashes_append:
  "with_slashes (ps @ [p]) = (if ps = [] then [] else with_slashes ps @ ''/'') @ p"
  by (induction ps rule: with_slashes.induct) auto

text \<open>Joined to one directory, plain names differ only in themselves.\<close>

lemma path_Join_plain:
  assumes "dir \<noteq> []"
  obtains pre where "\<forall>name. plain_name name \<longrightarrow> path_Join dir name = pre @ name"
proof
  let ?rooted = "has_prefix (dir @ ''/'') ''/''"
  let ?ps = "clean_parts ?rooted [] (parts dir)"
  let ?pre = "(if ?rooted then ''/'' else []) @ (if ?ps = [] then [] else with_slashes ?ps @ ''/'')"
  show "\<forall>name. plain_name name \<longrightarrow> path_Join dir name = ?pre @ name"
  proof (intro allI impI)
    fix name
    assume n: "plain_name name"
    have r: "has_prefix (dir @ CHR ''/'' # name) ''/'' = ?rooted" using assms by (cases dir) (simp_all add: has_prefix_def)
    have "parts (dir @ CHR ''/'' # name) = parts dir @ [name]"
      using n by (simp add: parts_append parts_plain plain_name_def)
    then have "clean_parts ?rooted [] (parts (dir @ CHR ''/'' # name)) = ?ps @ [name]"
      using clean_parts_append [OF n] by simp
    moreover have "name \<noteq> []" using n by (simp add: plain_name_def)
    ultimately show "path_Join dir name = ?pre @ name"
      using assms unfolding path_Join_def path_Clean_def Let_def append_Cons append_Nil r
      by (simp add: with_slashes_append r)
  qed
qed

abbreviation private_path :: "string \<Rightarrow> string" where "private_path dir \<equiv> path_Join dir ''agent_private_key.pem''"
abbreviation public_path :: "string \<Rightarrow> string" where "public_path dir \<equiv> path_Join dir ''agent_public_key.pem''"

lemma key_paths_differ: "dir \<noteq> [] \<Longrightarrow> private_path dir \<noteq> public_path dir"
  by (erule path_Join_plain) (auto simp: plain_name_def)

section \<open>Keys\<close>

text \<open>What the key codecs promise: what is encoded is decoded.\<close>

definition key_codec :: "'w agent_kit \<Rightarrow> bool" where
  "key_codec k \<longleftrightarrow> (\<forall>t der. kt_unpem k (kt_pem k t der) = Some der) \<and>
     (\<forall>key der. kt_pkcs8 k key = Inr der \<longrightarrow> kt_parse_pkcs8 k der = Inr (Ed25519_Key key)) \<and>
     (\<forall>key der. kt_pkix k key = Inr der \<longrightarrow> kt_parse_pkix k der = Inr (Ed25519_Key key))"

lemma outside_eq: "outside f m = (m', x) \<Longrightarrow> mc_files m' = mc_files m"
  using outside_files [of f m] by simp

lemma writePEMFile_files:
  assumes "writePEMFile h k path t der m = (m', err)"
  shows "p \<noteq> path \<Longrightarrow> mc_files m' p = mc_files m p"
    and "err = None \<Longrightarrow> mc_files m' path = Some (kt_pem k t der)"
    and "err = Some x \<Longrightarrow> mc_files m' path = mc_files m path \<or> x = Field_Error (''write '' @ path) []"
  using assms by (auto simp: writePEMFile_def dest: outside_eq split: prod.splits write_outcome.splits)

text \<open>A generation stops before it writes, or at the private key, or gets to the public key.\<close>

lemma generation_cases:
  assumes "GenerateAndWriteKeyPair h k dir m = (m', r)" and "dir \<noteq> []"
  obtains (Before) err where "r = Inl err" "mc_files m' = mc_files m"
  | (Private) m2 der err where "mc_files m2 = mc_files m" "r = Inl err"
      "writePEMFile h k (private_path dir) ''PRIVATE KEY'' der m2 = (m', Some err)"
  | (Public) w m2 priv pub der der' m3 err where "mc_files m2 = mc_files m" "snd (kt_generate k w) = Inr (pub, priv)"
      "kt_pkcs8 k priv = Inr der" "kt_pkix k pub = Inr der'"
      "writePEMFile h k (private_path dir) ''PRIVATE KEY'' der m2 = (m3, None)"
      "writePEMFile h k (public_path dir) ''PUBLIC KEY'' der' m3 = (m', err)"
      "r = (case err of None \<Rightarrow> Inr (private_path dir, public_path dir) | Some x \<Rightarrow> Inl x)"
proof -
  obtain m1 e1 where 1: "outside (\<lambda>w. kt_mkdir k w dir) m = (m1, e1)" by (cases "outside (\<lambda>w. kt_mkdir k w dir) m")
  obtain m2 g where 2: "outside (kt_generate k) m1 = (m2, g)" by (cases "outside (kt_generate k) m1")
  note files = outside_eq [OF 1] outside_eq [OF 2]
  show thesis
  proof (cases "e1 = None \<and> (\<exists>pub priv der der'. g = Inr (pub, priv) \<and> kt_pkcs8 k priv = Inr der \<and> kt_pkix k pub = Inr der')")
    case False
    then show thesis using assms files
      by (intro Before [of "projl r"]) (auto simp: GenerateAndWriteKeyPair_def 1 2 split: option.splits sum.splits)
  next
    case True
    then obtain pub priv der der' where g: "e1 = None" "g = Inr (pub, priv)" "kt_pkcs8 k priv = Inr der" "kt_pkix k pub = Inr der'"
      by blast
    have gen: "snd (kt_generate k (mc_world m1)) = Inr (pub, priv)" using 2 g(2) by (simp add: outside_def split: prod.splits)
    obtain m3 e3 where 3: "writePEMFile h k (private_path dir) ''PRIVATE KEY'' der m2 = (m3, e3)"
      by (cases "writePEMFile h k (private_path dir) ''PRIVATE KEY'' der m2")
    show thesis
    proof (cases e3)
      case None
      obtain m4 e4 where 4: "writePEMFile h k (public_path dir) ''PUBLIC KEY'' der' m3 = (m4, e4)"
        by (cases "writePEMFile h k (public_path dir) ''PUBLIC KEY'' der' m3")
      have "m4 = m'" "r = (case e4 of None \<Rightarrow> Inr (private_path dir, public_path dir) | Some x \<Rightarrow> Inl x)"
        using assms by (auto simp: GenerateAndWriteKeyPair_def 1 2 3 4 g None Let_def split: option.splits)
      then show thesis using Public [OF _ gen g(3,4) 3 [unfolded None]] 4 files by simp
    next
      case (Some x)
      then have "m3 = m'" "r = Inl x" using assms by (simp_all add: GenerateAndWriteKeyPair_def 1 2 3 g Let_def)
      then show thesis using Private 3 Some files by simp
    qed
  qed
qed

text \<open>
  A generated key pair is one the agent can load: when the generation succeeds, the two files it names
  give back the pair that was generated, and no other file has changed.
\<close>

theorem generated_keys_load:
  assumes "GenerateAndWriteKeyPair h k dir m = (m', Inr (pp, qp))" and "key_codec k"
    and "\<And>p. ho_read_fault h (mc_world m') p = None"
  shows "\<exists>w pub priv. snd (kt_generate k w) = Inr (pub, priv)
    \<and> LoadPrivateKey (os_read h m') (kt_unpem k) (kt_parse_pkcs8 k) pp = Inr priv
    \<and> LoadPublicKey (os_read h m') (kt_unpem k) (kt_parse_pkix k) qp = Inr pub
    \<and> (\<forall>p. p \<notin> {pp, qp} \<longrightarrow> mc_files m' p = mc_files m p)"
proof -
  have d: "dir \<noteq> []" using assms(1) by (auto simp: GenerateAndWriteKeyPair_def)
  note ne = key_paths_differ [OF d]
  show ?thesis
  proof (rule generation_cases [OF assms(1) d])
    fix w m2 priv pub der der' m3 err
    assume g: "mc_files m2 = mc_files m" "snd (kt_generate k w) = Inr (pub, priv)" "kt_pkcs8 k priv = Inr der"
        "kt_pkix k pub = Inr der'"
      and w: "writePEMFile h k (private_path dir) ''PRIVATE KEY'' der m2 = (m3, None)"
        "writePEMFile h k (public_path dir) ''PUBLIC KEY'' der' m3 = (m', err)"
      and "Inr (pp, qp) = (case err of None \<Rightarrow> Inr (private_path dir, public_path dir) | Some x \<Rightarrow> Inl x)"
    then have p: "pp = private_path dir" "qp = public_path dir" "err = None" by (simp_all split: option.splits)
    have "mc_files m' pp = Some (kt_pem k ''PRIVATE KEY'' der)" "mc_files m' qp = Some (kt_pem k ''PUBLIC KEY'' der')"
      "\<forall>p. p \<notin> {pp, qp} \<longrightarrow> mc_files m' p = mc_files m p"
      using writePEMFile_files(1,2) [OF w(1)] writePEMFile_files(1,2) [OF w(2)] ne p g(1) by simp_all
    then show ?thesis
      using assms(2,3) g
      by (intro exI [of _ w] exI [of _ pub] exI [of _ priv])
        (simp add: LoadPrivateKey_def LoadPublicKey_def load_key_def os_read_def key_codec_def)
  qed simp_all
qed

text \<open>
  A generation that fails can leave a mixed pair. No file but the two key files changes; but the private
  key is replaced before the public key is written, so that a failure then leaves the new private key beside
  the public key that was there, or a cut one.
\<close>

theorem failed_generation_mixes:
  assumes "GenerateAndWriteKeyPair h k dir m = (m', Inl err)" and "dir \<noteq> []"
  shows "(\<forall>p. p \<notin> {private_path dir, public_path dir} \<longrightarrow> mc_files m' p = mc_files m p)
    \<and> (mc_files m' (public_path dir) = mc_files m (public_path dir)
      \<or> err = Field_Error (''write '' @ public_path dir) []
        \<and> (\<exists>der. mc_files m' (private_path dir) = Some (kt_pem k ''PRIVATE KEY'' der)))"
proof -
  note ne = key_paths_differ [OF assms(2)]
  show ?thesis
  proof (rule generation_cases [OF assms])
    fix m2 der x
    assume "mc_files m2 = mc_files m" "writePEMFile h k (private_path dir) ''PRIVATE KEY'' der m2 = (m', Some x)"
    then have "\<forall>p. p \<noteq> private_path dir \<longrightarrow> mc_files m' p = mc_files m p" using writePEMFile_files(1) [of h k] by simp
    with ne show ?thesis by simp
  next
    fix w m2 priv pub der der' m3 e
    assume m2: "mc_files m2 = mc_files m"
      and w: "writePEMFile h k (private_path dir) ''PRIVATE KEY'' der m2 = (m3, None)"
        "writePEMFile h k (public_path dir) ''PUBLIC KEY'' der' m3 = (m', e)"
      and "Inl err = (case e of None \<Rightarrow> Inr (private_path dir, public_path dir) | Some x \<Rightarrow> Inl x)"
    then have e: "e = Some err" by (simp split: option.splits)
    have "mc_files m' (private_path dir) = Some (kt_pem k ''PRIVATE KEY'' der)"
      "\<forall>p. p \<notin> {private_path dir, public_path dir} \<longrightarrow> mc_files m' p = mc_files m p"
      "mc_files m3 (public_path dir) = mc_files m (public_path dir)"
      using writePEMFile_files(1,2) [OF w(1)] writePEMFile_files(1) [OF w(2)] ne m2 by simp_all
    then show ?thesis using writePEMFile_files(3) [OF w(2) e] by auto
  qed simp
qed

section \<open>The worker's loop\<close>

text \<open>
  A run of the loop that ends: for each cycle whether it failed, and what is left when the last wait is told
  to stop.
\<close>

inductive probe_ends ::
    "'w probe_host \<Rightarrow> ('w \<Rightarrow> duration \<Rightarrow> 'w \<times> goerr option) \<Rightarrow> probe_worker \<Rightarrow> 'w \<Rightarrow> bool list \<Rightarrow>
     ('w \<times> probe_worker) \<times> goerr \<Rightarrow> bool" for h wait where
  Stop: "RunOnce h wk w = ((w1, wk1), err) \<Longrightarrow> wait w1 (wrap64 (prc_PollIntervalSeconds (wk_cfg wk1) * second)) = (w2, Some stopped) \<Longrightarrow>
    probe_ends h wait wk w [err \<noteq> None] ((w2, wk1), stopped)"
| Tick: "RunOnce h wk w = ((w1, wk1), err) \<Longrightarrow> wait w1 (wrap64 (prc_PollIntervalSeconds (wk_cfg wk1) * second)) = (w2, None) \<Longrightarrow>
    probe_ends h wait wk1 w2 fs r \<Longrightarrow> probe_ends h wait wk w ((err \<noteq> None) # fs) r"

lemma probe_ends_returns: "probe_ends h wait wk w fs r \<Longrightarrow> probe_Run h wait wk w = Some (fst r, Some (snd r))"
  by (induction rule: probe_ends.induct) (subst probe_Run.simps; simp)+

lemma probe_returns_ends:
  assumes "probe_Run h wait wk w = Some y"
  shows "\<exists>fs r. probe_ends h wait wk w fs r \<and> y = (fst r, Some (snd r))"
proof (rule probe_Run.raw_induct [OF _ assms])
  fix rec :: "'a probe_host \<Rightarrow> ('a \<Rightarrow> int \<Rightarrow> 'a \<times> goerr option) \<Rightarrow> probe_worker \<Rightarrow> 'a \<Rightarrow> (('a \<times> probe_worker) \<times> goerr option) option"
    and h :: "'a probe_host" and wait wk w y
  assume IH: "\<And>h wait wk w y. rec h wait wk w = Some y \<Longrightarrow> \<exists>fs r. probe_ends h wait wk w fs r \<and> y = (fst r, Some (snd r))"
    and step: "(case RunOnce h wk w of ((w1, wk1), err) \<Rightarrow>
        (case wait w1 (wrap64 (prc_PollIntervalSeconds (wk_cfg wk1) * second)) of
           (w2, None) \<Rightarrow> rec h wait wk1 w2
         | (w2, Some stopped) \<Rightarrow> Some ((w2, wk1), Some stopped))) = Some y"
  obtain w1 wk1 err where 1: "RunOnce h wk w = ((w1, wk1), err)" by (metis prod.exhaust)
  obtain w2 x where 2: "wait w1 (wrap64 (prc_PollIntervalSeconds (wk_cfg wk1) * second)) = (w2, x)" by fastforce
  show "\<exists>fs r. probe_ends h wait wk w fs r \<and> y = (fst r, Some (snd r))"
  proof (cases x)
    case None
    with step 1 2 have "rec h wait wk1 w2 = Some y" by simp
    from IH [OF this] show ?thesis using probe_ends.Tick [where h = h and wait = wait, OF 1 2 [unfolded None]] by blast
  next
    case (Some stopped)
    then show ?thesis using step 1 2 probe_ends.Stop [where h = h and wait = wait, OF 1 2 [unfolded Some]] by fastforce
  qed
qed

lemma failCycle_simps [simp]:
  "wk_cfg (failCycle wk) = wk_cfg wk" "wk_lastSuccessAt (failCycle wk) = wk_lastSuccessAt wk"
  "wk_consecutiveFailures (failCycle wk) = wrap64 (wk_consecutiveFailures wk + 1)"
  by (simp_all add: failCycle_def)

lemma RunOnce_worker:
  assumes "RunOnce h wk w = ((w1, wk1), err)"
  shows "wk_cfg wk1 = wk_cfg wk \<and>
    (if err = None then wk_consecutiveFailures wk1 = 0 \<and> wk_lastSuccessAt wk1 \<noteq> None else wk1 = failCycle wk)"
proof -
  obtain v1 now where 1: "ph_now h w = (v1, now)" by fastforce
  obtain v2 src where 2: "FetchSourceHeight h (prc_SourceEndpoint (wk_cfg wk)) v1 = (v2, src)" by fastforce
  show ?thesis
  proof (cases src)
    case (Inr height)
    obtain v3 x where 3: "probe_targets h (wk_cfg wk) height (seconds_of now * second) (prc_Targets (wk_cfg wk)) v2 = (v3, x)"
      by fastforce
    show ?thesis using assms by (cases x) (auto simp: RunOnce_def 1 2 3 Inr)
  qed (use assms in \<open>auto simp: RunOnce_def 1 2\<close>)
qed

text \<open>The failed cycles since the last one that succeeded.\<close>

definition trailing :: "bool list \<Rightarrow> int" where "trailing fs = int (length (takeWhile (\<lambda>b. b) (rev fs)))"

lemma trailing_all:
  assumes "False \<notin> set fs"
  shows "trailing fs = int (length fs)"
proof -
  have "\<forall>x \<in> set (rev fs). x" using assms by (metis (full_types) set_rev)
  then have "takeWhile (\<lambda>b. b) (rev fs) = rev fs" unfolding takeWhile_eq_all_conv .
  then show ?thesis by (simp only: trailing_def length_rev)
qed

lemma trailing_Cons:
  "trailing (f # fs) = (if f \<and> False \<notin> set fs then int (length fs) + 1 else trailing fs)"
proof (cases "False \<in> set fs")
  case True
  then show ?thesis using takeWhile_append1 [of False "rev fs" "\<lambda>b. b"] by (simp add: trailing_def)
next
  case False
  then have "\<forall>x \<in> set (rev fs). x" by (metis (full_types) set_rev)
  then have "takeWhile (\<lambda>b. b) (rev fs @ [f]) = rev fs @ takeWhile (\<lambda>b. b) [f]" by (intro takeWhile_append2) blast
  then show ?thesis using False by (auto simp: trailing_def trailing_all [unfolded trailing_def])
qed

lemma probe_ends_counts:
  assumes "probe_ends h wait wk w fs r" and "0 \<le> wk_consecutiveFailures wk"
    and "wk_consecutiveFailures wk + int (length fs) < 2 ^ 63"
  shows "wk_consecutiveFailures (snd (fst r)) =
      (if False \<in> set fs then trailing fs else wk_consecutiveFailures wk + int (length fs))
    \<and> (wk_lastSuccessAt (snd (fst r)) = None \<longleftrightarrow> wk_lastSuccessAt wk = None \<and> False \<notin> set fs)
    \<and> wk_cfg (snd (fst r)) = wk_cfg wk"
  using assms
proof (induction rule: probe_ends.induct)
  case (Stop wk w w1 wk1 err w2 stopped)
  then show ?case using RunOnce_worker [OF Stop(1)] by (cases err) (auto simp: trailing_def wrap64_id)
next
  case (Tick wk w w1 wk1 err w2 fs r)
  then show ?case
    using RunOnce_worker [OF Tick(1)] by (cases err) (auto simp: trailing_Cons trailing_all wrap64_id)
qed

text \<open>
  The worker goes on whatever fails: its loop returns exactly when a wait between two cycles is told to
  stop, and then with that error, after one cycle per wait. Its count of failures is that of the cycles
  failed since the last good one, and the time of the last success is set once there was one.
\<close>

theorem probe_loop_ends:
  "(probe_Run h wait (New_Worker cfg) w = Some ((w', wk'), e) \<longleftrightarrow>
      (\<exists>fs stopped. e = Some stopped \<and> probe_ends h wait (New_Worker cfg) w fs ((w', wk'), stopped)))
    \<and> (\<forall>fs stopped. probe_ends h wait (New_Worker cfg) w fs ((w', wk'), stopped) \<and> int (length fs) < 2 ^ 63 \<longrightarrow>
        wk_consecutiveFailures wk' = trailing fs \<and> (wk_lastSuccessAt wk' = None \<longleftrightarrow> False \<notin> set fs) \<and> wk_cfg wk' = cfg)"
proof
  show "probe_Run h wait (New_Worker cfg) w = Some ((w', wk'), e) \<longleftrightarrow>
      (\<exists>fs stopped. e = Some stopped \<and> probe_ends h wait (New_Worker cfg) w fs ((w', wk'), stopped))"
  proof
    assume "probe_Run h wait (New_Worker cfg) w = Some ((w', wk'), e)"
    from probe_returns_ends [OF this] show "\<exists>fs stopped. e = Some stopped \<and>
        probe_ends h wait (New_Worker cfg) w fs ((w', wk'), stopped)" by auto
  qed (auto dest: probe_ends_returns)
  show "\<forall>fs stopped. probe_ends h wait (New_Worker cfg) w fs ((w', wk'), stopped) \<and> int (length fs) < 2 ^ 63 \<longrightarrow>
      wk_consecutiveFailures wk' = trailing fs \<and> (wk_lastSuccessAt wk' = None \<longleftrightarrow> False \<notin> set fs) \<and> wk_cfg wk' = cfg"
  proof (intro allI impI)
    fix fs stopped
    assume "probe_ends h wait (New_Worker cfg) w fs ((w', wk'), stopped) \<and> int (length fs) < 2 ^ 63"
    then show "wk_consecutiveFailures wk' = trailing fs \<and> (wk_lastSuccessAt wk' = None \<longleftrightarrow> False \<notin> set fs) \<and> wk_cfg wk' = cfg"
      using probe_ends_counts [of h wait "New_Worker cfg" w fs "((w', wk'), stopped)"]
      by (auto simp: New_Worker_def trailing_all split: if_splits)
  qed
qed

section \<open>Examples\<close>

text \<open>Keys that are their own encoding, and a disk on which one file cannot be opened for writing.\<close>

definition ex_kit :: "bool agent_kit" where
  "ex_kit =
     \<lparr>kt_yaml = (\<lambda>_. Inr (ex_cfg ''a'')), kt_mkdir = (\<lambda>w dir. (w, None)), kt_generate = (\<lambda>w. (w, Inr (''new public'', ''new private''))),
      kt_pkcs8 = Inr, kt_pkix = Inr, kt_pem = (\<lambda>t der. der), kt_unpem = Some,
      kt_parse_pkcs8 = (\<lambda>der. Inr (Ed25519_Key der)), kt_parse_pkix = (\<lambda>der. Inr (Ed25519_Key der)),
      kt_jitter = 0, kt_meters = \<lparr>me_hardware = (\<lambda>w. (w, 8, 0, 0, True)), me_cpu = (\<lambda>w. (w, 8, 0)), me_disk = (\<lambda>w. (w, \<lambda>_. True, 0)),
        me_print_float = (\<lambda>_. ''0'')\<rparr>\<rparr>"

definition ex_keys :: "bool machine" where
  "ex_keys = \<lparr>mc_files = [''k/agent_private_key.pem'' \<mapsto> ''old private'', ''k/agent_public_key.pem'' \<mapsto> ''old public''],
     mc_world = False\<rparr>"

lemma ex_key_paths: "private_path ''k'' = ''k/agent_private_key.pem''" "public_path ''k'' = ''k/agent_public_key.pem''"
  by code_simp+

theorem generated_keys_load_witness:
  "let m' = fst (GenerateAndWriteKeyPair ex_host ex_kit ''k'' ex_keys)
   in LoadPrivateKey (os_read ex_host m') Some (\<lambda>der. Inr (Ed25519_Key der)) ''k/agent_private_key.pem'' = Inr ''new private''"
proof -
  let ?m = "fst (GenerateAndWriteKeyPair ex_host ex_kit ''k'' ex_keys)"
  have g: "GenerateAndWriteKeyPair ex_host ex_kit ''k'' ex_keys = (?m, Inr (''k/agent_private_key.pem'', ''k/agent_public_key.pem''))"
    by (simp add: GenerateAndWriteKeyPair_def ex_kit_def ex_key_paths writePEMFile_def outside_def ex_host_def Let_def)
  have c: "key_codec ex_kit" by (simp add: key_codec_def ex_kit_def)
  have r: "ho_read_fault ex_host (mc_world ?m) p = None" for p by (simp add: ex_host_def)
  from generated_keys_load [OF g c r] show ?thesis by (auto simp: ex_kit_def)
qed

text \<open>The public key cannot be opened: the agent then starts with keys that do not match.\<close>

definition ex_locked :: "bool host" where
  "ex_locked = ex_host\<lparr>ho_write := (\<lambda>w path. (w, if path = ''k/agent_public_key.pem'' then Not_Opened (Msg ''read-only'') else Written))\<rparr>"

theorem failed_generation_mixes_witness:
  "let m' = fst (GenerateAndWriteKeyPair ex_locked ex_kit ''k'' ex_keys);
       cfg = (ex_cfg ''a'')\<lparr>ac_AgentKeyPath := ''k/agent_private_key.pem'', ac_AgentPublicKeyPath := ''k/agent_public_key.pem''\<rparr>
   in \<exists>a. NewAgent ex_locked (os_read ex_locked m') (kt_unpem ex_kit) (kt_parse_pkcs8 ex_kit) (kt_parse_pkix ex_kit) cfg = Inr a
     \<and> ag_privateKey a = ''new private'' \<and> ag_publicKey a = ''old public''"
proof -
  let ?m = "fst (GenerateAndWriteKeyPair ex_locked ex_kit ''k'' ex_keys)"
  have g: "GenerateAndWriteKeyPair ex_locked ex_kit ''k'' ex_keys = (?m, Inl (Msg ''read-only''))"
    and p: "mc_files ?m ''k/agent_private_key.pem'' = Some ''new private''"
    by (simp_all add: GenerateAndWriteKeyPair_def ex_kit_def ex_key_paths writePEMFile_def outside_def ex_host_def ex_locked_def Let_def)
  have "mc_files ?m ''k/agent_public_key.pem'' = Some ''old public''"
    using failed_generation_mixes [OF g] by (simp add: ex_key_paths ex_keys_def)
  with p show ?thesis
    by (simp add: NewAgent_def LoadPrivateKey_def LoadPublicKey_def load_key_def os_read_def ex_kit_def ex_locked_def ex_host_def)
qed

text \<open>The source of heights does not answer, and the worker is stopped after one cycle.\<close>

definition ex_no_source :: "unit probe_host" where
  "ex_no_source = ex_probes\<lparr>ph_chain := (\<lambda>w url. (w, Inl (Msg ''timeout'')))\<rparr>"

theorem probe_loop_ends_witness:
  "\<exists>wk'. probe_Run ex_no_source (\<lambda>w d. (w, Some context_canceled)) (New_Worker ex_probe_config) () = Some (((), wk'), Some context_canceled)
    \<and> wk_consecutiveFailures wk' = 1 \<and> wk_lastSuccessAt wk' = None"
proof -
  obtain w1 wk1 err where 1: "RunOnce ex_no_source (New_Worker ex_probe_config) () = ((w1, wk1), err)" by (metis prod.exhaust)
  have "snd (RunOnce ex_no_source (New_Worker ex_probe_config) ()) \<noteq> None"
    by (simp add: RunOnce_def FetchSourceHeight_def FetchChainState_def probe_getJSON_def ex_no_source_def ex_probes_def Let_def)
  with 1 have err: "err \<noteq> None" by simp
  have e: "probe_ends ex_no_source (\<lambda>w d. (w, Some context_canceled)) (New_Worker ex_probe_config) () [True] (((), wk1), context_canceled)"
    using probe_ends.Stop [OF 1, of "\<lambda>w d. (w, Some context_canceled)" "()" context_canceled] err by simp
  with probe_loop_ends [of ex_no_source "\<lambda>w d. (w, Some context_canceled)" ex_probe_config "()" "()" wk1 "Some context_canceled"]
  show ?thesis by (intro exI [of _ wk1]) (auto simp: trailing_def)
qed

end
