(* ===== verification/Load_Tests.thy ===== *)
theory Load_Tests
  imports Host_Checks
begin

unbundle bit_operations_syntax

text \<open>
  The threads of the load tests: \<^verbatim>\<open>Run\<close> and \<^verbatim>\<open>runWorker\<close> of \<^verbatim>\<open>checks/cpu/cpu.go\<close>, \<^verbatim>\<open>Run\<close> and
  \<^verbatim>\<open>startWorkers\<close> of \<^verbatim>\<open>checks/disk/disk.go\<close>. Both start workers that share a counter; the main thread sets
  the counter to zero after the warm-up, reads it after the measured interval and closes the channel
  after the cool-down. A schedule is a list of events, each an action of one thread that the others see as
  one step; \<open>load_run\<close> is \<open>None\<close> when a thread is not in a position to act. What a worker computes between
  two accesses to the counter is a function of its own state; \<open>None\<close> is a panic, which ends the program.
\<close>

section \<open>Workers and the main thread\<close>

datatype 's worker = Ready 's | Busy 's | Gone

datatype load_phase = Warming | Measuring | Cooling uint64 | Stopped uint64 | Crashed

datatype load_event = Turn nat | Count nat | Leave nat | Reset | Read | Stop

record 's load =
  lo_phase :: load_phase
  lo_count :: uint64
  lo_workers :: "'s worker list"

definition worker_at :: "'s load \<Rightarrow> nat \<Rightarrow> 's worker" where
  "worker_at st i = (if i < length (lo_workers st) then lo_workers st ! i else Gone)"

definition put_worker :: "nat \<Rightarrow> 's worker \<Rightarrow> 's load \<Rightarrow> 's load" where
  "put_worker i x st = st\<lparr>lo_workers := (lo_workers st)[i := x]\<rparr>"

definition stopped :: "load_phase \<Rightarrow> bool" where
  "stopped ph = (case ph of Stopped t \<Rightarrow> True | _ \<Rightarrow> False)"

fun load_step :: "('s \<Rightarrow> 's option) \<Rightarrow> load_event \<Rightarrow> 's load \<Rightarrow> 's load option" where
  "load_step turn (Turn i) st =
     (case worker_at st i of
        Ready s \<Rightarrow>
          if lo_phase st = Crashed \<or> stopped (lo_phase st) then None
          else (case turn s of
            Some s' \<Rightarrow> Some (put_worker i (Busy s') st)
          | None \<Rightarrow> Some (st\<lparr>lo_phase := Crashed\<rparr>))
      | _ \<Rightarrow> None)"
| "load_step turn (Count i) st =
     (case worker_at st i of
        Busy s \<Rightarrow>
          if lo_phase st = Crashed then None
          else Some ((put_worker i (Ready s) st)\<lparr>lo_count := lo_count st + 1\<rparr>)
      | _ \<Rightarrow> None)"
| "load_step turn (Leave i) st =
     (case worker_at st i of
        Ready s \<Rightarrow> if stopped (lo_phase st) then Some (put_worker i Gone st) else None
      | _ \<Rightarrow> None)"
| "load_step turn Reset st =
     (if lo_phase st = Warming then Some (st\<lparr>lo_phase := Measuring, lo_count := 0\<rparr>) else None)"
| "load_step turn Read st =
     (if lo_phase st = Measuring then Some (st\<lparr>lo_phase := Cooling (lo_count st)\<rparr>) else None)"
| "load_step turn Stop st =
     (case lo_phase st of Cooling t \<Rightarrow> Some (st\<lparr>lo_phase := Stopped t\<rparr>) | _ \<Rightarrow> None)"

fun load_run :: "('s \<Rightarrow> 's option) \<Rightarrow> load_event list \<Rightarrow> 's load \<Rightarrow> 's load option" where
  "load_run turn [] st = Some st"
| "load_run turn (ev # evs) st = Option.bind (load_step turn ev st) (load_run turn evs)"

definition load_start :: "'s list \<Rightarrow> 's load" where
  "load_start seeds = \<lparr>lo_phase = Warming, lo_count = 0, lo_workers = map Ready seeds\<rparr>"

section \<open>The CPU test\<close>

definition cpu_workers :: "int \<Rightarrow> cpu_profile \<Rightarrow> nat" where
  "cpu_workers numCPU profile = nat (min (cpu_WorkerCap profile) numCPU)"

definition cpu_start :: "int \<Rightarrow> cpu_profile \<Rightarrow> uint64 load" where
  "cpu_start numCPU profile = load_start (map (\<lambda>i. word_of_nat (i + 1)) [0..<cpu_workers numCPU profile])"

definition cpu_turn :: "cpu_profile \<Rightarrow> uint64 \<Rightarrow> uint64 option" where
  "cpu_turn profile sq = Some (fst (cpu_step profile sq))"

text \<open>The two other pieces of work; their results are dropped. The hash is a parameter.\<close>

definition doHash :: "(string \<Rightarrow> string) \<Rightarrow> uint64 \<Rightarrow> string" where
  "doHash sha256 v =
     sha256 (map (\<lambda>i. char_of (uint (drop_bit (8 * i) v AND 255))) [0..<8] @ replicate 56 (CHR 0x00))"

definition doMatrix :: "uint64 \<Rightarrow> float64 list" where
  "doMatrix v =
     (let a = [float_of_int (uint (v mod 7 + 1)), 2, 3, 4, 5, 6, 7, 8, 9]; b = [9, 8, 7, 6, 5, 4, 3, 2, 1]
      in fold (\<lambda>row. fold (\<lambda>col. fold (\<lambda>k c.
           c[row * 3 + col := fadd (c ! (row * 3 + col)) (fmul (a ! (row * 3 + k)) (b ! (k * 3 + col)))])
           [0..<3]) [0..<3]) [0..<3] (replicate 9 0))"

section \<open>The disk test\<close>

text \<open>
  The random source is a parameter. \<^verbatim>\<open>Intn\<close> panics when its bound is not positive; so does a block of no
  bytes (the division) or of a negative number of bytes (\<^verbatim>\<open>make\<close>).
\<close>

record 'r rng =
  rng_Intn :: "int \<Rightarrow> 'r \<Rightarrow> 'r \<times> int"
  rng_Float64 :: "'r \<Rightarrow> 'r \<times> float64"

definition disk_access :: "'r rng \<Rightarrow> disk_profile \<Rightarrow> 'r \<Rightarrow> ('r \<times> int \<times> bool) option" where
  "disk_access rng profile r =
     (let block = disk_BlockSizeBytes profile; slots = go_div (disk_size profile) block
      in if block \<le> 0 \<or> slots \<le> 0 then None
         else (case rng_Intn rng slots r of (r1, k) \<Rightarrow>
           (case rng_Float64 rng r1 of (r2, f) \<Rightarrow>
             Some (r2, wrap64 (k * block), f < disk_ReadRatio profile))))"

definition disk_turn :: "'r rng \<Rightarrow> disk_profile \<Rightarrow> 'r \<Rightarrow> 'r option" where
  "disk_turn rng profile r = map_option fst (disk_access rng profile r)"

text \<open>The clock is read once for each worker: \<open>nanos i\<close> is what the reading for worker \<open>i\<close> gives.\<close>

definition disk_start :: "(int \<Rightarrow> 'r) \<Rightarrow> (nat \<Rightarrow> int) \<Rightarrow> disk_profile \<Rightarrow> 'r load" where
  "disk_start new_source nanos profile =
     load_start (map (\<lambda>i. new_source (wrap64 (nanos i + int i))) [0..<nat (disk_Concurrency profile)])"


section \<open>Schedules\<close>

lemma load_run_append: "load_run turn (as @ bs) st = Option.bind (load_run turn as st) (load_run turn bs)"
  by (induction as arbitrary: st) (auto split: Option.bind_split)

definition counts :: "load_event list \<Rightarrow> nat" where
  "counts evs = length [ev \<leftarrow> evs. case ev of Count i \<Rightarrow> True | _ \<Rightarrow> False]"

definition turns_of :: "nat \<Rightarrow> load_event list \<Rightarrow> nat" where
  "turns_of i evs = length [ev \<leftarrow> evs. ev = Turn i]"

lemma counts_simps [simp]:
  "counts [] = 0" "counts (Turn i # evs) = counts evs" "counts (Count i # evs) = Suc (counts evs)"
  "counts (Leave i # evs) = counts evs" "counts (Reset # evs) = counts evs" "counts (Read # evs) = counts evs"
  "counts (Stop # evs) = counts evs" "counts (as @ bs) = counts as + counts bs"
  by (simp_all add: counts_def)

lemma put_worker_simps [simp]:
  "lo_phase (put_worker i x st) = lo_phase st" "lo_count (put_worker i x st) = lo_count st"
  "length (lo_workers (put_worker i x st)) = length (lo_workers st)"
  by (simp_all add: put_worker_def)

lemma worker_at_put [simp]:
  "worker_at (put_worker i x st) j = (if j = i \<and> i < length (lo_workers st) then x else worker_at st j)"
  by (simp add: worker_at_def put_worker_def)

lemma worker_at_fields [simp]:
  "worker_at (st\<lparr>lo_phase := ph\<rparr>) i = worker_at st i" "worker_at (st\<lparr>lo_count := n\<rparr>) i = worker_at st i"
  by (simp_all add: worker_at_def)

lemma worker_there: "worker_at st i \<noteq> Gone \<Longrightarrow> i < length (lo_workers st)"
  by (simp add: worker_at_def split: if_splits)

lemmas step_splits = worker.splits option.splits if_splits load_phase.splits

text \<open>What the schedule says about the measured count and the counter, in each phase of the main thread.\<close>

definition measured :: "load_event list \<Rightarrow> uint64 \<Rightarrow> bool" where
  "measured evs t \<longleftrightarrow> (\<exists>as bs cs. evs = as @ Reset # bs @ Read # cs \<and> Reset \<notin> set as \<union> set bs \<and>
     Read \<notin> set as \<union> set bs \<and> t = word_of_nat (counts bs))"

definition measuring :: "load_event list \<Rightarrow> uint64 \<Rightarrow> bool" where
  "measuring evs n \<longleftrightarrow> (\<exists>as bs. evs = as @ Reset # bs \<and> Reset \<notin> set as \<union> set bs \<and>
     Read \<notin> set as \<union> set bs \<and> n = word_of_nat (counts bs))"

definition accounts :: "load_phase \<Rightarrow> uint64 \<Rightarrow> load_event list \<Rightarrow> bool" where
  "accounts ph n evs =
     (case ph of
        Warming \<Rightarrow> Reset \<notin> set evs \<and> Read \<notin> set evs
      | Measuring \<Rightarrow> measuring evs n
      | Cooling t \<Rightarrow> measured evs t
      | Stopped t \<Rightarrow> measured evs t
      | Crashed \<Rightarrow> True)"

lemma measured_snoc: "measured evs t \<Longrightarrow> measured (evs @ [ev]) t"
  by (force simp: measured_def)

lemma measuring_snoc:
  "measuring evs n \<Longrightarrow> ev \<noteq> Reset \<Longrightarrow> ev \<noteq> Read \<Longrightarrow> measuring (evs @ [ev]) (n + word_of_nat (counts [ev]))"
proof (unfold measuring_def, elim exE conjE)
  fix as bs
  assume "evs = as @ Reset # bs" "Reset \<notin> set as \<union> set bs" "Read \<notin> set as \<union> set bs" "n = word_of_nat (counts bs)"
    and "ev \<noteq> Reset" "ev \<noteq> Read"
  then have "evs @ [ev] = as @ Reset # (bs @ [ev])" "Reset \<notin> set as \<union> set (bs @ [ev])"
    "Read \<notin> set as \<union> set (bs @ [ev])" "n + word_of_nat (counts [ev]) = word_of_nat (counts (bs @ [ev]))"
    by simp_all
  then show "\<exists>as bs. evs @ [ev] = as @ Reset # bs \<and> Reset \<notin> set as \<union> set bs \<and> Read \<notin> set as \<union> set bs \<and>
      n + word_of_nat (counts [ev]) = word_of_nat (counts bs)" by blast
qed

lemma accounts_snoc:
  "accounts ph n evs \<Longrightarrow> ev \<noteq> Reset \<Longrightarrow> ev \<noteq> Read \<Longrightarrow> accounts ph (n + word_of_nat (counts [ev])) (evs @ [ev])"
  by (cases ph) (simp_all add: accounts_def measured_snoc measuring_snoc)

lemma measuring_start: "Reset \<notin> set evs \<Longrightarrow> Read \<notin> set evs \<Longrightarrow> measuring (evs @ [Reset]) 0"
  unfolding measuring_def by (intro exI [of _ evs] exI [of _ "[]"]) simp

lemma measured_start: "measuring evs n \<Longrightarrow> measured (evs @ [Read]) n"
  by (force simp: measuring_def measured_def)

text \<open>A worker leaves the phase alone, unless it panics, and adds to the counter only by \<open>Count\<close>.\<close>

lemma worker_step:
  assumes "load_step turn ev st = Some st'" and "ev \<noteq> Reset" and "ev \<noteq> Read" and "ev \<noteq> Stop"
  shows "lo_phase st' \<in> {lo_phase st, Crashed} \<and> lo_count st' = lo_count st + word_of_nat (counts [ev])"
  using assms by (cases ev) (auto split: step_splits)

lemma accounts_step:
  assumes "load_step turn ev st = Some st'" and "accounts (lo_phase st) (lo_count st) evs"
  shows "accounts (lo_phase st') (lo_count st') (evs @ [ev])"
proof (cases "ev = Reset \<or> ev = Read \<or> ev = Stop")
  case True
  with assms show ?thesis
    by (auto simp: accounts_def measuring_start measured_start measured_snoc split: if_splits load_phase.splits)
next
  case False
  with worker_step [OF assms(1)] accounts_snoc [OF assms(2)] show ?thesis
    by (auto simp: accounts_def)
qed

lemma accounts_run:
  assumes "load_run turn evs (load_start seeds) = Some st"
  shows "accounts (lo_phase st) (lo_count st) evs"
  using assms
proof (induction evs arbitrary: st rule: rev_induct)
  case Nil
  then show ?case by (auto simp: accounts_def load_start_def)
next
  case (snoc ev evs)
  then show ?case by (auto simp: load_run_append split: bind_splits dest: accounts_step)
qed

text \<open>A worker's own state depends on the number of its turns alone.\<close>

definition own_state :: "'s worker \<Rightarrow> 's option" where
  "own_state x = (case x of Ready s \<Rightarrow> Some s | Busy s \<Rightarrow> Some s | Gone \<Rightarrow> None)"

fun after_turns :: "('s \<Rightarrow> 's option) \<Rightarrow> nat \<Rightarrow> 's \<Rightarrow> 's option" where
  "after_turns turn 0 s = Some s"
| "after_turns turn (Suc n) s = Option.bind (after_turns turn n s) turn"

definition in_step :: "('s \<Rightarrow> 's option) \<Rightarrow> 's list \<Rightarrow> load_event list \<Rightarrow> 's load \<Rightarrow> bool" where
  "in_step turn seeds evs st \<longleftrightarrow> (\<forall>i s. own_state (worker_at st i) = Some s \<longrightarrow>
     i < length seeds \<and> after_turns turn (turns_of i evs) (seeds ! i) = Some s)"

lemma turns_of_snoc [simp]: "turns_of i (evs @ [ev]) = (if ev = Turn i then Suc (turns_of i evs) else turns_of i evs)"
  by (simp add: turns_of_def)

lemma own_state_simps [simp]:
  "own_state (Ready s) = Some s" "own_state (Busy s) = Some s" "own_state Gone = None"
  by (simp_all add: own_state_def)

lemma own_step:
  assumes "load_step turn ev st = Some st'" and "lo_phase st' \<noteq> Crashed" and "own_state (worker_at st' i) = Some s'"
  shows "\<exists>s. own_state (worker_at st i) = Some s \<and> (if ev = Turn i then turn s = Some s' else s' = s)"
proof (cases ev)
  case (Turn j)
  with assms worker_there [of st i] show ?thesis by (cases "j = i") (auto split: worker.splits option.splits if_splits)
next
  case (Count j)
  with assms worker_there [of st i] show ?thesis by (cases "j = i") (auto split: worker.splits if_splits)
next
  case (Leave j)
  with assms worker_there [of st i] show ?thesis by (cases "j = i") (auto split: worker.splits if_splits)
qed (use assms in \<open>auto split: if_splits load_phase.splits\<close>)

lemma in_step_step:
  assumes "load_step turn ev st = Some st'" and "in_step turn seeds evs st" and "lo_phase st' \<noteq> Crashed"
  shows "in_step turn seeds (evs @ [ev]) st'"
  unfolding in_step_def
proof (intro allI impI)
  fix i s'
  assume "own_state (worker_at st' i) = Some s'"
  with own_step [OF assms(1,3)] obtain s where
    s: "own_state (worker_at st i) = Some s" "if ev = Turn i then turn s = Some s' else s' = s" by blast
  with assms(2) have "i < length seeds" "after_turns turn (turns_of i evs) (seeds ! i) = Some s"
    by (auto simp: in_step_def)
  with s(2) show "i < length seeds \<and> after_turns turn (turns_of i (evs @ [ev])) (seeds ! i) = Some s'" by auto
qed

lemma crashed_stuck: "load_step turn ev st = Some st' \<Longrightarrow> lo_phase st \<noteq> Crashed"
  by (cases ev) (auto simp: stopped_def split: step_splits)

lemma in_step_run:
  assumes "load_run turn evs (load_start seeds) = Some st" and "lo_phase st \<noteq> Crashed"
  shows "in_step turn seeds evs st"
  using assms
proof (induction evs arbitrary: st rule: rev_induct)
  case Nil
  then show ?case by (auto simp: in_step_def load_start_def worker_at_def own_state_def turns_of_def split: if_splits)
next
  case (snoc ev evs)
  then obtain st1 where 1: "load_run turn evs (load_start seeds) = Some st1" "load_step turn ev st1 = Some st"
    by (auto simp: load_run_append split: bind_splits)
  from snoc.IH [OF 1(1) crashed_stuck [OF 1(2)]] in_step_step [OF 1(2)] snoc.prems(2) show ?case by blast
qed

section \<open>The end of a test\<close>









section \<open>Properties\<close>

lemma own_states:
  "load_run turn evs (load_start seeds) = Some st \<Longrightarrow> lo_phase st \<noteq> Crashed \<Longrightarrow>
    own_state (worker_at st i) = Some s \<Longrightarrow> i < length seeds \<and> after_turns turn (turns_of i evs) (seeds ! i) = Some s"
  by (drule (1) in_step_run) (simp add: in_step_def)





text \<open>The sequence of a CPU worker.\<close>

definition lcg :: "uint64 \<Rightarrow> uint64" where
  "lcg sq = sq * 6364136223846793005 + 1"

lemma cpu_turn_lcg: "cpu_turn profile = Some \<circ> lcg"
  by (rule ext) (simp add: cpu_turn_def cpu_step_def lcg_def Let_def)

lemma after_turns_total: "after_turns (Some \<circ> f) n s = Some ((f ^^ n) s)"
  by (induction n) simp_all

lemma uint_word_of_nat_mod: "uint (word_of_nat n :: uint64) = int n mod 2 ^ 64"
  by (simp add: unsigned_of_nat take_bit_eq_mod zmod_int)

text \<open>
  C36: however the threads of the CPU test interleave, the count it reports is the number of pieces of work
  finished between the reset of the counter and its reading (of 64 bits), and what a worker does depends on
  its number and on how many turns it had, never on the others.
\<close>

theorem cpu_count_exact:
  assumes "load_run (cpu_turn profile) evs (cpu_start numCPU profile) = Some st" and "lo_phase st = Stopped t"
  shows "(\<exists>as bs cs. evs = as @ Reset # bs @ Read # cs \<and> Reset \<notin> set as \<union> set bs \<and> Read \<notin> set as \<union> set bs \<and>
      uint t = int (counts bs) mod 2 ^ 64) \<and>
    (\<forall>i sq. own_state (worker_at st i) = Some sq \<longrightarrow>
      i < cpu_workers numCPU profile \<and> sq = (lcg ^^ turns_of i evs) (word_of_nat (i + 1)))"
proof
  note run = assms(1) [unfolded cpu_start_def]
  have "measured evs t"
    using accounts_run [OF run] assms(2) by (simp add: accounts_def)
  then show "\<exists>as bs cs. evs = as @ Reset # bs @ Read # cs \<and> Reset \<notin> set as \<union> set bs \<and> Read \<notin> set as \<union> set bs \<and>
      uint t = int (counts bs) mod 2 ^ 64"
    unfolding measured_def by (metis uint_word_of_nat_mod)
  show "\<forall>i sq. own_state (worker_at st i) = Some sq \<longrightarrow>
      i < cpu_workers numCPU profile \<and> sq = (lcg ^^ turns_of i evs) (word_of_nat (i + 1))"
    using own_states [OF run] assms(2) by (fastforce simp: cpu_turn_lcg after_turns_total)
qed

definition ex_load_cpu :: cpu_profile where
  "ex_load_cpu =
     \<lparr>cpu_ID = ''cpu'', cpu_DurationSeconds = 3, cpu_WarmupSeconds = 1, cpu_MeasuredSeconds = 1,
      cpu_CooldownSeconds = 1, cpu_WorkerCap = 2,
      cpu_WorkloadMix = \<lparr>wm_Hashing = 1, wm_Integer = 0, wm_Matrix = 0\<rparr>,
      cpu_AcceptanceFloor = \<lparr>af_Type = ''score'', af_Minimum = 1\<rparr>\<rparr>"

text \<open>Two workers; one is caught in the middle of a piece of work by the reset, the other by the reading.\<close>

definition ex_schedule :: "load_event list" where
  "ex_schedule = [Turn 0, Reset, Count 0, Turn 1, Turn 0, Count 0, Read, Count 1, Stop]"

lemma ex_schedule_run:
  "load_run (cpu_turn ex_load_cpu) ex_schedule (cpu_start 4 ex_load_cpu) =
     Some \<lparr>lo_phase = Stopped 2, lo_count = 3, lo_workers = [Ready ((lcg ^^ 2) 1), Ready (lcg 2)]\<rparr>"
  by (simp add: ex_schedule_def cpu_start_def cpu_workers_def ex_load_cpu_def load_start_def cpu_turn_lcg
      worker_at_def put_worker_def stopped_def upt_rec numeral_2_eq_2)

theorem cpu_count_exact_witness:
  "\<exists>as bs cs. ex_schedule = as @ Reset # bs @ Read # cs \<and> uint (2 :: uint64) = int (counts bs) mod 2 ^ 64"
  using cpu_count_exact [OF ex_schedule_run] by simp blast



text \<open>
  C38: with a policy the agent accepts, whose test file has a size that fits 64 bits, every access of the
  disk test is a whole block inside the file. The agent also accepts a policy whose size wraps around to
  zero: the empty file is made, and the first access panics, which ends the agent.
\<close>

theorem disk_accesses_inside:
  assumes "good_disk profile" and "disk_BlockSizeBytes profile * disk_QueueDepth profile * 256 < 2 ^ 63"
    and "\<And>n r. 0 < n \<Longrightarrow> 0 \<le> snd (rng_Intn rng n r) \<and> snd (rng_Intn rng n r) < n"
  shows "(\<exists>r' offset reads. disk_access rng profile r = Some (r', offset, reads) \<and> 0 \<le> offset \<and>
      offset + disk_BlockSizeBytes profile \<le> disk_size profile \<and> disk_BlockSizeBytes profile dvd offset) \<and>
    (let wrapped = profile\<lparr>disk_BlockSizeBytes := 4096, disk_QueueDepth := 2 ^ 44\<rparr>
     in good_disk wrapped \<and> disk_size wrapped = 0 \<and> disk_access rng wrapped r = None)"
proof
  let ?b = "disk_BlockSizeBytes profile" and ?q = "disk_QueueDepth profile"
  have pos: "0 < ?b" "0 < ?q" using assms(1) by (simp_all add: good_disk_def)
  have "0 < ?b * ?q" using pos by simp
  then have size: "disk_size profile = ?b * ?q * 256"
    using assms(2) by (simp add: disk_size_def wrap64_id)
  have slots: "go_div (disk_size profile) ?b = ?q * 256"
    using pos by (simp add: size go_div_nonneg mult.assoc)
  obtain r1 k where 1: "rng_Intn rng (?q * 256) r = (r1, k)" by fastforce
  have k: "0 \<le> k" "k < ?q * 256" using assms(3) [of "?q * 256" r] pos by (simp_all add: 1)
  have "(k + 1) * ?b \<le> ?q * 256 * ?b" using k pos by (intro mult_right_mono) simp_all
  then have le: "k * ?b + ?b \<le> disk_size profile" by (simp add: size algebra_simps)
  have nn: "0 \<le> k * ?b" using k pos by simp
  have w: "wrap64 (k * ?b) = k * ?b"
    using le nn pos assms(2) by (intro wrap64_id) (simp_all add: size)
  obtain r2 f where 2: "rng_Float64 rng r1 = (r2, f)" by fastforce
  have "disk_access rng profile r = Some (r2, k * ?b, f < disk_ReadRatio profile)"
    using pos by (simp add: disk_access_def slots 1 2 w)
  with nn le show "\<exists>r' offset reads. disk_access rng profile r = Some (r', offset, reads) \<and> 0 \<le> offset \<and>
      offset + ?b \<le> disk_size profile \<and> ?b dvd offset" by auto
  let ?w = "profile\<lparr>disk_BlockSizeBytes := 4096, disk_QueueDepth := 2 ^ 44\<rparr>"
  have "disk_size ?w = 0" by (simp add: disk_size_def wrap64_def)
  with assms(1) show "let wrapped = ?w in good_disk wrapped \<and> disk_size wrapped = 0 \<and> disk_access rng wrapped r = None"
    by (simp add: good_disk_def disk_access_def go_div_def)
qed

definition ex_load_disk :: disk_profile where
  "ex_load_disk =
     \<lparr>disk_ID = ''disk'', disk_DurationSeconds = 3, disk_WarmupSeconds = 1, disk_MeasuredSeconds = 1,
      disk_CooldownSeconds = 1, disk_BlockSizeBytes = 4096, disk_QueueDepth = 32, disk_Concurrency = 2,
      disk_ReadRatio = 1, disk_WriteRatio = 0, disk_AcceptanceFloor = \<lparr>af_Type = ''iops'', af_Minimum = 1\<rparr>\<rparr>"

definition ex_rng :: "int rng" where
  "ex_rng = \<lparr>rng_Intn = (\<lambda>n r. (r + 1, r mod n)), rng_Float64 = (\<lambda>r. (r + 1, 0))\<rparr>"

theorem disk_accesses_inside_witness:
  "\<exists>r' offset reads. disk_access ex_rng ex_load_disk 8191 = Some (r', offset, reads) \<and> offset + 4096 \<le> 33554432"
proof -
  have 1: "good_disk ex_load_disk" by code_simp
  have 2: "disk_BlockSizeBytes ex_load_disk * disk_QueueDepth ex_load_disk * 256 < 2 ^ 63"
    by (simp add: ex_load_disk_def)
  have 3: "0 \<le> snd (rng_Intn ex_rng n r) \<and> snd (rng_Intn ex_rng n r) < n" if "0 < n" for n r
    using that by (simp add: ex_rng_def)
  have 4: "disk_size ex_load_disk = 33554432" "disk_BlockSizeBytes ex_load_disk = 4096"
    by (simp_all add: ex_load_disk_def disk_size_def wrap64_def)
  from disk_accesses_inside [OF 1 2 3, of 8191] show ?thesis unfolding 4 by blast
qed

end
