(* ===== verification/Go_Struct.thy ===== *)
theory Go_Struct
  imports Handlers_Agent
begin

text \<open>
  \<^verbatim>\<open>encoding/json\<close> decoding into a struct: it is filled member by member. A name that is no field is
  skipped, a name matches a field exactly or as \<open>fold_name\<close> folds it, \<^verbatim>\<open>null\<close> changes nothing, a repeated
  member overwrites, and after a value of the wrong type decoding goes on and returns the first error at the
  end. How a number with a fraction is read is a parameter (\<open>parse\<close>).
\<close>

section \<open>Filling a struct\<close>

type_synonym 'r filler = "json \<Rightarrow> 'r \<Rightarrow> 'r \<times> goerr option"

definition type_error :: "string \<Rightarrow> goerr option" where
  "type_error goType = Some (Json_Error (''json: cannot unmarshal into Go value of type '' @ goType))"

definition fill_string :: "string filler" where
  "fill_string v x = (case v of JStr s \<Rightarrow> (s, None) | JNull \<Rightarrow> (x, None) | _ \<Rightarrow> (x, type_error ''string''))"

definition fill_bool :: "bool filler" where
  "fill_bool v x = (case v of JBool b \<Rightarrow> (b, None) | JNull \<Rightarrow> (x, None) | _ \<Rightarrow> (x, type_error ''bool''))"

definition fill_int :: "int filler" where
  "fill_int v x =
     (case v of
        JNum l \<Rightarrow> (case parse_int64 l of Some n \<Rightarrow> (n, None) | None \<Rightarrow> (x, type_error ''int''))
      | JNull \<Rightarrow> (x, None)
      | _ \<Rightarrow> (x, type_error ''int''))"

definition fill_float :: "(string \<Rightarrow> float64 option) \<Rightarrow> float64 filler" where
  "fill_float parse v x =
     (case v of
        JNum l \<Rightarrow> (case parse l of Some f \<Rightarrow> (f, None) | None \<Rightarrow> (x, type_error ''float64''))
      | JNull \<Rightarrow> (x, None)
      | _ \<Rightarrow> (x, type_error ''float64''))"

text \<open>Names are compared exactly first, then as \<open>fold_name\<close> folds them.\<close>

definition field_for :: "(string \<times> 'r filler) list \<Rightarrow> string \<Rightarrow> 'r filler option" where
  "field_for fs name =
     (case map_of fs name of
        Some f \<Rightarrow> Some f
      | None \<Rightarrow> map_option snd (find (\<lambda>(tag, f). fold_name tag = fold_name name) fs))"

fun fill_members :: "(string \<times> 'r filler) list \<Rightarrow> (string \<times> json) list \<Rightarrow> 'r \<Rightarrow> 'r \<times> goerr option" where
  "fill_members fs [] r = (r, None)"
| "fill_members fs ((name, v) # kvs) r =
     (case (case field_for fs name of None \<Rightarrow> (r, None) | Some f \<Rightarrow> f v r) of (r1, err1) \<Rightarrow>
        (case fill_members fs kvs r1 of (r2, err2) \<Rightarrow> (r2, if err1 = None then err2 else err1)))"

definition fill_struct :: "string \<Rightarrow> (string \<times> 'r filler) list \<Rightarrow> 'r filler" where
  "fill_struct goType fs v r =
     (case v of JObj kvs \<Rightarrow> fill_members fs kvs r | JNull \<Rightarrow> (r, None) | _ \<Rightarrow> (r, type_error goType))"

text \<open>A filler for one field of a record, from the field and its update.\<close>

definition on_field :: "('r \<Rightarrow> 'f) \<Rightarrow> (('f \<Rightarrow> 'f) \<Rightarrow> 'r \<Rightarrow> 'r) \<Rightarrow> 'f filler \<Rightarrow> 'r filler" where
  "on_field get upd f v r = (case f v (get r) of (x, err) \<Rightarrow> (upd (\<lambda>_. x) r, err))"

text \<open>
  A slice: it gets an element per value of the array, each filled from the zero value, and \<^verbatim>\<open>null\<close> makes it
  nil.
\<close>

fun fill_elements :: "'r filler \<Rightarrow> 'r \<Rightarrow> json list \<Rightarrow> 'r list \<times> goerr option" where
  "fill_elements f zero [] = ([], None)"
| "fill_elements f zero (v # vs) =
     (case f v zero of (x, err1) \<Rightarrow>
        (case fill_elements f zero vs of (xs, err2) \<Rightarrow> (x # xs, if err1 = None then err2 else err1)))"

definition fill_slice :: "string \<Rightarrow> 'r filler \<Rightarrow> 'r \<Rightarrow> 'r list filler" where
  "fill_slice goType f zero v xs =
     (case v of JArr vs \<Rightarrow> fill_elements f zero vs | JNull \<Rightarrow> ([], None) | _ \<Rightarrow> (xs, type_error goType))"

text \<open>Decoding into a zero value: the value, or the first error.\<close>

definition unmarshal :: "'r filler \<Rightarrow> 'r \<Rightarrow> json \<Rightarrow> goerr + 'r" where
  "unmarshal f zero v = (case f v zero of (x, None) \<Rightarrow> Inr x | (_, Some err) \<Rightarrow> Inl err)"

section \<open>Members that fit\<close>

lemma field_for_tag [simp]: "map_of fs name = Some f \<Longrightarrow> field_for fs name = Some f"
  by (simp add: field_for_def)

lemma fill_leaf [simp]:
  "fill_string (JStr s) x = (s, None)" "fill_bool (JBool b) c = (b, None)"
  "parse_int64 l = Some n \<Longrightarrow> fill_int (JNum l) k = (n, None)"
  "parse l = Some f \<Longrightarrow> fill_float parse (JNum l) y = (f, None)"
  by (simp_all add: fill_string_def fill_bool_def fill_int_def fill_float_def)

lemma on_field_read [simp]: "f v (get r) = (x, None) \<Longrightarrow> on_field get upd f v r = (upd (\<lambda>_. x) r, None)"
  by (simp add: on_field_def)

lemma fill_struct_JObj [simp]: "fill_struct goType fs (JObj kvs) r = fill_members fs kvs r"
  by (simp add: fill_struct_def)

lemma fill_member [simp]:
  "map_of fs name = Some f \<Longrightarrow> f v r = (r', None) \<Longrightarrow> fill_members fs ((name, v) # kvs) r = fill_members fs kvs r'"
  by (simp split: prod.split)

declare fill_members.simps(2) [simp del]

end
