(* ===== verification/Policy_Wire.thy ===== *)
theory Policy_Wire
  imports Agent_Examples Go_Struct
begin

text \<open>
  The policy between the programs. The portal marshals its \<^verbatim>\<open>Document\<close> with the JSON names of the struct
  tags; the agent unmarshals the answer into its \<^verbatim>\<open>Response\<close>, which has the same tags. How a number with a
  fraction is printed and read is a parameter (\<open>print\<close>, \<open>parse\<close>).
\<close>

section \<open>The document\<close>

definition floor_json :: "(float64 \<Rightarrow> string) \<Rightarrow> acceptance_floor \<Rightarrow> json" where
  "floor_json print x = JObj [(''type'', JStr (af_Type x)), (''minimum'', JNum (print (af_Minimum x)))]"

definition mix_json :: "(float64 \<Rightarrow> string) \<Rightarrow> cpu_workload_mix \<Rightarrow> json" where
  "mix_json print x =
     JObj [(''hashing'', JNum (print (wm_Hashing x))), (''integer'', JNum (print (wm_Integer x))),
       (''matrix'', JNum (print (wm_Matrix x)))]"

definition cpu_json :: "(float64 \<Rightarrow> string) \<Rightarrow> cpu_profile \<Rightarrow> json" where
  "cpu_json print x =
     JObj [(''id'', JStr (cpu_ID x)), (''duration_seconds'', JNum (itoa (cpu_DurationSeconds x))),
       (''warmup_seconds'', JNum (itoa (cpu_WarmupSeconds x))),
       (''measured_seconds'', JNum (itoa (cpu_MeasuredSeconds x))),
       (''cooldown_seconds'', JNum (itoa (cpu_CooldownSeconds x))),
       (''worker_cap'', JNum (itoa (cpu_WorkerCap x))), (''workload_mix'', mix_json print (cpu_WorkloadMix x)),
       (''acceptance_floor'', floor_json print (cpu_AcceptanceFloor x))]"

definition disk_json :: "(float64 \<Rightarrow> string) \<Rightarrow> disk_profile \<Rightarrow> json" where
  "disk_json print x =
     JObj [(''id'', JStr (disk_ID x)), (''duration_seconds'', JNum (itoa (disk_DurationSeconds x))),
       (''warmup_seconds'', JNum (itoa (disk_WarmupSeconds x))),
       (''measured_seconds'', JNum (itoa (disk_MeasuredSeconds x))),
       (''cooldown_seconds'', JNum (itoa (disk_CooldownSeconds x))),
       (''block_size_bytes'', JNum (itoa (disk_BlockSizeBytes x))),
       (''queue_depth'', JNum (itoa (disk_QueueDepth x))), (''concurrency'', JNum (itoa (disk_Concurrency x))),
       (''read_ratio'', JNum (print (disk_ReadRatio x))), (''write_ratio'', JNum (print (disk_WriteRatio x))),
       (''acceptance_floor'', floor_json print (disk_AcceptanceFloor x))]"

definition hardware_json :: "hardware_thresholds \<Rightarrow> json" where
  "hardware_json x =
     JObj [(''cpu_cores_min'', JNum (itoa (hw_CPUCoresMin x))), (''ram_gb_min'', JNum (itoa (hw_RAMGBMin x))),
       (''storage_gb_min'', JNum (itoa (hw_StorageGBMin x))), (''ssd_required'', JBool (hw_SSDRequired x))]"

definition probe_json :: "probe_thresholds \<Rightarrow> json" where
  "probe_json x =
     JObj [(''finalized_lag_max_blocks'', JNum (itoa (pt_FinalizedLagMaxBlocks x))),
       (''chain_lag_max_blocks'', JNum (itoa (pt_ChainLagMaxBlocks x)))]"

definition reference_json :: "reference_environment \<Rightarrow> json" where
  "reference_json x =
     JObj [(''id'', JStr (ref_ID x)), (''os_image_id'', JStr (ref_OSImageID x)),
       (''agent_version'', JStr (ref_AgentVersion x)), (''cpu_profile_id'', JStr (ref_CPUProfileID x)),
       (''disk_profile_id'', JStr (ref_DiskProfileID x)),
       (''baseline_source_date'', JStr (ref_BaselineSourceDate x))]"

definition policy_json :: "(float64 \<Rightarrow> string) \<Rightarrow> policy_document \<Rightarrow> json" where
  "policy_json print x =
     JObj [(''policy_version'', JStr (po_PolicyVersion x)),
       (''heartbeat_interval_seconds'', JNum (itoa (po_HeartbeatIntervalSeconds x))),
       (''cpu_profile'', cpu_json print (po_CPUProfile x)), (''disk_profile'', disk_json print (po_DiskProfile x)),
       (''hardware_thresholds'', hardware_json (po_HardwareThresholds x)),
       (''probe_thresholds'', probe_json (po_ProbeThresholds x)),
       (''reference_environment'', reference_json (po_ReferenceEnvironment x))]"


section \<open>Reading it\<close>

definition fill_floor :: "(string \<Rightarrow> float64 option) \<Rightarrow> acceptance_floor filler" where
  "fill_floor parse = fill_struct ''policy.AcceptanceFloor''
     [(''type'', on_field af_Type af_Type_update fill_string),
      (''minimum'', on_field af_Minimum af_Minimum_update (fill_float parse))]"

definition fill_mix :: "(string \<Rightarrow> float64 option) \<Rightarrow> cpu_workload_mix filler" where
  "fill_mix parse = fill_struct ''policy.CPUWorkloadMix''
     [(''hashing'', on_field wm_Hashing wm_Hashing_update (fill_float parse)),
      (''integer'', on_field wm_Integer wm_Integer_update (fill_float parse)),
      (''matrix'', on_field wm_Matrix wm_Matrix_update (fill_float parse))]"

definition fill_cpu :: "(string \<Rightarrow> float64 option) \<Rightarrow> cpu_profile filler" where
  "fill_cpu parse = fill_struct ''policy.CPUProfile''
     [(''id'', on_field cpu_ID cpu_ID_update fill_string),
      (''duration_seconds'', on_field cpu_DurationSeconds cpu_DurationSeconds_update fill_int),
      (''warmup_seconds'', on_field cpu_WarmupSeconds cpu_WarmupSeconds_update fill_int),
      (''measured_seconds'', on_field cpu_MeasuredSeconds cpu_MeasuredSeconds_update fill_int),
      (''cooldown_seconds'', on_field cpu_CooldownSeconds cpu_CooldownSeconds_update fill_int),
      (''worker_cap'', on_field cpu_WorkerCap cpu_WorkerCap_update fill_int),
      (''workload_mix'', on_field cpu_WorkloadMix cpu_WorkloadMix_update (fill_mix parse)),
      (''acceptance_floor'', on_field cpu_AcceptanceFloor cpu_AcceptanceFloor_update (fill_floor parse))]"

definition fill_disk :: "(string \<Rightarrow> float64 option) \<Rightarrow> disk_profile filler" where
  "fill_disk parse = fill_struct ''policy.DiskProfile''
     [(''id'', on_field disk_ID disk_ID_update fill_string),
      (''duration_seconds'', on_field disk_DurationSeconds disk_DurationSeconds_update fill_int),
      (''warmup_seconds'', on_field disk_WarmupSeconds disk_WarmupSeconds_update fill_int),
      (''measured_seconds'', on_field disk_MeasuredSeconds disk_MeasuredSeconds_update fill_int),
      (''cooldown_seconds'', on_field disk_CooldownSeconds disk_CooldownSeconds_update fill_int),
      (''block_size_bytes'', on_field disk_BlockSizeBytes disk_BlockSizeBytes_update fill_int),
      (''queue_depth'', on_field disk_QueueDepth disk_QueueDepth_update fill_int),
      (''concurrency'', on_field disk_Concurrency disk_Concurrency_update fill_int),
      (''read_ratio'', on_field disk_ReadRatio disk_ReadRatio_update (fill_float parse)),
      (''write_ratio'', on_field disk_WriteRatio disk_WriteRatio_update (fill_float parse)),
      (''acceptance_floor'', on_field disk_AcceptanceFloor disk_AcceptanceFloor_update (fill_floor parse))]"

definition fill_hardware :: "hardware_thresholds filler" where
  "fill_hardware = fill_struct ''policy.HardwareThresholds''
     [(''cpu_cores_min'', on_field hw_CPUCoresMin hw_CPUCoresMin_update fill_int),
      (''ram_gb_min'', on_field hw_RAMGBMin hw_RAMGBMin_update fill_int),
      (''storage_gb_min'', on_field hw_StorageGBMin hw_StorageGBMin_update fill_int),
      (''ssd_required'', on_field hw_SSDRequired hw_SSDRequired_update fill_bool)]"

definition fill_probe :: "probe_thresholds filler" where
  "fill_probe = fill_struct ''policy.ProbeThresholds''
     [(''finalized_lag_max_blocks'', on_field pt_FinalizedLagMaxBlocks pt_FinalizedLagMaxBlocks_update fill_int),
      (''chain_lag_max_blocks'', on_field pt_ChainLagMaxBlocks pt_ChainLagMaxBlocks_update fill_int)]"

definition fill_reference :: "reference_environment filler" where
  "fill_reference = fill_struct ''policy.ReferenceEnvironment''
     [(''id'', on_field ref_ID ref_ID_update fill_string),
      (''os_image_id'', on_field ref_OSImageID ref_OSImageID_update fill_string),
      (''agent_version'', on_field ref_AgentVersion ref_AgentVersion_update fill_string),
      (''cpu_profile_id'', on_field ref_CPUProfileID ref_CPUProfileID_update fill_string),
      (''disk_profile_id'', on_field ref_DiskProfileID ref_DiskProfileID_update fill_string),
      (''baseline_source_date'', on_field ref_BaselineSourceDate ref_BaselineSourceDate_update fill_string)]"

definition fill_policy :: "(string \<Rightarrow> float64 option) \<Rightarrow> policy_document filler" where
  "fill_policy parse = fill_struct ''policy.Response''
     [(''policy_version'', on_field po_PolicyVersion po_PolicyVersion_update fill_string),
      (''heartbeat_interval_seconds'',
        on_field po_HeartbeatIntervalSeconds po_HeartbeatIntervalSeconds_update fill_int),
      (''cpu_profile'', on_field po_CPUProfile po_CPUProfile_update (fill_cpu parse)),
      (''disk_profile'', on_field po_DiskProfile po_DiskProfile_update (fill_disk parse)),
      (''hardware_thresholds'', on_field po_HardwareThresholds po_HardwareThresholds_update fill_hardware),
      (''probe_thresholds'', on_field po_ProbeThresholds po_ProbeThresholds_update fill_probe),
      (''reference_environment'', on_field po_ReferenceEnvironment po_ReferenceEnvironment_update fill_reference)]"

definition zero_floor :: acceptance_floor where "zero_floor = \<lparr>af_Type = [], af_Minimum = 0\<rparr>"

definition zero_policy :: policy_document where
  "zero_policy =
     \<lparr>po_PolicyVersion = [], po_HeartbeatIntervalSeconds = 0,
      po_CPUProfile =
        \<lparr>cpu_ID = [], cpu_DurationSeconds = 0, cpu_WarmupSeconds = 0, cpu_MeasuredSeconds = 0,
         cpu_CooldownSeconds = 0, cpu_WorkerCap = 0,
         cpu_WorkloadMix = \<lparr>wm_Hashing = 0, wm_Integer = 0, wm_Matrix = 0\<rparr>, cpu_AcceptanceFloor = zero_floor\<rparr>,
      po_DiskProfile =
        \<lparr>disk_ID = [], disk_DurationSeconds = 0, disk_WarmupSeconds = 0, disk_MeasuredSeconds = 0,
         disk_CooldownSeconds = 0, disk_BlockSizeBytes = 0, disk_QueueDepth = 0, disk_Concurrency = 0,
         disk_ReadRatio = 0, disk_WriteRatio = 0, disk_AcceptanceFloor = zero_floor\<rparr>,
      po_HardwareThresholds = \<lparr>hw_CPUCoresMin = 0, hw_RAMGBMin = 0, hw_StorageGBMin = 0, hw_SSDRequired = False\<rparr>,
      po_ProbeThresholds = \<lparr>pt_FinalizedLagMaxBlocks = 0, pt_ChainLagMaxBlocks = 0\<rparr>,
      po_ReferenceEnvironment =
        \<lparr>ref_ID = [], ref_OSImageID = [], ref_AgentVersion = [], ref_CPUProfileID = [], ref_DiskProfileID = [],
         ref_BaselineSourceDate = []\<rparr>\<rparr>"

definition decode_policy :: "(string \<Rightarrow> float64 option) \<Rightarrow> json \<Rightarrow> goerr + policy_document" where
  "decode_policy parse = unmarshal (fill_policy parse) zero_policy"

section \<open>What is printed is read\<close>

definition int_fields :: "policy_document \<Rightarrow> int list" where
  "int_fields x =
     (let c = po_CPUProfile x; d = po_DiskProfile x; w = po_HardwareThresholds x; t = po_ProbeThresholds x
      in [po_HeartbeatIntervalSeconds x, cpu_DurationSeconds c, cpu_WarmupSeconds c, cpu_MeasuredSeconds c,
          cpu_CooldownSeconds c, cpu_WorkerCap c, disk_DurationSeconds d, disk_WarmupSeconds d,
          disk_MeasuredSeconds d, disk_CooldownSeconds d, disk_BlockSizeBytes d, disk_QueueDepth d,
          disk_Concurrency d, hw_CPUCoresMin w, hw_RAMGBMin w, hw_StorageGBMin w,
          pt_FinalizedLagMaxBlocks t, pt_ChainLagMaxBlocks t])"

definition float_fields :: "policy_document \<Rightarrow> float64 list" where
  "float_fields x =
     (let c = po_CPUProfile x; d = po_DiskProfile x; m = cpu_WorkloadMix c
      in [wm_Hashing m, wm_Integer m, wm_Matrix m, af_Minimum (cpu_AcceptanceFloor c), disk_ReadRatio d,
          disk_WriteRatio d, af_Minimum (disk_AcceptanceFloor d)])"

declare parse_itoa [simp]

lemma floor_read: "parse (print (af_Minimum x)) = Some (af_Minimum x) \<Longrightarrow> fill_floor parse (floor_json print x) r = (x, None)"
  by (simp add: fill_floor_def floor_json_def)

lemma mix_read:
  assumes "\<And>f. f \<in> {wm_Hashing x, wm_Integer x, wm_Matrix x} \<Longrightarrow> parse (print f) = Some f"
  shows "fill_mix parse (mix_json print x) r = (x, None)"
  by (simp add: fill_mix_def mix_json_def assms)

lemma cpu_read:
  assumes "list_all int64 [cpu_DurationSeconds x, cpu_WarmupSeconds x, cpu_MeasuredSeconds x,
      cpu_CooldownSeconds x, cpu_WorkerCap x]"
    and "\<And>f. f \<in> {wm_Hashing (cpu_WorkloadMix x), wm_Integer (cpu_WorkloadMix x), wm_Matrix (cpu_WorkloadMix x),
      af_Minimum (cpu_AcceptanceFloor x)} \<Longrightarrow> parse (print f) = Some f"
  shows "fill_cpu parse (cpu_json print x) r = (x, None)"
proof -
  have "fill_mix parse (mix_json print (cpu_WorkloadMix x)) q = (cpu_WorkloadMix x, None)" for q
    by (rule mix_read) (rule assms(2), auto)
  then show ?thesis using assms(1) by (simp add: fill_cpu_def cpu_json_def floor_read assms(2))
qed

lemma disk_read:
  assumes "list_all int64 [disk_DurationSeconds x, disk_WarmupSeconds x, disk_MeasuredSeconds x,
      disk_CooldownSeconds x, disk_BlockSizeBytes x, disk_QueueDepth x, disk_Concurrency x]"
    and "\<And>f. f \<in> {disk_ReadRatio x, disk_WriteRatio x, af_Minimum (disk_AcceptanceFloor x)} \<Longrightarrow> parse (print f) = Some f"
  shows "fill_disk parse (disk_json print x) r = (x, None)"
  using assms(1) by (simp add: fill_disk_def disk_json_def floor_read assms(2))

lemma hardware_read:
  "list_all int64 [hw_CPUCoresMin x, hw_RAMGBMin x, hw_StorageGBMin x] \<Longrightarrow> fill_hardware (hardware_json x) r = (x, None)"
  by (simp add: fill_hardware_def hardware_json_def)

lemma probe_read:
  "list_all int64 [pt_FinalizedLagMaxBlocks x, pt_ChainLagMaxBlocks x] \<Longrightarrow> fill_probe (probe_json x) r = (x, None)"
  by (simp add: fill_probe_def probe_json_def)

lemma reference_read: "fill_reference (reference_json x) r = (x, None)"
  by (simp add: fill_reference_def reference_json_def)

lemma decode_policy_json:
  assumes "list_all int64 (int_fields x)" and "\<And>f. f \<in> set (float_fields x) \<Longrightarrow> parse (print f) = Some f"
  shows "decode_policy parse (policy_json print x) = Inr x"
proof -
  have i: "int64 n" if "n \<in> set (int_fields x)" for n using assms(1) that by (simp add: list_all_iff)
  have "fill_cpu parse (cpu_json print (po_CPUProfile x)) r = (po_CPUProfile x, None)" for r
    by (rule cpu_read) (auto intro!: i assms(2) simp: int_fields_def float_fields_def Let_def)
  moreover have "fill_disk parse (disk_json print (po_DiskProfile x)) r = (po_DiskProfile x, None)" for r
    by (rule disk_read) (auto intro!: i assms(2) simp: int_fields_def float_fields_def Let_def)
  moreover have "fill_hardware (hardware_json (po_HardwareThresholds x)) r = (po_HardwareThresholds x, None)" for r
    by (rule hardware_read) (auto intro!: i simp: int_fields_def Let_def)
  moreover have "fill_probe (probe_json (po_ProbeThresholds x)) r = (po_ProbeThresholds x, None)" for r
    by (rule probe_read) (auto intro!: i simp: int_fields_def Let_def)
  moreover have "int64 (po_HeartbeatIntervalSeconds x)" by (rule i) (simp add: int_fields_def Let_def)
  ultimately have "fill_policy parse (policy_json print x) zero_policy = (x, None)"
    by (simp add: fill_policy_def policy_json_def reference_read)
  then show ?thesis by (simp add: decode_policy_def unmarshal_def)
qed


section \<open>From the portal to the agent\<close>

text \<open>The composition of \<open>Portal_Link\<close>, with the policy sent as the JSON document the portal writes.\<close>

definition serve_policy_text ::
    "(float64 \<Rightarrow> string) \<Rightarrow> (string \<Rightarrow> float64 option) \<Rightarrow> 'p env \<Rightarrow> clk \<Rightarrow> string \<Rightarrow> 'w host \<Rightarrow> 'p server \<times> 'w \<Rightarrow>
     string \<Rightarrow> (string \<times> string) list \<Rightarrow> ('p server \<times> 'w) \<times> policy_document http_result" where
  "serve_policy_text print parse e clk base h sw url query =
     (case Handler e (era_clock clk)
         \<lparr>rq_Method = ''GET'', rq_Path = drop (length base) url, rq_Query = query, rq_Body = Undecodable []\<rparr> (fst sw) of
        (s, resp) \<Rightarrow> (case ho_policy h (snd sw) url query of
           (w, Inl err) \<Rightarrow> ((s, w), Inl err)
         | (w, Inr ((code, line), doc)) \<Rightarrow>
             ((s, w), Inr ((rs_Status resp, line),
                case rs_Body resp of
                  Policy_Body p \<Rightarrow> decode_policy parse (policy_json print p)
                | _ \<Rightarrow> Inl (Msg ''decode policy'')))))"

definition linked_text ::
    "(float64 \<Rightarrow> string) \<Rightarrow> (string \<Rightarrow> float64 option) \<Rightarrow> 'p env \<Rightarrow> clk \<Rightarrow> agent \<Rightarrow> 'w host \<Rightarrow> ('p server \<times> 'w) host" where
  "linked_text print parse e clk a h =
     (link e clk a h)\<lparr>ho_policy := serve_policy_text print parse e clk (trim_right_slash (ag_base a)) h\<rparr>"

lemma policy_route: "route_of ''/api/v1/agent/policy'' = Some Policy"
  by code_simp

text \<open>
  C26: the policy an agent works with is the policy of the portal. The agent of a node the portal knows, over
  a network that answers, fetches exactly the document the portal was started with, every field of it, and
  accepts it; the agent of a node the portal does not know gets an error. Fetching changes nothing at the
  portal and none of the agent's files.
\<close>

theorem policy_as_served:
  assumes "portal_validate (env_policy e) = None" and "list_all int64 (int_fields (env_policy e))"
    and "\<And>f. f \<in> set (float_fields (env_policy e)) \<Longrightarrow> parse (print f) = Some f"
    and "\<And>w u q. \<not> isl (snd (ho_policy h w u q))"
    and "trim_space (ag_node a) \<noteq> []" and "trim_space (ag_fingerprint a) \<noteq> []"
    and "Fetch (linked_text print parse e clk a h) (ag_base a) (ag_node a) (ag_fingerprint a) m = (m', res)"
  shows "(GetNode (sv_store (fst (mc_world m))) (trim_space (ag_node a)) \<noteq> None \<longrightarrow> res = Inr (env_policy e)) \<and>
    (GetNode (sv_store (fst (mc_world m))) (trim_space (ag_node a)) = None \<longrightarrow> isl res) \<and>
    fst (mc_world m') = fst (mc_world m) \<and> mc_files m' = mc_files m"
proof -
  let ?b = "trim_right_slash (ag_base a)" and ?s = "fst (mc_world m)"
  let ?url = "?b @ ''/api/v1/agent/policy''"
  let ?q = "[(''node_id'', ag_node a), (''agent_key_fingerprint'', ag_fingerprint a)]"
  let ?r = "\<lparr>rq_Method = ''GET'', rq_Path = ''/api/v1/agent/policy'', rq_Query = ?q, rq_Body = Undecodable []\<rparr>"
  have good: "agent_validate (env_policy e) = None"
    using assms(1) by (simp add: portal_validate_iff agent_validate_iff)
  have handled: "Handler e (era_clock clk) ?r ?s = (?s, if GetNode (sv_store ?s) (trim_space (ag_node a)) = None
      then fail 404 ''unknown_node'' ''unknown node'' else writeJSON 200 (Policy_Body (env_policy e)))"
    using assms(5,6) by (simp add: Handler_def policy_route serve_route_def handlePolicy_def query_get_def)
  obtain w code line doc where net: "ho_policy h (snd (mc_world m)) ?url ?q = (w, Inr ((code, line), doc))"
    using assms(4) [of "snd (mc_world m)" ?url ?q]
    by (metis isl_def prod.collapse sum.collapse(2))
  have read: "decode_policy parse (policy_json print (env_policy e)) = Inr (env_policy e)"
    by (rule decode_policy_json [OF assms(2,3)])
  show ?thesis
    using assms(7) good
    by (auto simp: Fetch_def outside_def linked_text_def serve_policy_text_def handled net writeJSON_def
        read and_then_def)
qed

definition ex_print_float :: "float64 \<Rightarrow> string" where
  "ex_print_float x =
     (if x = 1 then ''1'' else if x = 1 / 2 then ''0.5'' else if x = 1 / 4 then ''0.25'' else ''0.75'')"

definition ex_parse_float :: "string \<Rightarrow> float64 option" where
  "ex_parse_float l = map_of [(''1'', 1), (''0.5'', 1 / 2), (''0.25'', 1 / 4), (''0.75'', 3 / 4)] l"

theorem policy_as_served_witness:
  "snd (Fetch (linked_text ex_print_float ex_parse_float ex_env ex_clk ex_a ex_reliable) (ag_base ex_a) ''a'' ''f''
      (ex_machine False)) = Inr ex_policy"
proof -
  obtain m' res where 1: "Fetch (linked_text ex_print_float ex_parse_float ex_env ex_clk ex_a ex_reliable)
      (ag_base ex_a) (ag_node ex_a) (ag_fingerprint ex_a) (ex_machine False) = (m', res)" by fastforce
  have p: "env_policy ex_env = ex_policy" by (simp add: ex_env_def)
  have v: "portal_validate (env_policy ex_env) = None" by code_simp
  have i: "list_all int64 (int_fields (env_policy ex_env))" by code_simp
  have f: "ex_parse_float (ex_print_float x) = Some x" if "x \<in> set (float_fields (env_policy ex_env))" for x
    using that by (auto simp: p float_fields_def Let_def ex_policy_def ex_print_float_def ex_parse_float_def)
  have net: "\<not> isl (snd (ho_policy ex_reliable w u q))" for w u q by (simp add: ex_reliable_def ex_host_def)
  have id: "trim_space (ag_node ex_a) = ''a''" "trim_space (ag_fingerprint ex_a) = ''f''"
    by (simp_all, code_simp+)
  have node: "GetNode (sv_store (fst (mc_world (ex_machine False)))) ''a'' \<noteq> None"
    by (simp add: ex_machine_def ex_portal_agent)
  from policy_as_served [OF v i f net _ _ 1] id node show ?thesis by (simp add: 1 [unfolded ex_ag_simps] p)
qed

end
