(* ===== verification/Heartbeat_Gate.thy ===== *)
theory Heartbeat_Gate
  imports Agent_Examples
begin







section \<open>Between two heartbeats\<close>








section \<open>The loop\<close>












end
