(* ===== verification/Symbol_Answers.thy ===== *)
theory Symbol_Answers
  imports Symbol_Client Go_Struct
begin

text \<open>
  The answers of the node API as JSON documents: the response structs of
  \<^verbatim>\<open>agent/internal/symbol/client.go\<close> with their tags, filled as \<open>Go_Struct\<close> says, and the API of a node that
  answers with documents. An epoch is decoded into \<^verbatim>\<open>any\<close>: a string stays one, a number becomes a float.
\<close>

definition fill_any :: "(string \<Rightarrow> float64 option) \<Rightarrow> any_value filler" where
  "fill_any parse v x =
     (case v of
        JStr s \<Rightarrow> (Any_String s, None)
      | JNum l \<Rightarrow> (case parse l of Some f \<Rightarrow> (Any_Float f, None) | None \<Rightarrow> (x, type_error ''float64''))
      | _ \<Rightarrow> (Any_Other, None))"

definition fill_node_info :: "node_info filler" where
  "fill_node_info = fill_struct ''symbol.nodeInfoResponse''
     [(''publicKey'', on_field ni_PublicKey ni_PublicKey_update fill_string),
      (''node'', fill_struct ''symbol.nodeInfoEmbedded''
        [(''publicKey'', on_field ni_NodePublicKey ni_NodePublicKey_update fill_string)])]"

definition fill_chain_info :: "string filler" where
  "fill_chain_info = fill_struct ''symbol.chainInfoResponse'' [(''height'', fill_string)]"

definition fill_chain_properties :: "chain_properties filler" where
  "fill_chain_properties = fill_struct ''symbol.chainProperties''
     [(''votingSetGrouping'', on_field xp_VotingSetGrouping xp_VotingSetGrouping_update fill_string),
      (''blockGenerationTargetTime'',
        on_field xp_BlockGenerationTargetTime xp_BlockGenerationTargetTime_update fill_string)]"

definition fill_network_properties :: "network_properties filler" where
  "fill_network_properties = fill_struct ''symbol.networkPropertiesResponse''
     [(''chain'', on_field np_Chain np_Chain_update fill_chain_properties),
      (''network'', fill_struct ''symbol.networkPropertiesTop''
        [(''chain'', on_field np_NetworkChain np_NetworkChain_update fill_chain_properties)])]"

definition fill_voting_key :: "(string \<Rightarrow> float64 option) \<Rightarrow> voting_key filler" where
  "fill_voting_key parse = fill_struct ''symbol.votingKey''
     [(''publicKey'', on_field vy_PublicKey vy_PublicKey_update fill_string),
      (''startEpoch'', on_field vy_StartEpoch vy_StartEpoch_update (fill_any parse)),
      (''endEpoch'', on_field vy_EndEpoch vy_EndEpoch_update (fill_any parse))]"

text \<open>The account, of which the code reads the voting keys.\<close>

definition fill_account :: "(string \<Rightarrow> float64 option) \<Rightarrow> voting_key list filler" where
  "fill_account parse = fill_struct ''symbol.accountInfoResponse''
     [(''account'', fill_struct ''symbol.accountInfo''
        [(''supplementalPublicKeys'', fill_struct ''symbol.supplementalPublicKeys''
           [(''voting'', fill_struct ''symbol.votingPublicKeys''
              [(''publicKeys'', fill_slice ''[]symbol.votingKey'' (fill_voting_key parse)
                 \<lparr>vy_PublicKey = [], vy_StartEpoch = Any_Other, vy_EndEpoch = Any_Other\<rparr>)])])])]"

text \<open>A node that answers each question with a transport error, or with a status, its line and a document.\<close>

type_synonym answer = "goerr + (int \<times> string) \<times> (goerr + json)"

definition decoded_answer :: "'r filler \<Rightarrow> 'r \<Rightarrow> answer \<Rightarrow> 'r http_result" where
  "decoded_answer f zero answer = map_sum id (map_prod id (\<lambda>doc. and_then doc (unmarshal f zero))) answer"

definition zero_chain_properties :: chain_properties where
  "zero_chain_properties = \<lparr>xp_VotingSetGrouping = [], xp_BlockGenerationTargetTime = []\<rparr>"

definition api_of :: "(string \<Rightarrow> float64 option) \<Rightarrow> (string \<Rightarrow> answer) \<Rightarrow> symbol_api" where
  "api_of parse get =
     \<lparr>sa_node_info = decoded_answer fill_node_info \<lparr>ni_PublicKey = [], ni_NodePublicKey = []\<rparr> (get ''/node/info''),
      sa_chain_info = decoded_answer fill_chain_info [] (get ''/chain/info''),
      sa_properties = decoded_answer fill_network_properties
        \<lparr>np_Chain = zero_chain_properties, np_NetworkChain = zero_chain_properties\<rparr> (get ''/network/properties''),
      sa_account = (\<lambda>publicKey. decoded_answer (fill_account parse) [] (get (''/accounts/'' @ publicKey)))\<rparr>"

section \<open>Reading the voting keys\<close>

definition voting_key_json :: "string \<times> string \<times> string \<Rightarrow> json" where
  "voting_key_json k = (case k of (publicKey, startEpoch, endEpoch) \<Rightarrow>
     JObj [(''publicKey'', JStr publicKey), (''startEpoch'', JNum startEpoch), (''endEpoch'', JNum endEpoch)])"

definition account_json :: "json list \<Rightarrow> json" where
  "account_json keys =
     JObj [(''account'', JObj [(''supplementalPublicKeys'', JObj [(''voting'', JObj [(''publicKeys'', JArr keys)])])])]"

lemma fill_any_number [simp]: "parse l = Some f \<Longrightarrow> fill_any parse (JNum l) x = (Any_Float f, None)"
  by (simp add: fill_any_def)

lemma voting_key_read:
  "parse s = Some S \<Longrightarrow> parse t = Some T \<Longrightarrow> fill_voting_key parse (voting_key_json (k, s, t)) x =
     (\<lparr>vy_PublicKey = k, vy_StartEpoch = Any_Float S, vy_EndEpoch = Any_Float T\<rparr>, None)"
  by (simp add: fill_voting_key_def voting_key_json_def)

lemma fill_elements_map:
  "(\<And>k. k \<in> set ks \<Longrightarrow> f (js k) zero = (g k, None)) \<Longrightarrow> fill_elements f zero (map js ks) = (map g ks, None)"
  by (induction ks) simp_all

text \<open>An account with its voting keys is read as these keys, whatever numbers their epochs are.\<close>

lemma account_read:
  assumes "\<And>k s t. (k, s, t) \<in> set ks \<Longrightarrow> parse s \<noteq> None \<and> parse t \<noteq> None"
  shows "unmarshal (fill_account parse) [] (account_json (map voting_key_json ks)) =
    Inr (map (\<lambda>(k, s, t). \<lparr>vy_PublicKey = k, vy_StartEpoch = Any_Float (the (parse s)),
      vy_EndEpoch = Any_Float (the (parse t))\<rparr>) ks)"
proof -
  let ?key = "\<lambda>(k, s, t). \<lparr>vy_PublicKey = k, vy_StartEpoch = Any_Float (the (parse s)),
    vy_EndEpoch = Any_Float (the (parse t))\<rparr>"
  have "fill_elements (fill_voting_key parse) x (map voting_key_json ks) = (map ?key ks, None)" for x
  proof (rule fill_elements_map)
    fix k
    assume "k \<in> set ks"
    moreover obtain a s t where k: "k = (a, s, t)" by (cases k)
    ultimately obtain S T where "parse s = Some S" "parse t = Some T" using assms by blast
    then show "fill_voting_key parse (voting_key_json k) x = (?key k, None)" by (simp add: k voting_key_read)
  qed
  then show ?thesis by (simp add: unmarshal_def fill_account_def account_json_def fill_slice_def)
qed

end
