(* ===== verification/Log_Lines.thy ===== *)
theory Log_Lines
  imports Probe
begin

text \<open>
  What the programs write about themselves: the worker's lines (\<^verbatim>\<open>logCycleEvent\<close>, \<^verbatim>\<open>logTargetEvent\<close> of
  \<^verbatim>\<open>probe/internal/worker/worker.go\<close>), a cycle that writes them, and the agent's entries
  (\<^verbatim>\<open>agent/internal/logger/logger.go\<close>). Writing changes nothing that the programs compute. \<open>text\<close> of an error
  is a parameter.
\<close>

definition formatTime :: "instant option \<Rightarrow> string" where
  "formatTime value = (case value of None \<Rightarrow> ''-'' | Some t \<Rightarrow> format_rfc3339 t)"

definition with_error :: "string \<Rightarrow> string \<Rightarrow> string" where
  "with_error message errText = (if errText = [] then message else message @ '' error='' @ errText)"

definition logCycleEvent :: "probe_worker \<Rightarrow> string \<Rightarrow> instant \<Rightarrow> string \<Rightarrow> string" where
  "logCycleEvent wk event observedAt errText =
     with_error
       (''event='' @ event @ '' region_id='' @ prc_RegionID (wk_cfg wk)
        @ '' source_endpoint='' @ prc_SourceEndpoint (wk_cfg wk) @ '' observed_at='' @ format_rfc3339 observedAt
        @ '' consecutive_failures='' @ itoa (wk_consecutiveFailures wk)
        @ '' last_success_at='' @ formatTime (wk_lastSuccessAt wk)) errText"

definition logTargetEvent :: "probe_worker \<Rightarrow> string \<Rightarrow> instant \<Rightarrow> string \<Rightarrow> string \<Rightarrow> string \<Rightarrow> string" where
  "logTargetEvent wk event observedAt nodeID endpoint errText =
     with_error
       (''event='' @ event @ '' region_id='' @ prc_RegionID (wk_cfg wk)
        @ '' source_endpoint='' @ prc_SourceEndpoint (wk_cfg wk) @ '' observed_at='' @ format_rfc3339 observedAt
        @ '' node_id='' @ nodeID @ '' endpoint='' @ endpoint
        @ '' consecutive_failures='' @ itoa (wk_consecutiveFailures wk)
        @ '' last_success_at='' @ formatTime (wk_lastSuccessAt wk)) errText"

text \<open>The line about a target: Go prints a missing error code as \<^verbatim>\<open><nil>\<close>.\<close>

definition target_line :: "probe_worker \<Rightarrow> instant \<Rightarrow> probe_target \<Rightarrow> (string, json) gomap \<Rightarrow> string" where
  "target_line wk observedAt target observed =
     (if map_get observed ''availability_up'' = Some (JBool True)
      then logTargetEvent wk ''probe_submitted'' observedAt (tg_NodeID target) (tg_Endpoint target) []
      else logTargetEvent wk ''probe_marked_down'' observedAt (tg_NodeID target) (tg_Endpoint target)
        (case map_get observed ''error_code'' of Some (JStr code) \<Rightarrow> code | _ \<Rightarrow> ''<nil>''))"

fun targets_logged ::
    "'w probe_host \<Rightarrow> probe_worker \<Rightarrow> int \<Rightarrow> instant \<Rightarrow> probe_target list \<Rightarrow> 'w \<Rightarrow> ('w \<times> goerr option) \<times> string list" where
  "targets_logged h wk sourceHeight observedAt [] w = ((w, None), [])"
| "targets_logged h wk sourceHeight observedAt (target # targets) w =
     (case observe h sourceHeight target w of (w1, observed) \<Rightarrow>
        (case SubmitProbeEvent h (prc_PortalBaseURL (wk_cfg wk))
                (probe_base (ph_sha256 h) (wk_cfg wk) target observedAt @ observed) w1 of
           (w2, Some err) \<Rightarrow> ((w2, Some (Field_Error (''submit probe node_id='' @ tg_NodeID target) '''')), [])
         | (w2, None) \<Rightarrow>
             apsnd ((#) (target_line wk observedAt target observed))
               (targets_logged h wk sourceHeight observedAt targets w2)))"

definition RunOnce_logged ::
    "(goerr \<Rightarrow> string) \<Rightarrow> 'w probe_host \<Rightarrow> probe_worker \<Rightarrow> 'w \<Rightarrow> (('w \<times> probe_worker) \<times> goerr option) \<times> string list" where
  "RunOnce_logged err_text h wk w =
     (case ph_now h w of (w1, now) \<Rightarrow>
        let observedAt = seconds_of now * second;
            started = logCycleEvent wk ''cycle_started'' observedAt [];
            failed = (\<lambda>err. logCycleEvent (failCycle wk) ''cycle_failed'' observedAt (err_text err))
        in (case FetchSourceHeight h (prc_SourceEndpoint (wk_cfg wk)) w1 of
          (w2, Inl err) \<Rightarrow>
            let err' = Field_Error ''fetch source height'' '''' in (((w2, failCycle wk), Some err'), [started, failed err'])
        | (w2, Inr sourceHeight) \<Rightarrow>
            (case targets_logged h wk sourceHeight observedAt (prc_Targets (wk_cfg wk)) w2 of
               ((w3, Some err), lines) \<Rightarrow> (((w3, failCycle wk), Some err), started # lines @ [failed err])
             | ((w3, None), lines) \<Rightarrow>
                 let wk' = wk\<lparr>wk_lastSuccessAt := Some observedAt, wk_consecutiveFailures := 0\<rparr>
                 in (((w3, wk'), None), started # lines @ [logCycleEvent wk' ''cycle_succeeded'' observedAt []]))))"

text \<open>The agent's entries: a line of JSON, with an empty node id and empty fields left out.\<close>

definition log_entry :: "instant \<Rightarrow> string \<Rightarrow> string \<Rightarrow> string \<Rightarrow> string \<Rightarrow> (string, json) gomap \<Rightarrow> json" where
  "log_entry now level component event nodeID extra =
     JObj
       ([(''ts'', JStr (format_rfc3339 now)), (''level'', JStr level), (''component'', JStr component),
         (''event'', JStr event)] @
        (if nodeID = [] then [] else [(''node_id'', JStr nodeID)]) @
        (if extra = [] then [] else [(''fields'', map_json extra)]))"

section \<open>Writing changes nothing\<close>

lemma targets_logged_same:
  "fst (targets_logged h wk height t ts w) = probe_targets h (wk_cfg wk) height t ts w"
  by (induction ts arbitrary: w) (auto split: prod.split option.split)

lemma targets_logged_all:
  "snd (probe_targets h (wk_cfg wk) height t ts w) = None \<Longrightarrow>
     length (snd (targets_logged h wk height t ts w)) = length ts"
  by (induction ts arbitrary: w) (auto split: prod.splits option.splits)

lemma RunOnce_logged_same: "fst (RunOnce_logged err_text h wk w) = RunOnce h wk w"
proof -
  obtain w1 now where 1: "ph_now h w = (w1, now)" by fastforce
  obtain w2 src where 2: "FetchSourceHeight h (prc_SourceEndpoint (wk_cfg wk)) w1 = (w2, src)" by fastforce
  show ?thesis
  proof (cases src)
    case (Inr height)
    let ?t = "seconds_of now * second"
    obtain w3 x lines where 3: "targets_logged h wk height ?t (prc_Targets (wk_cfg wk)) w2 = ((w3, x), lines)"
      by (metis prod.exhaust)
    then have 4: "probe_targets h (wk_cfg wk) height ?t (prc_Targets (wk_cfg wk)) w2 = (w3, x)"
      using targets_logged_same [of h wk height ?t "prc_Targets (wk_cfg wk)" w2] by simp
    show ?thesis by (cases x) (simp_all add: RunOnce_logged_def RunOnce_def 1 2 3 4 Inr Let_def)
  qed (simp add: RunOnce_logged_def RunOnce_def 1 2 Let_def)
qed

text \<open>A good cycle writes two lines and one for each target.\<close>

lemma RunOnce_logged_lines:
  assumes "snd (RunOnce h wk w) = None"
  shows "length (snd (RunOnce_logged err_text h wk w)) = length (prc_Targets (wk_cfg wk)) + 2"
proof -
  obtain w1 now where 1: "ph_now h w = (w1, now)" by fastforce
  obtain w2 src where 2: "FetchSourceHeight h (prc_SourceEndpoint (wk_cfg wk)) w1 = (w2, src)" by fastforce
  let ?t = "seconds_of now * second"
  obtain height where s: "src = Inr height"
    using assms by (cases src) (simp_all add: RunOnce_def 1 2 Let_def)
  obtain w3 x lines where 3: "targets_logged h wk height ?t (prc_Targets (wk_cfg wk)) w2 = ((w3, x), lines)"
    by (metis prod.exhaust)
  then have 4: "probe_targets h (wk_cfg wk) height ?t (prc_Targets (wk_cfg wk)) w2 = (w3, x)"
    using targets_logged_same [of h wk height ?t "prc_Targets (wk_cfg wk)" w2] by simp
  have x: "x = None" using assms by (cases x) (simp_all add: RunOnce_def 1 2 4 s Let_def)
  have "length lines = length (prc_Targets (wk_cfg wk))"
    using targets_logged_all [of h wk height ?t "prc_Targets (wk_cfg wk)" w2] by (simp add: 3 4 x)
  then show ?thesis by (simp add: RunOnce_logged_def 1 2 3 s x Let_def)
qed

end
