(* ===== verification/Agent_Log.thy ===== *)
theory Agent_Log
  imports Agent_Runs Log_Lines
begin

text \<open>
  The agent with its log: the functions of \<open>Agent\<close> whose code calls \<^verbatim>\<open>logger.Log\<close>, with the entries they
  write, in order. Each of them is its counterpart of \<open>Agent\<close> when the entries are dropped, so everything
  proved of the agent holds of the agent that logs. An entry is stamped with \<open>stamp\<close>, the clock as the
  logger reads it; reading it changes nothing. \<open>text\<close> of an error is a parameter.
\<close>

record 'w logging =
  lg_stamp :: "'w \<Rightarrow> instant"
  lg_text :: "goerr \<Rightarrow> string"

definition Log :: "'w logging \<Rightarrow> agent \<Rightarrow> string \<Rightarrow> string \<Rightarrow> (string, json) gomap \<Rightarrow> 'w machine \<Rightarrow> json" where
  "Log lg a level event extra m = log_entry (lg_stamp lg (mc_world m)) level ''runtime'' event (ag_node a) extra"

definition log_error :: "'w logging \<Rightarrow> agent \<Rightarrow> string \<Rightarrow> 'w machine \<Rightarrow> goerr option \<Rightarrow> json list" where
  "log_error lg a event m err =
     (case err of None \<Rightarrow> [] | Some x \<Rightarrow> [Log lg a ''error'' event [(''error'', JStr (lg_text lg x))] m])"

definition maybeEmitVotingKeyExpiryRisk_logged ::
    "'w logging \<Rightarrow> 'w host \<Rightarrow> agent \<Rightarrow> string \<Rightarrow> 'w machine \<Rightarrow> ('w machine \<times> goerr option) \<times> json list" where
  "maybeEmitVotingKeyExpiryRisk_logged lg h a policyVersion w =
     (case outside (ho_symbol h) w of (w1, api) \<Rightarrow>
        (case HasVotingKeyExpiryRisk api votingKeyRiskWindow of
           Inl err \<Rightarrow>
             ((w1, None), [Log lg a ''warn'' ''voting_key_expiry_check_skipped'' [(''error'', JStr (lg_text lg err))] w1])
         | Inr near \<Rightarrow>
             if \<not> near then ((w1, None), [])
             else (markWarning h a policyVersion warningVotingKeyExpiryRisk w1, [])))"

definition runRecurringChecks_logged ::
    "'w logging \<Rightarrow> 'w host \<Rightarrow> agent \<Rightarrow> string \<Rightarrow> 'w machine \<Rightarrow> ('w machine \<times> goerr option) \<times> json list" where
  "runRecurringChecks_logged lg h a policyVersion w =
     (case maybeEmitVotingKeyExpiryRisk_logged lg h a policyVersion w of
        ((w1, Some err), entries) \<Rightarrow> ((w1, Some err), entries)
      | ((w1, None), entries) \<Rightarrow> (maybeEmitCertificateExpiryRisk h a policyVersion w1, entries))"

text \<open>The body of the loop of \<^verbatim>\<open>Run\<close>.\<close>

definition run_cycle_logged ::
    "'w logging \<Rightarrow> 'w host \<Rightarrow> agent \<Rightarrow> string \<Rightarrow> 'w machine \<Rightarrow> 'w machine \<times> json list" where
  "run_cycle_logged lg h a policyVersion w =
     (case runRecurringChecks_logged lg h a policyVersion w of ((w1, checks), entries) \<Rightarrow>
        let entries1 = entries @ log_error lg a ''recurring_checks_failed'' w1 checks
        in (case sendHeartbeatWithRetry h a w1 of
          (w2, Some err) \<Rightarrow>
            (case recordPortalFailure h a w2 of (w3, stateErr) \<Rightarrow>
               (w3, entries1 @ log_error lg a ''state_save_failed'' w3 stateErr @
                 log_error lg a ''heartbeat_failed'' w3 (Some err)))
        | (w2, None) \<Rightarrow>
            (case handlePortalRecovery h a policyVersion w2 of (w3, err) \<Rightarrow>
               (w3, entries1 @ log_error lg a ''warning_flush_failed'' w3 err))))"

definition RunChecks_logged ::
    "'w logging \<Rightarrow> 'w host \<Rightarrow> 'w meters \<Rightarrow> agent \<Rightarrow> string \<Rightarrow> string \<Rightarrow> 'w machine \<Rightarrow>
     ('w machine \<times> goerr option) \<times> json list" where
  "RunChecks_logged lg h me a eventType eventID w =
     (if eventType \<notin> set [''registration'', ''voting_key_renewal'', ''recheck'']
      then ((w, Some (Field_Error ''invalid event type: '' eventType)), [])
      else (case Fetch h (ag_base a) (ag_node a) (ag_fingerprint a) w of
        (w1, Inl err) \<Rightarrow> ((w1, Some err), [])
      | (w1, Inr pol) \<Rightarrow>
          (case outside (me_hardware me) w1 of (w2, threads, memory, storage, ssd) \<Rightarrow>
          (case outside (me_cpu me) w2 of (w3, numCPU, cpu_ops) \<Rightarrow>
          (case outside (me_disk me) w3 of (w4, ready, disk_ops) \<Rightarrow>
             let hw = hardware_Run threads memory storage ssd (po_HardwareThresholds pol);
                 cpuResult = cpu_Run numCPU cpu_ops (po_CPUProfile pol);
                 diskResult = disk_Run ready disk_ops (po_DiskProfile pol);
                 (w5, warned) = (if localCheckExecutionFailed hw cpuResult diskResult
                   then markWarning h a (po_PolicyVersion pol) warningLocalCheckExecFailed w4 else (w4, None));
                 entries = (case warned of None \<Rightarrow> [] | Some err \<Rightarrow>
                   [Log lg a ''error'' ''telemetry_submit_failed''
                     [(''error'', JStr (lg_text lg err)), (''warning_flag'', JStr warningLocalCheckExecFailed)] w5])
             in (case outside (ho_now h) w5 of (w6, now) \<Rightarrow>
                (case post_signed h a ''/api/v1/agent/checks''
                        (checks_payload a (me_print_float me) eventType eventID pol now hw cpuResult diskResult) w6 of
                   (w7, Some err) \<Rightarrow> ((w7, Some err), entries)
                 | (w7, None) \<Rightarrow>
                     (outside (\<lambda>v. ho_print h v
                       [(''event_id'', JStr eventID), (''policy_version'', JStr (po_PolicyVersion pol)),
                        (''cpu_check_passed'', JBool (hr_CPUCheckPassed hw)),
                        (''disk_check_passed'', JBool (dr_Passed diskResult)),
                        (''overall_passed'', JBool (checks_overall hw cpuResult diskResult)),
                        (''submitted'', JBool True)]) w7, entries))))))))"

section \<open>Logging changes nothing\<close>

lemma voting_key_logged_same:
  "fst (maybeEmitVotingKeyExpiryRisk_logged lg h a pv w) = maybeEmitVotingKeyExpiryRisk h a pv w"
  by (simp add: maybeEmitVotingKeyExpiryRisk_logged_def maybeEmitVotingKeyExpiryRisk_def split: prod.split sum.split)

lemma recurring_logged_same: "fst (runRecurringChecks_logged lg h a pv w) = runRecurringChecks h a pv w"
  using voting_key_logged_same [of lg h a pv w]
  by (auto simp: runRecurringChecks_logged_def runRecurringChecks_def split: prod.split option.split)

lemma run_cycle_logged_same: "fst (run_cycle_logged lg h a pv w) = run_cycle h a pv w"
proof -
  obtain w1 checks entries where 1: "runRecurringChecks_logged lg h a pv w = ((w1, checks), entries)"
    by (metis prod.exhaust)
  then have c: "runRecurringChecks h a pv w = (w1, checks)" using recurring_logged_same [of lg h a pv w] by simp
  obtain w2 beat where 2: "sendHeartbeatWithRetry h a w1 = (w2, beat)" by fastforce
  show ?thesis
    by (cases beat; cases "recordPortalFailure h a w2"; cases "handlePortalRecovery h a pv w2")
      (simp_all add: run_cycle_logged_def run_cycle_def 1 2 c)
qed

lemma RunChecks_logged_same: "fst (RunChecks_logged lg h me a eventType eventID w) = RunChecks h me a eventType eventID w"
proof (cases "eventType \<in> set [''registration'', ''voting_key_renewal'', ''recheck'']")
  case True
  obtain w1 r where 1: "Fetch h (ag_base a) (ag_node a) (ag_fingerprint a) w = (w1, r)" by fastforce
  show ?thesis
  proof (cases r)
    case (Inr pol)
    obtain w2 threads memory storage ssd where 2: "outside (me_hardware me) w1 = (w2, threads, memory, storage, ssd)"
      by (metis prod.exhaust)
    obtain w3 numCPU ops where 3: "outside (me_cpu me) w2 = (w3, numCPU, ops)" by (metis prod.exhaust)
    obtain w4 ready disk_ops where 4: "outside (me_disk me) w3 = (w4, ready, disk_ops)" by (metis prod.exhaust)
    obtain w5 warned where 5: "markWarning h a (po_PolicyVersion pol) warningLocalCheckExecFailed w4 = (w5, warned)"
      by fastforce
    show ?thesis
      unfolding RunChecks_logged_def RunChecks_def
      using True by (simp add: 1 Inr 2 3 4 5 Let_def case_prod_beta split: option.split)
  qed (use True in \<open>simp add: RunChecks_logged_def RunChecks_def 1\<close>)
qed (simp add: RunChecks_logged_def RunChecks_def)

section \<open>What a cycle writes\<close>

definition entry_event :: "json \<Rightarrow> string" where
  "entry_event v = (case v of JObj kvs \<Rightarrow> (case map_of kvs ''event'' of Some (JStr s) \<Rightarrow> s | _ \<Rightarrow> []) | _ \<Rightarrow> [])"

lemma entry_event_Log [simp]: "entry_event (Log lg a level event extra m) = event"
  by (simp add: Log_def log_entry_def entry_event_def)

lemma log_error_events [simp]:
  "map entry_event (log_error lg a event m err) = (if err = None then [] else [event])"
  by (simp add: log_error_def split: option.split)

definition voting_key_unknown :: "'w host \<Rightarrow> 'w machine \<Rightarrow> bool" where
  "voting_key_unknown h w \<longleftrightarrow> isl (HasVotingKeyExpiryRisk (snd (outside (ho_symbol h) w)) votingKeyRiskWindow)"

lemma recurring_events:
  "map entry_event (snd (runRecurringChecks_logged lg h a pv w)) =
     (if voting_key_unknown h w then [''voting_key_expiry_check_skipped''] else [])"
  by (auto simp: runRecurringChecks_logged_def maybeEmitVotingKeyExpiryRisk_logged_def voting_key_unknown_def
      split: prod.split sum.split option.split)

text \<open>
  A turn of the agent's loop never ends the agent on an error. Its log names the steps that failed and
  no others, each once and in this order: the voting key check that could not be made, the recurring checks,
  and then, when the heartbeat failed after its retries, the state that could not be saved and the heartbeat,
  and when it succeeded, the warning that could not be flushed. The machine is left as it is without a log.
\<close>

theorem cycle_log_exact:
  "fst (run_cycle_logged lg h a pv w) = run_cycle h a pv w \<and>
   map entry_event (snd (run_cycle_logged lg h a pv w)) =
     (let (w1, checks) = runRecurringChecks h a pv w; (w2, beat) = sendHeartbeatWithRetry h a w1
      in (if voting_key_unknown h w then [''voting_key_expiry_check_skipped''] else []) @
         (if checks = None then [] else [''recurring_checks_failed'']) @
         (if beat = None
          then (if snd (handlePortalRecovery h a pv w2) = None then [] else [''warning_flush_failed''])
          else (if snd (recordPortalFailure h a w2) = None then [] else [''state_save_failed'']) @
            [''heartbeat_failed'']))"
proof
  show "fst (run_cycle_logged lg h a pv w) = run_cycle h a pv w" by (rule run_cycle_logged_same)
  obtain w1 checks entries where 1: "runRecurringChecks_logged lg h a pv w = ((w1, checks), entries)"
    by (metis prod.exhaust)
  have c: "runRecurringChecks h a pv w = (w1, checks)" using recurring_logged_same [of lg h a pv w] by (simp add: 1)
  have e: "map entry_event entries = (if voting_key_unknown h w then [''voting_key_expiry_check_skipped''] else [])"
    using recurring_events [of lg h a pv w] by (simp add: 1)
  obtain w2 beat where 2: "sendHeartbeatWithRetry h a w1 = (w2, beat)" by fastforce
  show "map entry_event (snd (run_cycle_logged lg h a pv w)) =
     (let (w1, checks) = runRecurringChecks h a pv w; (w2, beat) = sendHeartbeatWithRetry h a w1
      in (if voting_key_unknown h w then [''voting_key_expiry_check_skipped''] else []) @
         (if checks = None then [] else [''recurring_checks_failed'']) @
         (if beat = None
          then (if snd (handlePortalRecovery h a pv w2) = None then [] else [''warning_flush_failed''])
          else (if snd (recordPortalFailure h a w2) = None then [] else [''state_save_failed'']) @
            [''heartbeat_failed'']))"
    by (cases beat; cases "recordPortalFailure h a w2"; cases "handlePortalRecovery h a pv w2")
      (simp_all add: run_cycle_logged_def 1 2 c e)
qed

end
