(* ===== verification/Spec2Isabelle.thy ===== *)
theory Spec2Isabelle
  imports Daily_Properties Reward_Properties Store_Properties Signature_Properties Serving Command_Properties
    Load_Tests Policy_Wire Heartbeat_Gate Symbol_Answers Agent_Log
begin

text \<open>
  A verification development of the Symbol node program in this repository. Three programs work together:
  the \<^emph>\<open>portal\<close> (\<^verbatim>\<open>src/portal\<close>) enrolls nodes, collects signed heartbeats, check reports, warnings and
  evidence about them, qualifies and ranks them day by day, shares out a daily reward pool and alerts their
  operators; the \<^emph>\<open>agent\<close> (\<^verbatim>\<open>src/agent\<close>) runs beside a node, keeps a small state file and reports to the
  portal; the \<^emph>\<open>probe worker\<close> (\<^verbatim>\<open>src/probe\<close>) looks at the nodes from outside and reports what it sees.

  The model is written the way the code is: a \<open>record\<close> per struct, a definition per function under its Go
  name, Go's maps as association lists (so that iteration order is there to be quantified over), slices as
  lists, \<^verbatim>\<open>int\<close> and \<^verbatim>\<open>int64\<close> as integers with \<open>wrap64\<close> where the code can leave 64 bits, \<^verbatim>\<open>uint64\<close> as
  words, \<^verbatim>\<open>float64\<close> as rationals with every operation rounded (\<open>Go_Float\<close>), errors as values of a sum or an
  option.

  \<^bold>\<open>The program's library.\<close>

  \<^item> \<open>Prelude\<close>: Go maps as association lists, "the latest record" loops, generic list lemmas, the chaining of
    results (\<open>and_then\<close>). \<open>Go_Strings\<close>, \<open>Go_Sort\<close>, \<open>Go_Float\<close>, \<open>Go_Time\<close>, \<open>Go_Duration\<close>: the parts of
    Go's library the program uses (trimming and prefixes, \<^verbatim>\<open>sort.Slice\<close>, 64-bit floating point, RFC 3339
    times, 64-bit arithmetic). \<open>Json\<close>: JSON values, their canonical text and the two ways the portal reads
    a body; \<open>Go_Struct\<close>: filling a struct from JSON. \<open>Http\<close>: answers of a server, and errors that name one.

  \<^bold>\<open>The portal.\<close>

  \<^item> \<open>Store_Types\<close> and \<open>Store\<close>: \<^verbatim>\<open>portal/internal/store\<close>, every record type and every operation under its
    Go name; the invariant \<open>wf_store\<close>; the contracts \<open>evidence_log\<close> (append only evidence) and
    \<open>dated_records\<close> (the records of a day), each interpreted on the store's operations.
  \<^item> \<open>Policy\<close>: the policy document and the portal's and the agent's validators, which agree with one
    specification. \<open>Notifier\<close> and \<open>Mail_Session\<close>: notifications, their texts, the notifiers, and the mail
    notifier's session with a server that answers as it likes.
  \<^item> \<open>Portal_World\<close>: configuration, the clock and the outside world. \<open>Alerts\<close>: alert cooldowns, deliveries
    and the heartbeat scan. \<open>Verify\<close>: keys, fingerprints, signed texts (\<^verbatim>\<open>verify.go\<close>).
  \<^item> \<open>Qualification\<close>, \<open>Rewards\<close>, \<open>Ranking\<close>, \<open>Artifacts\<close>: \<^verbatim>\<open>portal/internal/server/qualification.go\<close>.
  \<^item> \<open>Handlers_Agent\<close>, \<open>Handlers_Evidence\<close>, \<open>Handlers_Read\<close>, \<open>Server\<close>: the request helpers, every
    handler as its guards (a check that gives the answer or what passed) and its effects, and the routes.
  \<^item> \<open>Snapshot\<close>: the configured nodes, the saved value, putting it back, and a save as steps on a directory.
    \<open>Startup\<close>: the flags, the configuration and its defaults, and the start. \<open>Serving\<close>: \<^verbatim>\<open>ListenAndServe\<close>, the
    goroutines of the running portal as steps, from the first request to the end of the process.

  \<^bold>\<open>The agent and the probe worker.\<close>

  \<^item> \<open>Agent_Base\<close>: configuration, the state file, keys, the heartbeat and the two portal clients.
    \<open>Symbol_Client\<close>: the node API and the voting key risk; \<open>Symbol_Answers\<close>: the answers of the API as JSON.
    \<open>Host_Checks\<close>: hardware, processor and disk checks; \<open>Load_Tests\<close>: the threads of the two load tests as
    schedules over a shared counter, and that every schedule counts right and ends. \<open>Agent\<close>: enrollment,
    check runs, warnings, heartbeats with retries and the main loop.
  \<^item> \<open>Probe\<close>: configuration, chain state, lags, a cycle. \<open>Commands\<close>: the arguments and commands of both
    programs, the making of a key pair, and the worker's loop. \<open>Log_Lines\<close> and \<open>Agent_Log\<close>:
    what the worker and the agent write about themselves, in which order, and that writing it changes nothing.

  \<^bold>\<open>How the parts interact, and what is shown.\<close>

  \<^item> \<open>Portal_Steps\<close> splits whatever a request or a scan does to the store into the primitive steps of
    \<open>change\<close>; \<open>reach\<close> are the states of one run. \<open>Portal_Invariants\<close> proves invariants step by step, each an
    interpretation of \<open>store_invariant\<close>. \<open>Server_Properties\<close>, \<open>Server_Runs\<close>, \<open>Enroll_Runs\<close>: refused
    requests change nothing, accepted ones are saved; heartbeats and enrollments are authentic and used
    once; and what interleaved handlers can do, the store being locked for one operation only.
  \<^item> \<open>Daily_Properties\<close>, \<open>Reward_Properties\<close>, \<open>Store_Properties\<close>, \<open>Signature_Properties\<close>: the daily
    decision, ranking, eligibility and allocation against their specifications; what a signature covers.
  \<^item> \<open>Snapshot_Properties\<close>, \<open>Typed_Evidence\<close>, \<open>Restarts\<close>: a save is atomic; a \<open>life\<close> of the portal goes
    through any number of saves, crashes and restarts, and the invariants that respect \<open>same_store\<close> (the
    locale \<open>lasting\<close>) hold for all of it, replay protection included.
  \<^item> \<open>Agent_Runs\<close> gives the agent's runs and the contracts \<open>agent_quiet\<close>, \<open>agent_calls\<close> and
    \<open>agent_keeps\<close> (what every call keeps, a run keeps) and \<open>agent_beats\<close> (what each heartbeat adds); \<open>Agent_Properties\<close>: the loop ends when told to, the warnings in the state file
    refine the abstract machine \<open>warn\<close>.
  \<^item> \<open>Wire\<close>: what the agent and the worker send is what the portal's decoders read. \<open>Portal_Link\<close> puts the
    portal behind the agent's network (\<open>linked\<close>, an interpretation of \<open>portal_link\<close>): the network may lose
    an answer after the portal has acted. \<open>Delivery\<close> and \<open>Link_Properties\<close>: heartbeats, enrollments and
    reports arrive; a run of the agent is a run of the portal; a lost answer locks the agent out.
    \<open>Policy_Wire\<close>: the policy the agent decodes is the one the portal serves. \<open>Heartbeat_Gate\<close>: an agent that
    keeps running, one heartbeat for each turn of its loop, passes the portal's heartbeat gate.
  \<^item> \<open>Client_Properties\<close>, \<open>Command_Properties\<close>: the voting key risk, the hardware checks, the probe events
    the portal records, key generation, and the worker's loop. \<open>Examples\<close> and \<open>Agent_Examples\<close>: the inputs
    at which the properties are applied.

  \<^bold>\<open>Bounds and loops.\<close> Loops over data are structural recursions. The two loops that may go on forever (the
  agent's and the worker's) are partial functions whose value is \<open>None\<close> when they do; the properties say
  exactly when they return. A schedule of a load test or of the serving portal is any list of events: nothing
  bounds it, and an event that its thread cannot take makes the run \<open>None\<close>. The retries of a heartbeat are
  counted down from three. Counters that could leave 64 bits wrap; a property that needs them not to says
  so. Clock readings are taken at named sites, and lie in the years 0 to 9999 that the formats cover.

  \<^bold>\<open>Parameters.\<close> Ed25519, SHA-256, PEM and DER, YAML and the tokenising of JSON bytes, HTTP, TLS and the mail
  server, the machine's readings (threads, memory, file system, devices), the random source and the passing of time of
  the load tests (a check run takes their counts as readings), the printing and parsing of floats, the parsing of mail addresses and the case mapping of non-ASCII text are functions the definitions take; what
  is assumed of them stands in each property (decoding what was encoded, verifying what was signed), and
  the examples give functions that satisfy it.

  \<^bold>\<open>Not modelled.\<close> Deadlines and cancellation of single requests, which show only as errors of the calls; the
  bytes the disk test reads and writes, and the latency it does not measure; the injection of clients for
  tests (\<^verbatim>\<open>NewAgentWithClients\<close> and the constructors that take an HTTP client); reading the numbers of the
  portal's command line; the replacement of invalid UTF-8 by \<^verbatim>\<open>encoding/json\<close>.
  The store's lock is not an object of the model: each operation is one step, and the handlers' gaps
  between operations are what the interleaving properties are about.
\<close>

end
